(* ===== verification/Prelude.thy ===== *)
theory Prelude
  imports Complex_Main "HOL-Library.Sublist" "HOL-Library.Monad_Syntax" "HOL-Library.AList"
begin

text \<open>
  Shared vocabulary of the development: the named collections the component
  theories put their unfolding rules into, the names of Python's string and
  character constants used by the lexer of \<^verbatim>\<open>src/Tutorials/Tuto6/law.py\<close>, and
  generic facts on lists, options and suffixes that the lexer, the parser and the
  interpreter proofs share.
\<close>

named_theorems model_defs
  "definitions of the small non-recursive operations of the model (unfold them by simp)"
named_theorems suffix_intros
named_theorems fuel_mono
named_theorems rt_errors
  "facts that a state component only ever shrinks to a suffix"

type_synonym pystr = string

text \<open>Python's single-character strings that are awkward to write as HOL literals.\<close>

definition quote_char :: char where
  "quote_char = CHR 0x27"

definition tab_char :: char where
  "tab_char = CHR 0x09"

definition newline_char :: char where
  "newline_char = CHR 0x0A"

text \<open>\<^verbatim>\<open>string.ascii_letters\<close> and \<^verbatim>\<open>DIGITS\<close> of \<^verbatim>\<open>law.py\<close>.\<close>

definition ascii_letters :: string where
  "ascii_letters = ''abcdefghijklmnopqrstuvwxyzABCDEFGHIJKLMNOPQRSTUVWXYZ''"

definition digit_chars :: string where
  "digit_chars = ''0123456789''"

text \<open>\<open>'x'\<close> rendered the way the source's f-strings and concatenations quote a name.\<close>

definition quoted :: "string \<Rightarrow> string" where
  "quoted s = [quote_char] @ s @ [quote_char]"

text \<open>Python's \<^verbatim>\<open>str(n)\<close> of a natural number.\<close>

fun nat_str :: "nat \<Rightarrow> string" where
  "nat_str n =
     (if n < 10 then [char_of (48 + n)]
      else nat_str (n div 10) @ [char_of (48 + n mod 10)])"

declare nat_str.simps [simp del]

text \<open>Python's \<^verbatim>\<open>sep.join(items)\<close>.\<close>

fun str_join :: "string \<Rightarrow> string list \<Rightarrow> string" where
  "str_join sep [] = []"
| "str_join sep [x] = x"
| "str_join sep (x # xs) = x @ sep @ str_join sep xs"

text \<open>Python's \<^verbatim>\<open>str(i)\<close> of an integer.\<close>

definition int_str :: "int \<Rightarrow> string" where
  "int_str i = (if i < 0 then ''-'' @ nat_str (nat (- i)) else nat_str (nat i))"

lemma suffix_drop1 [suffix_intros]: "suffix (drop 1 xs) xs"
  by (simp add: suffix_drop)

lemma suffix_trans' [trans]: "suffix xs ys \<Longrightarrow> suffix ys zs \<Longrightarrow> suffix xs zs"
  by (rule suffix_order.trans)

lemma suffix_length_le: "suffix xs ys \<Longrightarrow> length xs \<le> length ys"
  by (auto simp: suffix_def)

lemma suffix_strict_length:
  "suffix xs ys \<Longrightarrow> xs \<noteq> ys \<Longrightarrow> length xs < length ys"
  by (auto simp: suffix_def)

lemma option_bind_Some_iff:
  "(Option.bind m f = Some y) \<longleftrightarrow> (\<exists>x. m = Some x \<and> f x = Some y)"
  by (cases m) auto

lemma case_prod_Some_iff:
  "((case p of (a, b) \<Rightarrow> f a b) = Some y) \<longleftrightarrow> f (fst p) (snd p) = Some y"
  by (cases p) simp

text \<open>\<open>pred_option\<close> made executable, for the predicates on trees.\<close>

text \<open>Association lists model Python dictionaries: \<open>AList.update\<close> keeps an
  existing key in its place and appends a new one, as dictionary insertion
  order does.\<close>

lemma map_of_Some_dom [intro]: "map_of xs k = Some v \<Longrightarrow> k \<in> fst ` set xs"
  by (metis map_of_eq_None_iff option.distinct(1))

lemma length_update_dom: "k \<in> fst ` set al \<Longrightarrow> length (AList.update k v al) = length al"
proof -
  assume "k \<in> fst ` set al"
  then have "map fst (AList.update k v al) = map fst al" by (simp add: update_keys)
  then show ?thesis by (metis length_map)
qed

lemma update_new_key: "k \<notin> fst ` set al \<Longrightarrow> AList.update k v al = al @ [(k, v)]"
  by (induction al) auto

lemma update_snoc_new_key:
  "k \<notin> fst ` set al \<Longrightarrow> AList.update k v' (al @ [(k, v)]) = al @ [(k, v')]"
  by (induction al) auto

lemma set_update_subset: "set (AList.update k v al) \<subseteq> insert (k, v) (set al)"
  by (induction al) auto

lemma set_delete_subset: "set (AList.delete k al) \<subseteq> set al"
  by (simp add: AList.delete_eq)

lemma pred_option_code [code]: "pred_option P None = True" "pred_option P (Some x) = P x"
  by simp_all

lemma quote_char_not_digit [simp]: "quote_char \<notin> set digit_chars"
  by (simp add: quote_char_def digit_chars_def)

lemma newline_not_letter [simp]:
  "newline_char \<notin> set ascii_letters" "newline_char \<notin> set digit_chars"
  by (simp_all add: newline_char_def ascii_letters_def digit_chars_def)

text \<open>Fuel monotonicity: a computation \<open>x\<close> with less fuel that returns
  returns the same with more fuel \<open>y\<close>. The rules below are the monotonicity
  rules of the combinators the fuelled definitions are built from.\<close>

definition fuel_le :: "'a option \<Rightarrow> 'a option \<Rightarrow> bool" where
  "fuel_le x y \<longleftrightarrow> (x \<noteq> None \<longrightarrow> y = x)"

lemma fuel_le_refl [fuel_mono]: "fuel_le x x"
  by (simp add: fuel_le_def)

lemma fuel_le_case_option [fuel_mono]:
  "fuel_le a a' \<Longrightarrow> (\<And>y. fuel_le (f y) (f' y)) \<Longrightarrow>
   fuel_le (case x of None \<Rightarrow> a | Some y \<Rightarrow> f y) (case x of None \<Rightarrow> a' | Some y \<Rightarrow> f' y)"
  by (cases x) simp_all

lemma fuel_le_if [fuel_mono]:
  "fuel_le a a' \<Longrightarrow> fuel_le b b' \<Longrightarrow> fuel_le (if c then a else b) (if c then a' else b')"
  by simp

lemma fuel_le_let [fuel_mono]:
  "(\<And>x. fuel_le (f x) (f' x)) \<Longrightarrow> fuel_le (let x = v in f x) (let x = v in f' x)"
  by simp

lemma fuel_le_Some: "fuel_le x y \<Longrightarrow> x = Some r \<Longrightarrow> y = Some r"
  by (simp add: fuel_le_def)


text \<open>A field that no step of a \<open>fold\<close> changes is unchanged by the fold.\<close>

lemma fold_invariant_field:
  "(\<And>x s. f (g x s) = f s) \<Longrightarrow> f (fold g xs s) = f s"
  by (induction xs arbitrary: s) auto


text \<open>A prefix of \<open>xs @ [x]\<close> that contains \<open>x\<close>, which \<open>xs\<close> does not, is the whole list.\<close>

lemma prefix_snoc_mem:
  "prefix p (xs @ [x]) \<Longrightarrow> x \<in> set p \<Longrightarrow> x \<notin> set xs \<Longrightarrow> p = xs @ [x]"
  by (auto simp: prefix_snoc dest: set_mono_prefix)


text \<open>Association lists: entries mapped in place, a fresh key appended, and a
  test over the keys read through \<open>map_of\<close>.\<close>

lemma map_of_map_entries:
  "map_of (map (\<lambda>(t, x). (t, f t x)) xs) t = map_option (f t) (map_of xs t)"
  by (induction xs) auto

lemma case_option_False_iff:
  "(case m of Some x \<Rightarrow> P x | None \<Rightarrow> False) \<longleftrightarrow> (\<exists>x. m = Some x \<and> P x)"
  by (cases m) auto

lemma ball_keys_map_of:
  "(\<forall>k \<in> fst ` set xs. case map_of xs k of Some v \<Rightarrow> P k v | None \<Rightarrow> False)
   \<longleftrightarrow> (\<forall>k v. map_of xs k = Some v \<longrightarrow> P k v)"
proof
  assume h: "\<forall>k \<in> fst ` set xs. case map_of xs k of Some v \<Rightarrow> P k v | None \<Rightarrow> False"
  show "\<forall>k v. map_of xs k = Some v \<longrightarrow> P k v"
  proof (intro allI impI)
    fix k v assume "map_of xs k = Some v"
    moreover then have "k \<in> fst ` set xs" by (rule map_of_Some_dom)
    ultimately show "P k v" using h by fastforce
  qed
next
  assume "\<forall>k v. map_of xs k = Some v \<longrightarrow> P k v"
  then show "\<forall>k \<in> fst ` set xs. case map_of xs k of Some v \<Rightarrow> P k v | None \<Rightarrow> False"
    by (auto simp: case_option_False_iff dest!: weak_map_of_SomeI)
qed

lemma map_of_snoc_fresh:
  "map_of xs k = None \<Longrightarrow> map_of (xs @ [(k, v)]) = (map_of xs)(k \<mapsto> v)"
  by (auto simp: map_of_append map_add_def fun_eq_iff split: option.splits)

end
