(* ===== verification/Position.thy ===== *)
theory Position
  imports Prelude
begin

text \<open>
  Source positions, the traceback context and the four error classes of
  \<^verbatim>\<open>src/Tutorials/Tuto6/law.py\<close> (classes \<^verbatim>\<open>Position\<close>, \<^verbatim>\<open>Context\<close>, \<^verbatim>\<open>Error\<close> and
  its subclasses).

  Python positions are mutable objects. The only position that is ever mutated
  after it has been handed out is the lexer's own cursor \<^verbatim>\<open>Lexer.pos\<close>: the
  lexer passes it, uncopied, as the end position of every multi-character token
  and of its two errors. A stored end position is therefore a reference,
  \<open>pos_ref\<close>: either a position owned by the token (\<open>Own\<close>, a copy) or the
  lexer's live cursor (\<open>LexerPos\<close>), read through \<open>deref\<close> with the cursor's
  current value. Start positions are always copies and are stored by value.
\<close>

record position =
  pos_idx :: int
  pos_ln :: nat
  pos_col :: int
  pos_fn :: string
  pos_ftxt :: string

text \<open>\<^verbatim>\<open>Position.advance(current_char)\<close>: index and column move on; a newline
  moves to the next line and resets the column.\<close>

definition pos_advance :: "char option \<Rightarrow> position \<Rightarrow> position" where
  "pos_advance current_char p =
     (let p' = p\<lparr>pos_idx := pos_idx p + 1, pos_col := pos_col p + 1\<rparr>
      in if current_char = Some newline_char then p'\<lparr>pos_ln := pos_ln p + 1, pos_col := 0\<rparr>
         else p')"

datatype pos_ref = Own position | LexerPos

fun deref :: "position \<Rightarrow> pos_ref \<Rightarrow> position" where
  "deref lexer_pos (Own p) = p"
| "deref lexer_pos LexerPos = lexer_pos"

text \<open>\<^verbatim>\<open>Context(display_name, parent, parent_entry_pos)\<close>; its \<^verbatim>\<open>symbol_table\<close>
  attribute is the interpreter's state and is threaded separately.\<close>

datatype rt_context =
  Context (display_name: string) (ctx_parent: "rt_context option")
    (parent_entry_pos: "position option")

text \<open>The error classes. \<^verbatim>\<open>RTError\<close> takes the positions of a runtime value,
  which are optional in \<^verbatim>\<open>Number\<close>, and the context the failure happened in.\<close>

datatype error =
    IllegalCharError position pos_ref string
  | ExpectedCharError position pos_ref string
  | InvalidSyntaxError position pos_ref string
  | RTError "position option" "pos_ref option" string "rt_context option"

fun error_name :: "error \<Rightarrow> string" where
  "error_name (IllegalCharError _ _ _) = ''Illegal Character''"
| "error_name (ExpectedCharError _ _ _) = ''Expected Character''"
| "error_name (InvalidSyntaxError _ _ _) = ''Invalid Syntax''"
| "error_name (RTError _ _ _ _) = ''Runtime Error''"

fun error_details :: "error \<Rightarrow> string" where
  "error_details (IllegalCharError _ _ d) = d"
| "error_details (ExpectedCharError _ _ d) = d"
| "error_details (InvalidSyntaxError _ _ d) = d"
| "error_details (RTError _ _ d _) = d"

fun error_start :: "error \<Rightarrow> position option" where
  "error_start (IllegalCharError p _ _) = Some p"
| "error_start (ExpectedCharError p _ _) = Some p"
| "error_start (InvalidSyntaxError p _ _) = Some p"
| "error_start (RTError p _ _ _) = p"

fun error_end :: "error \<Rightarrow> pos_ref option" where
  "error_end (IllegalCharError _ e _) = Some e"
| "error_end (ExpectedCharError _ e _) = Some e"
| "error_end (InvalidSyntaxError _ e _) = Some e"
| "error_end (RTError _ e _ _) = e"

text \<open>
  \<^verbatim>\<open>RTError.generate_traceback\<close>: walks the context chain from the failing
  frame outwards, prepending one line per frame, so the outermost frame comes
  first. Reading \<^verbatim>\<open>pos.fn\<close> of a missing entry position raises
  \<^verbatim>\<open>AttributeError\<close>, which is \<open>None\<close> here.
\<close>

function (sequential) traceback_frames :: "position option \<Rightarrow> rt_context option \<Rightarrow> string \<Rightarrow> string option" where
  "traceback_frames pos None result = Some result"
| "traceback_frames None (Some ctx) result = None"
| "traceback_frames (Some pos) (Some (Context name parent entry_pos)) result =
     traceback_frames entry_pos parent
       ('' File '' @ pos_fn pos @ '', line  '' @ nat_str (pos_ln pos + 1) @ '', in ''
         @ name @ [newline_char] @ '' '' @ result)"
  by pat_completeness auto
termination
  by (relation "measure (\<lambda>(_, c, _). case c of None \<Rightarrow> 0 | Some x \<Rightarrow> Suc (size x))")
     (auto split: option.splits)

definition generate_traceback :: "error \<Rightarrow> string option" where
  "generate_traceback err =
     (case err of
        RTError pos_start _ _ ctx \<Rightarrow>
          map_option (\<lambda>r. ''Traceback (most recent call last):'' @ [newline_char] @ '' '' @ r)
            (traceback_frames pos_start ctx [])
      | _ \<Rightarrow> None)"

text \<open>\<^verbatim>\<open>string_with_arrows(text, pos_start, pos_end)\<close>, of the module
  \<^verbatim>\<open>strings_with_arrows\<close>, which is not in the repository: a parameter;
  \<open>None\<close> is an exception it raises.\<close>

type_synonym arrows_fn = "string \<Rightarrow> position \<Rightarrow> position option \<Rightarrow> string option"

text \<open>\<^verbatim>\<open>Error.as_string\<close>, for the errors with positions, called when the
  lexer's cursor is at \<open>lexer_pos\<close> (the end of an error may be that cursor).\<close>

definition base_as_string :: "arrows_fn \<Rightarrow> position \<Rightarrow> error \<Rightarrow> string option" where
  "base_as_string swa lexer_pos err =
     (case (error_start err, error_end err) of
        (Some ps, Some pe) \<Rightarrow>
          map_option (\<lambda>a. error_name err @ '': '' @ error_details err
                            @ [newline_char] @ ''File '' @ pos_fn ps @ '', line '' @ nat_str (pos_ln ps + 1)
                            @ [newline_char, newline_char] @ a)
            (swa (pos_ftxt ps) ps (Some (deref lexer_pos pe)))
      | _ \<Rightarrow> None)"

text \<open>\<^verbatim>\<open>RTError.as_string\<close>: the traceback, the name and details, and the
  arrows. A missing start position raises \<^verbatim>\<open>AttributeError\<close> (\<open>None\<close>).\<close>

definition rt_as_string :: "arrows_fn \<Rightarrow> position \<Rightarrow> error \<Rightarrow> string option" where
  "rt_as_string swa lexer_pos err =
     (case (generate_traceback err, error_start err) of
        (Some tb, Some ps) \<Rightarrow>
          map_option (\<lambda>a. tb @ error_name err @ '': '' @ error_details err @ [newline_char, newline_char] @ a)
            (swa (pos_ftxt ps) ps (map_option (deref lexer_pos) (error_end err)))
      | _ \<Rightarrow> None)"

text \<open>\<^verbatim>\<open>err.as_string()\<close>: \<^verbatim>\<open>RTError\<close> overrides the method.\<close>

definition error_as_string :: "arrows_fn \<Rightarrow> position \<Rightarrow> error \<Rightarrow> string option" where
  "error_as_string swa lexer_pos err =
     (case err of RTError _ _ _ _ \<Rightarrow> rt_as_string swa lexer_pos err | _ \<Rightarrow> base_as_string swa lexer_pos err)"

text \<open>The number of frames the traceback of a context chain shows.\<close>

function (sequential) ctx_depth :: "rt_context option \<Rightarrow> nat" where
  "ctx_depth None = 0"
| "ctx_depth (Some (Context name parent entry_pos)) = Suc (ctx_depth parent)"
  by pat_completeness auto
termination
  by (relation "measure (\<lambda>c. case c of None \<Rightarrow> 0 | Some x \<Rightarrow> Suc (size x))")
     (auto split: option.splits)

lemma pos_advance_idx [simp]: "pos_idx (pos_advance c p) = pos_idx p + 1"
  by (simp add: pos_advance_def Let_def)

lemma pos_advance_fn [simp]: "pos_fn (pos_advance c p) = pos_fn p"
  by (simp add: pos_advance_def Let_def)

lemma pos_advance_ftxt [simp]: "pos_ftxt (pos_advance c p) = pos_ftxt p"
  by (simp add: pos_advance_def Let_def)

lemma pos_advance_ln:
  "pos_ln (pos_advance c p) = (if c = Some newline_char then pos_ln p + 1 else pos_ln p)"
  by (simp add: pos_advance_def Let_def)

lemma pos_advance_col:
  "pos_col (pos_advance c p) = (if c = Some newline_char then 0 else pos_col p + 1)"
  by (simp add: pos_advance_def Let_def)

lemma pos_advance_same_line [simp]:
  "c \<noteq> Some newline_char \<Longrightarrow> pos_ln (pos_advance c p) = pos_ln p"
  "c \<noteq> Some newline_char \<Longrightarrow> pos_col (pos_advance c p) = pos_col p + 1"
  by (simp_all add: pos_advance_ln pos_advance_col)

text \<open>The text of a runtime error opens with the traceback header.\<close>

lemma rt_as_string_header:
  "error_as_string swa lp (RTError ps pe d ctx) = Some s \<Longrightarrow>
   \<exists>r. s = ''Traceback (most recent call last):'' @ [newline_char] @ '' '' @ r"
  by (auto simp: error_as_string_def rt_as_string_def generate_traceback_def split: option.splits prod.splits)


end
