(* ===== verification/Tokens.thy ===== *)
theory Tokens
  imports Position
begin

text \<open>
  The token vocabulary of \<^verbatim>\<open>src/Tutorials/Tuto6/law.py\<close>: the \<^verbatim>\<open>TT_*\<close>
  constants as a datatype together with the strings Python compares them by,
  the keyword list, the literal values a token may carry and the class
  \<^verbatim>\<open>Token\<close> with its constructor and \<^verbatim>\<open>matches\<close>.
\<close>

datatype tok_type =
    TT_INT | TT_FLOAT | TT_IDENTIFIER | TT_KEYWORD | TT_PLUS | TT_MINUS | TT_MUL | TT_DIV
  | TT_POW | TT_EQ | TT_LPAREN | TT_RPAREN | TT_EE | TT_NE | TT_LT | TT_GT | TT_LTE | TT_GTE
  | TT_EOF

text \<open>The Python value of each \<^verbatim>\<open>TT_*\<close> constant: token types are strings.\<close>

fun tt_name :: "tok_type \<Rightarrow> string" where
  "tt_name TT_INT = ''INT''"
| "tt_name TT_FLOAT = ''FLOAT''"
| "tt_name TT_IDENTIFIER = ''IDENTIFIER''"
| "tt_name TT_KEYWORD = ''KEYWORD''"
| "tt_name TT_PLUS = ''PLUS''"
| "tt_name TT_MINUS = ''MINUS''"
| "tt_name TT_MUL = ''MUL''"
| "tt_name TT_DIV = ''DIV''"
| "tt_name TT_POW = ''POW''"
| "tt_name TT_EQ = ''EQ''"
| "tt_name TT_LPAREN = ''LPAREN''"
| "tt_name TT_RPAREN = ''RPAREN''"
| "tt_name TT_EE = ''EE''"
| "tt_name TT_NE = ''NE''"
| "tt_name TT_LT = ''LT''"
| "tt_name TT_GT = ''GT''"
| "tt_name TT_LTE = ''LTE''"
| "tt_name TT_GTE = ''GTE''"
| "tt_name TT_EOF = ''EOF''"

definition KEYWORDS :: "string list" where
  "KEYWORDS = [''VAR'', ''AND'', ''OR'', ''NOT'', ''IF'', ''THEN'', ''ELIF'', ''ELSE'',
               ''FOR'', ''TO'', ''STEP'', ''WHILE'']"

text \<open>A token's \<^verbatim>\<open>value\<close>: \<^verbatim>\<open>None\<close>, a Python \<^verbatim>\<open>int\<close>, a \<^verbatim>\<open>float\<close>
  (idealised as a real number) or the text of an identifier or keyword.\<close>

datatype tok_value = NoVal | IntVal int | FloatVal real | StrVal string

record token =
  ttype :: tok_type
  tvalue :: tok_value
  tpos_start :: position
  tpos_end :: pos_ref

text \<open>
  \<^verbatim>\<open>Token.__init__(type_, value, pos_start, pos_end)\<close>: the start is copied and,
  without an explicit end, the end is a copy of the start advanced by one
  character; an explicit end is stored as passed, without a copy.
\<close>

definition mk_token :: "tok_type \<Rightarrow> tok_value \<Rightarrow> position \<Rightarrow> pos_ref option \<Rightarrow> token" where
  "mk_token ty value pos_start pos_end =
     \<lparr>ttype = ty, tvalue = value, tpos_start = pos_start,
      tpos_end = (case pos_end of None \<Rightarrow> Own (pos_advance None pos_start) | Some r \<Rightarrow> r)\<rparr>"

definition matches :: "token \<Rightarrow> tok_type \<Rightarrow> string \<Rightarrow> bool" where
  "matches tok ty value \<longleftrightarrow> ttype tok = ty \<and> tvalue tok = StrVal value"

text \<open>Python's \<^verbatim>\<open>tok.type in TT_IDENTIFIER\<close>, where both sides are strings:
  a substring test, not an equality.\<close>

definition type_in_str :: "tok_type \<Rightarrow> string \<Rightarrow> bool" where
  "type_in_str ty s \<longleftrightarrow> sublist (tt_name ty) s"

lemma tt_name_inj: "tt_name a = tt_name b \<longleftrightarrow> a = b"
  by (cases a; cases b) simp_all

lemma mk_token_sel [simp]:
  "ttype (mk_token ty v p e) = ty"
  "tvalue (mk_token ty v p e) = v"
  "tpos_start (mk_token ty v p e) = p"
  "tpos_end (mk_token ty v p None) = Own (pos_advance None p)"
  "tpos_end (mk_token ty v p (Some r)) = r"
  by (simp_all add: mk_token_def)

end
