(* ===== verification/Lexer.thy ===== *)
theory Lexer
  imports Tokens
begin

text \<open>
  The lexer of \<^verbatim>\<open>src/Tutorials/Tuto6/law.py\<close> (class \<^verbatim>\<open>Lexer\<close>). The Python
  object holds the text, the cursor \<^verbatim>\<open>pos\<close> and \<^verbatim>\<open>current_char =
  text[pos.idx]\<close>; the model holds the same cursor and the unread suffix
  \<open>lx_rest\<close> of the text, whose head is \<^verbatim>\<open>current_char\<close>
  (lemma \<open>lexer_rest_idx\<close> below: the suffix is always \<^verbatim>\<open>text[pos.idx:]\<close>).
  Every scanning loop is a function on that suffix, so it terminates by the
  suffix's length; every \<^verbatim>\<open>return [], error\<close> is a result with an error.
\<close>

definition LETTERS_DIGITS :: string where
  "LETTERS_DIGITS = ascii_letters @ digit_chars"

record lexer =
  lx_fn :: string
  lx_text :: string
  lx_pos :: position
  lx_rest :: string

definition current_char :: "lexer \<Rightarrow> char option" where
  "current_char l = (case lx_rest l of [] \<Rightarrow> None | c # _ \<Rightarrow> Some c)"

text \<open>\<^verbatim>\<open>Lexer.advance\<close>: the cursor moves past the current character.\<close>

definition lexer_advance :: "lexer \<Rightarrow> lexer" where
  "lexer_advance l =
     l\<lparr>lx_pos := pos_advance (current_char l) (lx_pos l), lx_rest := drop 1 (lx_rest l)\<rparr>"

text \<open>\<^verbatim>\<open>Lexer.__init__\<close>: the cursor starts at index and column -1 and the
  constructor's \<^verbatim>\<open>advance()\<close> (with no current character) moves it onto the
  first character.\<close>

definition Lexer :: "string \<Rightarrow> string \<Rightarrow> lexer" where
  "Lexer fn text =
     \<lparr>lx_fn = fn, lx_text = text,
      lx_pos = pos_advance None \<lparr>pos_idx = -1, pos_ln = 0, pos_col = -1, pos_fn = fn, pos_ftxt = text\<rparr>,
      lx_rest = text\<rparr>"

subsection \<open>Numbers and identifiers\<close>

text \<open>The loop of \<^verbatim>\<open>make_number\<close>: digits and at most one dot; a second dot
  ends the literal without being consumed.\<close>

function number_loop :: "string \<Rightarrow> nat \<Rightarrow> lexer \<Rightarrow> string \<times> nat \<times> lexer" where
  "number_loop num_str dot_count l =
     (case current_char l of
        None \<Rightarrow> (num_str, dot_count, l)
      | Some c \<Rightarrow>
          if c \<notin> set (digit_chars @ ''.'') then (num_str, dot_count, l)
          else if c = CHR ''.'' then
            (if dot_count = 1 then (num_str, dot_count, l)
             else number_loop (num_str @ ''.'') (dot_count + 1) (lexer_advance l))
          else number_loop (num_str @ [c]) dot_count (lexer_advance l))"
  by pat_completeness auto
termination
  by (relation "measure (\<lambda>(_, _, l). length (lx_rest l))")
     (auto simp: lexer_advance_def current_char_def split: list.splits)

declare number_loop.simps [simp del]

definition digit_value :: "char \<Rightarrow> int" where
  "digit_value c = int (of_char c) - 48"

text \<open>Python's \<^verbatim>\<open>int(num_str)\<close> on a string of decimal digits.\<close>

definition py_int_of_str :: "string \<Rightarrow> int" where
  "py_int_of_str s = foldl (\<lambda>n c. 10 * n + digit_value c) 0 s"

text \<open>Python's \<^verbatim>\<open>float(num_str)\<close> on digits with one dot, as the exact decimal
  fraction (the model does not round to binary floating point).\<close>

definition py_float_of_str :: "string \<Rightarrow> real" where
  "py_float_of_str s =
     (let int_part = takeWhile (\<lambda>c. c \<noteq> CHR ''.'') s;
          frac_part = drop 1 (dropWhile (\<lambda>c. c \<noteq> CHR ''.'') s)
      in of_int (py_int_of_str (int_part @ frac_part)) / 10 ^ length frac_part)"

definition make_number :: "lexer \<Rightarrow> token \<times> lexer" where
  "make_number l =
     (let pos_start = lx_pos l;
          (num_str, dot_count, l') = number_loop [] 0 l
      in if dot_count = 0
         then (mk_token TT_INT (IntVal (py_int_of_str num_str)) pos_start (Some LexerPos), l')
         else (mk_token TT_FLOAT (FloatVal (py_float_of_str num_str)) pos_start (Some LexerPos), l'))"

function ident_loop :: "string \<Rightarrow> lexer \<Rightarrow> string \<times> lexer" where
  "ident_loop id_str l =
     (case current_char l of
        None \<Rightarrow> (id_str, l)
      | Some c \<Rightarrow>
          if c \<in> set (LETTERS_DIGITS @ ''_'') then ident_loop (id_str @ [c]) (lexer_advance l)
          else (id_str, l))"
  by pat_completeness auto
termination
  by (relation "measure (\<lambda>(_, l). length (lx_rest l))")
     (auto simp: lexer_advance_def current_char_def split: list.splits)

declare ident_loop.simps [simp del]

definition make_identifier :: "lexer \<Rightarrow> token \<times> lexer" where
  "make_identifier l =
     (let pos_start = lx_pos l;
          (id_str, l') = ident_loop [] l;
          tok_type = (if id_str \<in> set KEYWORDS then TT_KEYWORD else TT_IDENTIFIER)
      in (mk_token tok_type (StrVal id_str) pos_start (Some LexerPos), l'))"

subsection \<open>Operators of one or two characters\<close>

definition make_not_equals :: "lexer \<Rightarrow> (error + token) \<times> lexer" where
  "make_not_equals l =
     (let pos_start = lx_pos l; l = lexer_advance l
      in if current_char l = Some CHR ''=''
         then (Inr (mk_token TT_NE NoVal pos_start (Some LexerPos)), lexer_advance l)
         else (Inl (ExpectedCharError pos_start LexerPos
                      (quoted ''='' @ '' (after '' @ quoted ''!'' @ '')'')),
               lexer_advance l))"

definition make_equals :: "lexer \<Rightarrow> token \<times> lexer" where
  "make_equals l =
     (let pos_start = lx_pos l; l = lexer_advance l
      in if current_char l = Some CHR ''=''
         then (mk_token TT_EE NoVal pos_start (Some LexerPos), lexer_advance l)
         else (mk_token TT_EQ NoVal pos_start (Some LexerPos), l))"

definition make_less_than :: "lexer \<Rightarrow> token \<times> lexer" where
  "make_less_than l =
     (let pos_start = lx_pos l; l = lexer_advance l
      in if current_char l = Some CHR ''=''
         then (mk_token TT_LTE NoVal pos_start (Some LexerPos), lexer_advance l)
         else (mk_token TT_LT NoVal pos_start (Some LexerPos), l))"

definition make_greater_than :: "lexer \<Rightarrow> token \<times> lexer" where
  "make_greater_than l =
     (let pos_start = lx_pos l; l = lexer_advance l
      in if current_char l = Some CHR ''=''
         then (mk_token TT_GTE NoVal pos_start (Some LexerPos), lexer_advance l)
         else (mk_token TT_GT NoVal pos_start (Some LexerPos), l))"

text \<open>A one-character token at the cursor, \<^verbatim>\<open>Token(TT_X, pos_start=self.pos)\<close>.\<close>

definition single_tok :: "tok_type \<Rightarrow> lexer \<Rightarrow> token" where
  "single_tok ty l = mk_token ty NoVal (lx_pos l) None"

lemma lexer_advance_rest [simp]: "lx_rest (lexer_advance l) = drop 1 (lx_rest l)"
  by (simp add: lexer_advance_def)

lemma lexer_advance_text [simp]: "lx_text (lexer_advance l) = lx_text l"
  by (simp add: lexer_advance_def)

lemma current_char_Some_rest: "current_char l = Some c \<Longrightarrow> lx_rest l = c # drop 1 (lx_rest l)"
  by (simp add: current_char_def split: list.splits)

lemma current_char_Some_shorter:
  "current_char l = Some c \<Longrightarrow> length (lx_rest (lexer_advance l)) < length (lx_rest l)"
  by (simp add: current_char_def split: list.splits)

lemma current_char_Some_ne: "current_char l = Some c \<Longrightarrow> lx_rest l \<noteq> []"
  by (simp add: current_char_def split: list.splits)

lemma number_loop_suffix:
  "suffix (lx_rest (snd (snd (number_loop s d l)))) (lx_rest l)"
proof (induction s d l rule: number_loop.induct)
  case (1 num_str dot_count l)
  have step: "suffix (lx_rest (lexer_advance l)) (lx_rest l)"
    by (simp add: suffix_drop)
  show ?case
    using "1.IH" step
    by (subst number_loop.simps) (auto split: option.splits intro: suffix_order.trans)
qed

lemma ident_loop_suffix: "suffix (lx_rest (snd (ident_loop s l))) (lx_rest l)"
proof (induction s l rule: ident_loop.induct)
  case (1 id_str l)
  have step: "suffix (lx_rest (lexer_advance l)) (lx_rest l)"
    by (simp add: suffix_drop)
  show ?case
    using "1.IH" step
    by (subst ident_loop.simps) (auto split: option.splits intro: suffix_order.trans)
qed

lemma make_number_shorter:
  assumes "current_char l = Some c" "c \<in> set digit_chars" "make_number l = (tok, l')"
  shows "length (lx_rest l') < length (lx_rest l)"
proof -
  have c: "c \<noteq> CHR ''.''" using assms(2) by (auto simp: digit_chars_def)
  have eq: "number_loop [] 0 l = number_loop [c] 0 (lexer_advance l)"
    using assms c by (simp add: number_loop.simps [of "[]" 0 l])
  have le: "length (lx_rest (snd (snd (number_loop [c] 0 (lexer_advance l))))) \<le> length (lx_rest l) - 1"
    using suffix_length_le [OF number_loop_suffix [of "[c]" 0 "lexer_advance l"]] by simp
  have pos: "0 < length (lx_rest l)" using assms(1) by (simp add: current_char_def split: list.splits)
  have "length (lx_rest (snd (snd (number_loop [] 0 l)))) < length (lx_rest l)"
    unfolding eq using le pos by linarith
  then show ?thesis
    using assms(3) by (auto simp: make_number_def Let_def split: prod.splits if_splits)
qed

lemma make_identifier_shorter:
  assumes "current_char l = Some c" "c \<in> set ascii_letters" "make_identifier l = (tok, l')"
  shows "length (lx_rest l') < length (lx_rest l)"
proof -
  have c: "c \<in> set (LETTERS_DIGITS @ ''_'')" using assms(2) by (simp add: LETTERS_DIGITS_def)
  have eq: "ident_loop [] l = ident_loop [c] (lexer_advance l)"
    using assms(1) c by (simp add: ident_loop.simps [of "[]" l])
  have le: "length (lx_rest (snd (ident_loop [c] (lexer_advance l)))) \<le> length (lx_rest l) - 1"
    using suffix_length_le [OF ident_loop_suffix [of "[c]" "lexer_advance l"]] by simp
  have pos: "0 < length (lx_rest l)" using assms(1) by (simp add: current_char_def split: list.splits)
  have "length (lx_rest (snd (ident_loop [] l))) < length (lx_rest l)"
    unfolding eq using le pos by linarith
  then show ?thesis
    using assms(3) by (auto simp: make_identifier_def Let_def split: prod.splits)
qed

lemma operator_shorter:
  assumes "current_char l = Some c"
  shows "make_not_equals l = (r, l') \<Longrightarrow> length (lx_rest l') < length (lx_rest l)"
    and "make_equals l = (tok, l') \<Longrightarrow> length (lx_rest l') < length (lx_rest l)"
    and "make_less_than l = (tok, l') \<Longrightarrow> length (lx_rest l') < length (lx_rest l)"
    and "make_greater_than l = (tok, l') \<Longrightarrow> length (lx_rest l') < length (lx_rest l)"
  using assms
  by (auto simp: make_not_equals_def make_equals_def make_less_than_def make_greater_than_def
      Let_def current_char_def split: list.splits if_splits)

text \<open>One iteration of the \<^verbatim>\<open>while\<close> loop of \<^verbatim>\<open>Lexer.make_tokens\<close>: skip a
  blank, emit a token, stop with an error, or, at the end of the input, emit
  \<^verbatim>\<open>EOF\<close>. Note the \<^verbatim>\<open>!\<close> branch: after \<^verbatim>\<open>make_not_equals\<close> has consumed
  \<^verbatim>\<open>!=\<close>, the loop calls \<^verbatim>\<open>advance()\<close> once more.\<close>

datatype lex_step = LSkip lexer | LEmit token lexer | LFail error lexer | LEnd token

definition make_tokens_step :: "lexer \<Rightarrow> lex_step" where
  "make_tokens_step l =
     (case current_char l of
        None \<Rightarrow> LEnd (mk_token TT_EOF NoVal (lx_pos l) None)
      | Some c \<Rightarrow>
         if c \<in> set ('' '' @ [tab_char]) then LSkip (lexer_advance l)
         else if c \<in> set digit_chars then (let (tok, l') = make_number l in LEmit tok l')
         else if c \<in> set ascii_letters then (let (tok, l') = make_identifier l in LEmit tok l')
         else if c = CHR ''+'' then LEmit (single_tok TT_PLUS l) (lexer_advance l)
         else if c = CHR ''-'' then LEmit (single_tok TT_MINUS l) (lexer_advance l)
         else if c = CHR ''*'' then LEmit (single_tok TT_MUL l) (lexer_advance l)
         else if c = CHR ''/'' then LEmit (single_tok TT_DIV l) (lexer_advance l)
         else if c = CHR ''^'' then LEmit (single_tok TT_POW l) (lexer_advance l)
         else if c = CHR ''('' then LEmit (single_tok TT_LPAREN l) (lexer_advance l)
         else if c = CHR '')'' then LEmit (single_tok TT_RPAREN l) (lexer_advance l)
         else if c = CHR ''!'' then
           (case make_not_equals l of
              (Inl err, l') \<Rightarrow> LFail err l'
            | (Inr tok, l') \<Rightarrow> LEmit tok (lexer_advance l'))
         else if c = CHR ''='' then (let (tok, l') = make_equals l in LEmit tok l')
         else if c = CHR ''<'' then (let (tok, l') = make_less_than l in LEmit tok l')
         else if c = CHR ''>'' then (let (tok, l') = make_greater_than l in LEmit tok l')
         else LFail (IllegalCharError (lx_pos l) LexerPos (quoted [c])) (lexer_advance l))"

lemma make_tokens_step_shorter:
  "make_tokens_step l = LSkip l' \<Longrightarrow> length (lx_rest l') < length (lx_rest l)"
  "make_tokens_step l = LEmit t l' \<Longrightarrow> length (lx_rest l') < length (lx_rest l)"
proof -
  have adv: "current_char l = Some c \<Longrightarrow> length (lx_rest (lexer_advance l)) < length (lx_rest l)" for c
    by (rule current_char_Some_shorter)
  have ne: "make_not_equals l = (Inr t, l'') \<Longrightarrow> current_char l = Some c \<Longrightarrow>
      length (lx_rest (lexer_advance l'')) < length (lx_rest l)" for c t l''
    using operator_shorter(1) [of l c "Inr t" l''] by simp
  show "make_tokens_step l = LSkip l' \<Longrightarrow> length (lx_rest l') < length (lx_rest l)"
    by (auto simp: make_tokens_step_def adv split: option.splits if_splits prod.splits sum.splits
        dest: current_char_Some_ne)
  show "make_tokens_step l = LEmit t l' \<Longrightarrow> length (lx_rest l') < length (lx_rest l)"
    by (auto simp: make_tokens_step_def Let_def split: option.splits if_splits prod.splits sum.splits
        dest: adv make_number_shorter make_identifier_shorter operator_shorter(2-4) ne)
qed

text \<open>\<^verbatim>\<open>Lexer.make_tokens\<close>: the loop over \<open>make_tokens_step\<close>; an error
  returns \<^verbatim>\<open>[], error\<close>.\<close>

function make_tokens_loop :: "token list \<Rightarrow> lexer \<Rightarrow> (token list \<times> error option) \<times> lexer" where
  "make_tokens_loop tokens l =
     (case make_tokens_step l of
        LEnd eof \<Rightarrow> ((tokens @ [eof], None), l)
      | LSkip l' \<Rightarrow> make_tokens_loop tokens l'
      | LEmit tok l' \<Rightarrow> make_tokens_loop (tokens @ [tok]) l'
      | LFail err l' \<Rightarrow> (([], Some err), l'))"
  by pat_completeness auto
termination
  by (relation "measure (\<lambda>(_, l). length (lx_rest l))") (auto dest: make_tokens_step_shorter)

declare make_tokens_loop.simps [simp del]

definition make_tokens :: "lexer \<Rightarrow> (token list \<times> error option) \<times> lexer" where
  "make_tokens l = make_tokens_loop [] l"

text \<open>Lexing a source text: \<^verbatim>\<open>Lexer(fn, text).make_tokens()\<close>, together with
  the lexer's final cursor, which is what every \<open>LexerPos\<close> reference reads.\<close>

definition cursor_types :: "tok_type set" where
  "cursor_types = {TT_INT, TT_FLOAT, TT_IDENTIFIER, TT_KEYWORD, TT_EQ, TT_EE, TT_NE, TT_LT, TT_GT,
                   TT_LTE, TT_GTE}"

text \<open>Where a token's end position lives: the tokens built with
  \<^verbatim>\<open>pos_end=self.pos\<close> refer to the lexer's cursor, the others own a copy
  one character past their start.\<close>

definition token_end_ok :: "token \<Rightarrow> bool" where
  "token_end_ok t \<longleftrightarrow>
     (if ttype t \<in> cursor_types then tpos_end t = LexerPos
      else tpos_end t = Own (pos_advance None (tpos_start t)))"

definition lex :: "string \<Rightarrow> string \<Rightarrow> token list \<times> error option \<times> position" where
  "lex fn text = (let ((toks, err), l) = make_tokens (Lexer fn text) in (toks, err, lx_pos l))"

subsection \<open>Properties of the lexer\<close>

lemma make_number_tok:
  "make_number l = (tok, l') \<Longrightarrow>
     ttype tok \<in> {TT_INT, TT_FLOAT} \<and> tpos_end tok = LexerPos \<and> tpos_start tok = lx_pos l"
  by (auto simp: make_number_def Let_def mk_token_def split: prod.splits if_splits)

lemma make_identifier_tok:
  "make_identifier l = (tok, l') \<Longrightarrow>
     ttype tok \<in> {TT_IDENTIFIER, TT_KEYWORD} \<and> tpos_end tok = LexerPos \<and> tpos_start tok = lx_pos l"
  by (auto simp: make_identifier_def Let_def mk_token_def split: prod.splits if_splits)

lemma make_operator_tok:
  "make_not_equals l = (Inr tok, l') \<Longrightarrow> ttype tok = TT_NE \<and> tpos_end tok = LexerPos"
  "make_equals l = (tok, l') \<Longrightarrow> ttype tok \<in> {TT_EQ, TT_EE} \<and> tpos_end tok = LexerPos"
  "make_less_than l = (tok, l') \<Longrightarrow> ttype tok \<in> {TT_LT, TT_LTE} \<and> tpos_end tok = LexerPos"
  "make_greater_than l = (tok, l') \<Longrightarrow> ttype tok \<in> {TT_GT, TT_GTE} \<and> tpos_end tok = LexerPos"
  by (auto simp: make_not_equals_def make_equals_def make_less_than_def make_greater_than_def
      Let_def mk_token_def split: if_splits)

lemma single_tok_end_ok [simp]:
  "ty \<notin> cursor_types \<Longrightarrow> token_end_ok (single_tok ty l)"
  by (simp add: token_end_ok_def single_tok_def mk_token_def)

lemma cursor_tok_end_ok:
  "ttype t \<in> cursor_types \<Longrightarrow> tpos_end t = LexerPos \<Longrightarrow> token_end_ok t"
  by (simp add: token_end_ok_def)

lemma eof_not_cursor [simp]: "TT_EOF \<notin> cursor_types"
  by (simp add: cursor_types_def)

text \<open>The result of the main loop: either the tokens read so far, more tokens
  that are not \<^verbatim>\<open>EOF\<close> and whose ends are as \<open>token_end_ok\<close> says, and
  one \<^verbatim>\<open>EOF\<close> at the final cursor, with the input used up; or no token and an
  error.\<close>

definition loop_ok :: "token list \<Rightarrow> (token list \<times> error option) \<times> lexer \<Rightarrow> bool" where
  "loop_ok ts r \<longleftrightarrow>
     (case r of
        ((toks, None), l') \<Rightarrow>
          (\<exists>mid. toks = ts @ mid @ [mk_token TT_EOF NoVal (lx_pos l') None]
                 \<and> (\<forall>t\<in>set mid. ttype t \<noteq> TT_EOF \<and> token_end_ok t))
          \<and> current_char l' = None
      | ((toks, Some _), l') \<Rightarrow> toks = [])"

lemma loop_ok_step:
  "loop_ok (ts @ [t]) r \<Longrightarrow> ttype t \<noteq> TT_EOF \<Longrightarrow> token_end_ok t \<Longrightarrow> loop_ok ts r"
  unfolding loop_ok_def
  by (fastforce split: prod.splits option.splits)

lemma make_tokens_step_ok:
  "make_tokens_step l = LEmit t l' \<Longrightarrow> ttype t \<noteq> TT_EOF \<and> token_end_ok t"
  "make_tokens_step l = LEnd t \<Longrightarrow> t = mk_token TT_EOF NoVal (lx_pos l) None \<and> current_char l = None"
proof -
  have cur: "TT_PLUS \<notin> cursor_types" "TT_MINUS \<notin> cursor_types" "TT_MUL \<notin> cursor_types"
    "TT_DIV \<notin> cursor_types" "TT_POW \<notin> cursor_types" "TT_LPAREN \<notin> cursor_types"
    "TT_RPAREN \<notin> cursor_types"
    by (simp_all add: cursor_types_def)
  have ctypes: "TT_INT \<in> cursor_types" "TT_FLOAT \<in> cursor_types" "TT_IDENTIFIER \<in> cursor_types"
    "TT_KEYWORD \<in> cursor_types" "TT_EQ \<in> cursor_types" "TT_EE \<in> cursor_types"
    "TT_NE \<in> cursor_types" "TT_LT \<in> cursor_types" "TT_GT \<in> cursor_types"
    "TT_LTE \<in> cursor_types" "TT_GTE \<in> cursor_types"
    by (simp_all add: cursor_types_def)
  show "make_tokens_step l = LEmit t l' \<Longrightarrow> ttype t \<noteq> TT_EOF \<and> token_end_ok t"
    using cur ctypes
    by (auto simp: make_tokens_step_def Let_def single_tok_def token_end_ok_def
        split: option.splits if_splits prod.splits sum.splits
        dest: make_number_tok make_identifier_tok make_operator_tok)
  show "make_tokens_step l = LEnd t \<Longrightarrow> t = mk_token TT_EOF NoVal (lx_pos l) None \<and> current_char l = None"
    by (auto simp: make_tokens_step_def Let_def split: option.splits if_splits prod.splits sum.splits)
qed

lemma make_tokens_loop_ok: "loop_ok ts (make_tokens_loop ts l)"
proof (induction ts l rule: make_tokens_loop.induct)
  case (1 tokens l)
  show ?case
  proof (cases "make_tokens_step l")
    case (LSkip l')
    then show ?thesis using "1.IH"(1) by (simp add: make_tokens_loop.simps [of tokens l])
  next
    case (LEmit t l')
    then have "loop_ok (tokens @ [t]) (make_tokens_loop (tokens @ [t]) l')" using "1.IH"(2) by simp
    then show ?thesis
      using LEmit make_tokens_step_ok(1) [OF LEmit]
      by (simp add: make_tokens_loop.simps [of tokens l] loop_ok_step)
  next
    case (LFail e l')
    then show ?thesis by (simp add: make_tokens_loop.simps [of tokens l] loop_ok_def)
  next
    case (LEnd t)
    then show ?thesis
      using make_tokens_step_ok(2) [OF LEnd]
      by (simp add: make_tokens_loop.simps [of tokens l] loop_ok_def)
  qed
qed

subsection \<open>The cursor invariant and the contract of the lexer\<close>

text \<open>The cursor and the unread text agree: the unread text is
  \<^verbatim>\<open>text[pos.idx:]\<close>, the characters \<^verbatim>\<open>Lexer.advance\<close> reads next.\<close>

definition lexer_inv :: "string \<Rightarrow> lexer \<Rightarrow> bool" where
  "lexer_inv text l \<longleftrightarrow>
     lx_text l = text \<and> 0 \<le> pos_idx (lx_pos l) \<and> lx_rest l = drop (nat (pos_idx (lx_pos l))) text"

lemma lexer_advance_inv [intro]: "lexer_inv text l \<Longrightarrow> lexer_inv text (lexer_advance l)"
proof -
  assume "lexer_inv text l"
  moreover have "nat (pos_idx (lx_pos l) + 1) = Suc (nat (pos_idx (lx_pos l)))"
    if "0 \<le> pos_idx (lx_pos l)" using that by simp
  ultimately show ?thesis
    by (simp add: lexer_inv_def lexer_advance_def drop_Suc tl_drop drop_Suc_Cons flip: drop_Suc)
qed

lemma number_loop_inv: "lexer_inv text l \<Longrightarrow> lexer_inv text (snd (snd (number_loop s d l)))"
proof (induction s d l rule: number_loop.induct)
  case (1 num_str dot_count l)
  then show ?case
    by (subst number_loop.simps) (auto split: option.splits)
qed

lemma ident_loop_inv: "lexer_inv text l \<Longrightarrow> lexer_inv text (snd (ident_loop s l))"
proof (induction s l rule: ident_loop.induct)
  case (1 id_str l)
  then show ?case
    by (subst ident_loop.simps) (auto split: option.splits)
qed

lemma make_tokens_step_inv:
  assumes "lexer_inv text l"
  shows "make_tokens_step l = LSkip l' \<Longrightarrow> lexer_inv text l'"
    and "make_tokens_step l = LEmit t l' \<Longrightarrow> lexer_inv text l'"
    and "make_tokens_step l = LFail e l' \<Longrightarrow> lexer_inv text l'"
proof -
  have num: "make_number l = (t, l') \<Longrightarrow> lexer_inv text l'" for t l'
    using number_loop_inv [OF assms, of "[]" 0]
    by (auto simp: make_number_def Let_def split: prod.splits if_splits)
  have idt: "make_identifier l = (t, l') \<Longrightarrow> lexer_inv text l'" for t l'
    using ident_loop_inv [OF assms, of "[]"]
    by (auto simp: make_identifier_def Let_def split: prod.splits)
  have ops: "make_not_equals l = (r, l') \<Longrightarrow> lexer_inv text l'"
    "make_equals l = (t, l') \<Longrightarrow> lexer_inv text l'"
    "make_less_than l = (t, l') \<Longrightarrow> lexer_inv text l'"
    "make_greater_than l = (t, l') \<Longrightarrow> lexer_inv text l'" for r t l'
    using assms
    by (auto simp: make_not_equals_def make_equals_def make_less_than_def make_greater_than_def
        Let_def split: if_splits)
  show "make_tokens_step l = LSkip l' \<Longrightarrow> lexer_inv text l'"
    using assms by (auto simp: make_tokens_step_def split: option.splits if_splits prod.splits sum.splits)
  show "make_tokens_step l = LEmit t l' \<Longrightarrow> lexer_inv text l'"
    using assms num idt ops
    by (auto simp: make_tokens_step_def Let_def split: option.splits if_splits prod.splits sum.splits)
  show "make_tokens_step l = LFail e l' \<Longrightarrow> lexer_inv text l'"
    using assms ops(1)
    by (auto simp: make_tokens_step_def Let_def split: option.splits if_splits prod.splits sum.splits)
qed

lemma make_tokens_loop_inv:
  "lexer_inv text l \<Longrightarrow> lexer_inv text (snd (make_tokens_loop ts l))"
proof (induction ts l rule: make_tokens_loop.induct)
  case (1 tokens l)
  show ?case
  proof (cases "make_tokens_step l")
    case (LSkip l')
    then show ?thesis using "1.IH"(1) "1.prems" make_tokens_step_inv(1)
      by (simp add: make_tokens_loop.simps [of tokens l])
  next
    case (LEmit t l')
    then show ?thesis using "1.IH"(2) "1.prems" make_tokens_step_inv(2)
      by (simp add: make_tokens_loop.simps [of tokens l])
  next
    case (LFail e l')
    then show ?thesis using "1.prems" make_tokens_step_inv(3)
      by (simp add: make_tokens_loop.simps [of tokens l])
  next
    case (LEnd t)
    then show ?thesis using "1.prems" by (simp add: make_tokens_loop.simps [of tokens l])
  qed
qed

lemma lexer_rest_idx: "lexer_inv text (Lexer fn text)"
  by (simp add: lexer_inv_def Lexer_def pos_advance_def)

lemma lex_ok:
  assumes "lex fn text = (toks, err, p)"
  shows "case err of
           Some _ \<Rightarrow> toks = []
         | None \<Rightarrow> (\<exists>mid. toks = mid @ [mk_token TT_EOF NoVal p None]
                          \<and> (\<forall>t\<in>set mid. ttype t \<noteq> TT_EOF \<and> token_end_ok t))
                  \<and> int (length text) \<le> pos_idx p"
proof -
  obtain toks' err' l' where run: "make_tokens_loop [] (Lexer fn text) = ((toks', err'), l')"
    by (metis prod.exhaust)
  have ok: "loop_ok [] ((toks', err'), l')" using make_tokens_loop_ok [of "[]" "Lexer fn text"] run by simp
  have inv: "lexer_inv text l'" using make_tokens_loop_inv [OF lexer_rest_idx [of "text" fn], of "[]"] run by simp
  have eq: "toks = toks'" "err = err'" "p = lx_pos l'"
    using assms run by (simp_all add: lex_def make_tokens_def)
  show ?thesis
  proof (cases err')
    case None
    with ok have "current_char l' = None" by (simp add: loop_ok_def)
    with inv have "int (length text) \<le> pos_idx (lx_pos l')"
      by (simp add: lexer_inv_def current_char_def split: list.splits)
    with ok None eq show ?thesis by (simp add: loop_ok_def)
  next
    case (Some e)
    with ok eq show ?thesis by (simp add: loop_ok_def)
  qed
qed

text \<open>C2: the contract of \<^verbatim>\<open>make_tokens\<close>. On an error the token list is
  empty; otherwise it is not empty, ends with the only \<^verbatim>\<open>EOF\<close> token, and
  every token whose end is not the lexer's cursor ends one character after
  its start.\<close>

theorem lex_contract:
  "lex fn text = (toks, err, p) \<Longrightarrow>
   (case err of
      Some _ \<Rightarrow> toks = []
    | None \<Rightarrow> toks \<noteq> [] \<and> ttype (last toks) = TT_EOF \<and> (\<forall>t\<in>set (butlast toks). ttype t \<noteq> TT_EOF) \<and>
              (\<forall>t\<in>set toks. ttype t \<notin> cursor_types \<longrightarrow> tpos_end t = Own (pos_advance None (tpos_start t))))"
  using lex_ok [of fn "text" toks err p]
  by (fastforce simp: token_end_ok_def split: option.splits)

theorem lex_contract_witness:
  "map ttype (fst (lex ''f'' ''1 + 2'')) = [TT_INT, TT_PLUS, TT_INT, TT_EOF] \<and>
   tpos_end (fst (lex ''f'' ''1 + 2'') ! 1) = Own (pos_advance None (tpos_start (fst (lex ''f'' ''1 + 2'') ! 1)))"
proof -
  have ty: "map ttype (fst (lex ''f'' ''1 + 2'')) = [TT_INT, TT_PLUS, TT_INT, TT_EOF]" by code_simp
  have ok: "fst (snd (lex ''f'' ''1 + 2'')) = None" by code_simp
  have mem: "fst (lex ''f'' ''1 + 2'') ! 1 \<in> set (fst (lex ''f'' ''1 + 2''))" by code_simp
  have plus: "ttype (fst (lex ''f'' ''1 + 2'') ! 1) \<notin> cursor_types" by code_simp
  have "lex ''f'' ''1 + 2'' = (fst (lex ''f'' ''1 + 2''), None, snd (snd (lex ''f'' ''1 + 2'')))"
    using ok by (metis prod.collapse)
  from lex_contract [OF this] mem plus ty show ?thesis by simp
qed

text \<open>C7: the ends of the tokens built with \<^verbatim>\<open>pos_end=self.pos\<close> (numbers,
  identifiers, keywords and the operators \<^verbatim>\<open>= == != < <= > >=\<close>) are the
  lexer's own \<^verbatim>\<open>Position\<close> object, which the lexer keeps advancing: once
  \<^verbatim>\<open>make_tokens\<close> has returned, each of them is the final cursor, at or past
  the end of the text, whatever the token's place in the text.\<close>

theorem lex_cursor_alias:
  "lex fn text = (toks, None, p) \<Longrightarrow> t \<in> set toks \<Longrightarrow> ttype t \<in> cursor_types \<Longrightarrow>
   deref p (tpos_end t) = p \<and> int (length text) \<le> pos_idx p"
  using lex_ok [of fn "text" toks None p]
  by (auto simp: token_end_ok_def)

text \<open>The number \<^verbatim>\<open>12\<close> at the start of \<^verbatim>\<open>12 + 3\<close> ends, once lexing
  is over, at index 6, the end of the text.\<close>

theorem lex_cursor_alias_witness:
  "pos_idx (deref (snd (snd (lex ''f'' ''12 + 3''))) (tpos_end (hd (fst (lex ''f'' ''12 + 3''))))) = 6"
proof -
  have ok: "fst (snd (lex ''f'' ''12 + 3'')) = None" by code_simp
  have hd: "hd (fst (lex ''f'' ''12 + 3'')) \<in> set (fst (lex ''f'' ''12 + 3''))" by code_simp
  have ty: "ttype (hd (fst (lex ''f'' ''12 + 3''))) \<in> cursor_types" by code_simp
  have idx: "pos_idx (snd (snd (lex ''f'' ''12 + 3''))) = 6" by code_simp
  have "lex ''f'' ''12 + 3'' = (fst (lex ''f'' ''12 + 3''), None, snd (snd (lex ''f'' ''12 + 3'')))"
    using ok by (metis prod.collapse)
  from lex_cursor_alias [OF this hd ty] idx show ?thesis by simp
qed

text \<open>C8: after \<^verbatim>\<open>make_not_equals\<close> has consumed \<^verbatim>\<open>!=\<close>, the \<^verbatim>\<open>!\<close>
  branch of \<^verbatim>\<open>make_tokens\<close> calls \<^verbatim>\<open>advance()\<close> once more: the character
  after \<^verbatim>\<open>!=\<close>, whatever it is, is dropped without being lexed.\<close>

theorem make_tokens_step_ne_drops_next:
  "lx_rest l = CHR ''!'' # CHR ''='' # c # r \<Longrightarrow>
   (case make_tokens_step l of LEmit t l' \<Rightarrow> ttype t = TT_NE \<and> lx_rest l' = r | _ \<Rightarrow> False)"
  by (simp add: make_tokens_step_def make_not_equals_def current_char_def Let_def
      ascii_letters_def digit_chars_def tab_char_def)

text \<open>In \<^verbatim>\<open>1!=~2\<close> the illegal character \<^verbatim>\<open>~\<close> is dropped.\<close>

theorem make_tokens_step_ne_drops_next_witness:
  "case make_tokens_step (lexer_advance (Lexer ''f'' ''1!=~2'')) of
     LEmit t l' \<Rightarrow> ttype t = TT_NE \<and> lx_rest l' = ''2'' | _ \<Rightarrow> False"
proof -
  have "lx_rest (lexer_advance (Lexer ''f'' ''1!=~2'')) = CHR ''!'' # CHR ''='' # CHR ''~'' # ''2''"
    by (simp add: Lexer_def)
  from make_tokens_step_ne_drops_next [OF this] show ?thesis .
qed

subsection \<open>How far the cursor runs past the text\<close>

text \<open>\<open>lexer_reach l\<close> is the index the cursor reaches once the unread
  text is consumed: an \<^verbatim>\<open>advance()\<close> over a character keeps it, an
  \<^verbatim>\<open>advance()\<close> at the end of the text moves it one further.\<close>

definition lexer_reach :: "lexer \<Rightarrow> int" where
  "lexer_reach l = pos_idx (lx_pos l) + int (length (lx_rest l))"

lemma lexer_reach_advance:
  "lexer_reach (lexer_advance l) = lexer_reach l + (if lx_rest l = [] then 1 else 0)"
  by (cases "lx_rest l") (simp_all add: lexer_reach_def lexer_advance_def)

lemma lexer_reach_advance_Some:
  "current_char l = Some c \<Longrightarrow> lexer_reach (lexer_advance l) = lexer_reach l"
  by (simp add: lexer_reach_advance current_char_def split: list.splits)

lemma lexer_reach_inv: "lexer_inv text l \<Longrightarrow> lexer_reach l = max (int (length text)) (pos_idx (lx_pos l))"
  by (auto simp: lexer_inv_def lexer_reach_def)

lemma number_loop_reach: "lexer_reach (snd (snd (number_loop s d l))) = lexer_reach l"
proof (induction s d l rule: number_loop.induct)
  case (1 num_str dot_count l)
  then show ?case
    by (subst number_loop.simps) (auto simp: lexer_reach_advance_Some split: option.splits)
qed

lemma ident_loop_reach: "lexer_reach (snd (ident_loop s l)) = lexer_reach l"
proof (induction s l rule: ident_loop.induct)
  case (1 id_str l)
  then show ?case
    by (subst ident_loop.simps) (auto simp: lexer_reach_advance_Some split: option.splits)
qed

lemma make_tokens_step_reach:
  assumes "current_char l = Some c"
  shows "make_tokens_step l = LSkip l' \<Longrightarrow> lexer_reach l' = lexer_reach l"
    and "make_tokens_step l = LEmit t l' \<Longrightarrow> lexer_reach l' \<le> lexer_reach l + 1"
    and "make_tokens_step l = LFail e l' \<Longrightarrow> lexer_reach l' \<le> lexer_reach l + 1"
proof -
  have adv: "lexer_reach (lexer_advance l) = lexer_reach l"
    using assms by (rule lexer_reach_advance_Some)
  have any: "lexer_reach (lexer_advance k) \<le> lexer_reach k + 1" for k
    by (simp add: lexer_reach_advance)
  have num: "make_number l = (t, l') \<Longrightarrow> lexer_reach l' = lexer_reach l" for t l'
    using number_loop_reach [of "[]" 0 l] by (auto simp: make_number_def Let_def split: prod.splits if_splits)
  have idt: "make_identifier l = (t, l') \<Longrightarrow> lexer_reach l' = lexer_reach l" for t l'
    using ident_loop_reach [of "[]" l] by (auto simp: make_identifier_def Let_def split: prod.splits)
  have cmp: "make_equals l = (t, l') \<Longrightarrow> lexer_reach l' = lexer_reach l"
    "make_less_than l = (t, l') \<Longrightarrow> lexer_reach l' = lexer_reach l"
    "make_greater_than l = (t, l') \<Longrightarrow> lexer_reach l' = lexer_reach l" for t l'
    using adv by (auto simp: make_equals_def make_less_than_def make_greater_than_def Let_def
                   lexer_reach_advance_Some split: if_splits)
  have ne: "make_not_equals l = (Inr t, l') \<Longrightarrow> lexer_reach (lexer_advance l') \<le> lexer_reach l + 1"
    "make_not_equals l = (Inl e, l') \<Longrightarrow> lexer_reach l' \<le> lexer_reach l + 1" for t e l'
  proof -
    assume "make_not_equals l = (Inr t, l')"
    then have "current_char (lexer_advance l) = Some CHR ''=''" "l' = lexer_advance (lexer_advance l)"
      by (auto simp: make_not_equals_def Let_def split: if_splits)
    then have "lexer_reach l' = lexer_reach l" using adv by (simp add: lexer_reach_advance_Some)
    with any [of l'] show "lexer_reach (lexer_advance l') \<le> lexer_reach l + 1" by simp
  next
    assume "make_not_equals l = (Inl e, l')"
    then have "l' = lexer_advance (lexer_advance l)"
      by (auto simp: make_not_equals_def Let_def split: if_splits)
    with adv any [of "lexer_advance l"] show "lexer_reach l' \<le> lexer_reach l + 1" by simp
  qed
  show "make_tokens_step l = LSkip l' \<Longrightarrow> lexer_reach l' = lexer_reach l"
    using assms adv by (auto simp: make_tokens_step_def Let_def split: if_splits prod.splits sum.splits)
  show "make_tokens_step l = LEmit t l' \<Longrightarrow> lexer_reach l' \<le> lexer_reach l + 1"
    using assms adv num idt cmp ne(1)
    by (auto simp: make_tokens_step_def Let_def split: if_splits prod.splits sum.splits)
  show "make_tokens_step l = LFail e l' \<Longrightarrow> lexer_reach l' \<le> lexer_reach l + 1"
    using assms adv ne(2)
    by (auto simp: make_tokens_step_def Let_def split: if_splits prod.splits sum.splits)
qed

lemma lexer_reach_reading:
  assumes "lexer_inv text l" "current_char l \<noteq> None"
  shows "lexer_reach l = int (length text)"
proof -
  from assms have "nat (pos_idx (lx_pos l)) < length text" "0 \<le> pos_idx (lx_pos l)"
    by (auto simp: lexer_inv_def current_char_def split: list.splits)
       (metis drop_eq_Nil leI list.simps(3))
  with lexer_reach_inv [OF assms(1)] show ?thesis by simp
qed

lemma idx_le_reach: "pos_idx (lx_pos l) \<le> lexer_reach l"
  by (simp add: lexer_reach_def)

lemma make_tokens_loop_bound:
  "lexer_inv text l \<Longrightarrow> pos_idx (lx_pos l) \<le> int (length text) + 1 \<Longrightarrow>
   pos_idx (lx_pos (snd (make_tokens_loop ts l))) \<le> int (length text) + 1"
proof (induction ts l rule: make_tokens_loop.induct)
  case (1 tokens l)
  have next_ok: "lexer_reach l' \<le> lexer_reach l + 1 \<Longrightarrow> current_char l = Some c \<Longrightarrow>
                 pos_idx (lx_pos l') \<le> int (length text) + 1" for l' c
    using lexer_reach_reading [OF "1.prems"(1)] idx_le_reach [of l'] by force
  show ?case
  proof (cases "make_tokens_step l")
    case (LSkip l')
    then obtain c where c: "current_char l = Some c" by (cases "current_char l") (auto simp: make_tokens_step_def)
    from LSkip have "pos_idx (lx_pos l') \<le> int (length text) + 1"
      using next_ok [of l' c] make_tokens_step_reach(1) [OF c] c by simp
    with LSkip show ?thesis using "1.IH"(1) "1.prems" make_tokens_step_inv(1)
      by (simp add: make_tokens_loop.simps [of tokens l])
  next
    case (LEmit t l')
    then obtain c where c: "current_char l = Some c" by (cases "current_char l") (auto simp: make_tokens_step_def)
    from LEmit have "pos_idx (lx_pos l') \<le> int (length text) + 1"
      using next_ok [of l' c] make_tokens_step_reach(2) [OF c] c by simp
    with LEmit show ?thesis using "1.IH"(2) "1.prems" make_tokens_step_inv(2)
      by (simp add: make_tokens_loop.simps [of tokens l])
  next
    case (LFail e l')
    then obtain c where c: "current_char l = Some c" by (cases "current_char l") (auto simp: make_tokens_step_def)
    from LFail show ?thesis using next_ok [of l' c] make_tokens_step_reach(3) [OF c] c
      by (simp add: make_tokens_loop.simps [of tokens l])
  next
    case (LEnd t)
    then show ?thesis using "1.prems" by (simp add: make_tokens_loop.simps [of tokens l])
  qed
qed

text \<open>C25: Bounds of the lexer's final cursor: it never runs more than one
  index past the end of the text (the extra \<^verbatim>\<open>advance()\<close> after \<^verbatim>\<open>!=\<close> or
  after a failed \<^verbatim>\<open>!\<close> at the end of the text is the only one taken there),
  and after a successful run it is at or past the end.\<close>

theorem lex_cursor_bounds:
  assumes "lex fn text = (toks, err, p)"
  shows "pos_idx p \<le> int (length text) + 1 \<and> (err = None \<longrightarrow> int (length text) \<le> pos_idx p)"
proof
  have "pos_idx (lx_pos (Lexer fn text)) \<le> int (length text) + 1"
    by (simp add: Lexer_def)
  from make_tokens_loop_bound [OF lexer_rest_idx this, of "[]"] assms
  show "pos_idx p \<le> int (length text) + 1" by (simp add: lex_def make_tokens_def split: prod.splits)
  show "err = None \<longrightarrow> int (length text) \<le> pos_idx p"
    using lex_ok [OF assms] by (simp split: option.splits)
qed

text \<open>In \<^verbatim>\<open>1!=\<close> the cursor ends at index 4, one past the end.\<close>

theorem lex_cursor_bounds_witness:
  "pos_idx (snd (snd (lex ''f'' ''1!=''))) = int (length ''1!='') + 1"
proof -
  have idx: "pos_idx (snd (snd (lex ''f'' ''1!=''))) = 4" by code_simp
  from lex_cursor_bounds [of "''f''" "''1!=''" "fst (lex ''f'' ''1!='')" "fst (snd (lex ''f'' ''1!=''))"
      "snd (snd (lex ''f'' ''1!=''))"] idx
  show ?thesis by simp
qed

end
