(* ===== verification/Ast.thy ===== *)
theory Ast
  imports Tokens
begin

text \<open>
  The node classes of \<^verbatim>\<open>src/Tutorials/Tuto6/law.py\<close> (\<^verbatim>\<open>NumberNode\<close> to
  \<^verbatim>\<open>WhileNode\<close>) as one datatype, and the spans their constructors compute.
  \<^verbatim>\<open>IfNode.cases\<close> is a Python list that the parser always starts with the
  \<^verbatim>\<open>IF\<close> case; the model keeps that first case apart, so that the
  constructor's \<^verbatim>\<open>self.cases[0][0]\<close> always exists.
\<close>

datatype node =
    NumberNode token
  | VarAccessNode token
  | VarAssignNode token node
  | BinOpNode node token node
  | UnaryOpNode token node
  | IfNode "node \<times> node" "(node \<times> node) list" "node option"
  | ForNode token node node "node option" node
  | WhileNode node node

text \<open>\<^verbatim>\<open>node.pos_start\<close> as each constructor sets it.\<close>

fun node_pos_start :: "node \<Rightarrow> position" where
  "node_pos_start (NumberNode tok) = tpos_start tok"
| "node_pos_start (VarAccessNode tok) = tpos_start tok"
| "node_pos_start (VarAssignNode tok _) = tpos_start tok"
| "node_pos_start (BinOpNode l _ _) = node_pos_start l"
| "node_pos_start (UnaryOpNode op _) = tpos_start op"
| "node_pos_start (IfNode (c, _) _ _) = node_pos_start c"
| "node_pos_start (ForNode var _ _ _ _) = tpos_start var"
| "node_pos_start (WhileNode c _) = node_pos_start c"

text \<open>\<^verbatim>\<open>node.pos_end\<close>. For \<^verbatim>\<open>IfNode\<close> it is
  \<^verbatim>\<open>(self.else_case or self.cases[len(self.cases)-1][0]).pos_end\<close>: the end of
  the else branch, or else of the last case's condition.\<close>

function (sequential) node_pos_end :: "node \<Rightarrow> pos_ref"
  and last_case_end :: "node \<times> node \<Rightarrow> (node \<times> node) list \<Rightarrow> pos_ref" where
  "node_pos_end (NumberNode tok) = tpos_end tok"
| "node_pos_end (VarAccessNode tok) = tpos_end tok"
| "node_pos_end (VarAssignNode tok _) = tpos_end tok"
| "node_pos_end (BinOpNode _ _ r) = node_pos_end r"
| "node_pos_end (UnaryOpNode _ n) = node_pos_end n"
| "node_pos_end (IfNode c cs (Some e)) = node_pos_end e"
| "node_pos_end (IfNode c cs None) = last_case_end c cs"
| "node_pos_end (ForNode _ _ _ _ body) = node_pos_end body"
| "node_pos_end (WhileNode _ body) = node_pos_end body"
| "last_case_end (c, _) [] = node_pos_end c"
| "last_case_end _ (x # xs) = last_case_end x xs"
  by pat_completeness auto
termination
  by (relation "measure (case_sum size (\<lambda>(c, cs). Suc (size (fst c) + size_list (size_prod size size) cs)))")
     auto

text \<open>The nesting depth of a tree as the interpreter spends fuel on it: one
  unit per visit and one per \<^verbatim>\<open>IF\<close> case tried. It bounds the fuel a tree
  without loops needs.\<close>

function (sequential) node_depth :: "node \<Rightarrow> nat"
  and cases_depth :: "(node \<times> node) list \<Rightarrow> node option \<Rightarrow> nat" where
  "node_depth (NumberNode _) = 1"
| "node_depth (VarAccessNode _) = 1"
| "node_depth (VarAssignNode _ v) = Suc (node_depth v)"
| "node_depth (BinOpNode l _ r) = Suc (max (node_depth l) (node_depth r))"
| "node_depth (UnaryOpNode _ e) = Suc (node_depth e)"
| "node_depth (IfNode c cs el) = Suc (cases_depth (c # cs) el)"
| "node_depth (ForNode _ a b s body) =
     Suc (max (max (node_depth a) (node_depth b))
              (max (case s of None \<Rightarrow> 0 | Some x \<Rightarrow> node_depth x) (node_depth body)))"
| "node_depth (WhileNode c body) = Suc (max (node_depth c) (node_depth body))"
| "cases_depth [] el = Suc (case el of None \<Rightarrow> 0 | Some e \<Rightarrow> node_depth e)"
| "cases_depth ((c, e) # cs) el = Suc (max (max (node_depth c) (node_depth e)) (cases_depth cs el))"
  by pat_completeness auto
termination
  by (relation "measure (case_sum (\<lambda>n. Suc (2 * size n))
                                 (\<lambda>(cs, el). 2 * (size_list (size_prod size size) cs + size_option size el)))")
     auto

end
