(* ===== verification/Parser.thy ===== *)
theory Parser
  imports Ast
begin

text \<open>
  The parser of \<^verbatim>\<open>src/Tutorials/Tuto6/law.py\<close> (classes \<^verbatim>\<open>ParseResult\<close> and
  \<^verbatim>\<open>Parser\<close>). The Python parser keeps an index into the token list and
  \<^verbatim>\<open>current_tok\<close>; the model keeps the remaining tokens, whose head is
  \<^verbatim>\<open>current_tok\<close>. \<^verbatim>\<open>Parser.advance\<close> stops moving at the last token
  (the \<^verbatim>\<open>EOF\<close> the lexer always appends): past the end of the list
  \<^verbatim>\<open>current_tok\<close> keeps its value.

  Every parsing method builds a fresh \<^verbatim>\<open>ParseResult\<close>, registers the results
  of the methods it calls and returns it together with the tokens left. The
  methods call each other recursively; each call spends one unit of fuel, and
  \<open>None\<close> means that the fuel ran out. The concrete runs use 50 units; the
  calculator's parser of \<open>Tuto4\<close>, the core of this one, has its fuel bounded
  for every token list (\<open>Tuto4.p4_total\<close>).
\<close>

type_synonym toks = "token list"

record parse_result =
  pr_error :: "error option"
  pr_node :: "node option"
  advance_count :: nat

definition pr_new :: parse_result where
  "pr_new = \<lparr>pr_error = None, pr_node = None, advance_count = 0\<rparr>"

definition register_advancement :: "parse_result \<Rightarrow> parse_result" where
  "register_advancement res = res\<lparr>advance_count := advance_count res + 1\<rparr>"

text \<open>\<^verbatim>\<open>ParseResult.register(res)\<close>: the advancements add up and the
  registered result's error, if any, replaces this one's.\<close>

definition register :: "parse_result \<Rightarrow> parse_result \<Rightarrow> parse_result" where
  "register self res =
     self\<lparr>advance_count := advance_count self + advance_count res,
          pr_error := (case pr_error res of Some e \<Rightarrow> Some e | None \<Rightarrow> pr_error self)\<rparr>"

definition success :: "node \<Rightarrow> parse_result \<Rightarrow> parse_result" where
  "success nd res = res\<lparr>pr_node := Some nd\<rparr>"

text \<open>\<^verbatim>\<open>ParseResult.failure(error)\<close>: the error is recorded unless an error
  is already there and the result has advanced.\<close>

definition failure :: "error \<Rightarrow> parse_result \<Rightarrow> parse_result" where
  "failure err res =
     (if pr_error res = None \<or> advance_count res = 0 then res\<lparr>pr_error := Some err\<rparr> else res)"

definition parser_advance :: "toks \<Rightarrow> toks" where
  "parser_advance ts = (case ts of [] \<Rightarrow> [] | [t] \<Rightarrow> [t] | t # ts' \<Rightarrow> ts')"

text \<open>\<^verbatim>\<open>InvalidSyntaxError(self.current_tok.pos_start, self.current_tok.pos_end, msg)\<close>.\<close>

definition syntax_err :: "toks \<Rightarrow> string \<Rightarrow> error" where
  "syntax_err ts msg = InvalidSyntaxError (tpos_start (hd ts)) (tpos_end (hd ts)) msg"

text \<open>
  \<^verbatim>\<open>x = res.register(self.f()); if res.error: return res\<close>, followed by the
  rest of the method \<open>k\<close>, which receives the registered node. (The methods
  never return a result with neither error nor node; on such a result the
  model stops with the result as it stands.)
\<close>

definition reg_then ::
  "parse_result \<Rightarrow> (parse_result \<times> toks) option
   \<Rightarrow> (node \<Rightarrow> parse_result \<Rightarrow> toks \<Rightarrow> (parse_result \<times> toks) option)
   \<Rightarrow> (parse_result \<times> toks) option" where
  "reg_then res sub k =
     (case sub of
        None \<Rightarrow> None
      | Some (r, ts) \<Rightarrow>
          (let res' = register res r
           in if pr_error res' \<noteq> None then Some (res', ts)
              else case pr_node r of None \<Rightarrow> Some (res', ts) | Some nd \<Rightarrow> k nd res' ts))"

text \<open>An entry of the \<^verbatim>\<open>ops\<close> tuple of \<^verbatim>\<open>bin_op\<close>: a token type, or a
  (type, value) pair for the keywords \<^verbatim>\<open>AND\<close> and \<^verbatim>\<open>OR\<close>.\<close>

datatype opspec = OpType tok_type | OpTypeValue tok_type tok_value

definition op_in :: "token \<Rightarrow> opspec list \<Rightarrow> bool" where
  "op_in tok ops \<longleftrightarrow> OpType (ttype tok) \<in> set ops \<or> OpTypeValue (ttype tok) (tvalue tok) \<in> set ops"

text \<open>The methods \<^verbatim>\<open>bin_op\<close> receives as \<^verbatim>\<open>func_a\<close> and \<^verbatim>\<open>func_b\<close>.\<close>

datatype rule = R_atom | R_factor | R_term | R_arith_expr | R_comp_expr

subsection \<open>The messages of the syntax errors\<close>

definition msg_parse :: string where
  "msg_parse = ''Expected '' @ quoted ''+'' @ '', '' @ quoted ''-'' @ '', '' @ quoted ''*''
                @ '' or '' @ quoted ''/'' @ '' ''"

definition msg_atom :: string where
  "msg_atom = ''Expected int, float, identifier,'' @ quoted ''+'' @ '','' @ quoted ''-''
               @ '' or '' @ quoted ''(''"

definition msg_comp :: string where
  "msg_comp = ''Expected int, float, identifier,'' @ quoted ''+'' @ '','' @ quoted ''-''
               @ '', '' @ quoted ''('' @ '' , '' @ quoted ''NOT''"

definition msg_expr :: string where
  "msg_expr = ''Expected '' @ quoted ''VAR'' @ '', int, float, identifier,'' @ quoted ''+''
               @ '','' @ quoted ''-'' @ '' or '' @ quoted ''(''"

definition msg_rparen :: string where
  "msg_rparen = ''Expected '' @ quoted '')''"

definition msg_kw :: "string \<Rightarrow> string" where
  "msg_kw kw = ''Expected '' @ quoted kw"

subsection \<open>The parsing methods\<close>

function (sequential) expr :: "nat \<Rightarrow> toks \<Rightarrow> (parse_result \<times> toks) option"
  and comp_expr :: "nat \<Rightarrow> toks \<Rightarrow> (parse_result \<times> toks) option"
  and arith_expr :: "nat \<Rightarrow> toks \<Rightarrow> (parse_result \<times> toks) option"
  and term_parse :: "nat \<Rightarrow> toks \<Rightarrow> (parse_result \<times> toks) option"
  and factor :: "nat \<Rightarrow> toks \<Rightarrow> (parse_result \<times> toks) option"
  and power :: "nat \<Rightarrow> toks \<Rightarrow> (parse_result \<times> toks) option"
  and atom :: "nat \<Rightarrow> toks \<Rightarrow> (parse_result \<times> toks) option"
  and if_expr :: "nat \<Rightarrow> toks \<Rightarrow> (parse_result \<times> toks) option"
  and elif_loop :: "nat \<Rightarrow> parse_result \<Rightarrow> node \<times> node \<Rightarrow> (node \<times> node) list \<Rightarrow> toks
                     \<Rightarrow> (parse_result \<times> toks) option"
  and for_expr :: "nat \<Rightarrow> toks \<Rightarrow> (parse_result \<times> toks) option"
  and while_expr :: "nat \<Rightarrow> toks \<Rightarrow> (parse_result \<times> toks) option"
  and bin_op :: "nat \<Rightarrow> rule \<Rightarrow> opspec list \<Rightarrow> rule \<Rightarrow> toks \<Rightarrow> (parse_result \<times> toks) option"
  and bin_op_loop :: "nat \<Rightarrow> parse_result \<Rightarrow> node \<Rightarrow> opspec list \<Rightarrow> rule \<Rightarrow> toks
                       \<Rightarrow> (parse_result \<times> toks) option"
  and call_rule :: "nat \<Rightarrow> rule \<Rightarrow> toks \<Rightarrow> (parse_result \<times> toks) option"
where
  "expr 0 _ = None"
| "expr (Suc n) ts =
     (let res = pr_new in
      if matches (hd ts) TT_KEYWORD ''VAR'' then
        (let res = register_advancement res; ts = parser_advance ts in
         if ttype (hd ts) \<noteq> TT_IDENTIFIER then Some (failure (syntax_err ts ''Expected identifier'') res, ts)
         else
           (let var_name = hd ts; res = register_advancement res; ts = parser_advance ts in
            if ttype (hd ts) \<noteq> TT_EQ then Some (failure (syntax_err ts (msg_kw ''='' @ '' '')) res, ts)
            else
              (let res = register_advancement res; ts = parser_advance ts in
               reg_then res (expr n ts) (\<lambda>e res ts. Some (success (VarAssignNode var_name e) res, ts)))))
      else
        (case bin_op n R_comp_expr [OpTypeValue TT_KEYWORD (StrVal ''AND''),
                                    OpTypeValue TT_KEYWORD (StrVal ''OR'')] R_comp_expr ts of
           None \<Rightarrow> None
         | Some (r, ts') \<Rightarrow>
             (let res = register res r in
              if pr_error res \<noteq> None then Some (failure (syntax_err ts' msg_expr) res, ts')
              else Some (res\<lparr>pr_node := pr_node r\<rparr>, ts'))))"
| "comp_expr 0 _ = None"
| "comp_expr (Suc n) ts =
     (let res = pr_new in
      if matches (hd ts) TT_KEYWORD ''NOT'' then
        (let op_tok = hd ts; res = register_advancement res; ts = parser_advance ts in
         reg_then res (comp_expr n ts) (\<lambda>nd res ts. Some (success (UnaryOpNode op_tok nd) res, ts)))
      else
        (case bin_op n R_arith_expr [OpType TT_EE, OpType TT_NE, OpType TT_LT, OpType TT_GT,
                                     OpType TT_LTE, OpType TT_GTE] R_arith_expr ts of
           None \<Rightarrow> None
         | Some (r, ts') \<Rightarrow>
             (let res = register res r in
              if pr_error res \<noteq> None then Some (failure (syntax_err ts' msg_comp) res, ts')
              else Some (res\<lparr>pr_node := pr_node r\<rparr>, ts'))))"
| "arith_expr 0 _ = None"
| "arith_expr (Suc n) ts = bin_op n R_term [OpType TT_PLUS, OpType TT_MINUS] R_term ts"
| "term_parse 0 _ = None"
| "term_parse (Suc n) ts = bin_op n R_factor [OpType TT_MUL, OpType TT_DIV] R_factor ts"
| "factor 0 _ = None"
| "factor (Suc n) ts =
     (let res = pr_new; tok = hd ts in
      if ttype tok \<in> {TT_PLUS, TT_MINUS} then
        (let res = register_advancement res; ts = parser_advance ts in
         reg_then res (factor n ts) (\<lambda>f res ts. Some (success (UnaryOpNode tok f) res, ts)))
      else power n ts)"
| "power 0 _ = None"
| "power (Suc n) ts = bin_op n R_atom [OpType TT_POW] R_factor ts"
| "atom 0 _ = None"
| "atom (Suc n) ts =
     (let res = pr_new; tok = hd ts in
      if ttype tok \<in> {TT_INT, TT_FLOAT} then
        Some (success (NumberNode tok) (register_advancement res), parser_advance ts)
      else if type_in_str (ttype tok) (tt_name TT_IDENTIFIER) then
        Some (success (VarAccessNode tok) (register_advancement res), parser_advance ts)
      else if ttype tok = TT_LPAREN then
        (let res = register_advancement res; ts = parser_advance ts in
         reg_then res (expr n ts) (\<lambda>e res ts.
           if ttype (hd ts) = TT_RPAREN
           then Some (success e (register_advancement res), parser_advance ts)
           else Some (failure (syntax_err ts msg_rparen) res, ts)))
      else if matches tok TT_KEYWORD ''IF'' then
        reg_then res (if_expr n ts) (\<lambda>e res ts. Some (success e res, ts))
      else if matches tok TT_KEYWORD ''FOR'' then
        reg_then res (for_expr n ts) (\<lambda>e res ts. Some (success e res, ts))
      else if matches tok TT_KEYWORD ''WHILE'' then
        reg_then res (while_expr n ts) (\<lambda>e res ts. Some (success e res, ts))
      else Some (failure (InvalidSyntaxError (tpos_start tok) (tpos_end tok) msg_atom) res, ts))"
| "if_expr 0 _ = None"
| "if_expr (Suc n) ts =
     (let res = pr_new in
      if \<not> matches (hd ts) TT_KEYWORD ''IF'' then
        Some (failure (syntax_err ts (msg_kw ''IF'' @ '' '')) res, ts)
      else
        (let res = register_advancement res; ts = parser_advance ts in
         reg_then res (expr n ts) (\<lambda>condition res ts.
           if \<not> matches (hd ts) TT_KEYWORD ''THEN'' then
             Some (failure (syntax_err ts (msg_kw ''THEN'' @ '' '')) res, ts)
           else
             (let res = register_advancement res; ts = parser_advance ts in
              reg_then res (expr n ts) (\<lambda>e res ts. elif_loop n res (condition, e) [] ts)))))"
| "elif_loop 0 _ _ _ _ = None"
| "elif_loop (Suc n) res first cases ts =
     (if matches (hd ts) TT_KEYWORD ''ELIF'' then
        (let res = register_advancement res; ts = parser_advance ts in
         reg_then res (expr n ts) (\<lambda>condition res ts.
           if \<not> matches (hd ts) TT_KEYWORD ''THEN'' then
             Some (failure (syntax_err ts (msg_kw ''THEN'' @ '' '')) res, ts)
           else
             (let res = register_advancement res; ts = parser_advance ts in
              reg_then res (expr n ts) (\<lambda>e res ts. elif_loop n res first (cases @ [(condition, e)]) ts))))
      else if matches (hd ts) TT_KEYWORD ''ELSE'' then
        (let res = register_advancement res; ts = parser_advance ts in
         reg_then res (expr n ts) (\<lambda>e res ts. Some (success (IfNode first cases (Some e)) res, ts)))
      else Some (success (IfNode first cases None) res, ts))"
| "for_expr 0 _ = None"
| "for_expr (Suc n) ts =
     (let res = pr_new in
      if \<not> matches (hd ts) TT_KEYWORD ''FOR'' then Some (failure (syntax_err ts (msg_kw ''FOR'')) res, ts)
      else
        (let res = register_advancement res; ts = parser_advance ts in
         if ttype (hd ts) \<noteq> TT_IDENTIFIER then Some (failure (syntax_err ts ''Expected identifier'') res, ts)
         else
           (let var_name = hd ts; res = register_advancement res; ts = parser_advance ts in
            if ttype (hd ts) \<noteq> TT_EQ then Some (failure (syntax_err ts (msg_kw ''='')) res, ts)
            else
              (let res = register_advancement res; ts = parser_advance ts in
               reg_then res (expr n ts) (\<lambda>start_value res ts.
                 if \<not> matches (hd ts) TT_KEYWORD ''TO'' then
                   Some (failure (syntax_err ts (msg_kw ''FOR'')) res, ts)
                 else
                   (let res = register_advancement res; ts = parser_advance ts in
                    reg_then res (expr n ts) (\<lambda>end_value res ts.
                      let tail = (\<lambda>step_value res ts.
                        if \<not> matches (hd ts) TT_KEYWORD ''THEN'' then
                          Some (failure (syntax_err ts (msg_kw ''THEN'')) res, ts)
                        else
                          (let res = register_advancement res; ts = parser_advance ts in
                           reg_then res (expr n ts) (\<lambda>body res ts.
                             Some (success (ForNode var_name start_value end_value step_value body) res, ts))))
                      in if matches (hd ts) TT_KEYWORD ''STEP'' then
                           (let res = register_advancement res; ts = parser_advance ts in
                            reg_then res (expr n ts) (\<lambda>step res ts. tail (Some step) res ts))
                         else tail None res ts)))))))"
| "while_expr 0 _ = None"
| "while_expr (Suc n) ts =
     (let res = pr_new in
      if \<not> matches (hd ts) TT_KEYWORD ''WHILE'' then Some (failure (syntax_err ts (msg_kw ''WHILE'')) res, ts)
      else
        (let res = register_advancement res; ts = parser_advance ts in
         reg_then res (expr n ts) (\<lambda>condition res ts.
           if \<not> matches (hd ts) TT_KEYWORD ''THEN'' then
             Some (failure (syntax_err ts (msg_kw ''THEN'')) res, ts)
           else
             (let res = register_advancement res; ts = parser_advance ts in
              reg_then res (expr n ts) (\<lambda>body res ts. Some (success (WhileNode condition body) res, ts))))))"
| "bin_op 0 _ _ _ _ = None"
| "bin_op (Suc n) func_a ops func_b ts =
     reg_then pr_new (call_rule n func_a ts) (\<lambda>left res ts. bin_op_loop n res left ops func_b ts)"
| "bin_op_loop 0 _ _ _ _ _ = None"
| "bin_op_loop (Suc n) res left ops func_b ts =
     (if op_in (hd ts) ops then
        (let op_tok = hd ts; res = register_advancement res; ts = parser_advance ts in
         reg_then res (call_rule n func_b ts) (\<lambda>right res ts.
           bin_op_loop n res (BinOpNode left op_tok right) ops func_b ts))
      else Some (success left res, ts))"
| "call_rule 0 _ _ = None"
| "call_rule (Suc n) R_atom ts = atom n ts"
| "call_rule (Suc n) R_factor ts = factor n ts"
| "call_rule (Suc n) R_term ts = term_parse n ts"
| "call_rule (Suc n) R_arith_expr ts = arith_expr n ts"
| "call_rule (Suc n) R_comp_expr ts = comp_expr n ts"
  by pat_completeness auto
termination
  by (relation "measure (case_sum
       (case_sum (case_sum fst (case_sum fst fst)) (case_sum (case_sum fst fst) (case_sum fst fst)))
       (case_sum (case_sum fst (case_sum fst fst)) (case_sum (case_sum fst fst) (case_sum fst fst))))") auto

end
