(* ===== verification/Values.thy ===== *)
theory Values
  imports Position
begin

text \<open>
  The runtime values of \<^verbatim>\<open>src/Tutorials/Tuto6/law.py\<close> (class \<^verbatim>\<open>Number\<close>).
  A \<^verbatim>\<open>Number\<close> holds a Python \<^verbatim>\<open>int\<close> or \<^verbatim>\<open>float\<close>; the model keeps that
  distinction (\<open>PyInt\<close> with an unbounded integer, \<open>PyFloat\<close> with a real
  number standing for the float, without rounding) because the source's
  results depend on it: \<^verbatim>\<open>int + int\<close> stays an \<^verbatim>\<open>int\<close>, \<^verbatim>\<open>/\<close> always makes a
  \<^verbatim>\<open>float\<close>, and \<^verbatim>\<open>int(...)\<close> truncates a \<^verbatim>\<open>float\<close>.

  Each binary method returns \<^verbatim>\<open>(result, error)\<close>; when the other operand is
  not a \<^verbatim>\<open>Number\<close> (a \<^verbatim>\<open>None\<close> produced by an \<^verbatim>\<open>IF\<close> without match or a
  loop) the method falls off its end and returns \<^verbatim>\<open>None\<close>, and the caller's
  unpacking \<^verbatim>\<open>result, error = ...\<close> raises \<^verbatim>\<open>TypeError\<close>. Python exceptions
  that escape the interpreter are the values of \<open>pyexc\<close>.
\<close>

datatype num = PyInt int | PyFloat real

datatype pyexc =
    TypeError | AttributeError | ZeroDivisionError | UnboundLocalError | NoVisitMethod
  | FloatPowNotModelled

record number =
  nvalue :: num
  npos_start :: "position option"
  npos_end :: "pos_ref option"
  ncontext :: "rt_context option"

text \<open>What a binary method's result becomes at the caller: an escaping
  exception, a \<^verbatim>\<open>(None, error)\<close> pair, or a \<^verbatim>\<open>(Number, None)\<close> pair.\<close>

type_synonym op_result = "pyexc + (error + number)"

fun num_real :: "num \<Rightarrow> real" where
  "num_real (PyInt i) = of_int i"
| "num_real (PyFloat x) = x"

text \<open>Python's mixed arithmetic: an \<^verbatim>\<open>int\<close> result only from two \<^verbatim>\<open>int\<close>s.\<close>

fun num_add :: "num \<Rightarrow> num \<Rightarrow> num" where
  "num_add (PyInt a) (PyInt b) = PyInt (a + b)"
| "num_add a b = PyFloat (num_real a + num_real b)"

fun num_sub :: "num \<Rightarrow> num \<Rightarrow> num" where
  "num_sub (PyInt a) (PyInt b) = PyInt (a - b)"
| "num_sub a b = PyFloat (num_real a - num_real b)"

fun num_mul :: "num \<Rightarrow> num \<Rightarrow> num" where
  "num_mul (PyInt a) (PyInt b) = PyInt (a * b)"
| "num_mul a b = PyFloat (num_real a * num_real b)"

definition num_truediv :: "num \<Rightarrow> num \<Rightarrow> num" where
  "num_truediv a b = PyFloat (num_real a / num_real b)"

text \<open>
  Python's \<^verbatim>\<open>**\<close>. Integer exponents are computed exactly; \<^verbatim>\<open>0 ** -n\<close>
  raises \<^verbatim>\<open>ZeroDivisionError\<close>. A float exponent with a fractional part gives
  an irrational float or a complex number in Python; the model stops there with
  \<open>FloatPowNotModelled\<close>.
\<close>

fun num_pow :: "num \<Rightarrow> num \<Rightarrow> pyexc + num" where
  "num_pow (PyInt a) (PyInt b) =
     (if 0 \<le> b then Inr (PyInt (a ^ nat b))
      else if a = 0 then Inl ZeroDivisionError
      else Inr (PyFloat (1 / of_int a ^ nat (- b))))"
| "num_pow a b =
     (let x = num_real a; y = num_real b
      in if y = of_int \<lfloor>y\<rfloor> then
           (if x = 0 \<and> y < 0 then Inl ZeroDivisionError
            else if 0 \<le> y then Inr (PyFloat (x ^ nat \<lfloor>y\<rfloor>))
            else Inr (PyFloat (1 / x ^ nat (- \<lfloor>y\<rfloor>))))
         else Inl FloatPowNotModelled)"

text \<open>Python's \<^verbatim>\<open>int(v)\<close>: an \<^verbatim>\<open>int\<close> unchanged, a \<^verbatim>\<open>float\<close> truncated
  towards zero.\<close>

fun py_int :: "num \<Rightarrow> int" where
  "py_int (PyInt i) = i"
| "py_int (PyFloat x) = (if 0 \<le> x then \<lfloor>x\<rfloor> else \<lceil>x\<rceil>)"

definition py_truthy :: "num \<Rightarrow> bool" where
  "py_truthy v \<longleftrightarrow> num_real v \<noteq> 0"

definition of_bool_int :: "bool \<Rightarrow> num" where
  "of_bool_int b = PyInt (if b then 1 else 0)"

text \<open>\<^verbatim>\<open>Number(value)\<close>, \<^verbatim>\<open>set_pos\<close>, \<^verbatim>\<open>set_context\<close> and \<^verbatim>\<open>copy\<close>.\<close>

definition Number :: "num \<Rightarrow> number" where
  "Number v = \<lparr>nvalue = v, npos_start = None, npos_end = None, ncontext = None\<rparr>"

definition set_pos :: "position option \<Rightarrow> pos_ref option \<Rightarrow> number \<Rightarrow> number" where
  "set_pos ps pe n = n\<lparr>npos_start := ps, npos_end := pe\<rparr>"

definition set_context :: "rt_context option \<Rightarrow> number \<Rightarrow> number" where
  "set_context ctx n = n\<lparr>ncontext := ctx\<rparr>"

definition copy :: "number \<Rightarrow> number" where
  "copy n = set_context (ncontext n) (set_pos (npos_start n) (npos_end n) (Number (nvalue n)))"

text \<open>The shape shared by every binary method: a result \<^verbatim>\<open>Number\<close> carrying
  the left operand's context, or \<^verbatim>\<open>None\<close> when the other operand is not a
  \<^verbatim>\<open>Number\<close>.\<close>

definition num_method :: "(num \<Rightarrow> num \<Rightarrow> num) \<Rightarrow> number \<Rightarrow> number option \<Rightarrow> op_result" where
  "num_method f self other =
     (case other of
        None \<Rightarrow> Inl TypeError
      | Some ov \<Rightarrow> Inr (Inr (set_context (ncontext self) (Number (f (nvalue self) (nvalue ov))))))"

definition added_to :: "number \<Rightarrow> number option \<Rightarrow> op_result" where
  "added_to = num_method num_add"

definition subbed_by :: "number \<Rightarrow> number option \<Rightarrow> op_result" where
  "subbed_by = num_method num_sub"

definition multed_by :: "number \<Rightarrow> number option \<Rightarrow> op_result" where
  "multed_by = num_method num_mul"

text \<open>\<^verbatim>\<open>dived_by\<close>: a zero divisor is a runtime error at the divisor's span,
  in the dividend's context.\<close>

definition dived_by :: "number \<Rightarrow> number option \<Rightarrow> op_result" where
  "dived_by self other =
     (case other of
        None \<Rightarrow> Inl TypeError
      | Some ov \<Rightarrow>
          if num_real (nvalue ov) = 0
          then Inr (Inl (RTError (npos_start ov) (npos_end ov) ''Division by zero'' (ncontext self)))
          else Inr (Inr (set_context (ncontext self) (Number (num_truediv (nvalue self) (nvalue ov))))))"

definition powed_by :: "number \<Rightarrow> number option \<Rightarrow> op_result" where
  "powed_by self other =
     (case other of
        None \<Rightarrow> Inl TypeError
      | Some ov \<Rightarrow>
          (case num_pow (nvalue self) (nvalue ov) of
             Inl exc \<Rightarrow> Inl exc
           | Inr v \<Rightarrow> Inr (Inr (set_context (ncontext self) (Number v)))))"

definition get_comparison_eq :: "number \<Rightarrow> number option \<Rightarrow> op_result" where
  "get_comparison_eq = num_method (\<lambda>a b. of_bool_int (num_real a = num_real b))"

definition get_comparison_ne :: "number \<Rightarrow> number option \<Rightarrow> op_result" where
  "get_comparison_ne = num_method (\<lambda>a b. of_bool_int (num_real a \<noteq> num_real b))"

definition get_comparison_lt :: "number \<Rightarrow> number option \<Rightarrow> op_result" where
  "get_comparison_lt = num_method (\<lambda>a b. of_bool_int (num_real a < num_real b))"

definition get_comparison_gt :: "number \<Rightarrow> number option \<Rightarrow> op_result" where
  "get_comparison_gt = num_method (\<lambda>a b. of_bool_int (num_real a > num_real b))"

definition get_comparison_lte :: "number \<Rightarrow> number option \<Rightarrow> op_result" where
  "get_comparison_lte = num_method (\<lambda>a b. of_bool_int (num_real a \<le> num_real b))"

definition get_comparison_gte :: "number \<Rightarrow> number option \<Rightarrow> op_result" where
  "get_comparison_gte = num_method (\<lambda>a b. of_bool_int (num_real a \<ge> num_real b))"

text \<open>\<^verbatim>\<open>int(self.value and other.value)\<close>: Python's \<^verbatim>\<open>and\<close> yields the
  first operand when it is falsy and the second otherwise, and \<^verbatim>\<open>int\<close>
  truncates it; \<^verbatim>\<open>or\<close> dually.\<close>

definition py_and :: "num \<Rightarrow> num \<Rightarrow> num" where
  "py_and a b = PyInt (py_int (if py_truthy a then b else a))"

definition py_or :: "num \<Rightarrow> num \<Rightarrow> num" where
  "py_or a b = PyInt (py_int (if py_truthy a then a else b))"

definition anded_by :: "number \<Rightarrow> number option \<Rightarrow> op_result" where
  "anded_by = num_method py_and"

definition ored_by :: "number \<Rightarrow> number option \<Rightarrow> op_result" where
  "ored_by = num_method py_or"

definition notted :: "number \<Rightarrow> number" where
  "notted self = set_context (ncontext self) (Number (PyInt (if num_real (nvalue self) = 0 then 1 else 0)))"

definition is_true :: "number \<Rightarrow> bool" where
  "is_true self \<longleftrightarrow> py_truthy (nvalue self)"

text \<open>The arithmetic of \<open>num\<close> is the arithmetic of the numbers it stands for.\<close>

lemma num_real_ops [simp]:
  "num_real (num_add a b) = num_real a + num_real b"
  "num_real (num_sub a b) = num_real a - num_real b"
  "num_real (num_mul a b) = num_real a * num_real b"
  "num_real (num_truediv a b) = num_real a / num_real b"
  "num_real (of_bool_int c) = (if c then 1 else 0)"
  by (cases a; cases b; simp add: num_truediv_def of_bool_int_def)+

declare added_to_def [model_defs] subbed_by_def [model_defs] multed_by_def [model_defs]
  get_comparison_eq_def [model_defs] get_comparison_ne_def [model_defs]
  get_comparison_lt_def [model_defs] get_comparison_gt_def [model_defs]
  get_comparison_lte_def [model_defs] get_comparison_gte_def [model_defs]
  anded_by_def [model_defs] ored_by_def [model_defs] num_method_def [model_defs]
  dived_by_def [model_defs] powed_by_def [model_defs] notted_def [model_defs]
  Number_def [model_defs] set_pos_def [model_defs] set_context_def [model_defs]
  copy_def [model_defs] is_true_def [model_defs] py_truthy_def [model_defs]
  of_bool_int_def [model_defs] num_truediv_def [model_defs]

text \<open>C31: \<^verbatim>\<open>anded_by\<close> computes \<^verbatim>\<open>int(self.value and other.value)\<close>:
  when both operands are true but the right one lies strictly between 0 and
  1, \<^verbatim>\<open>int\<close> truncates it to 0, so the conjunction of two true values is
  false.\<close>

theorem anded_by_truncates:
  "is_true x \<Longrightarrow> 0 < num_real (nvalue y) \<Longrightarrow> num_real (nvalue y) < 1 \<Longrightarrow>
   \<exists>r. anded_by x (Some y) = Inr (Inr r) \<and> \<not> is_true r"
proof (cases "nvalue y")
  case (PyInt k)
  assume "0 < num_real (nvalue y)" "num_real (nvalue y) < 1"
  with PyInt show ?thesis by simp
next
  case (PyFloat f)
  assume "is_true x" "0 < num_real (nvalue y)" "num_real (nvalue y) < 1"
  with PyFloat have "\<lfloor>f\<rfloor> = 0" by (simp add: floor_eq_iff)
  with PyFloat \<open>is_true x\<close> \<open>0 < num_real (nvalue y)\<close> show ?thesis
    by (simp add: model_defs py_and_def)
qed

theorem anded_by_truncates_witness:
  "\<exists>r. anded_by (Number (PyInt 1)) (Some (Number (PyFloat (1/2)))) = Inr (Inr r) \<and> \<not> is_true r"
  by (rule anded_by_truncates) (simp_all add: Number_def is_true_def py_truthy_def)

end
