(* ===== verification/Interpreter.thy ===== *)
theory Interpreter
  imports Ast Values
begin

text \<open>
  The symbol table and the tree-walking interpreter of
  \<^verbatim>\<open>src/Tutorials/Tuto6/law.py\<close> (classes \<^verbatim>\<open>SymbolTable\<close>, \<^verbatim>\<open>RTResult\<close> and
  \<^verbatim>\<open>Interpreter\<close>).

  A \<^verbatim>\<open>SymbolTable\<close> is a dictionary and an optional parent table; the model
  keeps the dictionary and the chain of the parents' dictionaries, innermost
  first. A stored value is a \<^verbatim>\<open>Number\<close> or \<^verbatim>\<open>None\<close> (what an \<^verbatim>\<open>IF\<close> without
  match or a loop evaluates to).

  \<^verbatim>\<open>visit\<close> returns an \<^verbatim>\<open>RTResult\<close> whose error, once set, is returned at
  once; such a result is \<open>error + number option\<close>. A Python exception that
  escapes the interpreter (an attribute read on \<^verbatim>\<open>None\<close>, a failed unpacking)
  is a \<open>pyexc\<close>. The \<^verbatim>\<open>FOR\<close> and \<^verbatim>\<open>WHILE\<close> loops need not terminate, so
  every visitor takes fuel: one unit per nested call and per loop iteration,
  and \<open>None\<close> when it runs out.
\<close>

record symbol_table =
  symbols :: "string \<rightharpoonup> number option"
  st_parents :: "(string \<rightharpoonup> number option) list"

fun chain_get :: "(string \<rightharpoonup> number option) list \<Rightarrow> string \<Rightarrow> number option" where
  "chain_get [] name = None"
| "chain_get (syms # parents) name =
     (case syms name of
        Some (Some v) \<Rightarrow> Some v
      | _ \<Rightarrow> chain_get parents name)"

text \<open>\<^verbatim>\<open>SymbolTable.get\<close>: the own dictionary first (a stored \<^verbatim>\<open>None\<close> counts
  as missing), then the parent chain.\<close>

definition st_get :: "symbol_table \<Rightarrow> string \<Rightarrow> number option" where
  "st_get st name = chain_get (symbols st # st_parents st) name"

text \<open>\<^verbatim>\<open>SymbolTable.set\<close>: always the table's own dictionary.\<close>

definition st_set :: "symbol_table \<Rightarrow> string \<Rightarrow> number option \<Rightarrow> symbol_table" where
  "st_set st name value = st\<lparr>symbols := (symbols st)(name \<mapsto> value)\<rparr>"

text \<open>\<^verbatim>\<open>SymbolTable.remove\<close>: \<^verbatim>\<open>del\<close> raises \<^verbatim>\<open>KeyError\<close> on a missing name.\<close>

definition st_remove :: "symbol_table \<Rightarrow> string \<Rightarrow> symbol_table option" where
  "st_remove st name =
     (if name \<in> dom (symbols st) then Some (st\<lparr>symbols := (symbols st)(name := None)\<rparr>) else None)"

definition empty_symbol_table :: symbol_table where
  "empty_symbol_table = \<lparr>symbols = Map.empty, st_parents = []\<rparr>"

text \<open>The module-level \<^verbatim>\<open>global_symbol_table\<close> with \<^verbatim>\<open>NULL\<close>, \<^verbatim>\<open>TRUE\<close>
  and \<^verbatim>\<open>FALSE\<close>.\<close>

definition global_symbol_table :: symbol_table where
  "global_symbol_table =
     st_set (st_set (st_set empty_symbol_table ''NULL'' (Some (Number (PyInt 0))))
       ''TRUE'' (Some (Number (PyInt 1)))) ''FALSE'' (Some (Number (PyInt 0)))"

type_synonym rt_result = "error + number option"
type_synonym visit_result = "(pyexc + rt_result) \<times> symbol_table"

text \<open>A token's value as the interpreter reads it.\<close>

fun tok_num :: "tok_value \<Rightarrow> num option" where
  "tok_num (IntVal i) = Some (PyInt i)"
| "tok_num (FloatVal x) = Some (PyFloat x)"
| "tok_num _ = None"

fun tok_name :: "tok_value \<Rightarrow> string" where
  "tok_name (StrVal s) = s"
| "tok_name _ = []"

text \<open>The operator dispatch of \<^verbatim>\<open>visit_BinOpNode\<close>; an operator token none of
  the branches names leaves \<^verbatim>\<open>result\<close> unbound.\<close>

definition binop_apply :: "token \<Rightarrow> number \<Rightarrow> number option \<Rightarrow> op_result" where
  "binop_apply op left right =
     (if ttype op = TT_PLUS then added_to left right
      else if ttype op = TT_MINUS then subbed_by left right
      else if ttype op = TT_MUL then multed_by left right
      else if ttype op = TT_DIV then dived_by left right
      else if ttype op = TT_POW then powed_by left right
      else if ttype op = TT_EE then get_comparison_eq left right
      else if ttype op = TT_NE then get_comparison_ne left right
      else if ttype op = TT_LT then get_comparison_lt left right
      else if ttype op = TT_GT then get_comparison_gt left right
      else if ttype op = TT_LTE then get_comparison_lte left right
      else if ttype op = TT_GTE then get_comparison_gte left right
      else if matches op TT_KEYWORD ''AND'' then anded_by left right
      else if matches op TT_KEYWORD ''OR'' then ored_by left right
      else Inl UnboundLocalError)"

text \<open>The loop condition of \<^verbatim>\<open>visit_ForNode\<close>: \<^verbatim>\<open>i < end\<close> for a
  non-negative step, \<^verbatim>\<open>i > end\<close> otherwise.\<close>

definition for_condition :: "num \<Rightarrow> num \<Rightarrow> num \<Rightarrow> bool" where
  "for_condition step i end_v =
     (if num_real step \<ge> 0 then num_real i < num_real end_v else num_real i > num_real end_v)"

text \<open>\<^verbatim>\<open>x = res.register(self.visit(...)); if res.error: return res\<close>: an
  escaping exception or a recorded error ends the visit, otherwise the rest
  \<open>k\<close> of the method continues with the value and the symbol table.\<close>

definition rt_register ::
  "visit_result option \<Rightarrow> (number option \<Rightarrow> symbol_table \<Rightarrow> visit_result option) \<Rightarrow> visit_result option" where
  "rt_register r k =
     (case r of
        None \<Rightarrow> None
      | Some (Inr (Inr v), st) \<Rightarrow> k v st
      | Some res \<Rightarrow> Some res)"

lemma rt_register_simps [simp]:
  "rt_register None k = None"
  "rt_register (Some (Inr (Inr v), st)) k = k v st"
  "rt_register (Some (Inr (Inl err), st)) k = Some (Inr (Inl err), st)"
  "rt_register (Some (Inl exc, st)) k = Some (Inl exc, st)"
  by (simp_all add: rt_register_def)

text \<open>How the result of a value method or an attribute read on \<^verbatim>\<open>None\<close>
  becomes the visit's result: \<^verbatim>\<open>res.failure(error)\<close> or
  \<^verbatim>\<open>res.success(result.set_pos(...))\<close>.\<close>

definition op_outcome :: "op_result \<Rightarrow> (number \<Rightarrow> number) \<Rightarrow> symbol_table \<Rightarrow> visit_result option" where
  "op_outcome r stamp st =
     (case r of
        Inl exc \<Rightarrow> Some (Inl exc, st)
      | Inr (Inl err) \<Rightarrow> Some (Inr (Inl err), st)
      | Inr (Inr v) \<Rightarrow> Some (Inr (Inr (Some (stamp v))), st))"

definition stamp_node :: "node \<Rightarrow> number \<Rightarrow> number" where
  "stamp_node nd = set_pos (Some (node_pos_start nd)) (Some (node_pos_end nd))"

lemma stamp_node_sel [simp]:
  "nvalue (stamp_node nd x) = nvalue x"
  "ncontext (stamp_node nd x) = ncontext x"
  "npos_start (stamp_node nd x) = Some (node_pos_start nd)"
  "npos_end (stamp_node nd x) = Some (node_pos_end nd)"
  by (simp_all add: stamp_node_def set_pos_def)

function (sequential) visit :: "nat \<Rightarrow> node \<Rightarrow> rt_context \<Rightarrow> symbol_table \<Rightarrow> visit_result option"
  and visit_cases :: "nat \<Rightarrow> (node \<times> node) list \<Rightarrow> node option \<Rightarrow> rt_context \<Rightarrow> symbol_table
                       \<Rightarrow> visit_result option"
  and for_loop :: "nat \<Rightarrow> string \<Rightarrow> num \<Rightarrow> num \<Rightarrow> num \<Rightarrow> node \<Rightarrow> rt_context \<Rightarrow> symbol_table
                    \<Rightarrow> visit_result option"
  and while_loop :: "nat \<Rightarrow> node \<Rightarrow> node \<Rightarrow> rt_context \<Rightarrow> symbol_table \<Rightarrow> visit_result option"
where
  "visit 0 _ _ _ = None"
| "visit (Suc n) (NumberNode tok) ctx st =
     (case tok_num (tvalue tok) of
        None \<Rightarrow> Some (Inl TypeError, st)
      | Some v \<Rightarrow> Some (Inr (Inr (Some (stamp_node (NumberNode tok) (set_context (Some ctx) (Number v))))), st))"
| "visit (Suc n) (VarAccessNode tok) ctx st =
     (let var_name = tok_name (tvalue tok)
      in case st_get st var_name of
           None \<Rightarrow> Some (Inr (Inl (RTError (Some (tpos_start tok)) (Some (tpos_end tok))
                                    ('' '' @ quoted var_name @ '' is not defined'') (Some ctx))), st)
         | Some value \<Rightarrow> Some (Inr (Inr (Some (stamp_node (VarAccessNode tok) (copy value)))), st))"
| "visit (Suc n) (VarAssignNode tok value_node) ctx st =
     rt_register (visit n value_node ctx st) (\<lambda>value st'.
       Some (Inr (Inr value), st_set st' (tok_name (tvalue tok)) value))"
| "visit (Suc n) (BinOpNode l op r) ctx st =
     rt_register (visit n l ctx st) (\<lambda>left st1.
       rt_register (visit n r ctx st1) (\<lambda>right st2.
         case left of
           None \<Rightarrow> Some (Inl AttributeError, st2)
         | Some lv \<Rightarrow> op_outcome (binop_apply op lv right) (stamp_node (BinOpNode l op r)) st2))"
| "visit (Suc n) (UnaryOpNode op operand) ctx st =
     rt_register (visit n operand ctx st) (\<lambda>number st'.
       case number of
         None \<Rightarrow> Some (Inl AttributeError, st')
       | Some num \<Rightarrow>
           op_outcome
             (if ttype op = TT_MINUS then multed_by num (Some (Number (PyInt (-1))))
              else if matches op TT_KEYWORD ''NOT'' then Inr (Inr (notted num))
              else Inr (Inr num))
             (stamp_node (UnaryOpNode op operand)) st')"
| "visit (Suc n) (IfNode c cs else_case) ctx st = visit_cases n (c # cs) else_case ctx st"
| "visit (Suc n) (ForNode var start_node end_node step_node body) ctx st =
     rt_register (visit n start_node ctx st) (\<lambda>start_value st1.
       rt_register (visit n end_node ctx st1) (\<lambda>end_value st2.
         rt_register
           (case step_node of
              Some sn \<Rightarrow> visit n sn ctx st2
            | None \<Rightarrow> Some (Inr (Inr (Some (Number (PyInt 1)))), st2))
           (\<lambda>step_value st3.
              case start_value of
                None \<Rightarrow> Some (Inl AttributeError, st3)
              | Some sv \<Rightarrow>
                  (case step_value of
                     None \<Rightarrow> Some (Inl AttributeError, st3)
                   | Some stv \<Rightarrow>
                       (case end_value of
                          None \<Rightarrow> Some (Inl AttributeError, st3)
                        | Some ev \<Rightarrow>
                            for_loop n (tok_name (tvalue var)) (nvalue sv) (nvalue ev) (nvalue stv)
                              body ctx st3)))))"
| "visit (Suc n) (WhileNode cond body) ctx st = while_loop n cond body ctx st"
| "visit_cases 0 _ _ _ _ = None"
| "visit_cases (Suc n) [] else_case ctx st =
     (case else_case of
        None \<Rightarrow> Some (Inr (Inr None), st)
      | Some e \<Rightarrow> visit n e ctx st)"
| "visit_cases (Suc n) ((condition, expr) # cases) else_case ctx st =
     rt_register (visit n condition ctx st) (\<lambda>condition_value st'.
       case condition_value of
         None \<Rightarrow> Some (Inl AttributeError, st')
       | Some cv \<Rightarrow>
           if is_true cv then visit n expr ctx st'
           else visit_cases n cases else_case ctx st')"
| "for_loop 0 _ _ _ _ _ _ _ = None"
| "for_loop (Suc n) var i end_v step body ctx st =
     (if for_condition step i end_v then
        rt_register (visit n body ctx (st_set st var (Some (Number i)))) (\<lambda>_ st'.
          for_loop n var (num_add i step) end_v step body ctx st')
      else Some (Inr (Inr None), st))"
| "while_loop 0 _ _ _ _ = None"
| "while_loop (Suc n) cond body ctx st =
     rt_register (visit n cond ctx st) (\<lambda>condition st'.
       case condition of
         None \<Rightarrow> Some (Inl AttributeError, st')
       | Some c \<Rightarrow>
           if \<not> is_true c then Some (Inr (Inr None), st')
           else rt_register (visit n body ctx st') (\<lambda>_ st''. while_loop n cond body ctx st''))"
  by pat_completeness auto
termination
  by (relation "measure (case_sum (case_sum (\<lambda>(n, _). n) (\<lambda>(n, _). n))
                                (case_sum (\<lambda>(n, _). n) (\<lambda>(n, _). n)))") auto

lemma fuel_le_rt_register [fuel_mono]:
  "fuel_le r r' \<Longrightarrow> (\<And>v st. fuel_le (k v st) (k' v st)) \<Longrightarrow>
   fuel_le (rt_register r k) (rt_register r' k')"
  by (auto simp: fuel_le_def rt_register_def split: option.splits sum.splits)



text \<open>The evaluator reports only runtime errors: every error value a visit
  returns is an \<^verbatim>\<open>RTError\<close> (a division by zero or an undefined variable);
  the lexer's and the parser's error classes never come out of it.\<close>

definition rt_errors_only :: "visit_result option \<Rightarrow> bool" where
  "rt_errors_only r \<longleftrightarrow>
     (case r of Some (Inr (Inl err), _) \<Rightarrow> (case err of RTError _ _ _ _ \<Rightarrow> True | _ \<Rightarrow> False) | _ \<Rightarrow> True)"

lemma rt_errors_only_simple [rt_errors]:
  "rt_errors_only None"
  "rt_errors_only (Some (Inl exc, st))"
  "rt_errors_only (Some (Inr (Inr v), st))"
  "rt_errors_only (Some (Inr (Inl (RTError ps pe d c)), st))"
  by (simp_all add: rt_errors_only_def)

lemma rt_errors_only_register [rt_errors]:
  assumes "rt_errors_only r" "\<And>v s. rt_errors_only (k v s)"
  shows "rt_errors_only (rt_register r k)"
proof (cases "\<exists>v s. r = Some (Inr (Inr v), s)")
  case True
  then obtain v s where "r = Some (Inr (Inr v), s)" by blast
  with assms(2) [of v s] show ?thesis by simp
next
  case False
  with assms(1) show ?thesis
    by (auto simp: rt_register_def rt_errors_only_def split: option.splits sum.splits)
qed

lemma rt_errors_only_case_option [rt_errors]:
  "rt_errors_only a \<Longrightarrow> (\<And>y. rt_errors_only (f y)) \<Longrightarrow>
   rt_errors_only (case x of None \<Rightarrow> a | Some y \<Rightarrow> f y)"
  by (cases x) simp_all

lemma rt_errors_only_if [rt_errors]:
  "rt_errors_only a \<Longrightarrow> rt_errors_only b \<Longrightarrow> rt_errors_only (if c then a else b)"
  by simp

lemma rt_errors_only_let [rt_errors]:
  "(\<And>x. rt_errors_only (f x)) \<Longrightarrow> rt_errors_only (let x = v in f x)"
  by simp

lemma binop_apply_rt_error:
  "binop_apply op lv rv = Inr (Inl err) \<Longrightarrow> \<exists>ps pe d c. err = RTError ps pe d c"
  by (auto simp: binop_apply_def model_defs split: if_splits option.splits sum.splits)

lemma rt_errors_only_op_outcome [rt_errors]:
  "(\<And>err. r = Inr (Inl err) \<Longrightarrow> \<exists>ps pe d c. err = RTError ps pe d c) \<Longrightarrow>
   rt_errors_only (op_outcome r f st)"
  by (auto simp: op_outcome_def rt_errors_only_def split: sum.splits)

lemma unary_no_error:
  "(if ttype op = TT_MINUS then multed_by num (Some m)
    else if matches op TT_KEYWORD ''NOT'' then Inr (Inr (notted num)) else Inr (Inr num)) \<noteq> Inr (Inl err)"
  by (simp add: model_defs)

lemma visit_rt_errors:
  "rt_errors_only (visit n e ctx st) \<and> rt_errors_only (visit_cases n cs el ctx st) \<and>
   rt_errors_only (for_loop n var i en stp body ctx st) \<and> rt_errors_only (while_loop n c b ctx st)"
proof (induction n arbitrary: e cs el var i en stp body c b ctx st)
  case 0
  then show ?case by (simp add: rt_errors_only_def)
next
  case (Suc n)
  note rules = Suc.IH [THEN conjunct1] Suc.IH [THEN conjunct2, THEN conjunct1]
    Suc.IH [THEN conjunct2, THEN conjunct2, THEN conjunct1] Suc.IH [THEN conjunct2, THEN conjunct2, THEN conjunct2]
    rt_errors binop_apply_rt_error
  show ?case
  proof (intro conjI)
    show "rt_errors_only (visit (Suc n) e ctx st)"
      by (cases e) (auto intro!: rules simp: unary_no_error)
    show "rt_errors_only (visit_cases (Suc n) cs el ctx st)"
      by (cases cs) (auto intro!: rules)
    show "rt_errors_only (for_loop (Suc n) var i en stp body ctx st)"
      by (auto intro!: rules)
    show "rt_errors_only (while_loop (Suc n) c b ctx st)"
      by (auto intro!: rules)
  qed
qed

lemma visit_error_is_rt:
  "visit n nd ctx st = Some (Inr (Inl err), st') \<Longrightarrow> \<exists>ps pe d c. err = RTError ps pe d c"
proof -
  have "rt_errors_only (visit n nd ctx st)" using visit_rt_errors by blast
  moreover assume "visit n nd ctx st = Some (Inr (Inl err), st')"
  ultimately show ?thesis by (cases err) (simp_all add: rt_errors_only_def)
qed


subsection \<open>Properties of the interpreter\<close>

lemma rt_register_normal:
  "rt_register r k = Some (Inr (Inr v), s) \<Longrightarrow>
   \<exists>v0 s0. r = Some (Inr (Inr v0), s0) \<and> k v0 s0 = Some (Inr (Inr v), s)"
  by (auto simp: rt_register_def split: option.splits sum.splits prod.splits)

lemma rt_register_not_None:
  "\<exists>a b. r = Some (a, b) \<Longrightarrow> (\<And>v s. \<exists>a b. k v s = Some (a, b)) \<Longrightarrow>
   \<exists>a b. rt_register r k = Some (a, b)"
  by (auto simp: rt_register_def split: option.splits sum.splits prod.splits)

lemma op_outcome_not_None [simp]: "\<exists>a b. op_outcome r f st = Some (a, b)"
  by (simp add: op_outcome_def split: sum.splits)

fun span_node :: "node \<Rightarrow> bool" where
  "span_node (NumberNode _) = True"
| "span_node (VarAccessNode _) = True"
| "span_node (BinOpNode _ _ _) = True"
| "span_node (UnaryOpNode _ _) = True"
| "span_node _ = False"

lemma op_outcome_value:
  "op_outcome r (stamp_node nd) st = Some (Inr (Inr (Some v)), st') \<Longrightarrow>
   npos_start v = Some (node_pos_start nd) \<and> npos_end v = Some (node_pos_end nd)"
  by (auto simp: op_outcome_def split: sum.splits)

lemma visit_value_span:
  "span_node nd \<Longrightarrow> visit n nd ctx st = Some (Inr (Inr (Some v)), st') \<Longrightarrow>
   npos_start v = Some (node_pos_start nd) \<and> npos_end v = Some (node_pos_end nd)"
  apply (cases n; cases nd)
  apply (auto simp: Let_def split: option.splits if_splits dest!: rt_register_normal op_outcome_value)
  done

text \<open>C6: a division by zero is a runtime error whose span is the span of the right operand node (a literal, a variable, or an operation), with the left operand's context; the symbol table is the one left by evaluating both operands.\<close>

theorem visit_div_zero_span:
  assumes "ttype op = TT_DIV" "span_node r"
    and "visit n l ctx st = Some (Inr (Inr (Some lv)), st1)"
    and "visit n r ctx st1 = Some (Inr (Inr (Some rv)), st2)"
    and "num_real (nvalue rv) = 0"
  shows "visit (Suc n) (BinOpNode l op r) ctx st =
    Some (Inr (Inl (RTError (Some (node_pos_start r)) (Some (node_pos_end r)) ''Division by zero'' (ncontext lv))), st2)"
  using assms visit_value_span [OF assms(2) assms(4)]
  by (simp add: binop_apply_def dived_by_def op_outcome_def)

fun loop_free :: "node \<Rightarrow> bool" where
  "loop_free (NumberNode _) = True"
| "loop_free (VarAccessNode _) = True"
| "loop_free (VarAssignNode _ v) = loop_free v"
| "loop_free (BinOpNode l _ r) = (loop_free l \<and> loop_free r)"
| "loop_free (UnaryOpNode _ e) = loop_free e"
| "loop_free (IfNode (c, e) cs el) =
     (loop_free c \<and> loop_free e \<and> (\<forall>(a, b)\<in>set cs. loop_free a \<and> loop_free b) \<and> pred_option loop_free el)"
| "loop_free (ForNode _ _ _ _ _) = False"
| "loop_free (WhileNode _ _) = False"

lemma visit_loop_free_total_aux:
  "(\<forall>nd ctx st. loop_free nd \<longrightarrow> node_depth nd \<le> n \<longrightarrow> visit n nd ctx st \<noteq> None) \<and>
   (\<forall>cs el ctx st. (\<forall>(a, b)\<in>set cs. loop_free a \<and> loop_free b) \<longrightarrow> pred_option loop_free el \<longrightarrow>
       cases_depth cs el \<le> n \<longrightarrow> visit_cases n cs el ctx st \<noteq> None)"
proof (induction n)
  case 0
  have "node_depth nd > 0" for nd by (cases nd) auto
  moreover have "cases_depth cs el > 0" for cs el by (cases cs) auto
  ultimately show ?case by (metis not_le)
next
  case (Suc n)
  show ?case
  proof (intro conjI allI impI)
    fix nd ctx st assume "loop_free nd" "node_depth nd \<le> Suc n"
    then show "visit (Suc n) nd ctx st \<noteq> None"
      using Suc.IH
      by (cases nd) (auto simp: Let_def intro!: rt_register_not_None split: option.splits prod.splits)
  next
    fix cs el ctx st
    assume "\<forall>(a, b)\<in>set cs. loop_free a \<and> loop_free b" "pred_option loop_free el"
      "cases_depth cs el \<le> Suc n"
    then show "visit_cases (Suc n) cs el ctx st \<noteq> None"
      using Suc.IH
      by (cases cs) (auto intro!: rt_register_not_None split: option.splits)
  qed
qed


text \<open>C3: a tree without loops evaluates to a result, never running out of fuel, when the fuel is at least its depth: the interpreter terminates on every loop-free program.\<close>

theorem visit_loop_free_total:
  "loop_free nd \<Longrightarrow> node_depth nd \<le> n \<Longrightarrow> visit n nd ctx st \<noteq> None"
  using visit_loop_free_total_aux by blast


text \<open>C29: when a \<^verbatim>\<open>WHILE\<close> loop completes normally its value is \<^verbatim>\<open>None\<close>, and its final symbol table is one in which an evaluation of the condition gave a false value: the loop stops exactly when the condition is first false.\<close>

theorem while_loop_exit:
  "while_loop n c b ctx st = Some (Inr (Inr v), st') \<Longrightarrow>
   v = None \<and> (\<exists>k st0 cv. visit k c ctx st0 = Some (Inr (Inr (Some cv)), st') \<and> \<not> is_true cv)"
proof (induction n arbitrary: st)
  case 0
  then show ?case by simp
next
  case (Suc n)
  from Suc.prems obtain cv0 s0 where c: "visit n c ctx st = Some (Inr (Inr cv0), s0)"
    and k: "(case cv0 of None \<Rightarrow> Some (Inl AttributeError, s0)
            | Some cv \<Rightarrow> if \<not> is_true cv then Some (Inr (Inr None), s0)
                         else rt_register (visit n b ctx s0) (\<lambda>_ st''. while_loop n c b ctx st'')) =
            Some (Inr (Inr v), st')"
    by (auto dest!: rt_register_normal)
  show ?case
  proof (cases cv0)
    case None
    with k show ?thesis by simp
  next
    case (Some cv)
    show ?thesis
    proof (cases "is_true cv")
      case False
      with k c Some show ?thesis by auto
    next
      case True
      with k Some obtain s1 where "while_loop n c b ctx s1 = Some (Inr (Inr v), st')"
        by (auto dest!: rt_register_normal)
      then show ?thesis by (rule Suc.IH)
    qed
  qed
qed

text \<open>\<^verbatim>\<open>SymbolTable.get\<close> after \<^verbatim>\<open>set\<close>: the name just set reads back its value (a stored \<^verbatim>\<open>None\<close> falls through to the parent tables), and every other name reads as before.\<close>

theorem st_get_set:
  "st_get (st_set st x v) y =
     (if y = x then (case v of Some w \<Rightarrow> Some w | None \<Rightarrow> chain_get (st_parents st) x) else st_get st y)"
  by (simp add: st_get_def st_set_def split: option.splits)

end
