(* ===== verification/Run.thy ===== *)
theory Run
  imports Lexer Parser Interpreter
begin

text \<open>
  \<^verbatim>\<open>run(fn, text)\<close> of \<^verbatim>\<open>src/Tutorials/Tuto6/law.py\<close>: lexing, parsing and
  interpreting in a fresh context \<^verbatim>\<open><program>\<close> whose symbol table is the
  module-level table, which persists from one call to the next; the model
  takes it and returns it. Besides \<^verbatim>\<open>(value, error)\<close> the result carries the
  lexer's final cursor, the value every \<open>LexerPos\<close> reference in a token, a
  node or an error reads. One fuel bound serves both the parser and the
  interpreter.
\<close>

type_synonym run_result = "(pyexc + number option \<times> error option) \<times> symbol_table \<times> position"

definition program_context :: rt_context where
  "program_context = Context ''<program>'' None None"

text \<open>\<^verbatim>\<open>Parser(tokens).parse()\<close>: an expression, then the end of the input.\<close>

definition parse :: "nat \<Rightarrow> toks \<Rightarrow> (parse_result \<times> toks) option" where
  "parse n tokens =
     (case expr n tokens of
        None \<Rightarrow> None
      | Some (res, ts) \<Rightarrow>
          if pr_error res = None \<and> ttype (hd ts) \<noteq> TT_EOF
          then Some (failure (syntax_err ts msg_parse) res, ts)
          else Some (res, ts))"

text \<open>\<^verbatim>\<open>interpreter.visit(ast.node, context)\<close> on a missing node raises
  \<^verbatim>\<open>No visit_NoneType method defined\<close>.\<close>

definition interpret_ast :: "nat \<Rightarrow> node option \<Rightarrow> symbol_table \<Rightarrow> visit_result option" where
  "interpret_ast n nd st =
     (case nd of
        None \<Rightarrow> Some (Inl NoVisitMethod, st)
      | Some node \<Rightarrow> visit n node program_context st)"

definition run :: "nat \<Rightarrow> symbol_table \<Rightarrow> string \<Rightarrow> string \<Rightarrow> run_result option" where
  "run n st fn text =
     (case lex fn text of
        (tokens, Some err, lp) \<Rightarrow> Some (Inr (None, Some err), st, lp)
      | (tokens, None, lp) \<Rightarrow>
          (case parse n tokens of
             None \<Rightarrow> None
           | Some (ast, _) \<Rightarrow>
               (case pr_error ast of
                  Some err \<Rightarrow> Some (Inr (None, Some err), st, lp)
                | None \<Rightarrow>
                    (case interpret_ast n (pr_node ast) st of
                       None \<Rightarrow> None
                     | Some (Inl exc, st') \<Rightarrow> Some (Inl exc, st', lp)
                     | Some (Inr (Inl err), st') \<Rightarrow> Some (Inr (None, Some err), st', lp)
                     | Some (Inr (Inr v), st') \<Rightarrow> Some (Inr (v, None), st', lp)))))"

end
