(* ===== verification/Arith.thy ===== *)
theory Arith
  imports Run
begin









subsection \<open>Integer arithmetic stays integer\<close>

text \<open>The integer fragment: integer literals, variables, \<open>+ - *\<close>, the
  comparisons and the unary signs. True division always gives a
  \<^verbatim>\<open>float\<close> in Python and \<open>^\<close> gives one on a negative exponent, so they
  are outside.\<close>

definition int_ops :: "tok_type list" where
  "int_ops = [TT_PLUS, TT_MINUS, TT_MUL, TT_EE, TT_NE, TT_LT, TT_GT, TT_LTE, TT_GTE]"

fun int_node :: "node \<Rightarrow> bool" where
  "int_node (NumberNode tok) \<longleftrightarrow> (case tok_num (tvalue tok) of Some (PyInt _) \<Rightarrow> True | _ \<Rightarrow> False)"
| "int_node (VarAccessNode tok) \<longleftrightarrow> True"
| "int_node (BinOpNode l op r) \<longleftrightarrow> ttype op \<in> set int_ops \<and> int_node l \<and> int_node r"
| "int_node (UnaryOpNode op e) \<longleftrightarrow> ttype op \<in> {TT_PLUS, TT_MINUS} \<and> int_node e"
| "int_node _ \<longleftrightarrow> False"

definition is_pyint :: "num \<Rightarrow> bool" where
  "is_pyint v \<longleftrightarrow> (case v of PyInt _ \<Rightarrow> True | PyFloat _ \<Rightarrow> False)"

text \<open>Every variable the table (with its parents) resolves is an \<^verbatim>\<open>int\<close>.\<close>

definition st_ints :: "symbol_table \<Rightarrow> bool" where
  "st_ints st \<longleftrightarrow> (\<forall>name v. st_get st name = Some v \<longrightarrow> is_pyint (nvalue v))"

definition int_result :: "symbol_table \<Rightarrow> visit_result option \<Rightarrow> bool" where
  "int_result st r \<longleftrightarrow>
     (\<exists>e. r = Some (Inr (Inl e), st)) \<or> (\<exists>x. r = Some (Inr (Inr (Some x)), st) \<and> is_pyint (nvalue x))"

definition int_out :: "op_result \<Rightarrow> bool" where
  "int_out r \<longleftrightarrow> (case r of Inr (Inr x) \<Rightarrow> is_pyint (nvalue x) | _ \<Rightarrow> False)"

lemma int_methods:
  assumes "nvalue lv = PyInt a" "nvalue rv = PyInt b"
  shows "int_out (added_to lv (Some rv))" "int_out (subbed_by lv (Some rv))"
    "int_out (multed_by lv (Some rv))" "int_out (get_comparison_eq lv (Some rv))"
    "int_out (get_comparison_ne lv (Some rv))" "int_out (get_comparison_lt lv (Some rv))"
    "int_out (get_comparison_gt lv (Some rv))" "int_out (get_comparison_lte lv (Some rv))"
    "int_out (get_comparison_gte lv (Some rv))"
  using assms by (simp_all add: int_out_def model_defs is_pyint_def)

lemma binop_apply_int:
  assumes "ttype op \<in> set int_ops" "is_pyint (nvalue lv)" "is_pyint (nvalue rv)"
  shows "int_out (binop_apply op lv (Some rv))"
proof -
  obtain a b where "nvalue lv = PyInt a" "nvalue rv = PyInt b"
    using assms(2,3) by (auto simp: is_pyint_def split: num.splits)
  from int_methods [OF this] assms(1) show ?thesis
    unfolding int_ops_def by (auto simp: binop_apply_def)
qed

lemma int_out_outcome:
  "int_out r \<Longrightarrow> int_result st (op_outcome r (stamp_node nd) st)"
  by (auto simp: int_out_def int_result_def op_outcome_def split: sum.splits)

text \<open>C26: Integer closure of the interpreter: on a tree of the integer
  fragment, in a symbol table holding only integers, \<^verbatim>\<open>visit\<close> with fuel at
  least the depth returns, leaves the table unchanged, and gives an
  \<^verbatim>\<open>int\<close> or a runtime error (an undefined variable), never a \<^verbatim>\<open>float\<close>
  and never an escaping exception.\<close>

theorem visit_int_closed:
  "int_node nd \<Longrightarrow> st_ints st \<Longrightarrow> node_depth nd \<le> n \<Longrightarrow> int_result st (visit n nd ctx st)"
proof (induction nd arbitrary: n)
  case (NumberNode tok)
  then obtain n' where "n = Suc n'" by (cases n) auto
  with NumberNode show ?case
    by (auto simp: int_result_def is_pyint_def set_context_def Number_def split: option.splits num.splits)
next
  case (VarAccessNode tok)
  then obtain n' where "n = Suc n'" by (cases n) auto
  with VarAccessNode show ?case
    by (cases "st_get st (tok_name (tvalue tok))")
       (auto simp: int_result_def st_ints_def copy_def set_context_def set_pos_def Number_def Let_def)
next
  case (BinOpNode l op r)
  then obtain n' where n: "n = Suc n'" and dl: "node_depth l \<le> n'" and dr: "node_depth r \<le> n'"
    by (cases n) auto
  have ar: "int_node l" "int_node r" "ttype op \<in> set int_ops" using BinOpNode.prems by auto
  have L: "int_result st (visit n' l ctx st)" and R: "int_result st (visit n' r ctx st)"
    using BinOpNode.IH ar dl dr BinOpNode.prems(2) by blast+
  from L consider (le) e where "visit n' l ctx st = Some (Inr (Inl e), st)"
    | (lv) lv where "visit n' l ctx st = Some (Inr (Inr (Some lv)), st)" "is_pyint (nvalue lv)"
    by (auto simp: int_result_def)
  then show ?case
  proof cases
    case le
    then show ?thesis unfolding n by (simp add: int_result_def)
  next
    case lv
    from R consider (re) e where "visit n' r ctx st = Some (Inr (Inl e), st)"
      | (rv) rv where "visit n' r ctx st = Some (Inr (Inr (Some rv)), st)" "is_pyint (nvalue rv)"
      by (auto simp: int_result_def)
    then show ?thesis
    proof cases
      case re
      with lv show ?thesis unfolding n by (simp add: int_result_def)
    next
      case rv
      with lv int_out_outcome [OF binop_apply_int [OF ar(3) lv(2) rv(2)]] show ?thesis
        unfolding n by simp
    qed
  qed
next
  case (UnaryOpNode op e)
  then obtain n' where n: "n = Suc n'" and de: "node_depth e \<le> n'" by (cases n) auto
  have ar: "int_node e" "ttype op \<in> {TT_PLUS, TT_MINUS}" using UnaryOpNode.prems by auto
  have E: "int_result st (visit n' e ctx st)" using UnaryOpNode.IH ar de UnaryOpNode.prems(2) by blast
  then consider (ee) err where "visit n' e ctx st = Some (Inr (Inl err), st)"
    | (ev) v where "visit n' e ctx st = Some (Inr (Inr (Some v)), st)" "is_pyint (nvalue v)"
    by (auto simp: int_result_def)
  then show ?case
  proof cases
    case ee
    then show ?thesis unfolding n by (simp add: int_result_def)
  next
    case ev
    have "int_out (if ttype op = TT_MINUS then multed_by v (Some (Number (PyInt (-1))))
                   else if matches op TT_KEYWORD ''NOT'' then Inr (Inr (notted v)) else Inr (Inr v))"
      using ev(2) ar(2) by (auto simp: int_out_def matches_def model_defs is_pyint_def split: num.splits)
    with ev show ?thesis unfolding n by (simp add: int_out_outcome)
  qed
qed auto

lemma st_ints_global: "st_ints global_symbol_table"
  by (simp add: st_ints_def global_symbol_table_def st_set_def st_get_def empty_symbol_table_def
                is_pyint_def Number_def)

text \<open>The tree the parser builds for \<^verbatim>\<open>TRUE + 2*3 - 4 < 6\<close>, in the global table.\<close>

theorem visit_int_closed_witness:
  "int_node (the (pr_node (fst (the (expr 30 (fst (lex ''f'' ''TRUE + 2*3 - 4 < 6''))))))) \<and>
   int_result global_symbol_table
     (visit 30 (the (pr_node (fst (the (expr 30 (fst (lex ''f'' ''TRUE + 2*3 - 4 < 6''))))))) program_context
        global_symbol_table)"
proof -
  have a: "int_node (the (pr_node (fst (the (expr 30 (fst (lex ''f'' ''TRUE + 2*3 - 4 < 6'')))))))"
    by code_simp
  have d: "node_depth (the (pr_node (fst (the (expr 30 (fst (lex ''f'' ''TRUE + 2*3 - 4 < 6''))))))) \<le> 30"
    by code_simp
  show ?thesis using a visit_int_closed [OF a st_ints_global d] by blast
qed

end
