(* ===== verification/StackMachine.thy ===== *)
theory StackMachine
  imports Prelude
begin

text \<open>
  The line interpreter of \<^verbatim>\<open>src/interpretor.py\<close> (class \<^verbatim>\<open>Interpretor\<close>):
  a program is a text whose non-blank lines are assignments
  \<^verbatim>\<open>name = e\<close>, \<^verbatim>\<open>while e\<close> and \<^verbatim>\<open>end\<close>, with \<open>e\<close> an expression in
  reverse Polish notation over integers and variables, evaluated on a stack
  by \<^verbatim>\<open>ev_expr\<close>. \<^verbatim>\<open>ev\<close> runs the lines with a program counter; a
  \<^verbatim>\<open>while\<close> whose condition is not 1 jumps past the next \<^verbatim>\<open>end\<close>, an
  \<^verbatim>\<open>end\<close> jumps back to the nearest \<^verbatim>\<open>while\<close> above it.

  Python's string splitting is modelled on ASCII whitespace, \<^verbatim>\<open>str.isdigit\<close>
  on the ASCII digits. Python's negative list indices are kept: the backward
  scan of \<^verbatim>\<open>end\<close> can run below 0 and then reads the list from its end.
  The exceptions the code can raise are the values of \<open>sm_exc\<close>; \<^verbatim>\<open>ev\<close>
  may run forever, so it is a \<^theory_text>\<open>partial_function (option)\<close>, with
  \<open>None\<close> for a run that does not end.
\<close>

datatype sm_exc = IndexError | ValueError

type_synonym sm_vars = "string \<rightharpoonup> int"

subsection \<open>Python's string splitting\<close>

definition py_space :: "char \<Rightarrow> bool" where
  "py_space c \<longleftrightarrow>
     c \<in> set [CHR '' '', CHR 0x09, CHR 0x0A, CHR 0x0B, CHR 0x0C, CHR 0x0D, CHR 0x1C, CHR 0x1D, CHR 0x1E, CHR 0x1F]"

lemma dropWhile_not_space_shorter:
  "dropWhile py_space s \<noteq> [] \<Longrightarrow>
   length (dropWhile (Not \<circ> py_space) (dropWhile py_space s)) < length s"
proof -
  assume ne: "dropWhile py_space s \<noteq> []"
  then obtain c r where cr: "dropWhile py_space s = c # r" by (cases "dropWhile py_space s") auto
  then have "\<not> py_space c" using hd_dropWhile [OF ne] by simp
  then have "length (dropWhile (Not \<circ> py_space) (c # r)) \<le> length r"
    by (simp add: length_dropWhile_le)
  moreover have "length (dropWhile py_space s) \<le> length s" by (rule length_dropWhile_le)
  ultimately show ?thesis using cr by simp
qed

text \<open>\<^verbatim>\<open>s.split(maxsplit=k)\<close>: at most \<open>k\<close> splits at runs of whitespace,
  leading whitespace dropped, the rest of the string (trailing whitespace
  included) as the last item.\<close>

function py_split_max :: "nat \<Rightarrow> string \<Rightarrow> string list" where
  "py_split_max k s =
     (let s' = dropWhile py_space s in
      if s' = [] then []
      else if k = 0 then [s']
      else takeWhile (Not \<circ> py_space) s' # py_split_max (k - 1) (dropWhile (Not \<circ> py_space) s'))"
  by pat_completeness auto
termination
  by (relation "measure (\<lambda>(_, s). length s)") (auto intro: dropWhile_not_space_shorter)

text \<open>\<^verbatim>\<open>s.split()\<close>: the words of \<open>s\<close>.\<close>

function py_split :: "string \<Rightarrow> string list" where
  "py_split s =
     (let s' = dropWhile py_space s in
      if s' = [] then []
      else takeWhile (Not \<circ> py_space) s' # py_split (dropWhile (Not \<circ> py_space) s'))"
  by pat_completeness auto
termination
  by (relation "measure length") (auto intro: dropWhile_not_space_shorter)

declare py_split_max.simps [simp del] py_split.simps [simp del]

text \<open>\<^verbatim>\<open>text.split("\n")\<close>.\<close>

fun split_lines :: "string \<Rightarrow> string list" where
  "split_lines [] = [[]]"
| "split_lines (c # cs) =
     (let ls = split_lines cs in
      if c = newline_char then [] # ls else (c # hd ls) # tl ls)"

text \<open>\<^verbatim>\<open>lines[pc]\<close> with Python's indexing: a negative index counts from
  the end, an index out of range raises \<^verbatim>\<open>IndexError\<close>.\<close>

definition py_index :: "'a list \<Rightarrow> int \<Rightarrow> 'a option" where
  "py_index xs i =
     (if 0 \<le> i \<and> i < int (length xs) then Some (xs ! nat i)
      else if - int (length xs) \<le> i \<and> i < 0 then Some (xs ! nat (int (length xs) + i))
      else None)"

subsection \<open>The expression evaluator\<close>

text \<open>\<^verbatim>\<open>tok.isdigit()\<close> and \<^verbatim>\<open>int(tok)\<close>.\<close>

definition is_digits :: "string \<Rightarrow> bool" where
  "is_digits s \<longleftrightarrow> s \<noteq> [] \<and> list_all (\<lambda>c. c \<in> set digit_chars) s"

definition digits_value :: "string \<Rightarrow> int" where
  "digits_value s = foldl (\<lambda>n c. 10 * n + (int (of_char c) - 48)) 0 s"

text \<open>The operator branch: \<^verbatim>\<open>rhs\<close> and \<^verbatim>\<open>lhs\<close> are popped first; an
  operator none of the branches names pushes nothing.\<close>

definition rpn_op :: "string \<Rightarrow> int \<Rightarrow> int \<Rightarrow> int list" where
  "rpn_op tok lhs rhs =
     (if tok = ''+'' then [lhs + rhs]
      else if tok = ''-'' then [lhs - rhs]
      else if tok = ''*'' then [lhs * rhs]
      else if tok = ''<'' then [if lhs < rhs then 1 else 0]
      else if tok = ''>'' then [if lhs > rhs then 1 else 0]
      else if tok = ''<='' then [if lhs \<le> rhs then 1 else 0]
      else if tok = ''>='' then [if lhs \<ge> rhs then 1 else 0]
      else if tok = ''=='' then [if lhs = rhs then 1 else 0]
      else [])"

text \<open>One iteration of the \<^verbatim>\<open>for tok in toks\<close> loop. The stack is kept top
  first: \<^verbatim>\<open>stack.append(v)\<close> is \<open>v # stk\<close> and \<^verbatim>\<open>stack.pop()\<close> its head.\<close>

definition ev_tok :: "sm_vars \<Rightarrow> int list \<Rightarrow> string \<Rightarrow> sm_exc + int list" where
  "ev_tok vars stk tok =
     (if is_digits tok then Inr (digits_value tok # stk)
      else case vars tok of
        Some v \<Rightarrow> Inr (v # stk)
      | None \<Rightarrow>
          (case stk of
             rhs # lhs # rest \<Rightarrow> Inr (rpn_op tok lhs rhs @ rest)
           | _ \<Rightarrow> Inl IndexError))"

fun ev_toks :: "sm_vars \<Rightarrow> int list \<Rightarrow> string list \<Rightarrow> sm_exc + int list" where
  "ev_toks vars stk [] = Inr stk"
| "ev_toks vars stk (tok # toks) =
     (case ev_tok vars stk tok of Inl e \<Rightarrow> Inl e | Inr stk' \<Rightarrow> ev_toks vars stk' toks)"

text \<open>\<^verbatim>\<open>ev_expr(text)\<close>: returns \<^verbatim>\<open>stack[0]\<close>, the bottom of the stack
  (the last element of the top-first list).\<close>

definition ev_expr :: "sm_vars \<Rightarrow> string \<Rightarrow> sm_exc + int" where
  "ev_expr vars text =
     (case ev_toks vars [] (py_split text) of
        Inl e \<Rightarrow> Inl e
      | Inr stk \<Rightarrow> if stk = [] then Inl IndexError else Inr (last stk))"

subsection \<open>The line interpreter\<close>

definition first_word :: "string \<Rightarrow> sm_exc + string" where
  "first_word line = (case py_split_max 1 line of [] \<Rightarrow> Inl IndexError | w # _ \<Rightarrow> Inr w)"

text \<open>\<^verbatim>\<open>while lines[pc].split(maxsplit=1)[0] != 'end': pc += 1\<close>.\<close>

function scan_fwd :: "string list \<Rightarrow> int \<Rightarrow> sm_exc + int" where
  "scan_fwd lines pc =
     (case py_index lines pc of
        None \<Rightarrow> Inl IndexError
      | Some l \<Rightarrow>
          (case first_word l of
             Inl e \<Rightarrow> Inl e
           | Inr w \<Rightarrow> if w \<noteq> ''end'' then scan_fwd lines (pc + 1) else Inr pc))"
  by pat_completeness auto
termination
  by (relation "measure (\<lambda>(lines, pc). nat (int (length lines) - pc))")
     (auto simp: py_index_def split: if_splits)

text \<open>\<^verbatim>\<open>while lines[pc].split(maxsplit=1)[0] != 'while': pc -= 1\<close>.\<close>

function scan_bwd :: "string list \<Rightarrow> int \<Rightarrow> sm_exc + int" where
  "scan_bwd lines pc =
     (case py_index lines pc of
        None \<Rightarrow> Inl IndexError
      | Some l \<Rightarrow>
          (case first_word l of
             Inl e \<Rightarrow> Inl e
           | Inr w \<Rightarrow> if w \<noteq> ''while'' then scan_bwd lines (pc - 1) else Inr pc))"
  by pat_completeness auto
termination
  by (relation "measure (\<lambda>(lines, pc). nat (pc + int (length lines) + 1))")
     (auto simp: py_index_def split: if_splits)

declare scan_fwd.simps [simp del] scan_bwd.simps [simp del]

text \<open>One iteration of the \<^verbatim>\<open>while pc < len(lines)\<close> loop of \<^verbatim>\<open>ev\<close>:
  the run ends (\<open>Inl\<close>: an exception, or the final variables once \<open>pc\<close>
  reaches the end) or continues at a new \<open>pc\<close> with new variables
  (\<open>Inr\<close>).\<close>

definition ev_step :: "string list \<Rightarrow> int \<Rightarrow> sm_vars \<Rightarrow> (sm_exc + sm_vars) + int \<times> sm_vars" where
  "ev_step lines pc vars =
     (if pc < int (length lines) then
        (case py_index lines pc of
           None \<Rightarrow> Inl (Inl IndexError)
         | Some line \<Rightarrow>
            (case py_split_max 1 line of
               [] \<Rightarrow> Inl (Inl IndexError)
             | w # rest \<Rightarrow>
                if w = ''while'' then
                  (case rest of
                     [] \<Rightarrow> Inl (Inl IndexError)
                   | cond # _ \<Rightarrow>
                      (case ev_expr vars cond of
                         Inl e \<Rightarrow> Inl (Inl e)
                       | Inr v \<Rightarrow>
                          if v = 1 then Inr (pc + 1, vars)
                          else (case scan_fwd lines pc of
                                  Inl e \<Rightarrow> Inl (Inl e)
                                | Inr pc' \<Rightarrow> Inr (pc' + 1, vars))))
                else if w = ''end'' then
                  (case scan_bwd lines pc of
                     Inl e \<Rightarrow> Inl (Inl e)
                   | Inr pc' \<Rightarrow> Inr (pc', vars))
                else
                  (case py_split_max 2 line of
                     [name, _, expr] \<Rightarrow>
                       (case ev_expr vars expr of
                          Inl e \<Rightarrow> Inl (Inl e)
                        | Inr v \<Rightarrow> Inr (pc + 1, vars(name \<mapsto> v)))
                   | _ \<Rightarrow> Inl (Inl ValueError))))
      else Inl (Inr vars))"

text \<open>The loop itself, which need not end.\<close>

partial_function (option) ev_loop :: "string list \<Rightarrow> int \<Rightarrow> sm_vars \<Rightarrow> (sm_exc + sm_vars) option" where
  "ev_loop lines pc vars =
     (case ev_step lines pc vars of
        Inl r \<Rightarrow> Some r
      | Inr (pc', vars') \<Rightarrow> ev_loop lines pc' vars')"

declare ev_loop.simps [code]

text \<open>\<^verbatim>\<open>Interpretor().ev(text)\<close>: the non-blank lines, run from the first
  with no variable; the model returns the variables the source prints.\<close>

definition program_lines :: "string \<Rightarrow> string list" where
  "program_lines text = filter (\<lambda>x. \<not> list_all py_space x) (split_lines text)"

definition ev :: "string \<Rightarrow> (sm_exc + sm_vars) option" where
  "ev text = ev_loop (program_lines text) 0 Map.empty"


definition fact_prog :: string where
  "fact_prog = ''n = 13  '' @ [newline_char] @ ''r = 1  '' @ [newline_char] @ ''while n 1 >= '' @ [newline_char]
    @ ''r = r n * '' @ [newline_char] @ ''n =  n 1 - '' @ [newline_char] @ ''end '' @ [newline_char]"

subsection \<open>A reference semantics of the expressions\<close>

text \<open>Expression trees over the operators of \<^verbatim>\<open>ev_expr\<close>, their value, and
  their reverse Polish form: the tokens \<^verbatim>\<open>ev_expr\<close> reads, joined by
  blanks as \<^verbatim>\<open>" ".join\<close> would.\<close>

datatype bop = Add | Sub | Mul | Lt | Gt | Le | Ge | Eq

fun bop_sem :: "bop \<Rightarrow> int \<Rightarrow> int \<Rightarrow> int" where
  "bop_sem Add a b = a + b"
| "bop_sem Sub a b = a - b"
| "bop_sem Mul a b = a * b"
| "bop_sem Lt a b = of_bool (a < b)"
| "bop_sem Gt a b = of_bool (a > b)"
| "bop_sem Le a b = of_bool (a \<le> b)"
| "bop_sem Ge a b = of_bool (a \<ge> b)"
| "bop_sem Eq a b = of_bool (a = b)"

fun bop_tok :: "bop \<Rightarrow> string" where
  "bop_tok Add = ''+''" | "bop_tok Sub = ''-''" | "bop_tok Mul = ''*''"
| "bop_tok Lt = ''<''" | "bop_tok Gt = ''>''" | "bop_tok Le = ''<=''" | "bop_tok Ge = ''>=''"
| "bop_tok Eq = ''==''"

datatype rexp = RNum nat | RVar string | RBin bop rexp rexp

fun rval :: "sm_vars \<Rightarrow> rexp \<Rightarrow> int option" where
  "rval vars (RNum n) = Some (int n)"
| "rval vars (RVar x) = vars x"
| "rval vars (RBin b l r) =
     (case (rval vars l, rval vars r) of (Some a, Some c) \<Rightarrow> Some (bop_sem b a c) | _ \<Rightarrow> None)"

fun rpn :: "rexp \<Rightarrow> string list" where
  "rpn (RNum n) = [nat_str n]"
| "rpn (RVar x) = [x]"
| "rpn (RBin b l r) = rpn l @ rpn r @ [bop_tok b]"

definition word_ok :: "string \<Rightarrow> bool" where
  "word_ok w \<longleftrightarrow> w \<noteq> [] \<and> list_all (Not \<circ> py_space) w"

fun rexp_ok :: "rexp \<Rightarrow> bool" where
  "rexp_ok (RNum n) = True"
| "rexp_ok (RVar x) = (word_ok x \<and> \<not> is_digits x)"
| "rexp_ok (RBin b l r) = (rexp_ok l \<and> rexp_ok r)"

fun py_join :: "string list \<Rightarrow> string" where
  "py_join [] = []"
| "py_join [w] = w"
| "py_join (w # ws) = w @ '' '' @ py_join ws"

definition straight_line :: "string list \<Rightarrow> bool" where
  "straight_line lines \<longleftrightarrow> list_all (\<lambda>l. first_word l \<noteq> Inr ''while'' \<and> first_word l \<noteq> Inr ''end'') lines"

subsection \<open>Properties of the expression evaluator\<close>

lemma digits_value_append [simp]:
  "digits_value (xs @ [c]) = 10 * digits_value xs + (int (of_char c) - 48)"
  by (simp add: digits_value_def)

lemma nat_str_digits: "is_digits (nat_str n) \<and> digits_value (nat_str n) = int n"
proof (induction n rule: nat_str.induct)
  case (1 n)
  have ch: "of_char (char_of (48 + k) :: char) = 48 + k" if "k < 10" for k :: nat
    using that by (simp add: of_char_of)
  have dc: "digit_chars = map (\<lambda>k. char_of (48 + k)) [0..<10]"
    by code_simp
  have dig: "char_of (48 + k) \<in> set digit_chars" if "k < 10" for k :: nat
    using that unfolding dc by auto
  show ?case
  proof (cases "n < 10")
    case True
    then show ?thesis
      by (simp add: nat_str.simps [of n] is_digits_def digits_value_def ch dig)
  next
    case False
    with "1.IH" have IH: "is_digits (nat_str (n div 10))" "digits_value (nat_str (n div 10)) = int (n div 10)"
      by auto
    have "n = 10 * (n div 10) + n mod 10" by simp
    then have "int n = 10 * int (n div 10) + int (n mod 10)"
      by (metis of_nat_add of_nat_mult of_nat_numeral)
    with False IH show ?thesis
      by (simp add: nat_str.simps [of n] is_digits_def ch dig)
  qed
qed

lemma ev_toks_append:
  "ev_toks vars stk (xs @ ys) = (case ev_toks vars stk xs of Inl e \<Rightarrow> Inl e | Inr s \<Rightarrow> ev_toks vars s ys)"
  by (induction xs arbitrary: stk) (auto split: sum.splits)

lemma rpn_op_bop [simp]: "rpn_op (bop_tok b) l r = [bop_sem b l r]"
  by (cases b) (simp_all add: rpn_op_def)

lemma bop_tok_not_digits [simp]: "\<not> is_digits (bop_tok b)"
  by (cases b) (simp_all add: is_digits_def digit_chars_def)

lemma ev_toks_rpn:
  "rexp_ok e \<Longrightarrow> (\<forall>b. vars (bop_tok b) = None) \<Longrightarrow> rval vars e = Some v \<Longrightarrow>
   ev_toks vars stk (rpn e) = Inr (v # stk)"
proof (induction e arbitrary: v stk)
  case (RNum n)
  then show ?case using nat_str_digits [of n] by (simp add: ev_tok_def)
next
  case (RVar x)
  then show ?case by (simp add: ev_tok_def)
next
  case (RBin b l r)
  then obtain a c where "rval vars l = Some a" "rval vars r = Some c" "v = bop_sem b a c"
    by (auto split: option.splits)
  with RBin show ?case by (simp add: ev_toks_append ev_tok_def)
qed

lemma py_space_digit: "c \<in> set digit_chars \<Longrightarrow> \<not> py_space c"
  by (auto simp: digit_chars_def py_space_def)


lemma py_split_space_Cons: "py_space c \<Longrightarrow> py_split (c # s) = py_split s"
  by (simp add: py_split.simps [of "c # s"] py_split.simps [of s])

lemma py_split_word:
  assumes w: "word_ok w" and r: "r = [] \<or> py_space (hd r)"
  shows "py_split (w @ r) = w # py_split r"
proof -
  from w have nsp: "\<forall>c\<in>set w. \<not> py_space c" and ne: "w \<noteq> []"
    by (auto simp: word_ok_def list_all_iff)
  from ne nsp have d: "dropWhile py_space (w @ r) = w @ r"
    by (cases w) auto
  from nsp r have t: "takeWhile (Not \<circ> py_space) (w @ r) = w"
    by (cases r) (auto simp: takeWhile_append2)
  from nsp r have dd: "dropWhile (Not \<circ> py_space) (w @ r) = r"
    by (cases r) (auto simp: dropWhile_append2)
  show ?thesis
    using ne by (simp add: py_split.simps [of "w @ r"] d t dd)
qed

lemma py_split_join: "list_all word_ok ws \<Longrightarrow> py_split (py_join ws) = ws"
proof (induction ws rule: py_join.induct)
  case 1
  then show ?case by (simp add: py_split.simps)
next
  case (2 w)
  then show ?case using py_split_word [of w "[]"] by (simp add: py_split.simps [of "[]"])
next
  case (3 w v vs)
  have sp: "py_space CHR '' ''" by (simp add: py_space_def)
  from 3 have "py_split (py_join (v # vs)) = v # vs" by simp
  with 3 sp show ?case
    using py_split_word [of w "'' '' @ py_join (v # vs)"] by (simp add: py_split_space_Cons)
qed

lemma rpn_words: "rexp_ok e \<Longrightarrow> list_all word_ok (rpn e)"
proof (induction e)
  case (RNum n)
  then show ?case
    using nat_str_digits [of n] py_space_digit
    by (auto simp: word_ok_def is_digits_def list_all_iff)
next
  case (RBin b l r)
  then show ?case by (cases b) (simp_all add: word_ok_def py_space_def)
qed simp

text \<open>C9: \<^verbatim>\<open>ev_expr\<close> is a correct evaluator of reverse Polish notation:
  on the tokens of an expression tree whose variables are defined, and when
  no variable is named like an operator, it returns the tree's value.\<close>

theorem ev_expr_rpn:
  "rexp_ok e \<Longrightarrow> (\<forall>b. vars (bop_tok b) = None) \<Longrightarrow> rval vars e = Some v \<Longrightarrow>
   ev_expr vars (py_join (rpn e)) = Inr v"
  by (simp add: ev_expr_def py_split_join rpn_words ev_toks_rpn)

subsection \<open>Properties of the line interpreter\<close>

lemma ev_step_straight:
  assumes "straight_line lines" "0 \<le> pc" "ev_step lines pc vars = Inr (pc', vars')"
  shows "pc' = pc + 1"
proof -
  have pc: "pc < int (length lines)" using assms(3) by (auto simp: ev_step_def split: if_splits)
  with assms(2) have l: "py_index lines pc = Some (lines ! nat pc)" by (simp add: py_index_def)
  from pc assms(2) have "lines ! nat pc \<in> set lines" by simp
  with assms(1) have fw: "first_word (lines ! nat pc) \<noteq> Inr ''while''" "first_word (lines ! nat pc) \<noteq> Inr ''end''"
    by (auto simp: straight_line_def list_all_iff)
  from assms(3) pc l fw show ?thesis
    by (auto simp: ev_step_def first_word_def split: list.splits sum.splits if_splits)
qed

lemma ev_loop_straight_total:
  "straight_line lines \<Longrightarrow> 0 \<le> pc \<Longrightarrow> ev_loop lines pc vars \<noteq> None"
proof (induction "nat (int (length lines) - pc)" arbitrary: pc vars)
  case 0
  then have "ev_step lines pc vars = Inl (Inr vars)" by (simp add: ev_step_def)
  then show ?case by (simp add: ev_loop.simps [of lines pc vars])
next
  case (Suc k)
  show ?case
  proof (cases "ev_step lines pc vars")
    case (Inl r)
    then show ?thesis by (simp add: ev_loop.simps [of lines pc vars])
  next
    case (Inr c)
    then obtain pc' vars' where st: "ev_step lines pc vars = Inr (pc', vars')" by (cases c) auto
    with Suc.prems have "pc' = pc + 1" by (rule ev_step_straight)
    with Suc.hyps(2) Suc.prems have "ev_loop lines pc' vars' \<noteq> None" by (intro Suc.hyps(1)) auto
    with st show ?thesis by (simp add: ev_loop.simps [of lines pc vars])
  qed
qed














text \<open>C32: a program without \<^verbatim>\<open>while\<close> and \<^verbatim>\<open>end\<close> lines always
  finishes, with its variables or with an exception.\<close>

theorem ev_straight_total: "straight_line (program_lines text) \<Longrightarrow> ev text \<noteq> None"
  unfolding ev_def by (rule ev_loop_straight_total) simp_all

text \<open>The example program of \<^verbatim>\<open>interpretor.py\<close> computes 13!: it ends with
  \<^verbatim>\<open>r = 6227020800\<close> and \<^verbatim>\<open>n = 0\<close>.\<close>

theorem ev_factorial:
  "case ev fact_prog of Some (Inr vars) \<Rightarrow> vars ''r'' = Some 6227020800 \<and> vars ''n'' = Some 0 | _ \<Rightarrow> False"
  by code_simp


subsection \<open>The theorems at concrete inputs\<close>

theorem ev_expr_rpn_witness:
  "ev_expr [''x'' \<mapsto> 3] (py_join (rpn (RBin Mul (RBin Add (RNum 2) (RVar ''x'')) (RNum 4)))) = Inr 20"
proof -
  have ok: "rexp_ok (RBin Mul (RBin Add (RNum 2) (RVar ''x'')) (RNum 4))" by code_simp
  have ops: "\<forall>b. [''x'' \<mapsto> (3::int)] (bop_tok b) = None"
  proof
    fix b show "[''x'' \<mapsto> (3::int)] (bop_tok b) = None" by (cases b) simp_all
  qed
  have v: "rval [''x'' \<mapsto> 3] (RBin Mul (RBin Add (RNum 2) (RVar ''x'')) (RNum 4)) = Some 20" by simp
  show ?thesis by (rule ev_expr_rpn [OF ok ops v])
qed

theorem ev_straight_total_witness: "ev (''x = 2'' @ [newline_char] @ ''y = x x *'') \<noteq> None"
proof -
  have "straight_line (program_lines (''x = 2'' @ [newline_char] @ ''y = x x *''))" by code_simp
  then show ?thesis by (rule ev_straight_total)
qed

end
