(* ===== verification/Database.thy ===== *)
theory Database
  imports Prelude
begin

text \<open>
  The account store of \<^verbatim>\<open>src/Tutorials/tuto8 using python  interpretor /database.py\<close>
  and the login check of \<^verbatim>\<open>authentication.py\<close>. A Python dictionary is an
  association list: \<^verbatim>\<open>d[k] = v\<close> is \<open>AList.update\<close> (an existing key keeps
  its place, a new one goes last, as in Python's insertion order), \<^verbatim>\<open>del d[k]\<close>
  is \<open>AList.delete\<close>, \<^verbatim>\<open>d.get(k)\<close> is \<open>map_of\<close>. A \<^verbatim>\<open>Token\<close> object is a
  record; assigning \<^verbatim>\<open>token.value\<close> updates the record in its place in the
  account. The values stored in tokens are Python strings and integers.

  Python's truth test is kept: \<^verbatim>\<open>if account:\<close> is false for a missing
  account and for an account with no token, while a \<^verbatim>\<open>Token\<close> object is
  always true. A requester's access level is compared with \<^verbatim>\<open><=\<close>: level 0
  is the most privileged.
\<close>

datatype pyval = PyStr string | PyNum int

text \<open>\<^verbatim>\<open>str(v)\<close> of a stored value, as an f-string renders it.\<close>

fun pyval_str :: "pyval \<Rightarrow> string" where
  "pyval_str (PyStr s) = s"
| "pyval_str (PyNum i) = int_str i"

record db_token =
  tk_name :: string
  tk_value :: pyval
  tk_level :: int
  tk_self_level :: int

definition Token :: "string \<Rightarrow> pyval \<Rightarrow> int \<Rightarrow> int \<Rightarrow> db_token" where
  "Token name value level self_level =
     \<lparr>tk_name = name, tk_value = value, tk_level = level, tk_self_level = self_level\<rparr>"

definition token_repr :: "db_token \<Rightarrow> string" where
  "token_repr t = ''Token(name='' @ tk_name t @ '', value='' @ pyval_str (tk_value t) @ '', level=''
                   @ int_str (tk_level t) @ '')''"

type_synonym account = "(string \<times> db_token) list"
type_synonym accounts = "(string \<times> account) list"

text \<open>\<^verbatim>\<open>account = accounts_db.get(user_id); if account:\<close>\<close>

definition get_account :: "accounts \<Rightarrow> string \<Rightarrow> account option" where
  "get_account db user_id = (case map_of db user_id of Some acc \<Rightarrow> if acc = [] then None else Some acc | None \<Rightarrow> None)"

definition denied_msg :: string where
  "denied_msg = ''Access denied or token not found.''"

definition print_account :: "accounts \<Rightarrow> string \<Rightarrow> string" where
  "print_account db user_id =
     (case get_account db user_id of
        Some acc \<Rightarrow> ''Account Details for '' @ user_id @ '':'' @ [newline_char]
                   @ concat (map (\<lambda>(key, tok). key @ '': '' @ token_repr tok @ [newline_char]) acc)
      | None \<Rightarrow> ''Account not found.'')"

text \<open>Python's \<^verbatim>\<open>repr\<close> of a string over the model's 8-bit characters:
  single quotes unless the string holds a single quote and no double quote;
  backslash, the quote, tab, newline and carriage return escaped; the other
  characters that are not printable (the controls, \<^verbatim>\<open>0x7f\<close> to \<^verbatim>\<open>0xa0\<close>
  and the soft hyphen \<^verbatim>\<open>0xad\<close>) as \<^verbatim>\<open>\xNN\<close>.\<close>

definition hex_digit :: "nat \<Rightarrow> char" where
  "hex_digit n = ''0123456789abcdef'' ! n"

definition repr_char :: "char \<Rightarrow> char \<Rightarrow> string" where
  "repr_char q c =
     (if c = CHR 0x5C then [CHR 0x5C, CHR 0x5C]
      else if c = q then [CHR 0x5C, q]
      else if c = tab_char then [CHR 0x5C, CHR ''t'']
      else if c = newline_char then [CHR 0x5C, CHR ''n'']
      else if c = CHR 0x0D then [CHR 0x5C, CHR ''r'']
      else (let n = (of_char c :: nat)
            in if n < 32 \<or> (127 \<le> n \<and> n \<le> 160) \<or> n = 173
               then [CHR 0x5C, CHR ''x'', hex_digit (n div 16), hex_digit (n mod 16)]
               else [c]))"

definition py_str_repr :: "string \<Rightarrow> string" where
  "py_str_repr s =
     (let q = (if quote_char \<in> set s \<and> CHR 0x22 \<notin> set s then CHR 0x22 else quote_char)
      in [q] @ concat (map (repr_char q) s) @ [q])"

text \<open>\<^verbatim>\<open>str(account)\<close> of an account dictionary: \<^verbatim>\<open>{'key': Token(...), ...}\<close>.\<close>

definition account_repr :: "account \<Rightarrow> string" where
  "account_repr acc =
     ''{'' @ str_join '', '' (map (\<lambda>(k, tok). py_str_repr k @ '': '' @ token_repr tok) acc) @ ''}''"

definition print_database :: "accounts \<Rightarrow> string \<Rightarrow> string" where
  "print_database db title =
     title @ '' Database:'' @ [newline_char]
     @ concat (map (\<lambda>(user_id, acc). ''User ID: '' @ user_id @ '', Account Details: '' @ account_repr acc
                                       @ [newline_char]) db)"

text \<open>\<^verbatim>\<open>get_token\<close> and \<^verbatim>\<open>self_get_token\<close>: the value when the requester's
  level is at most the token's (self-)level; the source returns the denial
  message as a string in place of a value.\<close>

definition get_token :: "accounts \<Rightarrow> string \<Rightarrow> string \<Rightarrow> int \<Rightarrow> pyval" where
  "get_token db user_id token_name lvl =
     (case get_account db user_id of
        Some acc \<Rightarrow>
          (case map_of acc token_name of
             Some tok \<Rightarrow> if lvl \<le> tk_level tok then tk_value tok else PyStr denied_msg
           | None \<Rightarrow> PyStr denied_msg)
      | None \<Rightarrow> PyStr denied_msg)"

definition self_get_token :: "accounts \<Rightarrow> string \<Rightarrow> string \<Rightarrow> int \<Rightarrow> pyval" where
  "self_get_token db requester_id token_name lvl =
     (case get_account db requester_id of
        Some acc \<Rightarrow>
          (case map_of acc token_name of
             Some tok \<Rightarrow> if lvl \<le> tk_self_level tok then tk_value tok else PyStr denied_msg
           | None \<Rightarrow> PyStr denied_msg)
      | None \<Rightarrow> PyStr denied_msg)"

text \<open>\<^verbatim>\<open>token.value = new_value\<close> on the token stored under \<open>token_name\<close>.\<close>

definition set_token_value :: "accounts \<Rightarrow> string \<Rightarrow> account \<Rightarrow> string \<Rightarrow> db_token \<Rightarrow> pyval \<Rightarrow> accounts" where
  "set_token_value db user_id acc token_name tok v =
     AList.update user_id (AList.update token_name (tok\<lparr>tk_value := v\<rparr>) acc) db"

definition update_token :: "accounts \<Rightarrow> string \<Rightarrow> string \<Rightarrow> pyval \<Rightarrow> int \<Rightarrow> string \<times> accounts" where
  "update_token db user_id token_name v lvl =
     (case get_account db user_id of
        Some acc \<Rightarrow>
          (case map_of acc token_name of
             Some tok \<Rightarrow>
               if lvl \<le> tk_level tok
               then (''Token updated successfully.'', set_token_value db user_id acc token_name tok v)
               else (''Access denied: Insufficient user level.'', db)
           | None \<Rightarrow> (''Access denied: Insufficient user level.'', db))
      | None \<Rightarrow> (''Account not found.'', db))"

definition self_update_token :: "accounts \<Rightarrow> string \<Rightarrow> string \<Rightarrow> pyval \<Rightarrow> int \<Rightarrow> string \<times> accounts" where
  "self_update_token db requester_id token_name v lvl =
     (case get_account db requester_id of
        Some acc \<Rightarrow>
          (case map_of acc token_name of
             Some tok \<Rightarrow>
               if lvl \<le> tk_self_level tok
               then (''Token updated successfully.'', set_token_value db requester_id acc token_name tok v)
               else (''Access denied: Insufficient user level for self update.'', db)
           | None \<Rightarrow> (''Access denied: Insufficient user level for self update.'', db))
      | None \<Rightarrow> (''Account not found.'', db))"

definition create_token :: "accounts \<Rightarrow> string \<Rightarrow> string \<Rightarrow> pyval \<Rightarrow> int \<Rightarrow> int \<Rightarrow> string \<times> accounts" where
  "create_token db user_id token_name v level self_level =
     (let token = Token token_name v level self_level in
      (''Token created successfully.'',
       case map_of db user_id of
         Some acc \<Rightarrow> AList.update user_id (AList.update token_name token acc) db
       | None \<Rightarrow> AList.update user_id [(token_name, token)] db))"

definition delete_token :: "accounts \<Rightarrow> string \<Rightarrow> string \<Rightarrow> string \<times> accounts" where
  "delete_token db user_id token_name =
     (case get_account db user_id of
        Some acc \<Rightarrow>
          if token_name \<in> fst ` set acc
          then (''Token deleted successfully.'', AList.update user_id (AList.delete token_name acc) db)
          else (''Token not found.'', db)
      | None \<Rightarrow> (''Token not found.'', db))"

text \<open>\<^verbatim>\<open>create_account\<close>: the new identifier is \<^verbatim>\<open>user{len(accounts_db) + 1}\<close>,
  and the assignment replaces an account already stored under it.\<close>

definition create_account :: "accounts \<Rightarrow> account \<Rightarrow> string \<times> accounts" where
  "create_account db details =
     (let user_id = ''user'' @ nat_str (length db + 1)
      in (''Account created with ID: '' @ user_id, AList.update user_id details db))"

definition delete_account :: "accounts \<Rightarrow> string \<Rightarrow> string \<times> accounts" where
  "delete_account db user_id =
     (if user_id \<in> fst ` set db
      then (''Account '' @ user_id @ '' deleted.'', AList.delete user_id db)
      else (''Account not found.'', db))"

text \<open>The module-level accounts \<^verbatim>\<open>user1\<close> and \<^verbatim>\<open>user2\<close>.\<close>

definition init_accounts :: accounts where
  "init_accounts =
     [(''user1'', [(''id_number'', Token ''id_number'' (PyStr ''1'') 0 0),
                   (''name'', Token ''name'' (PyStr ''John'') 0 1),
                   (''surname'', Token ''surname'' (PyStr ''Doe'') 0 1),
                   (''password'', Token ''password'' (PyStr ''password123'') 0 0),
                   (''amount_of_tokens'', Token ''amount_of_tokens'' (PyNum 100) 0 2),
                   (''role'', Token ''role'' (PyStr ''admin'') 0 0),
                   (''access_level'', Token ''access_level'' (PyNum 0) 0 0)]),
      (''user2'', [(''id_number'', Token ''id_number'' (PyStr ''2'') 1 1),
                   (''name'', Token ''name'' (PyStr ''Jane'') 1 1),
                   (''surname'', Token ''surname'' (PyStr ''Smith'') 1 1),
                   (''password'', Token ''password'' (PyStr ''mypassword'') 1 1),
                   (''amount_of_tokens'', Token ''amount_of_tokens'' (PyNum 150) 1 2),
                   (''role'', Token ''role'' (PyStr ''editor'') 1 1),
                   (''access_level'', Token ''access_level'' (PyNum 1) 1 1)])]"

subsection \<open>Login: \<^verbatim>\<open>authentication.authenticate_user\<close>\<close>

text \<open>The accounts are searched in order; \<^verbatim>\<open>account["id_number"]\<close> raises
  \<^verbatim>\<open>KeyError\<close> on an account without that key. The comparison
  \<^verbatim>\<open>account["id_number"] == id_number\<close> compares a \<^verbatim>\<open>Token\<close> object with a
  string: \<^verbatim>\<open>Token\<close> defines no \<^verbatim>\<open>__eq__\<close>, so it is always false, and the
  password is never looked at.\<close>

datatype login_exc = KeyError

definition token_eq_str :: "db_token \<Rightarrow> string \<Rightarrow> bool" where
  "token_eq_str tok s = False"

fun authenticate_user :: "accounts \<Rightarrow> string \<Rightarrow> string \<Rightarrow> login_exc + account option" where
  "authenticate_user [] id_number password = Inr None"
| "authenticate_user ((uid, acc) # rest) id_number password =
     (case map_of acc ''id_number'' of
        None \<Rightarrow> Inl KeyError
      | Some tok \<Rightarrow>
          if token_eq_str tok id_number
          then (case map_of acc ''password'' of
                  None \<Rightarrow> Inl KeyError
                | Some p \<Rightarrow> if token_eq_str p password then Inr (Some acc)
                            else authenticate_user rest id_number password)
          else authenticate_user rest id_number password)"

subsection \<open>Lookups through the dictionaries\<close>

lemma get_account_Some_iff:
  "get_account db u = Some acc \<longleftrightarrow> map_of db u = Some acc \<and> acc \<noteq> []"
  by (auto simp: get_account_def split: option.splits)

lemma get_account_update [simp]:
  "get_account (AList.update u acc db) u' =
     (if u' = u then (if acc = [] then None else Some acc) else get_account db u')"
  by (simp add: get_account_def update_conv')

lemma map_of_nonempty: "map_of acc t = Some tok \<Longrightarrow> acc \<noteq> []"
  by auto

lemma get_account_of_token:
  "map_of db u = Some acc \<Longrightarrow> map_of acc t = Some tok \<Longrightarrow> get_account db u = Some acc"
  by (auto simp: get_account_Some_iff)

lemma set_token_value_keys: "map_of db u = Some acc \<Longrightarrow> map fst (set_token_value db u acc t tok v) = map fst db"
  by (simp add: set_token_value_def update_keys map_of_Some_dom)

lemmas token_lookup = get_token_def self_get_token_def set_token_value_def get_account_def update_conv'

lemma accounts_distinct_ops:
  assumes "distinct (map fst db)"
  shows "distinct (map fst (snd (update_token db u t v l)))"
    and "distinct (map fst (snd (self_update_token db u t v l)))"
    and "distinct (map fst (snd (create_token db u t v l sl)))"
    and "distinct (map fst (snd (delete_token db u t)))"
    and "distinct (map fst (snd (create_account db d)))"
    and "distinct (map fst (snd (delete_account db u)))"
  using assms
  by (auto simp: update_token_def self_update_token_def create_token_def delete_token_def
        create_account_def delete_account_def set_token_value_def Let_def distinct_update distinct_delete
        split: option.splits)

subsection \<open>Access control and round trips\<close>

text \<open>C11: A requester whose level is above a token's level learns nothing of
  that token's value through \<^verbatim>\<open>get_token\<close>: replacing the value changes no
  answer \<^verbatim>\<open>get_token\<close> gives at that level, for any account and token.\<close>

lemma get_token_hides_unreadable:
  assumes "map_of db u = Some acc" "map_of acc t = Some tok" "tk_level tok < lvl"
  shows "get_token (set_token_value db u acc t tok v) u' t' lvl = get_token db u' t' lvl"
  using assms by (auto simp: token_lookup split: option.splits)

lemma get_token_hides_unreadable_witness:
  "get_token (set_token_value init_accounts ''user1'' (the (map_of init_accounts ''user1'')) ''password''
      (Token ''password'' (PyStr ''password123'') 0 0) (PyStr ''guess'')) ''user1'' ''password'' 1
   = get_token init_accounts ''user1'' ''password'' 1"
  by (rule get_token_hides_unreadable) (simp_all add: init_accounts_def Token_def)

lemma update_token_success:
  assumes "update_token db u t v lvl = (''Token updated successfully.'', db')"
  obtains acc tok where "map_of db u = Some acc" "map_of acc t = Some tok" "lvl \<le> tk_level tok"
    "db' = set_token_value db u acc t tok v"
  using assms by (auto simp: update_token_def get_account_def split: option.splits if_splits)

lemma get_token_set_value:
  assumes "map_of db u = Some acc" "map_of acc t = Some tok"
  shows "get_token (set_token_value db u acc t tok v) u' t' l =
           (if (u', t') = (u, t) then (if l \<le> tk_level tok then v else PyStr denied_msg)
            else get_token db u' t' l)"
  using assms by (auto simp: token_lookup split: option.splits)

text \<open>C34: After \<^verbatim>\<open>update_token\<close> reports success, reading the token back at
  the same level gives the new value, every other token reads as before,
  and the accounts keep their order.\<close>

lemma update_token_get_roundtrip:
  assumes "update_token db u t v lvl = (''Token updated successfully.'', db')"
  shows "get_token db' u t lvl = v
         \<and> (\<forall>u' t' l. (u', t') \<noteq> (u, t) \<longrightarrow> get_token db' u' t' l = get_token db u' t' l)
         \<and> map fst db' = map fst db"
  using assms
proof (rule update_token_success)
  fix acc tok
  assume "map_of db u = Some acc" "map_of acc t = Some tok" "lvl \<le> tk_level tok"
    and db': "db' = set_token_value db u acc t tok v"
  then show ?thesis by (simp add: get_token_set_value set_token_value_keys)
qed

lemma update_token_get_roundtrip_witness:
  "get_token (snd (update_token init_accounts ''user2'' ''name'' (PyStr ''Ann'') 1)) ''user2'' ''name'' 1 = PyStr ''Ann''"
proof -
  have "update_token init_accounts ''user2'' ''name'' (PyStr ''Ann'') 1
        = (''Token updated successfully.'', snd (update_token init_accounts ''user2'' ''name'' (PyStr ''Ann'') 1))"
    by code_simp
  from update_token_get_roundtrip [OF this] show ?thesis by simp
qed

text \<open>A token made by \<^verbatim>\<open>create_token\<close> reads back through \<^verbatim>\<open>get_token\<close>
  at any level up to its level and through \<^verbatim>\<open>self_get_token\<close> at any level
  up to its self-level, whether or not the account existed.\<close>

lemma create_token_get_roundtrip:
  assumes "lvl \<le> level" "slvl \<le> self_level"
  shows "get_token (snd (create_token db u t v level self_level)) u t lvl = v
         \<and> self_get_token (snd (create_token db u t v level self_level)) u t slvl = v"
  using assms by (auto simp: create_token_def Let_def Token_def token_lookup split: option.splits)

lemma create_token_get_roundtrip_witness:
  "get_token (snd (create_token init_accounts ''user3'' ''pin'' (PyNum 42) 1 0)) ''user3'' ''pin'' 0 = PyNum 42
   \<and> self_get_token (snd (create_token init_accounts ''user3'' ''pin'' (PyNum 42) 1 0)) ''user3'' ''pin'' 0 = PyNum 42"
  using create_token_get_roundtrip [of 0 1 0 0 init_accounts "''user3''" "''pin''" "PyNum 42"] by simp

text \<open>After \<^verbatim>\<open>delete_token\<close> the token is gone: reading it is denied at
  every level.\<close>

lemma delete_token_get_denied:
  "get_token (snd (delete_token db u t)) u t lvl = PyStr denied_msg"
  by (auto simp: delete_token_def token_lookup delete_conv' split: option.splits if_splits)

text \<open>C27: \<^verbatim>\<open>create_account\<close> names the new account after the number of
  accounts; when an account of that name exists (after a deletion), it is
  replaced: the store does not grow and the old account is lost.\<close>

lemma create_account_overwrites:
  assumes "''user'' @ nat_str (length db + 1) \<in> fst ` set db"
  shows "length (snd (create_account db d)) = length db
         \<and> map_of (snd (create_account db d)) (''user'' @ nat_str (length db + 1)) = Some d"
proof -
  have "length (AList.update (''user'' @ nat_str (length db + 1)) d db) = length db"
    using assms by (rule length_update_dom)
  then show ?thesis by (simp only: create_account_def Let_def snd_conv update_conv' fun_upd_same simp_thms)
qed

lemma create_account_overwrites_witness:
  "length (snd (create_account (snd (delete_account init_accounts ''user1'')) [])) = 1"
proof -
  have "''user'' @ nat_str (length (snd (delete_account init_accounts ''user1'')) + 1)
        \<in> fst ` set (snd (delete_account init_accounts ''user1''))"
    by code_simp
  from create_account_overwrites [OF this, of "[]"] show ?thesis
    by (simp add: delete_account_def init_accounts_def)
qed

text \<open>C35: \<^verbatim>\<open>authenticate_user\<close> never returns an account: it compares a
  \<^verbatim>\<open>Token\<close> with the typed string, which is never equal, so it returns
  \<^verbatim>\<open>None\<close>, or raises \<^verbatim>\<open>KeyError\<close> on an account without an
  \<^verbatim>\<open>id_number\<close>.\<close>

lemma authenticate_user_never_succeeds:
  "authenticate_user db id_number password \<in> {Inr None, Inl KeyError}"
  by (induction db id_number password rule: authenticate_user.induct)
     (auto simp: token_eq_str_def split: option.splits)

end
