(* ===== verification/Variables.thy ===== *)
theory Variables
  imports Database
begin

text \<open>
  The global variables of \<^verbatim>\<open>src/Tutorials/tuto8 using python  interpretor /variables.py\<close>.
  The module stores \<^verbatim>\<open>Token\<close> objects of \<^verbatim>\<open>database.py\<close> in the dictionary
  \<^verbatim>\<open>global_variables\<close>, an association list here. Two Python behaviours are
  modelled, because the module depends on them: a call of the \<^verbatim>\<open>Token\<close>
  constructor with more positional arguments than its \<^verbatim>\<open>__init__\<close> takes
  raises \<^verbatim>\<open>TypeError\<close> (\<open>token_new\<close>, with the surplus arguments as a list),
  and reading an attribute a \<^verbatim>\<open>Token\<close> does not have raises
  \<^verbatim>\<open>AttributeError\<close> (\<open>token_attr\<close>). Comparing an integer level with a
  string attribute raises \<^verbatim>\<open>TypeError\<close> (\<open>py_le\<close>).
\<close>

datatype store_exc = StoreTypeError | StoreAttributeError

text \<open>\<^verbatim>\<open>Token(name, value, level, self_level, *extra)\<close>.\<close>

definition token_new :: "string \<Rightarrow> pyval \<Rightarrow> int \<Rightarrow> int \<Rightarrow> pyval list \<Rightarrow> store_exc + db_token" where
  "token_new name value level self_level extra =
     (if extra = [] then Inr (Token name value level self_level) else Inl StoreTypeError)"

text \<open>\<^verbatim>\<open>token.attr\<close> for the instance attributes \<^verbatim>\<open>Token.__init__\<close> sets.\<close>

definition token_attr :: "db_token \<Rightarrow> string \<Rightarrow> store_exc + pyval" where
  "token_attr tok attr =
     (if attr = ''name'' then Inr (PyStr (tk_name tok))
      else if attr = ''value'' then Inr (tk_value tok)
      else if attr = ''level'' then Inr (PyNum (tk_level tok))
      else if attr = ''self_level'' then Inr (PyNum (tk_self_level tok))
      else Inl StoreAttributeError)"

text \<open>\<^verbatim>\<open>user_level <= x\<close> for an integer on the left.\<close>

fun py_le :: "int \<Rightarrow> pyval \<Rightarrow> store_exc + bool" where
  "py_le l (PyNum i) = Inr (l \<le> i)"
| "py_le l (PyStr s) = Inl StoreTypeError"

text \<open>\<^verbatim>\<open>if variable and user_level <= variable.<attr>\<close>: a \<^verbatim>\<open>Token\<close> object is
  always true, so the comparison is evaluated whenever the variable exists.\<close>

definition level_check :: "int \<Rightarrow> db_token \<Rightarrow> string \<Rightarrow> store_exc + bool" where
  "level_check lvl tok attr = (case token_attr tok attr of Inl e \<Rightarrow> Inl e | Inr x \<Rightarrow> py_le lvl x)"

text \<open>The loop of \<^verbatim>\<open>list_variables\<close> and \<^verbatim>\<open>list_group_variables\<close>: each
  readable variable as \<^verbatim>\<open>f"{var_name}: {variable}"\<close>, in dictionary order; the
  first exception of a comparison ends the loop.\<close>

fun accessible_vars :: "int \<Rightarrow> (string \<times> db_token) list \<Rightarrow> store_exc + string list" where
  "accessible_vars lvl [] = Inr []"
| "accessible_vars lvl ((var_name, tok) # rest) =
     (case level_check lvl tok ''read_level'' of
        Inl e \<Rightarrow> Inl e
      | Inr ok \<Rightarrow>
          (case accessible_vars lvl rest of
             Inl e \<Rightarrow> Inl e
           | Inr names \<Rightarrow> Inr (if ok then (var_name @ '': '' @ token_repr tok) # names else names)))"

type_synonym variables = "(string \<times> db_token) list"

definition var_denied_msg :: string where
  "var_denied_msg = ''Access denied or variable not found.''"

definition create_variable :: "variables \<Rightarrow> string \<Rightarrow> pyval \<Rightarrow> int \<Rightarrow> int \<Rightarrow> store_exc + string \<times> variables" where
  "create_variable gv name value read_level write_level =
     (case token_new name value read_level write_level [PyNum 0, PyNum 0] of
        Inl e \<Rightarrow> Inl e
      | Inr tok \<Rightarrow> Inr (''Variable '' @ quoted name @ '' created successfully.'', AList.update name tok gv))"

definition delete_variable :: "variables \<Rightarrow> string \<Rightarrow> string \<times> variables" where
  "delete_variable gv name =
     (if name \<in> fst ` set gv
      then (''Variable '' @ quoted name @ '' deleted successfully.'', AList.delete name gv)
      else (''Variable '' @ quoted name @ '' not found.'', gv))"

definition get_variable :: "variables \<Rightarrow> string \<Rightarrow> int \<Rightarrow> store_exc + pyval" where
  "get_variable gv name lvl =
     (case map_of gv name of
        None \<Rightarrow> Inr (PyStr var_denied_msg)
      | Some tok \<Rightarrow>
          (case level_check lvl tok ''read_level'' of
             Inl e \<Rightarrow> Inl e
           | Inr ok \<Rightarrow> Inr (if ok then tk_value tok else PyStr var_denied_msg)))"

definition update_variable :: "variables \<Rightarrow> string \<Rightarrow> pyval \<Rightarrow> int \<Rightarrow> store_exc + string \<times> variables" where
  "update_variable gv name v lvl =
     (case map_of gv name of
        None \<Rightarrow> Inr (var_denied_msg, gv)
      | Some tok \<Rightarrow>
          (case level_check lvl tok ''write_level'' of
             Inl e \<Rightarrow> Inl e
           | Inr ok \<Rightarrow>
               if ok then Inr (''Variable '' @ quoted name @ '' updated successfully.'',
                               AList.update name (tok\<lparr>tk_value := v\<rparr>) gv)
               else Inr (var_denied_msg, gv)))"

definition list_variables :: "variables \<Rightarrow> int \<Rightarrow> store_exc + string" where
  "list_variables gv lvl =
     (case accessible_vars lvl gv of
        Inl e \<Rightarrow> Inl e
      | Inr [] \<Rightarrow> Inr ''No accessible variables found.''
      | Inr names \<Rightarrow> Inr (''Global Variables:'' @ [newline_char] @ str_join [newline_char] names))"

subsection \<open>What the module can do\<close>

lemma token_attr_level_fields [simp]:
  "token_attr tok ''read_level'' = Inl StoreAttributeError"
  "token_attr tok ''write_level'' = Inl StoreAttributeError"
  by (simp_all add: token_attr_def)

lemma level_check_missing_attr [simp]:
  "level_check lvl tok ''read_level'' = Inl StoreAttributeError"
  "level_check lvl tok ''write_level'' = Inl StoreAttributeError"
  by (simp_all add: level_check_def)

lemma accessible_vars_Nil_iff: "accessible_vars lvl gv = Inr [] \<longleftrightarrow> gv = []"
  by (cases gv) auto

text \<open>C36: \<^verbatim>\<open>create_variable\<close> always raises \<^verbatim>\<open>TypeError\<close>: it passes six
  arguments to the four-argument \<^verbatim>\<open>Token\<close> constructor, so no global
  variable is ever stored.\<close>

lemma create_variable_type_error:
  "create_variable gv name value read_level write_level = Inl StoreTypeError"
  by (simp add: create_variable_def token_new_def)

text \<open>C37: Every read, write or listing of a stored global variable raises
  \<^verbatim>\<open>AttributeError\<close>, since a \<^verbatim>\<open>Token\<close> has no \<^verbatim>\<open>read_level\<close> or
  \<^verbatim>\<open>write_level\<close>; on an absent variable the functions answer with their
  messages and change nothing.\<close>

lemma variable_access_outcomes:
  "get_variable gv name lvl = (if name \<in> fst ` set gv then Inl StoreAttributeError else Inr (PyStr var_denied_msg))
   \<and> update_variable gv name v wl = (if name \<in> fst ` set gv then Inl StoreAttributeError else Inr (var_denied_msg, gv))
   \<and> list_variables gv lvl = (if gv = [] then Inr ''No accessible variables found.'' else Inl StoreAttributeError)"
  by (cases gv)
     (auto simp: get_variable_def update_variable_def list_variables_def map_of_eq_None_iff
           split: option.splits)

end
