(* ===== verification/GroupStore.thy ===== *)
theory GroupStore
  imports Variables
begin

text \<open>
  The groups of \<^verbatim>\<open>src/Tutorials/tuto8 using python  interpretor /groups.py\<close>:
  a \<^verbatim>\<open>Group\<close> object is a record of its name, its member list and its
  dictionary of variables, and \<^verbatim>\<open>groups_db\<close> an association list of groups.
  A method that mutates a group is a function returning the new group,
  stored back under the group's name (a group object is referenced only
  from \<^verbatim>\<open>groups_db\<close>). \<^verbatim>\<open>add_member_to_group\<close> reads the account store of
  \<^verbatim>\<open>database.py\<close>, passed as an argument. A \<^verbatim>\<open>Group\<close> object is always true
  in \<^verbatim>\<open>if group:\<close>.
\<close>

record group =
  g_name :: string
  g_members :: "string list"
  g_variables :: "(string \<times> db_token) list"

type_synonym groups = "(string \<times> group) list"

definition new_group :: "string \<Rightarrow> group" where
  "new_group name = \<lparr>g_name = name, g_members = [], g_variables = []\<rparr>"

definition add_member :: "group \<Rightarrow> string \<Rightarrow> group" where
  "add_member g user_id =
     (if user_id \<notin> set (g_members g) then g\<lparr>g_members := g_members g @ [user_id]\<rparr> else g)"

text \<open>\<^verbatim>\<open>list.remove\<close> drops the first occurrence.\<close>

definition remove_member :: "group \<Rightarrow> string \<Rightarrow> group" where
  "remove_member g user_id =
     (if user_id \<in> set (g_members g) then g\<lparr>g_members := remove1 user_id (g_members g)\<rparr> else g)"

definition add_variable :: "group \<Rightarrow> string \<Rightarrow> pyval \<Rightarrow> int \<Rightarrow> int \<Rightarrow> store_exc + group" where
  "add_variable g name value read_level write_level =
     (case token_new name value read_level write_level [PyNum 0, PyNum 0] of
        Inl e \<Rightarrow> Inl e
      | Inr tok \<Rightarrow> Inr (g\<lparr>g_variables := AList.update name tok (g_variables g)\<rparr>))"

definition remove_variable :: "group \<Rightarrow> string \<Rightarrow> group" where
  "remove_variable g name =
     (if name \<in> fst ` set (g_variables g) then g\<lparr>g_variables := AList.delete name (g_variables g)\<rparr> else g)"

definition group_msg :: "string \<Rightarrow> string \<Rightarrow> string" where
  "group_msg group_name what = ''Group '' @ quoted group_name @ what"

definition create_group :: "groups \<Rightarrow> string \<Rightarrow> string \<times> groups" where
  "create_group gs name =
     (if name \<notin> fst ` set gs
      then (group_msg name '' created successfully.'', AList.update name (new_group name) gs)
      else (group_msg name '' already exists.'', gs))"

definition delete_group :: "groups \<Rightarrow> string \<Rightarrow> string \<times> groups" where
  "delete_group gs name =
     (if name \<in> fst ` set gs
      then (group_msg name '' deleted successfully.'', AList.delete name gs)
      else (group_msg name '' not found.'', gs))"

definition add_member_to_group :: "groups \<Rightarrow> accounts \<Rightarrow> string \<Rightarrow> string \<Rightarrow> string \<times> groups" where
  "add_member_to_group gs db group_name user_id =
     (case map_of gs group_name of
        Some g \<Rightarrow>
          if user_id \<in> fst ` set db
          then (''User '' @ quoted user_id @ '' added to group '' @ quoted group_name @ '' successfully.'',
                AList.update group_name (add_member g user_id) gs)
          else (''User '' @ quoted user_id @ '' not found.'', gs)
      | None \<Rightarrow> (group_msg group_name '' not found.'', gs))"

definition remove_member_from_group :: "groups \<Rightarrow> string \<Rightarrow> string \<Rightarrow> string \<times> groups" where
  "remove_member_from_group gs group_name user_id =
     (case map_of gs group_name of
        Some g \<Rightarrow> (''User '' @ quoted user_id @ '' removed from group '' @ quoted group_name @ '' successfully.'',
                   AList.update group_name (remove_member g user_id) gs)
      | None \<Rightarrow> (group_msg group_name '' not found.'', gs))"

definition create_group_variable ::
  "groups \<Rightarrow> string \<Rightarrow> string \<Rightarrow> pyval \<Rightarrow> int \<Rightarrow> int \<Rightarrow> store_exc + string \<times> groups" where
  "create_group_variable gs group_name name value read_level write_level =
     (case map_of gs group_name of
        Some g \<Rightarrow>
          (case add_variable g name value read_level write_level of
             Inl e \<Rightarrow> Inl e
           | Inr g' \<Rightarrow> Inr (''Variable '' @ quoted name @ '' created in group '' @ quoted group_name @ '' successfully.'',
                            AList.update group_name g' gs))
      | None \<Rightarrow> Inr (group_msg group_name '' not found.'', gs))"

definition delete_group_variable :: "groups \<Rightarrow> string \<Rightarrow> string \<Rightarrow> string \<times> groups" where
  "delete_group_variable gs group_name name =
     (case map_of gs group_name of
        Some g \<Rightarrow> (''Variable '' @ quoted name @ '' deleted from group '' @ quoted group_name @ '' successfully.'',
                   AList.update group_name (remove_variable g name) gs)
      | None \<Rightarrow> (group_msg group_name '' not found.'', gs))"

definition get_group_variable :: "groups \<Rightarrow> string \<Rightarrow> string \<Rightarrow> int \<Rightarrow> store_exc + pyval" where
  "get_group_variable gs group_name name lvl =
     (case map_of gs group_name of
        Some g \<Rightarrow>
          (case map_of (g_variables g) name of
             Some tok \<Rightarrow>
               (case level_check lvl tok ''read_level'' of
                  Inl e \<Rightarrow> Inl e
                | Inr ok \<Rightarrow> Inr (if ok then tk_value tok else PyStr var_denied_msg))
           | None \<Rightarrow> Inr (PyStr var_denied_msg))
      | None \<Rightarrow> Inr (PyStr var_denied_msg))"

definition update_group_variable :: "groups \<Rightarrow> string \<Rightarrow> string \<Rightarrow> pyval \<Rightarrow> int \<Rightarrow> store_exc + string \<times> groups" where
  "update_group_variable gs group_name name v lvl =
     (case map_of gs group_name of
        Some g \<Rightarrow>
          (case map_of (g_variables g) name of
             Some tok \<Rightarrow>
               (case level_check lvl tok ''write_level'' of
                  Inl e \<Rightarrow> Inl e
                | Inr ok \<Rightarrow>
                    if ok then Inr (''Variable '' @ quoted name @ '' in group '' @ quoted group_name @ '' updated successfully.'',
                                    AList.update group_name
                                      (g\<lparr>g_variables := AList.update name (tok\<lparr>tk_value := v\<rparr>) (g_variables g)\<rparr>) gs)
                    else Inr (var_denied_msg, gs))
           | None \<Rightarrow> Inr (var_denied_msg, gs))
      | None \<Rightarrow> Inr (var_denied_msg, gs))"

definition list_group_variables :: "groups \<Rightarrow> string \<Rightarrow> int \<Rightarrow> store_exc + string" where
  "list_group_variables gs group_name lvl =
     (case map_of gs group_name of
        Some g \<Rightarrow>
          (case accessible_vars lvl (g_variables g) of
             Inl e \<Rightarrow> Inl e
           | Inr [] \<Rightarrow> Inr (''No accessible variables found in group '' @ quoted group_name @ ''.'')
           | Inr names \<Rightarrow> Inr (group_msg group_name '' Variables:'' @ [newline_char] @ str_join [newline_char] names))
      | None \<Rightarrow> Inr (group_msg group_name '' not found.''))"

definition list_group_members :: "groups \<Rightarrow> string \<Rightarrow> string" where
  "list_group_members gs group_name =
     (case map_of gs group_name of
        Some g \<Rightarrow>
          if g_members g = [] then ''No members found in group '' @ quoted group_name @ ''.''
          else group_msg group_name '' Members:'' @ [newline_char] @ str_join [newline_char] (g_members g)
      | None \<Rightarrow> group_msg group_name '' not found.'')"

subsection \<open>The group invariant\<close>

text \<open>Group names are distinct keys, a group's member list has no
  duplicate (\<^verbatim>\<open>add_member\<close> checks before appending) and no group holds a
  variable (\<^verbatim>\<open>add_variable\<close> always raises).\<close>

definition group_ok :: "group \<Rightarrow> bool" where
  "group_ok g \<longleftrightarrow> g_variables g = [] \<and> distinct (g_members g)"

definition groups_inv :: "groups \<Rightarrow> bool" where
  "groups_inv gs \<longleftrightarrow> distinct (map fst gs) \<and> (\<forall>(n, g) \<in> set gs. group_ok g)"

lemma groups_inv_update: "groups_inv gs \<Longrightarrow> group_ok g \<Longrightarrow> groups_inv (AList.update n g gs)"
  using set_update_subset [of n g gs] by (auto simp: groups_inv_def distinct_update)

lemma groups_inv_delete: "groups_inv gs \<Longrightarrow> groups_inv (AList.delete n gs)"
  using set_delete_subset [of n gs] by (auto simp: groups_inv_def distinct_delete)

lemma groups_inv_lookup: "groups_inv gs \<Longrightarrow> map_of gs n = Some g \<Longrightarrow> group_ok g"
  by (auto simp: groups_inv_def dest: map_of_SomeD)

lemma groups_inv_modify:
  "groups_inv gs \<Longrightarrow> map_of gs n = Some g \<Longrightarrow> (group_ok g \<Longrightarrow> group_ok g') \<Longrightarrow>
   groups_inv (AList.update n g' gs)"
  by (simp add: groups_inv_lookup groups_inv_update)

lemma group_ok_ops:
  "group_ok (new_group n)"
  "group_ok g \<Longrightarrow> group_ok (add_member g u)"
  "group_ok g \<Longrightarrow> group_ok (remove_member g u)"
  "group_ok g \<Longrightarrow> remove_variable g n = g"
  by (auto simp: group_ok_def new_group_def add_member_def remove_member_def remove_variable_def)

lemma add_variable_raises: "add_variable g name value rl wl = Inl StoreTypeError"
  by (simp add: add_variable_def token_new_def)

lemma create_group_variable_state:
  "create_group_variable gs g n v rl wl = Inl StoreTypeError
   \<or> create_group_variable gs g n v rl wl = Inr (group_msg g '' not found.'', gs)"
  by (simp add: create_group_variable_def add_variable_raises split: option.splits)

lemma update_group_variable_state:
  "groups_inv gs \<Longrightarrow> update_group_variable gs g n v l = Inr (var_denied_msg, gs)"
  by (auto simp: update_group_variable_def group_ok_def dest: groups_inv_lookup split: option.splits)

lemma groups_inv_ops:
  assumes "groups_inv gs"
  shows "groups_inv (snd (create_group gs g))"
    and "groups_inv (snd (delete_group gs g))"
    and "groups_inv (snd (add_member_to_group gs db g u))"
    and "groups_inv (snd (remove_member_from_group gs g u))"
    and "snd (delete_group_variable gs g n) = gs"
  using assms
  by (auto simp: create_group_def delete_group_def add_member_to_group_def remove_member_from_group_def
        delete_group_variable_def groups_inv_update groups_inv_delete group_ok_ops update_triv
        intro: groups_inv_modify dest: groups_inv_lookup split: option.splits)

end
