(* ===== verification/Powers.thy ===== *)
theory Powers
  imports Database
begin

text \<open>
  The powers of \<^verbatim>\<open>src/Tutorials/tuto8 using python  interpretor /powers.py\<close>:
  stored pieces of Python code with a call level, some run periodically by
  a thread. The module state is \<^verbatim>\<open>powers_db\<close> and \<^verbatim>\<open>scheduled_powers\<close>, two
  dictionaries (association lists), and the scheduler threads: each
  \<^verbatim>\<open>threading.Thread\<close> a power starts gets a fresh number, \<open>alive\<close> lists the
  threads whose \<^verbatim>\<open>_schedule_loop\<close> still runs, and \<^verbatim>\<open>stop_event.set()\<close>
  followed by \<^verbatim>\<open>join()\<close> takes a thread out of it. \<^verbatim>\<open>scheduled_powers[name]\<close>
  is the object stored in \<^verbatim>\<open>powers_db[name]\<close>; the only state changed through
  it is the thread's, which lives in \<open>alive\<close>, so both dictionaries hold the
  same record. \<^verbatim>\<open>exec\<close> of a power's code is not modelled: \<^verbatim>\<open>call_power\<close>
  returns the code it hands to \<^verbatim>\<open>exec\<close>, and the code is assumed to leave
  this module's state alone.
\<close>

record power =
  p_name :: string
  p_code :: string
  p_call_level :: int
  p_interval :: int
  p_thread :: "nat option"

record powers_state =
  powers_db :: "(string \<times> power) list"
  scheduled_powers :: "(string \<times> power) list"
  alive :: "nat list"
  next_thread :: nat

definition init_powers :: powers_state where
  "init_powers = \<lparr>powers_db = [], scheduled_powers = [], alive = [], next_thread = 0\<rparr>"

definition Power :: "string \<Rightarrow> string \<Rightarrow> int \<Rightarrow> int \<Rightarrow> power" where
  "Power name code call_level interval =
     \<lparr>p_name = name, p_code = code, p_call_level = call_level, p_interval = interval, p_thread = None\<rparr>"

text \<open>\<^verbatim>\<open>Power.start_schedule\<close>: a new thread, started, when the interval is positive.\<close>

definition start_schedule :: "powers_state \<Rightarrow> power \<Rightarrow> power \<times> powers_state" where
  "start_schedule st p =
     (if 0 < p_interval p
      then (p\<lparr>p_thread := Some (next_thread st)\<rparr>,
            st\<lparr>alive := alive st @ [next_thread st], next_thread := Suc (next_thread st)\<rparr>)
      else (p, st))"

text \<open>\<^verbatim>\<open>Power.stop_schedule\<close>: \<^verbatim>\<open>if self.thread and self.thread.is_alive()\<close>,
  set the event and join, after which the thread has ended.\<close>

definition stop_schedule :: "powers_state \<Rightarrow> power \<Rightarrow> powers_state" where
  "stop_schedule st p =
     (case p_thread p of
        Some t \<Rightarrow> if t \<in> set (alive st) then st\<lparr>alive := removeAll t (alive st)\<rparr> else st
      | None \<Rightarrow> st)"

definition power_msg :: "string \<Rightarrow> string \<Rightarrow> string" where
  "power_msg name what = ''Power '' @ quoted name @ what"

definition create_power :: "powers_state \<Rightarrow> string \<Rightarrow> string \<Rightarrow> int \<Rightarrow> int \<Rightarrow> string \<times> powers_state" where
  "create_power st name code call_level interval =
     (if name \<notin> fst ` set (powers_db st)
      then (let p = Power name code call_level interval;
                st1 = st\<lparr>powers_db := AList.update name p (powers_db st)\<rparr>
            in (power_msg name '' created successfully.'',
                if 0 < interval
                then (let (p', st2) = start_schedule st1 p
                      in st2\<lparr>powers_db := AList.update name p' (powers_db st2),
                             scheduled_powers := AList.update name p' (scheduled_powers st2)\<rparr>)
                else st1))
      else (power_msg name '' already exists.'', st))"

definition delete_power :: "powers_state \<Rightarrow> string \<Rightarrow> string \<times> powers_state" where
  "delete_power st name =
     (case map_of (powers_db st) name of
        Some p \<Rightarrow>
          (let st1 = (if name \<in> fst ` set (scheduled_powers st)
                      then (stop_schedule st p)\<lparr>scheduled_powers := AList.delete name (scheduled_powers st)\<rparr>
                      else st)
           in (power_msg name '' deleted successfully.'', st1\<lparr>powers_db := AList.delete name (powers_db st1)\<rparr>))
      | None \<Rightarrow> (power_msg name '' not found.'', st))"

text \<open>\<^verbatim>\<open>call_power\<close>: the message and the code handed to \<^verbatim>\<open>exec\<close>, if any.\<close>

definition call_power :: "powers_state \<Rightarrow> string \<Rightarrow> int \<Rightarrow> string \<times> string option" where
  "call_power st name lvl =
     (case map_of (powers_db st) name of
        Some p \<Rightarrow> if lvl \<le> p_call_level p then (power_msg name '' executed successfully.'', Some (p_code p))
                  else (''Access denied or power not found.'', None)
      | None \<Rightarrow> (''Access denied or power not found.'', None))"

definition list_powers :: "powers_state \<Rightarrow> int \<Rightarrow> string" where
  "list_powers st lvl =
     (let names = map (\<lambda>(n, p). n @ '' (call level: '' @ int_str (p_call_level p) @ '')'')
                    (filter (\<lambda>(n, p). lvl \<le> p_call_level p) (powers_db st))
      in if names = [] then ''No accessible powers found.''
         else ''Powers:'' @ [newline_char] @ str_join [newline_char] names)"

definition stop_all_scheduled_powers :: "powers_state \<Rightarrow> string \<times> powers_state" where
  "stop_all_scheduled_powers st =
     (''All scheduled powers stopped successfully.'',
      (foldl (\<lambda>s (n, p). stop_schedule s p) st (scheduled_powers st))\<lparr>scheduled_powers := []\<rparr>)"

subsection \<open>The scheduler invariant\<close>

text \<open>Both dictionaries have distinct keys, every scheduled power is the one
  stored under its name, and every running scheduler thread is the thread of
  a scheduled power, so that \<^verbatim>\<open>delete_power\<close> and
  \<^verbatim>\<open>stop_all_scheduled_powers\<close> can reach it.\<close>

definition pw_inv :: "powers_state \<Rightarrow> bool" where
  "pw_inv st \<longleftrightarrow>
     distinct (map fst (powers_db st)) \<and> distinct (map fst (scheduled_powers st))
     \<and> (\<forall>(n, p) \<in> set (scheduled_powers st). map_of (powers_db st) n = Some p)
     \<and> (\<forall>t \<in> set (alive st). \<exists>(n, p) \<in> set (scheduled_powers st). p_thread p = Some t)"

lemma stop_schedule_fields [simp]:
  "powers_db (stop_schedule st p) = powers_db st"
  "scheduled_powers (stop_schedule st p) = scheduled_powers st"
  "next_thread (stop_schedule st p) = next_thread st"
  "alive (stop_schedule st p) = (case p_thread p of Some t \<Rightarrow> removeAll t (alive st) | None \<Rightarrow> alive st)"
  by (auto simp: stop_schedule_def split: option.splits)

lemma stop_all_fold:
  "powers_db (foldl (\<lambda>s (n, p). stop_schedule s p) st xs) = powers_db st
   \<and> scheduled_powers (foldl (\<lambda>s (n, p). stop_schedule s p) st xs) = scheduled_powers st
   \<and> set (alive (foldl (\<lambda>s (n, p). stop_schedule s p) st xs))
       = {t \<in> set (alive st). \<forall>(n, p) \<in> set xs. p_thread p \<noteq> Some t}"
  by (induction xs arbitrary: st) (auto split: option.splits)

lemma pw_inv_init: "pw_inv init_powers"
  by (simp add: pw_inv_def init_powers_def)

lemma pw_inv_stop_all: "pw_inv st \<Longrightarrow> pw_inv (snd (stop_all_scheduled_powers st))"
  using stop_all_fold [of st "scheduled_powers st"]
  by (fastforce simp: pw_inv_def stop_all_scheduled_powers_def)

lemma pw_inv_sched_dom:
  "pw_inv st \<Longrightarrow> fst ` set (scheduled_powers st) \<subseteq> fst ` set (powers_db st)"
  by (force simp: pw_inv_def)

lemma pw_inv_create: "pw_inv st \<Longrightarrow> pw_inv (snd (create_power st name code lvl iv))"
proof (cases "name \<in> fst ` set (powers_db st)")
  case True
  assume "pw_inv st"
  with True show ?thesis by (simp add: create_power_def)
next
  case False
  assume inv: "pw_inv st"
  with False pw_inv_sched_dom have sched: "name \<notin> fst ` set (scheduled_powers st)" by blast
  have nm: "\<And>n p. (n, p) \<in> set (scheduled_powers st) \<Longrightarrow> n \<noteq> name"
    using sched by force
  show ?thesis
    using inv False sched nm
    by (auto simp: create_power_def Let_def start_schedule_def Power_def pw_inv_def update_new_key update_snoc_new_key
             map_of_eq_None_iff)
qed

lemma pw_inv_delete: "pw_inv st \<Longrightarrow> pw_inv (snd (delete_power st name))"
proof (cases "map_of (powers_db st) name")
  case None
  assume "pw_inv st"
  with None show ?thesis by (simp add: delete_power_def)
next
  case (Some p)
  assume inv: "pw_inv st"
  then have dp: "distinct (map fst (powers_db st))"
    and dist: "distinct (map fst (scheduled_powers st))"
    and reg: "\<And>n q. (n, q) \<in> set (scheduled_powers st) \<Longrightarrow> map_of (powers_db st) n = Some q"
    and live: "\<And>t. t \<in> set (alive st) \<Longrightarrow> \<exists>(n, q) \<in> set (scheduled_powers st). p_thread q = Some t"
    by (auto simp: pw_inv_def)
  have own: "(name, q) \<in> set (scheduled_powers st) \<Longrightarrow> q = p" for q
    using reg [of name q] Some by simp
  have reg': "\<forall>(n, q) \<in> set (AList.delete name (scheduled_powers st)).
                 map_of (AList.delete name (powers_db st)) n = Some q"
  proof (clarify)
    fix n q
    assume "(n, q) \<in> set (AList.delete name (scheduled_powers st))"
    then have "(n, q) \<in> set (scheduled_powers st)" "n \<noteq> name" by (auto simp: AList.delete_eq)
    then show "map_of (AList.delete name (powers_db st)) n = Some q" by (simp add: reg)
  qed
  have dist': "distinct (map fst (AList.delete name (powers_db st)))"
    "distinct (map fst (AList.delete name (scheduled_powers st)))"
    using dp dist by (simp_all add: distinct_delete)
  show ?thesis
  proof (cases "name \<in> fst ` set (scheduled_powers st)")
    case True
    have "t \<in> set (alive (stop_schedule st p)) \<Longrightarrow>
            \<exists>(n, q) \<in> set (AList.delete name (scheduled_powers st)). p_thread q = Some t" for t
    proof -
      assume "t \<in> set (alive (stop_schedule st p))"
      then have ta: "t \<in> set (alive st)" and tp: "p_thread p \<noteq> Some t"
        by (auto split: option.splits)
      obtain n q where nq: "(n, q) \<in> set (scheduled_powers st)" "p_thread q = Some t"
        using live [OF ta] by auto
      with own tp have "n \<noteq> name" by auto
      with nq show ?thesis by (auto simp: AList.delete_eq)
    qed
    with reg' dist' Some True show ?thesis
      by (simp add: pw_inv_def delete_power_def)
  next
    case False
    then have "AList.delete name (scheduled_powers st) = scheduled_powers st" by simp
    with reg' dist' live Some False show ?thesis
      by (simp add: pw_inv_def delete_power_def)
  qed
qed

end
