(* ===== verification/Tuto8.thy ===== *)
theory Tuto8
  imports GroupStore Powers
begin

text \<open>
  The modules of \<^verbatim>\<open>src/Tutorials/tuto8 using python  interpretor /\<close> share
  one process: their module-level dictionaries are the fields of \<open>sys\<close>,
  and every public function of \<^verbatim>\<open>database.py\<close>, \<^verbatim>\<open>variables.py\<close>,
  \<^verbatim>\<open>groups.py\<close> and \<^verbatim>\<open>powers.py\<close> is an operation of \<open>sys_op\<close>. One call is
  one \<open>sys_step\<close>: its reply is the returned value (messages are strings) or
  the exception it raises, in which case the state is the one at the raise
  (no function of these modules mutates before it raises). \<open>reachable\<close> is
  the set of states a sequence of calls reaches from the module
  initialisation (\<^verbatim>\<open>user1\<close> and \<^verbatim>\<open>user2\<close> in the account store, all other
  dictionaries empty).
\<close>

record sys =
  accounts_db :: accounts
  groups_db :: groups
  global_variables :: variables
  pw :: powers_state

definition init_sys :: sys where
  "init_sys = \<lparr>accounts_db = init_accounts, groups_db = [], global_variables = [], pw = init_powers\<rparr>"

datatype sys_op =
    GetToken string string int | SelfGetToken string string int
  | UpdateToken string string pyval int | SelfUpdateToken string string pyval int
  | CreateToken string string pyval int int | DeleteToken string string
  | CreateAccount account | DeleteAccount string | PrintAccount string
  | CreateVariable string pyval int int | DeleteVariable string | GetVariable string int
  | UpdateVariable string pyval int | ListVariables int
  | CreateGroup string | DeleteGroup string | AddMemberToGroup string string
  | RemoveMemberFromGroup string string | CreateGroupVariable string string pyval int int
  | DeleteGroupVariable string string | GetGroupVariable string string int
  | UpdateGroupVariable string string pyval int | ListGroupVariables string int
  | ListGroupMembers string
  | CreatePower string string int int | DeletePower string | CallPower string int
  | ListPowers int | StopAllScheduledPowers

type_synonym sys_reply = "store_exc + pyval"

definition with_msg :: "string \<times> 'a \<Rightarrow> ('a \<Rightarrow> sys) \<Rightarrow> sys_reply \<times> sys" where
  "with_msg r upd = (Inr (PyStr (fst r)), upd (snd r))"

definition with_exc :: "store_exc + string \<times> 'a \<Rightarrow> ('a \<Rightarrow> sys) \<Rightarrow> sys \<Rightarrow> sys_reply \<times> sys" where
  "with_exc r upd s = (case r of Inl e \<Rightarrow> (Inl e, s) | Inr r' \<Rightarrow> with_msg r' upd)"

definition str_reply :: "store_exc + string \<Rightarrow> sys_reply" where
  "str_reply r = (case r of Inl e \<Rightarrow> Inl e | Inr m \<Rightarrow> Inr (PyStr m))"

fun sys_step :: "sys \<Rightarrow> sys_op \<Rightarrow> sys_reply \<times> sys" where
  "sys_step s (GetToken u t l) = (Inr (get_token (accounts_db s) u t l), s)"
| "sys_step s (SelfGetToken u t l) = (Inr (self_get_token (accounts_db s) u t l), s)"
| "sys_step s (UpdateToken u t v l) = with_msg (update_token (accounts_db s) u t v l) (\<lambda>db. s\<lparr>accounts_db := db\<rparr>)"
| "sys_step s (SelfUpdateToken u t v l) = with_msg (self_update_token (accounts_db s) u t v l) (\<lambda>db. s\<lparr>accounts_db := db\<rparr>)"
| "sys_step s (CreateToken u t v l sl) = with_msg (create_token (accounts_db s) u t v l sl) (\<lambda>db. s\<lparr>accounts_db := db\<rparr>)"
| "sys_step s (DeleteToken u t) = with_msg (delete_token (accounts_db s) u t) (\<lambda>db. s\<lparr>accounts_db := db\<rparr>)"
| "sys_step s (CreateAccount d) = with_msg (create_account (accounts_db s) d) (\<lambda>db. s\<lparr>accounts_db := db\<rparr>)"
| "sys_step s (DeleteAccount u) = with_msg (delete_account (accounts_db s) u) (\<lambda>db. s\<lparr>accounts_db := db\<rparr>)"
| "sys_step s (PrintAccount u) = (Inr (PyStr (print_account (accounts_db s) u)), s)"
| "sys_step s (CreateVariable n v rl wl) =
     with_exc (create_variable (global_variables s) n v rl wl) (\<lambda>gv. s\<lparr>global_variables := gv\<rparr>) s"
| "sys_step s (DeleteVariable n) = with_msg (delete_variable (global_variables s) n) (\<lambda>gv. s\<lparr>global_variables := gv\<rparr>)"
| "sys_step s (GetVariable n l) = (get_variable (global_variables s) n l, s)"
| "sys_step s (UpdateVariable n v l) =
     with_exc (update_variable (global_variables s) n v l) (\<lambda>gv. s\<lparr>global_variables := gv\<rparr>) s"
| "sys_step s (ListVariables l) = (str_reply (list_variables (global_variables s) l), s)"
| "sys_step s (CreateGroup g) = with_msg (create_group (groups_db s) g) (\<lambda>gs. s\<lparr>groups_db := gs\<rparr>)"
| "sys_step s (DeleteGroup g) = with_msg (delete_group (groups_db s) g) (\<lambda>gs. s\<lparr>groups_db := gs\<rparr>)"
| "sys_step s (AddMemberToGroup g u) =
     with_msg (add_member_to_group (groups_db s) (accounts_db s) g u) (\<lambda>gs. s\<lparr>groups_db := gs\<rparr>)"
| "sys_step s (RemoveMemberFromGroup g u) =
     with_msg (remove_member_from_group (groups_db s) g u) (\<lambda>gs. s\<lparr>groups_db := gs\<rparr>)"
| "sys_step s (CreateGroupVariable g n v rl wl) =
     with_exc (create_group_variable (groups_db s) g n v rl wl) (\<lambda>gs. s\<lparr>groups_db := gs\<rparr>) s"
| "sys_step s (DeleteGroupVariable g n) =
     with_msg (delete_group_variable (groups_db s) g n) (\<lambda>gs. s\<lparr>groups_db := gs\<rparr>)"
| "sys_step s (GetGroupVariable g n l) = (get_group_variable (groups_db s) g n l, s)"
| "sys_step s (UpdateGroupVariable g n v l) =
     with_exc (update_group_variable (groups_db s) g n v l) (\<lambda>gs. s\<lparr>groups_db := gs\<rparr>) s"
| "sys_step s (ListGroupVariables g l) = (str_reply (list_group_variables (groups_db s) g l), s)"
| "sys_step s (ListGroupMembers g) = (Inr (PyStr (list_group_members (groups_db s) g)), s)"
| "sys_step s (CreatePower n c l iv) = with_msg (create_power (pw s) n c l iv) (\<lambda>p. s\<lparr>pw := p\<rparr>)"
| "sys_step s (DeletePower n) = with_msg (delete_power (pw s) n) (\<lambda>p. s\<lparr>pw := p\<rparr>)"
| "sys_step s (CallPower n l) = (Inr (PyStr (fst (call_power (pw s) n l))), s)"
| "sys_step s (ListPowers l) = (Inr (PyStr (list_powers (pw s) l)), s)"
| "sys_step s StopAllScheduledPowers = with_msg (stop_all_scheduled_powers (pw s)) (\<lambda>p. s\<lparr>pw := p\<rparr>)"

inductive reachable :: "sys \<Rightarrow> bool" where
  init: "reachable init_sys"
| step: "reachable s \<Longrightarrow> reachable (snd (sys_step s op))"

fun run_calls :: "sys \<Rightarrow> sys_op list \<Rightarrow> sys" where
  "run_calls s [] = s"
| "run_calls s (op # ops) = run_calls (snd (sys_step s op)) ops"

lemma reachable_run_calls: "reachable s \<Longrightarrow> reachable (run_calls s ops)"
  by (induction ops arbitrary: s) (auto intro: reachable.step)

subsection \<open>The example scripts\<close>

text \<open>The \<^verbatim>\<open>use_exemple\<close> functions of \<^verbatim>\<open>variables.py\<close>,
  \<^verbatim>\<open>groups.py\<close> and \<^verbatim>\<open>powers.py\<close> print the reply of each call of a
  fixed sequence (\<^verbatim>\<open>print(f(...))\<close>); an exception ends the function and
  escapes from it. What the code of a power prints when it runs is not
  modelled (\<^verbatim>\<open>exec\<close>).\<close>

fun print_calls :: "sys \<Rightarrow> sys_op list \<Rightarrow> (store_exc option \<times> string) \<times> sys" where
  "print_calls s [] = ((None, []), s)"
| "print_calls s (op # ops) =
     (case sys_step s op of
        (Inl e, s') \<Rightarrow> ((Some e, []), s')
      | (Inr v, s') \<Rightarrow>
          (case print_calls s' ops of ((e, out), s'') \<Rightarrow> ((e, pyval_str v @ [newline_char] @ out), s'')))"

definition variables_use_exemple :: "sys_op list" where
  "variables_use_exemple =
     [CreateVariable ''max_users'' (PyNum 100) 1 0, GetVariable ''max_users'' 1,
      UpdateVariable ''max_users'' (PyNum 150) 0, ListVariables 1, DeleteVariable ''max_users'']"

definition groups_use_exemple :: "sys_op list" where
  "groups_use_exemple =
     [CreateGroup ''admins'', AddMemberToGroup ''admins'' ''user1'', AddMemberToGroup ''admins'' ''user2'',
      CreateGroupVariable ''admins'' ''max_members'' (PyNum 10) 1 0, GetGroupVariable ''admins'' ''max_members'' 1,
      UpdateGroupVariable ''admins'' ''max_members'' (PyNum 15) 0, ListGroupVariables ''admins'' 1,
      ListGroupMembers ''admins'', DeleteGroupVariable ''admins'' ''max_members'', DeleteGroup ''admins'']"

text \<open>The two power codes of the example, triple-quoted strings that begin
  with a newline and an indented line.\<close>

definition power_code_demo :: string where
  "power_code_demo = [newline_char] @ ''    print('' @ [CHR 0x22] @ ''Hello, this is a test power!'' @ [CHR 0x22]
                     @ '')'' @ [newline_char] @ ''    ''"

definition scheduled_power_code_demo :: string where
  "scheduled_power_code_demo = [newline_char] @ ''    print('' @ [CHR 0x22] @ ''This scheduled power is running!''
                               @ [CHR 0x22] @ '')'' @ [newline_char] @ ''    ''"

definition powers_use_exemple :: "sys_op list" where
  "powers_use_exemple =
     [CreatePower ''test_power'' power_code_demo 1 0, CallPower ''test_power'' 1,
      CreatePower ''scheduled_power'' scheduled_power_code_demo 0 5, ListPowers 1,
      DeletePower ''test_power'', StopAllScheduledPowers]"

subsection \<open>The invariant of the module state\<close>

definition sys_inv :: "sys \<Rightarrow> bool" where
  "sys_inv s \<longleftrightarrow> distinct (map fst (accounts_db s)) \<and> global_variables s = []
                 \<and> groups_inv (groups_db s) \<and> pw_inv (pw s)"

lemma sys_inv_init: "sys_inv init_sys"
  by (simp add: sys_inv_def init_sys_def init_accounts_def groups_inv_def pw_inv_init)

lemma sys_inv_step: "sys_inv s \<Longrightarrow> sys_inv (snd (sys_step s op))"
proof (cases op)
  case (CreateGroupVariable g n v rl wl)
  assume "sys_inv s"
  with CreateGroupVariable show ?thesis
    using create_group_variable_state [of "groups_db s" g n v rl wl]
    by (auto simp: with_exc_def with_msg_def)
next
  case (UpdateGroupVariable g n v l)
  assume "sys_inv s"
  with UpdateGroupVariable show ?thesis
    by (simp add: with_exc_def with_msg_def sys_inv_def update_group_variable_state)
qed (auto simp: sys_inv_def with_msg_def with_exc_def accounts_distinct_ops groups_inv_ops
       pw_inv_create pw_inv_delete pw_inv_stop_all create_variable_def token_new_def
       delete_variable_def update_variable_def)

lemma reachable_sys_inv: "reachable s \<Longrightarrow> sys_inv s"
  by (induction rule: reachable.induct) (auto intro: sys_inv_init sys_inv_step)

subsection \<open>Properties of every reachable state\<close>

lemma sys_inv_pw: "sys_inv s \<Longrightarrow> pw_inv (pw s)"
  by (simp add: sys_inv_def)

text \<open>C12: No call raises \<^verbatim>\<open>AttributeError\<close> in a reachable state: the
  readers of \<^verbatim>\<open>variables.py\<close> and \<^verbatim>\<open>groups.py\<close> would fail on the missing
  \<^verbatim>\<open>read_level\<close>/\<^verbatim>\<open>write_level\<close> of a stored variable, but the
  \<^verbatim>\<open>TypeError\<close> of every creation keeps the variable dictionaries empty.\<close>

theorem reachable_no_attribute_error:
  assumes "reachable s"
  shows "fst (sys_step s op) \<noteq> Inl StoreAttributeError"
proof -
  from assms have inv: "sys_inv s" by (rule reachable_sys_inv)
  then have gv: "global_variables s = []" and gi: "groups_inv (groups_db s)"
    by (simp_all add: sys_inv_def)
  have nv: "map_of (groups_db s) g = Some grp \<Longrightarrow> g_variables grp = []" for g grp
    using groups_inv_lookup [OF gi] by (simp add: group_ok_def)
  show ?thesis
    by (cases op)
       (auto simp: gv nv with_msg_def with_exc_def str_reply_def create_variable_def token_new_def
          get_variable_def update_variable_def list_variables_def get_group_variable_def
          update_group_variable_def list_group_variables_def create_group_variable_def add_variable_raises
          split: option.splits sum.splits)
qed

theorem reachable_no_attribute_error_witness:
  "fst (sys_step init_sys (GetVariable ''max_users'' 1)) \<noteq> Inl StoreAttributeError"
  by (rule reachable_no_attribute_error [OF reachable.init])

text \<open>C10: Every scheduler thread still running in a reachable state is the
  thread of a power that is both in \<^verbatim>\<open>scheduled_powers\<close> and in
  \<^verbatim>\<open>powers_db\<close> under the same name: deleting a power never leaves its
  thread running unreachable.\<close>

theorem reachable_no_orphan_thread:
  assumes "reachable s" "t \<in> set (alive (pw s))"
  shows "\<exists>n p. (n, p) \<in> set (scheduled_powers (pw s)) \<and> map_of (powers_db (pw s)) n = Some p
               \<and> p_thread p = Some t"
  using sys_inv_pw [OF reachable_sys_inv [OF assms(1)]] assms(2)
  by (fastforce simp: pw_inv_def)

theorem reachable_no_orphan_thread_witness:
  "\<exists>n p. (n, p) \<in> set (scheduled_powers (pw (snd (sys_step init_sys (CreatePower ''tick'' ''pass'' 0 5)))))
     \<and> map_of (powers_db (pw (snd (sys_step init_sys (CreatePower ''tick'' ''pass'' 0 5))))) n = Some p
     \<and> p_thread p = Some 0"
  by (rule reachable_no_orphan_thread [OF reachable.step [OF reachable.init]])
     (simp add: init_sys_def init_powers_def create_power_def start_schedule_def Power_def with_msg_def)

text \<open>C38: In a reachable state \<^verbatim>\<open>stop_all_scheduled_powers\<close> leaves no
  scheduler thread running.\<close>

theorem reachable_stop_all_stops:
  assumes "reachable s"
  shows "alive (pw (snd (sys_step s StopAllScheduledPowers))) = []"
proof -
  have inv: "pw_inv (pw s)" using sys_inv_pw [OF reachable_sys_inv [OF assms]] .
  have "t \<notin> set (alive (pw (snd (sys_step s StopAllScheduledPowers))))" for t
    using inv stop_all_fold [of "pw s" "scheduled_powers (pw s)"]
    by (force simp: pw_inv_def stop_all_scheduled_powers_def with_msg_def)
  then show ?thesis by (meson last_in_set)
qed

theorem reachable_stop_all_stops_witness:
  "alive (pw (snd (sys_step (snd (sys_step init_sys (CreatePower ''tick'' ''pass'' 0 5))) StopAllScheduledPowers))) = []"
  by (rule reachable_stop_all_stops [OF reachable.step [OF reachable.init]])

text \<open>A group member list never holds a user twice, in any reachable state.\<close>

theorem reachable_members_distinct:
  assumes "reachable s" "map_of (groups_db s) g = Some grp"
  shows "distinct (g_members grp)"
  using groups_inv_lookup [OF _ assms(2)] reachable_sys_inv [OF assms(1)]
  by (simp add: sys_inv_def group_ok_def)

theorem reachable_members_distinct_witness:
  "map_of (groups_db (run_calls init_sys
      [CreateGroup ''admins'', AddMemberToGroup ''admins'' ''user1'', AddMemberToGroup ''admins'' ''user1'']))
      ''admins'' = Some \<lparr>g_name = ''admins'', g_members = [''user1''], g_variables = []\<rparr>
   \<and> distinct [''user1'']"
proof -
  have h: "map_of (groups_db (run_calls init_sys
      [CreateGroup ''admins'', AddMemberToGroup ''admins'' ''user1'', AddMemberToGroup ''admins'' ''user1'']))
      ''admins'' = Some \<lparr>g_name = ''admins'', g_members = [''user1''], g_variables = []\<rparr>"
    by code_simp
  from reachable_members_distinct [OF reachable_run_calls [OF reachable.init] h] h show ?thesis by simp
qed



subsection \<open>The example scripts run\<close>

text \<open>The example of \<^verbatim>\<open>variables.py\<close> raises \<^verbatim>\<open>TypeError\<close> at its
  first call and prints nothing.\<close>

lemma variables_use_exemple_crashes:
  "print_calls init_sys variables_use_exemple = ((Some StoreTypeError, []), init_sys)"
  by code_simp

text \<open>The example of \<^verbatim>\<open>groups.py\<close> prints three replies (the group and its
  two members), then raises \<^verbatim>\<open>TypeError\<close> at \<^verbatim>\<open>create_group_variable\<close>;
  the group it meant to delete at the end stays.\<close>

lemma groups_use_exemple_crashes:
  "fst (fst (print_calls init_sys groups_use_exemple)) = Some StoreTypeError"
  "length (filter (\<lambda>c. c = newline_char) (snd (fst (print_calls init_sys groups_use_exemple)))) = 3"
  "groups_db (snd (print_calls init_sys groups_use_exemple))
     = [(''admins'', \<lparr>g_name = ''admins'', g_members = [''user1'', ''user2''], g_variables = []\<rparr>)]"
  by code_simp+

text \<open>The example of \<^verbatim>\<open>powers.py\<close> runs to its end: six replies (seven
  lines, the list of powers takes two), no
  thread left running and nothing scheduled, while \<^verbatim>\<open>scheduled_power\<close>
  stays in \<^verbatim>\<open>powers_db\<close>.\<close>

lemma powers_use_exemple_ends:
  "fst (fst (print_calls init_sys powers_use_exemple)) = None"
  "length (filter (\<lambda>c. c = newline_char) (snd (fst (print_calls init_sys powers_use_exemple)))) = 7"
  "alive (pw (snd (print_calls init_sys powers_use_exemple))) = []"
  "scheduled_powers (pw (snd (print_calls init_sys powers_use_exemple))) = []"
  "map fst (powers_db (pw (snd (print_calls init_sys powers_use_exemple)))) = [''scheduled_power'']"
  by code_simp+

end
