(* ===== verification/Tuto4.thy ===== *)
theory Tuto4
  imports Run
begin

text \<open>
  The calculator of \<^verbatim>\<open>src/Tutorials/Tuto4/law.py\<close>, an earlier version of the
  interpreter of \<^verbatim>\<open>Tuto6\<close>: numbers, \<open>+ - * /\<close>, unary signs and
  parentheses. Its classes \<^verbatim>\<open>Position\<close>, \<^verbatim>\<open>Token\<close>, the errors, the methods
  \<^verbatim>\<open>Lexer.__init__\<close>, \<^verbatim>\<open>advance\<close> and \<^verbatim>\<open>make_number\<close>, the node classes
  \<^verbatim>\<open>NumberNode\<close>, \<^verbatim>\<open>BinOpNode\<close> and \<^verbatim>\<open>UnaryOpNode\<close>, the value fields
  and setters of \<^verbatim>\<open>Number\<close>, and \<^verbatim>\<open>Context\<close> are the same code as in
  \<^verbatim>\<open>Tuto6\<close>, and the model uses the definitions of those. This theory holds
  what differs: the \<^verbatim>\<open>make_tokens\<close> loop, the parser, the arithmetic
  methods of \<^verbatim>\<open>Number\<close>, the interpreter and \<^verbatim>\<open>run\<close>.
\<close>

subsection \<open>Lexer\<close>

definition make_tokens_step4 :: "lexer \<Rightarrow> lex_step" where
  "make_tokens_step4 l =
     (case current_char l of
        None \<Rightarrow> LEnd (mk_token TT_EOF NoVal (lx_pos l) None)
      | Some c \<Rightarrow>
         if c \<in> set ('' '' @ [tab_char]) then LSkip (lexer_advance l)
         else if c \<in> set digit_chars then (let (tok, l') = make_number l in LEmit tok l')
         else if c = CHR ''+'' then LEmit (single_tok TT_PLUS l) (lexer_advance l)
         else if c = CHR ''-'' then LEmit (single_tok TT_MINUS l) (lexer_advance l)
         else if c = CHR ''*'' then LEmit (single_tok TT_MUL l) (lexer_advance l)
         else if c = CHR ''/'' then LEmit (single_tok TT_DIV l) (lexer_advance l)
         else if c = CHR ''('' then LEmit (single_tok TT_LPAREN l) (lexer_advance l)
         else if c = CHR '')'' then LEmit (single_tok TT_RPAREN l) (lexer_advance l)
         else LFail (IllegalCharError (lx_pos l) LexerPos (quoted [c])) (lexer_advance l))"

lemma make_tokens_step4_shorter:
  "make_tokens_step4 l = LSkip l' \<Longrightarrow> length (lx_rest l') < length (lx_rest l)"
  "make_tokens_step4 l = LEmit t l' \<Longrightarrow> length (lx_rest l') < length (lx_rest l)"
  by (auto simp: make_tokens_step4_def Let_def split: option.splits if_splits prod.splits
      dest: current_char_Some_ne make_number_shorter)

function make_tokens_loop4 :: "token list \<Rightarrow> lexer \<Rightarrow> (token list \<times> error option) \<times> lexer" where
  "make_tokens_loop4 tokens l =
     (case make_tokens_step4 l of
        LEnd eof \<Rightarrow> ((tokens @ [eof], None), l)
      | LSkip l' \<Rightarrow> make_tokens_loop4 tokens l'
      | LEmit tok l' \<Rightarrow> make_tokens_loop4 (tokens @ [tok]) l'
      | LFail err l' \<Rightarrow> (([], Some err), l'))"
  by pat_completeness auto
termination
  by (relation "measure (\<lambda>(_, l). length (lx_rest l))") (auto dest: make_tokens_step4_shorter)

declare make_tokens_loop4.simps [simp del]

definition lex4 :: "string \<Rightarrow> string \<Rightarrow> token list \<times> error option \<times> position" where
  "lex4 fn text = (let ((toks, err), l) = make_tokens_loop4 [] (Lexer fn text) in (toks, err, lx_pos l))"

subsection \<open>Parser\<close>

text \<open>\<^verbatim>\<open>Parser.factor\<close>, \<^verbatim>\<open>term\<close>, \<^verbatim>\<open>expr\<close> and \<^verbatim>\<open>bin_op\<close>. A
  \<^verbatim>\<open>ParseResult\<close> of this version has an error or a node, so a result is
  \<open>error + node\<close>, with the tokens left; each call spends one unit of fuel.\<close>

datatype rule4 = R4_factor | R4_term | R4_expr

type_synonym presult4 = "((error + node) \<times> toks) option"

fun p4 :: "nat \<Rightarrow> rule4 \<Rightarrow> toks \<Rightarrow> presult4"
  and bin_op4 :: "nat \<Rightarrow> rule4 \<Rightarrow> tok_type list \<Rightarrow> toks \<Rightarrow> presult4"
  and bin_loop4 :: "nat \<Rightarrow> rule4 \<Rightarrow> tok_type list \<Rightarrow> node \<Rightarrow> toks \<Rightarrow> presult4" where
  "p4 0 _ _ = None"
| "p4 (Suc n) R4_factor ts =
     (let tok = hd ts in
      if ttype tok \<in> {TT_PLUS, TT_MINUS} then
        (case p4 n R4_factor (parser_advance ts) of
           None \<Rightarrow> None
         | Some (Inl e, ts') \<Rightarrow> Some (Inl e, ts')
         | Some (Inr f, ts') \<Rightarrow> Some (Inr (UnaryOpNode tok f), ts'))
      else if ttype tok \<in> {TT_INT, TT_FLOAT} then Some (Inr (NumberNode tok), parser_advance ts)
      else if ttype tok = TT_LPAREN then
        (case p4 n R4_expr (parser_advance ts) of
           None \<Rightarrow> None
         | Some (Inl e, ts') \<Rightarrow> Some (Inl e, ts')
         | Some (Inr ex, ts') \<Rightarrow>
             if ttype (hd ts') = TT_RPAREN then Some (Inr ex, parser_advance ts')
             else Some (Inl (syntax_err ts' msg_rparen), ts'))
      else Some (Inl (syntax_err ts ''Expected int or float''), ts))"
| "p4 (Suc n) R4_term ts = bin_op4 n R4_factor [TT_MUL, TT_DIV] ts"
| "p4 (Suc n) R4_expr ts = bin_op4 n R4_term [TT_PLUS, TT_MINUS] ts"
| "bin_op4 0 _ _ _ = None"
| "bin_op4 (Suc n) func ops ts =
     (case p4 n func ts of
        None \<Rightarrow> None
      | Some (Inl e, ts') \<Rightarrow> Some (Inl e, ts')
      | Some (Inr left, ts') \<Rightarrow> bin_loop4 n func ops left ts')"
| "bin_loop4 0 _ _ _ _ = None"
| "bin_loop4 (Suc n) func ops left ts =
     (if ttype (hd ts) \<in> set ops then
        (case p4 n func (parser_advance ts) of
           None \<Rightarrow> None
         | Some (Inl e, ts') \<Rightarrow> Some (Inl e, ts')
         | Some (Inr right, ts') \<Rightarrow> bin_loop4 n func ops (BinOpNode left (hd ts) right) ts')
      else Some (Inr left, ts))"

definition msg_parse4 :: string where
  "msg_parse4 = ''Expected '' @ quoted ''+'' @ '', '' @ quoted ''-'' @ '', '' @ quoted ''*'' @ '' or ''
                @ quoted ''/'' @ '' ''"

text \<open>\<^verbatim>\<open>Parser(tokens).parse()\<close>.\<close>

definition parse4 :: "nat \<Rightarrow> toks \<Rightarrow> (error + node) option" where
  "parse4 n ts =
     (case p4 n R4_expr ts of
        None \<Rightarrow> None
      | Some (Inl e, ts') \<Rightarrow> Some (Inl e)
      | Some (Inr nd, ts') \<Rightarrow>
          if ttype (hd ts') \<noteq> TT_EOF then Some (Inl (syntax_err ts' msg_parse4))
          else Some (Inr nd))"

subsection \<open>Values\<close>

text \<open>The arithmetic methods of this version's \<^verbatim>\<open>Number\<close>: the operand is
  always a \<^verbatim>\<open>Number\<close> here (their \<^verbatim>\<open>isinstance\<close> test has no other
  branch, and the interpreter passes only numbers), and the result carries the
  left operand's context.\<close>

definition num_method4 :: "(num \<Rightarrow> num \<Rightarrow> num) \<Rightarrow> number \<Rightarrow> number \<Rightarrow> op_result" where
  "num_method4 f self other = Inr (Inr (set_context (ncontext self) (Number (f (nvalue self) (nvalue other)))))"

definition added_to4 :: "number \<Rightarrow> number \<Rightarrow> op_result" where
  "added_to4 = num_method4 num_add"

definition subbed_by4 :: "number \<Rightarrow> number \<Rightarrow> op_result" where
  "subbed_by4 = num_method4 num_sub"

definition multed_by4 :: "number \<Rightarrow> number \<Rightarrow> op_result" where
  "multed_by4 = num_method4 num_mul"

definition dived_by4 :: "number \<Rightarrow> number \<Rightarrow> op_result" where
  "dived_by4 self other =
     (if num_real (nvalue other) = 0
      then Inr (Inl (RTError (npos_start other) (npos_end other) ''Division by zero'' (ncontext self)))
      else Inr (Inr (set_context (ncontext self) (Number (num_truediv (nvalue self) (nvalue other))))))"

subsection \<open>Interpreter\<close>

text \<open>\<^verbatim>\<open>Interpreter.visit\<close> of this version: no symbol table, and a value
  is always a \<^verbatim>\<open>Number\<close>. An operator token other than the four leaves
  \<^verbatim>\<open>result, error\<close> unbound (\<^verbatim>\<open>UnboundLocalError\<close>); a node class without
  a \<^verbatim>\<open>visit_\<close> method raises (\<open>NoVisitMethod\<close>).\<close>

definition binop4 :: "token \<Rightarrow> number \<Rightarrow> number \<Rightarrow> op_result" where
  "binop4 op left right =
     (if ttype op = TT_PLUS then added_to4 left right
      else if ttype op = TT_MINUS then subbed_by4 left right
      else if ttype op = TT_MUL then multed_by4 left right
      else if ttype op = TT_DIV then dived_by4 left right
      else Inl UnboundLocalError)"

fun visit4 :: "node \<Rightarrow> rt_context \<Rightarrow> op_result" where
  "visit4 (NumberNode tok) ctx =
     (case tok_num (tvalue tok) of
        None \<Rightarrow> Inl TypeError
      | Some v \<Rightarrow> Inr (Inr (stamp_node (NumberNode tok) (set_context (Some ctx) (Number v)))))"
| "visit4 (BinOpNode l op r) ctx =
     (case visit4 l ctx of
        Inr (Inr left) \<Rightarrow>
          (case visit4 r ctx of
             Inr (Inr right) \<Rightarrow>
               (case binop4 op left right of
                  Inr (Inr v) \<Rightarrow> Inr (Inr (stamp_node (BinOpNode l op r) v))
                | res \<Rightarrow> res)
           | res \<Rightarrow> res)
      | res \<Rightarrow> res)"
| "visit4 (UnaryOpNode op e) ctx =
     (case visit4 e ctx of
        Inr (Inr number) \<Rightarrow>
          (case (if ttype op = TT_MINUS then multed_by4 number (Number (PyInt (-1))) else Inr (Inr number)) of
             Inr (Inr v) \<Rightarrow> Inr (Inr (stamp_node (UnaryOpNode op e) v))
           | res \<Rightarrow> res)
      | res \<Rightarrow> res)"
| "visit4 _ ctx = Inl NoVisitMethod"

text \<open>\<^verbatim>\<open>run(fn, text)\<close>: \<^verbatim>\<open>(value, error)\<close>, or an escaping exception.\<close>

definition run4 :: "nat \<Rightarrow> string \<Rightarrow> string \<Rightarrow> (pyexc + number option \<times> error option) option" where
  "run4 n fn text =
     (case lex4 fn text of
        (tokens, Some err, _) \<Rightarrow> Some (Inr (None, Some err))
      | (tokens, None, _) \<Rightarrow>
          (case parse4 n tokens of
             None \<Rightarrow> None
           | Some (Inl err) \<Rightarrow> Some (Inr (None, Some err))
           | Some (Inr nd) \<Rightarrow>
               (case visit4 nd program_context of
                  Inl exc \<Rightarrow> Some (Inl exc)
                | Inr (Inl err) \<Rightarrow> Some (Inr (None, Some err))
                | Inr (Inr v) \<Rightarrow> Some (Inr (Some v, None)))))"

subsection \<open>Tuto6 extends the calculator\<close>

text \<open>The characters the calculator's lexer accepts.\<close>

definition calc4_chars :: string where
  "calc4_chars = '' '' @ [tab_char] @ digit_chars @ ''.+-*/()''"

lemma calc4_char_cases:
  "c \<in> set calc4_chars \<Longrightarrow> c \<notin> set ascii_letters \<and> c \<notin> {CHR ''^'', CHR ''!'', CHR ''='', CHR ''<'', CHR ''>''}"
  by (auto simp: calc4_chars_def ascii_letters_def digit_chars_def tab_char_def)

lemma make_tokens_step4_eq:
  assumes "lexer_inv text l" "set text \<subseteq> set calc4_chars"
  shows "make_tokens_step4 l = make_tokens_step l"
proof (cases "current_char l")
  case None
  then show ?thesis by (simp add: make_tokens_step4_def make_tokens_step_def)
next
  case (Some c)
  have "c \<in> set (lx_rest l)" using Some by (auto simp: current_char_def split: list.splits)
  moreover have "set (lx_rest l) \<subseteq> set text"
    using assms(1) by (auto simp: lexer_inv_def dest: in_set_dropD)
  ultimately have "c \<in> set calc4_chars" using assms(2) by blast
  from calc4_char_cases [OF this] Some show ?thesis
    by (simp add: make_tokens_step4_def make_tokens_step_def)
qed

lemma make_tokens_loop4_eq:
  "lexer_inv text l \<Longrightarrow> set text \<subseteq> set calc4_chars \<Longrightarrow> make_tokens_loop4 ts l = make_tokens_loop ts l"
proof (induction ts l rule: make_tokens_loop4.induct)
  case (1 tokens l)
  note eq = make_tokens_step4_eq [OF "1.prems"]
  show ?case
  proof (cases "make_tokens_step l")
    case (LSkip l')
    with "1.IH"(1) "1.prems" eq make_tokens_step_inv(1) [OF "1.prems"(1)] show ?thesis
      by (simp add: make_tokens_loop4.simps [of tokens l] make_tokens_loop.simps [of tokens l])
  next
    case (LEmit t l')
    with "1.IH"(2) "1.prems" eq make_tokens_step_inv(2) [OF "1.prems"(1)] show ?thesis
      by (simp add: make_tokens_loop4.simps [of tokens l] make_tokens_loop.simps [of tokens l])
  qed (use eq in \<open>simp_all add: make_tokens_loop4.simps [of tokens l] make_tokens_loop.simps [of tokens l]\<close>)
qed

text \<open>C15: The lexer of \<^verbatim>\<open>Tuto6\<close> extends the calculator's: on every text
  written with blanks, digits, the dot, \<open>+ - * /\<close> and parentheses, the two
  lexers give the same tokens, the same error and the same final cursor.\<close>

theorem lex4_eq_lex:
  "set text \<subseteq> set calc4_chars \<Longrightarrow> lex4 fn text = lex fn text"
  using make_tokens_loop4_eq [OF lexer_rest_idx, where ts = "[]"]
  by (simp add: lex4_def lex_def make_tokens_def)

theorem lex4_eq_lex_witness:
  "set ''(1.5+2)*3 / 4'' \<subseteq> set calc4_chars \<and> lex4 ''f'' ''(1.5+2)*3 / 4'' = lex ''f'' ''(1.5+2)*3 / 4''"
proof -
  have c: "set ''(1.5+2)*3 / 4'' \<subseteq> set calc4_chars"
    by (simp add: calc4_chars_def digit_chars_def)
  from c lex4_eq_lex [OF c] show ?thesis by simp
qed

text \<open>The trees the calculator's parser builds.\<close>

fun calc4_node :: "node \<Rightarrow> bool" where
  "calc4_node (NumberNode tok) \<longleftrightarrow> True"
| "calc4_node (BinOpNode l op r) \<longleftrightarrow> ttype op \<in> {TT_PLUS, TT_MINUS, TT_MUL, TT_DIV} \<and> calc4_node l \<and> calc4_node r"
| "calc4_node (UnaryOpNode op e) \<longleftrightarrow> ttype op \<in> {TT_PLUS, TT_MINUS} \<and> calc4_node e"
| "calc4_node _ \<longleftrightarrow> False"

text \<open>A result of the calculator as a result of the \<^verbatim>\<open>Tuto6\<close> interpreter,
  whose values may be \<^verbatim>\<open>None\<close>.\<close>

definition lift4 :: "op_result \<Rightarrow> pyexc + rt_result" where
  "lift4 r = (case r of Inl e \<Rightarrow> Inl e | Inr (Inl err) \<Rightarrow> Inr (Inl err) | Inr (Inr v) \<Rightarrow> Inr (Inr (Some v)))"

text \<open>Tuto4's methods are Tuto6's on a \<^verbatim>\<open>Number\<close> operand.\<close>

lemma number4_methods:
  "added_to4 l r = added_to l (Some r)" "subbed_by4 l r = subbed_by l (Some r)"
  "multed_by4 l r = multed_by l (Some r)" "dived_by4 l r = dived_by l (Some r)"
  by (simp_all add: added_to4_def subbed_by4_def multed_by4_def dived_by4_def num_method4_def
                    added_to_def subbed_by_def multed_by_def dived_by_def num_method_def)

lemma binop4_apply: "ttype op \<in> {TT_PLUS, TT_MINUS, TT_MUL, TT_DIV} \<Longrightarrow> binop4 op l r = binop_apply op l (Some r)"
  by (auto simp: binop4_def binop_apply_def number4_methods)

lemma op_outcome_lift4:
  "op_outcome r (stamp_node nd) st =
     Some (lift4 (case r of Inr (Inr v) \<Rightarrow> Inr (Inr (stamp_node nd v)) | res \<Rightarrow> res), st)"
  by (auto simp: op_outcome_def lift4_def split: sum.splits)

text \<open>C13: The interpreter of \<^verbatim>\<open>Tuto6\<close> extends the calculator's: on every
  tree the calculator's parser can build, \<^verbatim>\<open>Tuto6\<close>'s \<^verbatim>\<open>visit\<close> with fuel at
  least the depth gives the calculator's result (the same value, error or
  exception, with the same span and context) and leaves the symbol table
  unchanged.\<close>

theorem visit_extends_visit4:
  "calc4_node nd \<Longrightarrow> node_depth nd \<le> n \<Longrightarrow> visit n nd ctx st = Some (lift4 (visit4 nd ctx), st)"
proof (induction nd arbitrary: n)
  case (NumberNode tok)
  then obtain n' where "n = Suc n'" by (cases n) auto
  then show ?case by (simp add: lift4_def split: option.splits)
next
  case (BinOpNode l op r)
  then obtain n' where n: "n = Suc n'" and dl: "node_depth l \<le> n'" and dr: "node_depth r \<le> n'"
    by (cases n) auto
  have ops: "ttype op \<in> {TT_PLUS, TT_MINUS, TT_MUL, TT_DIV}" using BinOpNode.prems by simp
  have L: "visit n' l ctx st = Some (lift4 (visit4 l ctx), st)"
    and R: "visit n' r ctx st = Some (lift4 (visit4 r ctx), st)"
    using BinOpNode.IH BinOpNode.prems dl dr by auto
  show ?case
    using L R unfolding n
    by (auto simp: lift4_def binop4_apply [OF ops] op_outcome_lift4 split: sum.splits)
next
  case (UnaryOpNode op e)
  then obtain n' where n: "n = Suc n'" and de: "node_depth e \<le> n'" by (cases n) auto
  have ops: "ttype op \<in> {TT_PLUS, TT_MINUS}" using UnaryOpNode.prems by simp
  have E: "visit n' e ctx st = Some (lift4 (visit4 e ctx), st)"
    using UnaryOpNode.IH UnaryOpNode.prems de by auto
  have nm: "\<not> matches op TT_KEYWORD ''NOT''" using ops by (auto simp: matches_def)
  show ?case
    using E ops nm unfolding n
    by (auto simp: lift4_def op_outcome_lift4 number4_methods split: sum.splits)
qed auto

theorem visit_extends_visit4_witness:
  "let p = \<lparr>pos_idx = 0, pos_ln = 0, pos_col = 0, pos_fn = ''f'', pos_ftxt = ''7-2''\<rparr>;
       nd = BinOpNode (NumberNode (mk_token TT_INT (IntVal 7) p None)) (mk_token TT_MINUS NoVal p None)
                      (NumberNode (mk_token TT_INT (IntVal 2) p None))
   in calc4_node nd \<and> node_depth nd \<le> 2 \<and>
      visit 2 nd program_context global_symbol_table = Some (lift4 (visit4 nd program_context), global_symbol_table)"
  unfolding Let_def
  by (intro conjI visit_extends_visit4) (simp_all add: mk_token_def)

subsection \<open>The calculator always answers\<close>

text \<open>A token list as the lexer makes it: not empty, ending with \<^verbatim>\<open>EOF\<close>.\<close>

definition eof_ended :: "toks \<Rightarrow> bool" where
  "eof_ended ts \<longleftrightarrow> ts \<noteq> [] \<and> ttype (last ts) = TT_EOF"

lemma eof_ended_advance:
  "eof_ended ts \<Longrightarrow> eof_ended (parser_advance ts) \<and> length (parser_advance ts) \<le> length ts"
  by (cases ts rule: remdups_adj.cases) (auto simp: eof_ended_def parser_advance_def)

lemma eof_ended_advance_shorter:
  "eof_ended ts \<Longrightarrow> ttype (hd ts) \<noteq> TT_EOF \<Longrightarrow> length (parser_advance ts) < length ts"
  by (cases ts rule: remdups_adj.cases) (auto simp: eof_ended_def parser_advance_def)

text \<open>The fuel a rule needs: six units per token, plus its level.\<close>

fun rank4 :: "rule4 \<Rightarrow> nat" where
  "rank4 R4_factor = 1"
| "rank4 R4_term = 3"
| "rank4 R4_expr = 5"

lemma rank4_pos [simp]: "rank4 r \<noteq> 0"
  by (cases r) auto

definition returns4 :: "toks \<Rightarrow> presult4 \<Rightarrow> bool" where
  "returns4 ts r \<longleftrightarrow> (\<exists>res ts'. r = Some (res, ts') \<and> eof_ended ts' \<and> length ts' \<le> length ts)"

lemma returns4_Some [simp]:
  "returns4 ts (Some (res, ts')) \<longleftrightarrow> eof_ended ts' \<and> length ts' \<le> length ts"
  by (simp add: returns4_def)

lemma p4_total:
  "eof_ended ts \<Longrightarrow> 6 * length ts + rank4 r \<le> n \<Longrightarrow> returns4 ts (p4 n r ts)"
  "eof_ended ts \<Longrightarrow> 6 * length ts + rank4 func + 1 \<le> n \<Longrightarrow> TT_EOF \<notin> set ops \<Longrightarrow>
     returns4 ts (bin_op4 n func ops ts)"
  "eof_ended ts \<Longrightarrow> 6 * length ts + rank4 func \<le> n \<Longrightarrow> TT_EOF \<notin> set ops \<Longrightarrow>
     returns4 ts (bin_loop4 n func ops left ts)"
proof (induction n r ts and n func ops ts and n func ops left ts rule: p4_bin_op4_bin_loop4.induct)
  case (2 n ts)
  let ?tok = "hd ts"
  have adv: "eof_ended (parser_advance ts)" "length (parser_advance ts) \<le> length ts"
    using eof_ended_advance [OF "2.prems"(1)] by auto
  show ?case
  proof (cases "ttype ?tok \<in> {TT_PLUS, TT_MINUS}")
    case True
    then have "length (parser_advance ts) < length ts"
      using eof_ended_advance_shorter [OF "2.prems"(1)] by auto
    with "2.prems" have "returns4 (parser_advance ts) (p4 n R4_factor (parser_advance ts))"
      using "2.IH"(1) True adv by simp
    with True \<open>length (parser_advance ts) < length ts\<close> show ?thesis
      by (auto simp: returns4_def Let_def split: sum.splits)
  next
    case np: False
    show ?thesis
    proof (cases "ttype ?tok \<in> {TT_INT, TT_FLOAT} \<or> ttype ?tok \<noteq> TT_LPAREN")
      case True
      with np adv "2.prems"(1) show ?thesis by (auto simp: Let_def)
    next
      case False
      then have lp: "ttype ?tok = TT_LPAREN" "ttype ?tok \<notin> {TT_INT, TT_FLOAT}" by auto
      then have sh: "length (parser_advance ts) < length ts"
        using eof_ended_advance_shorter [OF "2.prems"(1)] by auto
      with "2.prems" have "returns4 (parser_advance ts) (p4 n R4_expr (parser_advance ts))"
        using "2.IH"(2) np lp adv by simp
      then obtain res ts' where r: "p4 n R4_expr (parser_advance ts) = Some (res, ts')"
        "eof_ended ts'" "length ts' < length ts"
        using sh by (auto simp: returns4_def)
      then show ?thesis using np lp eof_ended_advance [OF r(2)]
        by (auto simp: Let_def split: sum.splits)
    qed
  qed
next
  case (3 n ts)
  then show ?case by simp
next
  case (4 n ts)
  then show ?case by simp
next
  case (6 n func ops ts)
  then have "returns4 ts (p4 n func ts)" by simp
  then obtain res ts' where r: "p4 n func ts = Some (res, ts')" "eof_ended ts'" "length ts' \<le> length ts"
    by (auto simp: returns4_def)
  show ?case
  proof (cases res)
    case (Inl e)
    with r show ?thesis by simp
  next
    case (Inr left)
    have "returns4 ts' (bin_loop4 n func ops left ts')"
      using "6.IH"(2) [OF r(1) refl Inr] r "6.prems" by simp
    with r Inr show ?thesis by (auto simp: returns4_def)
  qed
next
  case (8 n func ops left ts)
  show ?case
  proof (cases "ttype (hd ts) \<in> set ops")
    case True
    then have sh: "length (parser_advance ts) < length ts"
      using eof_ended_advance_shorter [OF "8.prems"(1)] "8.prems"(3) by metis
    have "returns4 (parser_advance ts) (p4 n func (parser_advance ts))"
      using "8.IH"(1) [OF True] "8.prems" eof_ended_advance [OF "8.prems"(1)] sh by simp
    then obtain res ts' where r: "p4 n func (parser_advance ts) = Some (res, ts')" "eof_ended ts'"
      "length ts' < length ts"
      using sh by (auto simp: returns4_def)
    show ?thesis
    proof (cases res)
      case (Inl e)
      with r True show ?thesis by simp
    next
      case (Inr right)
      have "returns4 ts' (bin_loop4 n func ops (BinOpNode left (hd ts) right) ts')"
        using "8.IH"(2) [OF True r(1) refl Inr] r "8.prems" by simp
      with r Inr True show ?thesis by (auto simp: returns4_def)
    qed
  next
    case False
    with "8.prems"(1) show ?thesis by simp
  qed
qed auto

lemma make_tokens_loop4_ok:
  "make_tokens_loop4 ts l = ((toks, None), l') \<Longrightarrow>
   eof_ended toks \<and> length toks \<le> length ts + length (lx_rest l) + 1"
proof (induction ts l arbitrary: toks rule: make_tokens_loop4.induct)
  case (1 tokens l)
  show ?case
  proof (cases "make_tokens_step4 l")
    case (LSkip l')
    with "1.IH"(1) [OF LSkip] "1.prems" make_tokens_step4_shorter(1) [OF LSkip] show ?thesis
      by (fastforce simp: make_tokens_loop4.simps [of tokens l])
  next
    case (LEmit t l')
    with "1.IH"(2) [OF LEmit] "1.prems" make_tokens_step4_shorter(2) [OF LEmit] show ?thesis
      by (fastforce simp: make_tokens_loop4.simps [of tokens l])
  next
    case (LFail e l')
    with "1.prems" show ?thesis by (simp add: make_tokens_loop4.simps [of tokens l])
  next
    case (LEnd t)
    then have "ttype t = TT_EOF"
      by (auto simp: make_tokens_step4_def mk_token_def split: option.splits if_splits prod.splits)
    with LEnd "1.prems" show ?thesis
      by (auto simp: make_tokens_loop4.simps [of tokens l] eof_ended_def)
  qed
qed

lemma lex4_ok:
  "lex4 fn text = (toks, None, p) \<Longrightarrow> eof_ended toks \<and> length toks \<le> length text + 1"
  using make_tokens_loop4_ok [of "[]" "Lexer fn text" toks]
  by (auto simp: lex4_def Lexer_def split: prod.splits)

text \<open>C14: The calculator always answers: for every text, \<^verbatim>\<open>run\<close> of
  \<^verbatim>\<open>Tuto4\<close> returns a value, an error or an exception with fuel six times the
  length of the text plus eleven; lexing, parsing and evaluation all
  terminate.\<close>

theorem run4_total: "\<exists>r. run4 (6 * length text + 11) fn text = Some r"
proof (cases "lex4 fn text")
  case (fields toks err p)
  show ?thesis
  proof (cases err)
    case None
    with fields have ok: "eof_ended toks" "length toks \<le> length text + 1" using lex4_ok by auto
    then have "returns4 toks (p4 (6 * length text + 11) R4_expr toks)"
      by (intro p4_total(1)) auto
    then obtain res ts' where "p4 (6 * length text + 11) R4_expr toks = Some (res, ts')"
      by (auto simp: returns4_def)
    with fields None show ?thesis
      by (auto simp: run4_def parse4_def split: sum.splits)
  next
    case (Some e)
    with fields show ?thesis by (simp add: run4_def)
  qed
qed

end
