(* ===== verification/Tuto3.thy ===== *)
theory Tuto3
  imports Tuto4
begin

text \<open>
  The calculator of \<^verbatim>\<open>src/Tutorials/Tuto3/law.py\<close>, the version before
  \<^verbatim>\<open>Tuto4\<close>: a lexer and a parser, no interpreter; \<^verbatim>\<open>run\<close> returns the
  tree and the error of \<^verbatim>\<open>Parser.parse\<close>. The classes \<^verbatim>\<open>Position\<close> and
  \<^verbatim>\<open>Token\<close>, \<^verbatim>\<open>Lexer.__init__\<close>, \<^verbatim>\<open>Lexer.advance\<close> and
  \<^verbatim>\<open>Parser.advance\<close> are the code of \<^verbatim>\<open>Tuto6\<close>, and their definitions are
  used. The lexer loop, \<^verbatim>\<open>make_number\<close>, the parser methods and \<^verbatim>\<open>run\<close>
  are defined here from this file. The lemmas show them equal to the
  definitions of \<^verbatim>\<open>Tuto4\<close> and \<^verbatim>\<open>Tuto6\<close>, so the lexer and the parser
  did not change between the versions.
\<close>

subsection \<open>Lexer\<close>

text \<open>The loop of \<^verbatim>\<open>make_number\<close>.\<close>

function number_loop3 :: "string \<Rightarrow> nat \<Rightarrow> lexer \<Rightarrow> string \<times> nat \<times> lexer" where
  "number_loop3 num_str dot_count l =
     (case current_char l of
        None \<Rightarrow> (num_str, dot_count, l)
      | Some c \<Rightarrow>
          if c \<notin> set (digit_chars @ ''.'') then (num_str, dot_count, l)
          else if c = CHR ''.'' then
            (if dot_count = 1 then (num_str, dot_count, l)
             else number_loop3 (num_str @ ''.'') (dot_count + 1) (lexer_advance l))
          else number_loop3 (num_str @ [c]) dot_count (lexer_advance l))"
  by pat_completeness auto
termination
  by (relation "measure (\<lambda>(_, _, l). length (lx_rest l))")
     (auto simp: lexer_advance_def current_char_def split: list.splits)

declare number_loop3.simps [simp del]

definition make_number3 :: "lexer \<Rightarrow> token \<times> lexer" where
  "make_number3 l =
     (let pos_start = lx_pos l;
          (num_str, dot_count, l') = number_loop3 [] 0 l
      in if dot_count = 0
         then (mk_token TT_INT (IntVal (py_int_of_str num_str)) pos_start (Some LexerPos), l')
         else (mk_token TT_FLOAT (FloatVal (py_float_of_str num_str)) pos_start (Some LexerPos), l'))"

text \<open>One iteration of the \<^verbatim>\<open>while\<close> loop of \<^verbatim>\<open>make_tokens\<close>.\<close>

definition make_tokens_step3 :: "lexer \<Rightarrow> lex_step" where
  "make_tokens_step3 l =
     (case current_char l of
        None \<Rightarrow> LEnd (mk_token TT_EOF NoVal (lx_pos l) None)
      | Some c \<Rightarrow>
         if c \<in> set ('' '' @ [tab_char]) then LSkip (lexer_advance l)
         else if c \<in> set digit_chars then (let (tok, l') = make_number3 l in LEmit tok l')
         else if c = CHR ''+'' then LEmit (single_tok TT_PLUS l) (lexer_advance l)
         else if c = CHR ''-'' then LEmit (single_tok TT_MINUS l) (lexer_advance l)
         else if c = CHR ''*'' then LEmit (single_tok TT_MUL l) (lexer_advance l)
         else if c = CHR ''/'' then LEmit (single_tok TT_DIV l) (lexer_advance l)
         else if c = CHR ''('' then LEmit (single_tok TT_LPAREN l) (lexer_advance l)
         else if c = CHR '')'' then LEmit (single_tok TT_RPAREN l) (lexer_advance l)
         else LFail (IllegalCharError (lx_pos l) LexerPos (quoted [c])) (lexer_advance l))"

lemma number_loop3_eq: "number_loop3 s d l = number_loop s d l"
proof (induction s d l rule: number_loop3.induct)
  case (1 num_str dot_count l)
  show ?case
    apply (subst number_loop3.simps, subst number_loop.simps)
    using 1 by (auto split: option.splits)
qed

lemma make_number3_eq: "make_number3 = make_number"
  by (simp add: fun_eq_iff make_number3_def make_number_def number_loop3_eq)

lemma make_tokens_step3_eq: "make_tokens_step3 = make_tokens_step4"
  unfolding fun_eq_iff make_tokens_step3_def make_tokens_step4_def make_number3_eq by simp

function make_tokens_loop3 :: "token list \<Rightarrow> lexer \<Rightarrow> (token list \<times> error option) \<times> lexer" where
  "make_tokens_loop3 tokens l =
     (case make_tokens_step3 l of
        LEnd eof \<Rightarrow> ((tokens @ [eof], None), l)
      | LSkip l' \<Rightarrow> make_tokens_loop3 tokens l'
      | LEmit tok l' \<Rightarrow> make_tokens_loop3 (tokens @ [tok]) l'
      | LFail err l' \<Rightarrow> (([], Some err), l'))"
  by pat_completeness auto
termination
  by (relation "measure (\<lambda>(_, l). length (lx_rest l))")
     (auto simp: make_tokens_step3_eq dest: make_tokens_step4_shorter)

declare make_tokens_loop3.simps [simp del]

text \<open>\<^verbatim>\<open>Lexer(fn, text).make_tokens()\<close> in \<^verbatim>\<open>run\<close>, with the cursor at the end.\<close>

definition lex3 :: "string \<Rightarrow> string \<Rightarrow> token list \<times> error option \<times> position" where
  "lex3 fn text = (let ((toks, err), l) = make_tokens_loop3 [] (Lexer fn text) in (toks, err, lx_pos l))"

subsection \<open>Parser\<close>

text \<open>\<^verbatim>\<open>Parser.factor\<close>, \<^verbatim>\<open>term\<close>, \<^verbatim>\<open>expr\<close> and \<^verbatim>\<open>bin_op\<close>, with the rule
  selector of \<open>Tuto4\<close> (which method \<^verbatim>\<open>bin_op\<close> is given as \<^verbatim>\<open>func\<close>).
  A method that fails never reaches \<^verbatim>\<open>res.success\<close>, so its
  \<^verbatim>\<open>ParseResult\<close> holds the error and no node: its result is
  \<open>error + node\<close>, with the tokens left. One unit of fuel per call.\<close>

fun p3 :: "nat \<Rightarrow> rule4 \<Rightarrow> toks \<Rightarrow> presult4"
  and bin_op3 :: "nat \<Rightarrow> rule4 \<Rightarrow> tok_type list \<Rightarrow> toks \<Rightarrow> presult4"
  and bin_loop3 :: "nat \<Rightarrow> rule4 \<Rightarrow> tok_type list \<Rightarrow> node \<Rightarrow> toks \<Rightarrow> presult4" where
  "p3 0 _ _ = None"
| "p3 (Suc n) R4_factor ts =
     (let tok = hd ts in
      if ttype tok \<in> {TT_PLUS, TT_MINUS} then
        (case p3 n R4_factor (parser_advance ts) of
           None \<Rightarrow> None
         | Some (Inl e, ts') \<Rightarrow> Some (Inl e, ts')
         | Some (Inr f, ts') \<Rightarrow> Some (Inr (UnaryOpNode tok f), ts'))
      else if ttype tok \<in> {TT_INT, TT_FLOAT} then Some (Inr (NumberNode tok), parser_advance ts)
      else if ttype tok = TT_LPAREN then
        (case p3 n R4_expr (parser_advance ts) of
           None \<Rightarrow> None
         | Some (Inl e, ts') \<Rightarrow> Some (Inl e, ts')
         | Some (Inr ex, ts') \<Rightarrow>
             if ttype (hd ts') = TT_RPAREN then Some (Inr ex, parser_advance ts')
             else Some (Inl (syntax_err ts' msg_rparen), ts'))
      else Some (Inl (syntax_err ts ''Expected int or float''), ts))"
| "p3 (Suc n) R4_term ts = bin_op3 n R4_factor [TT_MUL, TT_DIV] ts"
| "p3 (Suc n) R4_expr ts = bin_op3 n R4_term [TT_PLUS, TT_MINUS] ts"
| "bin_op3 0 _ _ _ = None"
| "bin_op3 (Suc n) func ops ts =
     (case p3 n func ts of
        None \<Rightarrow> None
      | Some (Inl e, ts') \<Rightarrow> Some (Inl e, ts')
      | Some (Inr left, ts') \<Rightarrow> bin_loop3 n func ops left ts')"
| "bin_loop3 0 _ _ _ _ = None"
| "bin_loop3 (Suc n) func ops left ts =
     (if ttype (hd ts) \<in> set ops then
        (case p3 n func (parser_advance ts) of
           None \<Rightarrow> None
         | Some (Inl e, ts') \<Rightarrow> Some (Inl e, ts')
         | Some (Inr right, ts') \<Rightarrow> bin_loop3 n func ops (BinOpNode left (hd ts) right) ts')
      else Some (Inr left, ts))"

definition msg_parse3 :: string where
  "msg_parse3 = ''Expected '' @ quoted ''+'' @ '', '' @ quoted ''-'' @ '', '' @ quoted ''*'' @ '' or ''
                @ quoted ''/'' @ '' ''"



subsection \<open>Tuto3 and Tuto4 agree\<close>

lemma make_tokens_loop3_eq: "make_tokens_loop3 tokens l = make_tokens_loop4 tokens l"
proof (induction tokens l rule: make_tokens_loop3.induct)
  case (1 tokens l)
  show ?case
    by (subst make_tokens_loop3.simps, subst make_tokens_loop4.simps)
       (simp add: 1 make_tokens_step3_eq split: lex_step.splits)
qed

lemma lex3_eq_lex4: "lex3 = lex4"
  by (simp add: fun_eq_iff lex3_def lex4_def make_tokens_loop3_eq)

lemma p3_eq_p4:
  "p3 n r ts = p4 n r ts"
  "bin_op3 n r ops ts = bin_op4 n r ops ts"
  "bin_loop3 n r ops left ts = bin_loop4 n r ops left ts"
  by (induction n r ts and n r ops ts and n r ops left ts rule: p3_bin_op3_bin_loop3.induct)
     (simp_all add: Let_def split: option.splits sum.splits)

lemma msg_parse3_eq: "msg_parse3 = msg_parse4"
  by (simp add: msg_parse3_def msg_parse4_def)



end
