(* ===== verification/MysqlConnection.thy ===== *)
theory MysqlConnection
  imports Prelude
begin

text \<open>
  The bootstrap script \<^verbatim>\<open>src/mysql_connection.py\<close>, as the client side of a
  protocol with a MySQL server. The server is a parameter (\<open>server\<close>): it
  executes a statement on its state or answers with the message of a
  \<^verbatim>\<open>mysql.connector.Error\<close>, and tells whether the connection is up. A
  statement is its kind, its table, and its columns (\<open>sql_stmt\<close>): a
  \<^verbatim>\<open>CREATE TABLE\<close> has its column definitions (name, type text and
  constraints) and its foreign keys; the inserted values are kept as the
  text of their SQL literals. The client
  records the statements the server executed, in order (\<open>sent\<close>), and what
  the script prints. Each function's \<^verbatim>\<open>try\<close> block runs its statements
  until the first error, which its \<^verbatim>\<open>except\<close> prints.
\<close>

text \<open>A column definition of \<^verbatim>\<open>CREATE TABLE\<close>: name, type, constraints
  (\<^verbatim>\<open>AUTO_INCREMENT\<close>, \<^verbatim>\<open>PRIMARY KEY\<close>, \<^verbatim>\<open>NOT NULL\<close>, \<^verbatim>\<open>UNIQUE\<close>,
  \<^verbatim>\<open>DEFAULT ...\<close>); and \<^verbatim>\<open>FOREIGN KEY (c) REFERENCES t(c')\<close>.\<close>

datatype sql_column = Column (col_name: string) (col_type: string) (col_opts: "string list")

datatype sql_fk = ForeignKey string string string

datatype sql_stmt =
    CreateDatabaseIfNotExists string
  | UseDatabase string
  | CreateTableIfNotExists string "sql_column list" "sql_fk list"
  | InsertInto string "string list" "string list"
  | CommitWork

record 's server =
  execute_sql :: "sql_stmt \<Rightarrow> 's \<Rightarrow> string + 's"
  is_connected :: "'s \<Rightarrow> bool"

record 's client =
  srv_state :: 's
  sent :: "sql_stmt list"
  sql_out :: string
  conn_closed :: bool

definition sql_print :: "string \<Rightarrow> 's client \<Rightarrow> 's client" where
  "sql_print s c = c\<lparr>sql_out := sql_out c @ s @ [newline_char]\<rparr>"

text \<open>\<^verbatim>\<open>cursor.execute(q)\<close> (and \<^verbatim>\<open>connection.commit()\<close>, as \<open>CommitWork\<close>).\<close>

definition cursor_execute :: "'s server \<Rightarrow> sql_stmt \<Rightarrow> 's client \<Rightarrow> string + 's client" where
  "cursor_execute srv q c =
     (case execute_sql srv q (srv_state c) of
        Inl e \<Rightarrow> Inl e
      | Inr s' \<Rightarrow> Inr (c\<lparr>srv_state := s', sent := sent c @ [q]\<rparr>))"

text \<open>The statements of a \<^verbatim>\<open>try\<close> block, up to the first error.\<close>

fun execute_all :: "'s server \<Rightarrow> sql_stmt list \<Rightarrow> 's client \<Rightarrow> 's client \<times> string option" where
  "execute_all srv [] c = (c, None)"
| "execute_all srv (q # qs) c =
     (case cursor_execute srv q c of
        Inl e \<Rightarrow> (c, Some e)
      | Inr c' \<Rightarrow> execute_all srv qs c')"

text \<open>\<^verbatim>\<open>try: ...; print(success) except Error as e: print(f"Error: {e}")\<close>.\<close>

definition try_block :: "'s server \<Rightarrow> sql_stmt list \<Rightarrow> string \<Rightarrow> 's client \<Rightarrow> 's client" where
  "try_block srv qs success c =
     (case execute_all srv qs c of
        (c', None) \<Rightarrow> sql_print success c'
      | (c', Some e) \<Rightarrow> sql_print (''Error: '' @ e) c')"

definition create_database :: "'s server \<Rightarrow> 's client \<Rightarrow> 's client" where
  "create_database srv =
     try_block srv [CreateDatabaseIfNotExists ''online_bank''] ''Database created successfully''"

definition created_at_col :: "string \<Rightarrow> sql_column" where
  "created_at_col n = Column n ''TIMESTAMP'' [''DEFAULT CURRENT_TIMESTAMP'']"

definition users_table :: sql_stmt where
  "users_table = CreateTableIfNotExists ''users''
     [Column ''user_id'' ''INT'' [''AUTO_INCREMENT'', ''PRIMARY KEY''],
      Column ''username'' ''VARCHAR(50)'' [''NOT NULL'', ''UNIQUE''],
      Column ''password'' ''VARCHAR(255)'' [''NOT NULL''],
      Column ''email'' ''VARCHAR(100)'' [''NOT NULL'', ''UNIQUE''],
      Column ''level'' (''ENUM('' @ quoted ''Basic'' @ '', '' @ quoted ''Premium'' @ '', '' @ quoted ''VIP'' @ '')'')
        [''DEFAULT '' @ quoted ''Basic''],
      created_at_col ''created_at'']
     []"

definition accounts_table :: sql_stmt where
  "accounts_table = CreateTableIfNotExists ''accounts''
     [Column ''account_id'' ''INT'' [''AUTO_INCREMENT'', ''PRIMARY KEY''],
      Column ''user_id'' ''INT'' [],
      Column ''account_number'' ''VARCHAR(20)'' [''NOT NULL'', ''UNIQUE''],
      Column ''balance'' ''DECIMAL(10, 2)'' [''DEFAULT 0.00''],
      created_at_col ''created_at'']
     [ForeignKey ''user_id'' ''users'' ''user_id'']"

definition ud_account_table :: sql_stmt where
  "ud_account_table = CreateTableIfNotExists ''ud_account''
     [Column ''ud_account_id'' ''INT'' [''AUTO_INCREMENT'', ''PRIMARY KEY''],
      Column ''user_id'' ''INT'' [''UNIQUE''],
      Column ''account_number'' ''VARCHAR(20)'' [''NOT NULL'', ''UNIQUE''],
      Column ''balance'' ''DECIMAL(10, 2)'' [''DEFAULT 0.00''],
      created_at_col ''created_at'']
     [ForeignKey ''user_id'' ''users'' ''user_id'']"

definition transactions_table :: sql_stmt where
  "transactions_table = CreateTableIfNotExists ''transactions''
     [Column ''transaction_id'' ''INT'' [''AUTO_INCREMENT'', ''PRIMARY KEY''],
      Column ''account_id'' ''INT'' [],
      Column ''transaction_type'' (''ENUM('' @ quoted ''deposit'' @ '', '' @ quoted ''withdrawal'' @ '', ''
                                   @ quoted ''transfer'' @ '')'') [''NOT NULL''],
      Column ''amount'' ''DECIMAL(10, 2)'' [''NOT NULL''],
      created_at_col ''transaction_date'']
     [ForeignKey ''account_id'' ''accounts'' ''account_id'']"

text \<open>The four \<^verbatim>\<open>CREATE TABLE\<close> statements, in the order of the source.\<close>

definition bank_tables :: "sql_stmt list" where
  "bank_tables = [users_table, accounts_table, ud_account_table, transactions_table]"

definition create_tables :: "'s server \<Rightarrow> 's client \<Rightarrow> 's client" where
  "create_tables srv =
     try_block srv (UseDatabase ''online_bank'' # bank_tables) ''Tables created successfully''"

definition sample_inserts :: "sql_stmt list" where
  "sample_inserts =
     [InsertInto ''users'' [''username'', ''password'', ''email'', ''level'']
                 [''john_doe'', ''password123'', ''john@example.com'', ''Premium''],
      InsertInto ''accounts'' [''user_id'', ''account_number'', ''balance''] [''1'', ''ACC123456789'', ''1000.00''],
      InsertInto ''ud_account'' [''user_id'', ''account_number'', ''balance''] [''1'', ''UDACC987654321'', ''500.00''],
      InsertInto ''transactions'' [''account_id'', ''transaction_type'', ''amount''] [''1'', ''deposit'', ''500.00''],
      InsertInto ''transactions'' [''account_id'', ''transaction_type'', ''amount''] [''1'', ''withdrawal'', ''200.00'']]"

definition insert_sample_data :: "'s server \<Rightarrow> 's client \<Rightarrow> 's client" where
  "insert_sample_data srv =
     try_block srv (UseDatabase ''online_bank'' # sample_inserts @ [CommitWork]) ''Sample data inserted successfully''"

definition close_connection :: "'s server \<Rightarrow> 's client \<Rightarrow> 's client" where
  "close_connection srv c =
     (if is_connected srv (srv_state c) then sql_print ''MySQL connection is closed'' (c\<lparr>conn_closed := True\<rparr>) else c)"

text \<open>\<^verbatim>\<open>create_connection()\<close>: \<open>conn\<close> is what \<^verbatim>\<open>mysql.connector.connect\<close>
  gives, an error message or the server's state; a connection that is not
  connected falls off the end of the \<^verbatim>\<open>if\<close> and gives \<^verbatim>\<open>None\<close>. The
  second component is what the function printed.\<close>

definition create_connection :: "'s server \<Rightarrow> string + 's \<Rightarrow> 's client option \<times> string" where
  "create_connection srv conn =
     (case conn of
        Inl e \<Rightarrow> (None, ''Error: '' @ e @ [newline_char])
      | Inr s \<Rightarrow> (if is_connected srv s
                 then Some \<lparr>srv_state = s, sent = [], sql_out = [], conn_closed = False\<rparr> else None, []))"

definition mysql_main :: "'s server \<Rightarrow> string + 's \<Rightarrow> string \<times> 's client option" where
  "mysql_main srv conn =
     (case create_connection srv conn of
        (None, printed) \<Rightarrow> (printed, None)
      | (Some c, printed) \<Rightarrow>
          (let c' = close_connection srv (insert_sample_data srv (create_tables srv (create_database srv c)))
           in (printed @ sql_out c', Some c')))"

subsection \<open>The statements the server executes\<close>

lemma sql_print_sent [simp]: "sent (sql_print s c) = sent c"
  by (simp add: sql_print_def)

lemma close_connection_sent [simp]: "sent (close_connection srv c) = sent c"
  by (simp add: close_connection_def)

lemma execute_all_sent:
  "execute_all srv qs c = (c', r) \<Longrightarrow> \<exists>p. sent c' = sent c @ p \<and> prefix p qs \<and> (r = None \<longrightarrow> p = qs)"
proof (induction qs arbitrary: c)
  case (Cons q qs)
  show ?case
  proof (cases "cursor_execute srv q c")
    case (Inl e)
    with Cons.prems show ?thesis by auto
  next
    case (Inr c1)
    with Cons.prems have "execute_all srv qs c1 = (c', r)" by simp
    from Cons.IH [OF this] obtain p where "sent c' = sent c1 @ p" "prefix p qs" "r = None \<longrightarrow> p = qs" by blast
    moreover have "sent c1 = sent c @ [q]"
      using Inr by (auto simp: cursor_execute_def split: sum.splits)
    ultimately show ?thesis by (intro exI [of _ "q # p"]) auto
  qed
qed simp

lemma try_block_sent:
  "\<exists>p. sent (try_block srv qs m c) = sent c @ p \<and> prefix p qs"
  using execute_all_sent [of srv qs c] by (auto simp: try_block_def split: prod.splits option.splits)

lemma commit_not_in:
  "CommitWork \<notin> set [CreateDatabaseIfNotExists ''online_bank'']"
  "CommitWork \<notin> set (UseDatabase ''online_bank'' # bank_tables)"
  "CommitWork \<notin> set (UseDatabase ''online_bank'' # sample_inserts)"
  by (auto simp: bank_tables_def sample_inserts_def users_table_def accounts_table_def ud_account_table_def
      transactions_table_def)

text \<open>C19: Whatever the server answers, the script sends \<^verbatim>\<open>COMMIT\<close> only at
  the end of a complete \<^verbatim>\<open>insert_sample_data\<close>: when the commit is among
  the statements the server executed, the last of them are \<^verbatim>\<open>USE
  online_bank\<close>, the five sample inserts in order, and the commit.\<close>

theorem mysql_main_commit_last:
  "mysql_main srv conn = (printed, Some c) \<Longrightarrow> CommitWork \<in> set (sent c) \<Longrightarrow>
   suffix (UseDatabase ''online_bank'' # sample_inserts @ [CommitWork]) (sent c)"
proof -
  assume m: "mysql_main srv conn = (printed, Some c)" and cm: "CommitWork \<in> set (sent c)"
  then obtain s where cs: "c = close_connection srv (insert_sample_data srv (create_tables srv (create_database srv
                            \<lparr>srv_state = s, sent = [], sql_out = [], conn_closed = False\<rparr>)))"
    by (auto simp: mysql_main_def create_connection_def Let_def split: sum.splits if_splits option.splits prod.splits)
  define c0 where "c0 = \<lparr>srv_state = s, sent = [], sql_out = [], conn_closed = False\<rparr>"
  have c0: "sent c0 = []" by (simp add: c0_def)
  have c: "c = close_connection srv (insert_sample_data srv (create_tables srv (create_database srv c0)))"
    by (simp add: cs c0_def)
  obtain p1 where p1: "sent (create_database srv c0) = p1" "prefix p1 [CreateDatabaseIfNotExists ''online_bank'']"
    using try_block_sent [of srv "[CreateDatabaseIfNotExists ''online_bank'']" _ c0] c0
    unfolding create_database_def by auto
  obtain p2 where p2: "sent (create_tables srv (create_database srv c0)) = p1 @ p2"
    "prefix p2 (UseDatabase ''online_bank'' # bank_tables)"
    using try_block_sent [of srv "UseDatabase ''online_bank'' # bank_tables" _
                             "create_database srv c0"] p1
    unfolding create_tables_def by auto
  obtain p3 where p3: "sent c = p1 @ p2 @ p3"
    "prefix p3 (UseDatabase ''online_bank'' # sample_inserts @ [CommitWork])"
    using try_block_sent [of srv "UseDatabase ''online_bank'' # sample_inserts @ [CommitWork]" _
                             "create_tables srv (create_database srv c0)"] p2 c
    unfolding insert_sample_data_def by auto
  have "CommitWork \<notin> set p1" "CommitWork \<notin> set p2"
    using set_mono_prefix [OF p1(2)] set_mono_prefix [OF p2(2)] commit_not_in(1,2) by auto
  then have "CommitWork \<in> set p3" using cm p3(1) by auto
  then have "p3 = UseDatabase ''online_bank'' # sample_inserts @ [CommitWork]"
    using prefix_snoc_mem [of p3 "UseDatabase ''online_bank'' # sample_inserts"] p3(2) commit_not_in(3) by simp
  then show ?thesis using p3(1) by (simp add: suffix_def)
qed

theorem mysql_main_commit_last_witness:
  "case mysql_main \<lparr>execute_sql = (\<lambda>q s. Inr s), is_connected = (\<lambda>s. True)\<rparr> (Inr ()) of
     (printed, Some c) \<Rightarrow> CommitWork \<in> set (sent c)
                         \<and> suffix (UseDatabase ''online_bank'' # sample_inserts @ [CommitWork]) (sent c)
   | _ \<Rightarrow> False"
proof -
  have "case mysql_main \<lparr>execute_sql = (\<lambda>q s. Inr s), is_connected = (\<lambda>s. True)\<rparr> (Inr ()) of
          (printed, Some c) \<Rightarrow> CommitWork \<in> set (sent c) | _ \<Rightarrow> False"
    by code_simp
  then show ?thesis
    using mysql_main_commit_last by (auto split: prod.splits option.splits)
qed

text \<open>An error at the third insert skips the commit: the two inserts before it
  were executed and are left uncommitted, the script prints the error and
  still closes the connection.\<close>

lemma mysql_main_insert_error_uncommitted:
  "mysql_main \<lparr>execute_sql = (\<lambda>q s. if q = sample_inserts ! 2 then Inl ''Duplicate entry'' else Inr s),
               is_connected = (\<lambda>s. True)\<rparr> (Inr ())
   = (''Database created successfully'' @ [newline_char] @ ''Tables created successfully'' @ [newline_char]
      @ ''Error: Duplicate entry'' @ [newline_char] @ ''MySQL connection is closed'' @ [newline_char],
      Some \<lparr>srv_state = (), sent = [CreateDatabaseIfNotExists ''online_bank'', UseDatabase ''online_bank'']
                                @ bank_tables
                                @ [UseDatabase ''online_bank'', sample_inserts ! 0, sample_inserts ! 1],
            sql_out = ''Database created successfully'' @ [newline_char] @ ''Tables created successfully'' @ [newline_char]
              @ ''Error: Duplicate entry'' @ [newline_char] @ ''MySQL connection is closed'' @ [newline_char],
            conn_closed = True\<rparr>)"
  by code_simp

end
