(* ===== verification/MysqlServer.thy ===== *)
theory MysqlServer
  imports MysqlConnection
begin












text \<open>The order of the statements the script sends: each table's foreign
  keys name tables created before it.\<close>

fun fk_order_ok :: "string list \<Rightarrow> sql_stmt list \<Rightarrow> bool" where
  "fk_order_ok made [] = True"
| "fk_order_ok made (CreateTableIfNotExists t cols fks # qs) =
     (list_all (\<lambda>fk. case fk of ForeignKey c rt rc \<Rightarrow> rt \<in> set made) fks \<and> fk_order_ok (made @ [t]) qs)"
| "fk_order_ok made (q # qs) = fk_order_ok made qs"

lemma bank_tables_fk_order: "fk_order_ok [] bank_tables"
  by (simp add: bank_tables_def users_table_def accounts_table_def ud_account_table_def transactions_table_def)



end
