(* ===== verification/PyModules.thy ===== *)
theory PyModules
  imports Database
begin

text \<open>
  Loading the modules of \<^verbatim>\<open>src/Tutorials/tuto8 using python  interpretor /\<close>
  as \<^verbatim>\<open>python main.py\<close> does. Each module is given by the names its top
  level defines and its import statements, in order. Importing a module that
  is not loaded yet registers it (as \<^verbatim>\<open>sys.modules\<close> does) and then runs
  its imports; \<^verbatim>\<open>from m import n\<close> loads \<^verbatim>\<open>m\<close> and fails with
  \<^verbatim>\<open>ImportError\<close> when \<^verbatim>\<open>m\<close> defines no \<^verbatim>\<open>n\<close>. The libraries
  (\<^verbatim>\<open>threading\<close>, \<^verbatim>\<open>time\<close>, \<^verbatim>\<open>matplotlib.pyplot\<close>) are assumed to load.
  A module's own definitions are bound only after its imports have run, which
  is the order of the sources: all their imports come first.
\<close>

datatype py_module =
    M_database | M_authentication | M_session | M_visualization | M_main
  | M_groups | M_variables | M_powers | M_library string

text \<open>The names each module's top level binds (classes, functions, globals).\<close>

fun module_names :: "py_module \<Rightarrow> string list" where
  "module_names M_database =
     [''Token'', ''accounts_db'', ''print_database'', ''print_account'', ''get_token'', ''self_get_token'',
      ''update_token'', ''self_update_token'', ''create_token'', ''delete_token'', ''create_account'',
      ''delete_account'']"
| "module_names M_authentication = [''user_login'', ''authenticate_user'']"
| "module_names M_session = [''user_session'']"
| "module_names M_visualization = [''read'']"
| "module_names M_main = [''main'']"
| "module_names M_groups = [''groups_db'', ''Group'', ''create_group'', ''delete_group'', ''add_member_to_group'',
     ''remove_member_from_group'', ''create_group_variable'', ''delete_group_variable'', ''get_group_variable'',
     ''update_group_variable'', ''list_group_variables'', ''list_group_members'', ''use_exemple'']"
| "module_names M_variables = [''global_variables'', ''create_variable'', ''delete_variable'', ''get_variable'',
     ''update_variable'', ''list_variables'', ''use_exemple'']"
| "module_names M_powers = [''powers_db'', ''scheduled_powers'', ''Power'', ''create_power'', ''delete_power'',
     ''call_power'', ''list_powers'', ''stop_all_scheduled_powers'', ''use_exemple'']"
| "module_names (M_library _) = []"

text \<open>An import statement binds a name: \<^verbatim>\<open>from m import n\<close> binds \<^verbatim>\<open>n\<close>,
  which \<^verbatim>\<open>m\<close> must define; \<^verbatim>\<open>import m as a\<close> binds \<^verbatim>\<open>a\<close>.\<close>

datatype import_kind = FromImport string | ImportAs string

fun module_imports :: "py_module \<Rightarrow> (py_module \<times> import_kind) list" where
  "module_imports M_database = []"
| "module_imports M_authentication = [(M_database, FromImport ''accounts_db'')]"
| "module_imports M_session = [(M_database, FromImport ''update_account'')]"
| "module_imports M_visualization =
     [(M_library ''matplotlib.pyplot'', ImportAs ''plt''), (M_database, FromImport ''accounts_db'')]"
| "module_imports M_main =
     [(M_authentication, FromImport ''user_login''), (M_session, FromImport ''user_session''),
      (M_visualization, FromImport ''read''), (M_database, FromImport ''print_database'')]"
| "module_imports M_groups = [(M_database, FromImport ''Token''), (M_database, FromImport ''accounts_db'')]"
| "module_imports M_variables = [(M_database, FromImport ''Token'')]"
| "module_imports M_powers =
     [(M_library ''threading'', ImportAs ''threading''), (M_library ''time'', ImportAs ''time''),
      (M_database, FromImport ''accounts_db'')]"
| "module_imports (M_library _) = []"

datatype import_exc = ImportError string py_module

text \<open>Loading a module, with the list of the modules already registered; the
  fuel bounds the depth of nested imports (the modules are finitely many and
  their imports have no cycle).\<close>

fun load_module :: "nat \<Rightarrow> py_module list \<Rightarrow> py_module \<Rightarrow> (import_exc + py_module list) option"
  and run_imports :: "nat \<Rightarrow> py_module list \<Rightarrow> (py_module \<times> import_kind) list \<Rightarrow> (import_exc + py_module list) option" where
  "load_module 0 loaded m = None"
| "load_module (Suc n) loaded m =
     (if m \<in> set loaded then Some (Inr loaded) else run_imports n (loaded @ [m]) (module_imports m))"
| "run_imports n loaded [] = Some (Inr loaded)"
| "run_imports n loaded ((m, name) # rest) =
     (case load_module n loaded m of
        None \<Rightarrow> None
      | Some (Inl e) \<Rightarrow> Some (Inl e)
      | Some (Inr loaded') \<Rightarrow>
          (case name of
             FromImport x \<Rightarrow> if x \<in> set (module_names m) then run_imports n loaded' rest else Some (Inl (ImportError x m))
           | ImportAs a \<Rightarrow> run_imports n loaded' rest))"

text \<open>The global names of a module's functions: its own and those it imports.\<close>

definition module_namespace :: "py_module \<Rightarrow> string list" where
  "module_namespace m =
     module_names m @ map (\<lambda>(m', k). case k of FromImport x \<Rightarrow> x | ImportAs a \<Rightarrow> a) (module_imports m)"

text \<open>\<^verbatim>\<open>authentication.user_login()\<close>: its first statement calls
  \<^verbatim>\<open>print_database\<close>, a global name looked up in the module's namespace
  (\<^verbatim>\<open>NameError\<close> when missing); then two lines are read and
  \<^verbatim>\<open>authenticate_user\<close> decides (an empty account dictionary is false).
  The result is the account and what was printed.\<close>

datatype login8_exc = LoginNameError string | LoginKeyError | LoginEOFError

definition user_login8 :: "accounts \<Rightarrow> string list \<Rightarrow> login8_exc + account option \<times> string" where
  "user_login8 db ins =
     (if ''print_database'' \<notin> set (module_namespace M_authentication) then Inl (LoginNameError ''print_database'')
      else
        (let out = print_database db ''Initial'' @ ''Welcome to the User Account System!'' @ [newline_char]
                   @ ''Please enter your ID number: ''
         in case ins of
              id_number # password # _ \<Rightarrow>
                (let out' = out @ ''Please enter your password: '' in
                 case authenticate_user db id_number password of
                   Inl KeyError \<Rightarrow> Inl LoginKeyError
                 | Inr (Some acc) \<Rightarrow>
                     if acc \<noteq> [] then Inr (Some acc, out' @ ''Login successful!'' @ [newline_char])
                     else Inr (None, out' @ ''Invalid ID or password.'' @ [newline_char])
                 | Inr None \<Rightarrow> Inr (None, out' @ ''Invalid ID or password.'' @ [newline_char]))
            | _ \<Rightarrow> Inl LoginEOFError))"

text \<open>The data of \<^verbatim>\<open>visualization.read()\<close>: the keys of \<^verbatim>\<open>accounts_db\<close> and
  the \<^verbatim>\<open>name\<close>, \<^verbatim>\<open>surname\<close> and \<^verbatim>\<open>amount_of_tokens\<close> entries of every
  account, in order, each list comprehension raising \<^verbatim>\<open>KeyError\<close> on an
  account without its key. The figure drawn from them is not modelled.\<close>

fun read_column :: "string \<Rightarrow> accounts \<Rightarrow> login_exc + db_token list" where
  "read_column k [] = Inr []"
| "read_column k ((u, acc) # rest) =
     (case map_of acc k of
        None \<Rightarrow> Inl KeyError
      | Some t \<Rightarrow> (case read_column k rest of Inl e \<Rightarrow> Inl e | Inr ts \<Rightarrow> Inr (t # ts)))"

definition read_data :: "accounts \<Rightarrow> login_exc + string list \<times> db_token list \<times> db_token list \<times> db_token list" where
  "read_data db =
     (case read_column ''name'' db of
        Inl e \<Rightarrow> Inl e
      | Inr names \<Rightarrow>
          (case read_column ''surname'' db of
             Inl e \<Rightarrow> Inl e
           | Inr surnames \<Rightarrow>
               (case read_column ''amount_of_tokens'' db of
                  Inl e \<Rightarrow> Inl e
                | Inr tokens \<Rightarrow> Inr (map fst db, names, surnames, tokens))))"

text \<open>\<^verbatim>\<open>python main.py\<close>: the module \<^verbatim>\<open>__main__\<close> runs its imports, then
  \<^verbatim>\<open>main()\<close>.\<close>

definition main_py :: "(import_exc + py_module list) option" where
  "main_py = load_module 4 [] M_main"


text \<open>\<^verbatim>\<open>python main.py\<close> stops at its second import: \<^verbatim>\<open>session.py\<close> imports
  \<^verbatim>\<open>update_account\<close>, which \<^verbatim>\<open>database.py\<close> does not define, so
  \<^verbatim>\<open>main()\<close> never runs.\<close>

lemma main_py_import_error: "main_py = Some (Inl (ImportError ''update_account'' M_database))"
  by code_simp

text \<open>Every other module loads, with \<^verbatim>\<open>database.py\<close> as its only module of
  the program.\<close>

lemma other_modules_load:
  "load_module 3 [] M_groups = Some (Inr [M_groups, M_database])"
  "load_module 3 [] M_variables = Some (Inr [M_variables, M_database])"
  "load_module 3 [] M_powers = Some (Inr [M_powers, M_library ''threading'', M_library ''time'', M_database])"
  "load_module 3 [] M_authentication = Some (Inr [M_authentication, M_database])"
  "load_module 3 [] M_visualization = Some (Inr [M_visualization, M_library ''matplotlib.pyplot'', M_database])"
  by code_simp+


text \<open>\<^verbatim>\<open>user_login\<close> raises \<^verbatim>\<open>NameError\<close> at once, on every database and
  input: \<^verbatim>\<open>authentication.py\<close> imports \<^verbatim>\<open>accounts_db\<close> but not
  \<^verbatim>\<open>print_database\<close>.\<close>

lemma user_login8_name_error: "user_login8 db ins = Inl (LoginNameError ''print_database'')"
  by (simp add: user_login8_def module_namespace_def)


text \<open>\<^verbatim>\<open>read()\<close> finds its data exactly when every account has the three keys;
  each column then lists the accounts' tokens in the dictionary's order.\<close>

lemma read_column_ok:
  "read_column k db = Inr ts \<longleftrightarrow> (\<forall>(u, acc) \<in> set db. k \<in> dom (map_of acc)) \<and> ts = map (\<lambda>(u, acc). the (map_of acc k)) db"
proof (induction db arbitrary: ts)
  case (Cons p rest)
  obtain u acc where p: "p = (u, acc)" by (cases p)
  show ?case
  proof (cases "map_of acc k")
    case (Some t)
    show ?thesis
    proof (cases "read_column k rest")
      case (Inl e)
      then show ?thesis
        using Some Cons.IH [of "map (\<lambda>(u, acc). the (map_of acc k)) rest"] by (auto simp: p)
    next
      case (Inr ts')
      then show ?thesis
        using Some Cons.IH [of ts'] by (auto simp: p)
    qed
  qed (auto simp: p)
qed auto

end
