(* ===== verification/Visualization.thy ===== *)
theory Visualization
  imports PyModules
begin

text \<open>
  The figure of \<^verbatim>\<open>visualization.read()\<close> (tuto8). The data are
  \<open>read_data\<close> of \<open>PyModules\<close>; the drawing is a fixed sequence of calls of
  \<^verbatim>\<open>matplotlib.pyplot\<close>, a library the module only calls, so the model
  is the list of calls with their arguments, in the order of the source
  (\<open>plot_call\<close>), as the SQL statements of \<open>MysqlConnection\<close> are. What the
  library draws is not modelled.
\<close>

text \<open>The calls: \<^verbatim>\<open>plt.subplots(rows, cols, figsize)\<close>, and on the axes
  \<^verbatim>\<open>axs[i]\<close> the methods \<^verbatim>\<open>bar(x, height, color)\<close>, \<^verbatim>\<open>set_title\<close> and
  \<^verbatim>\<open>set_ylabel\<close>; then \<^verbatim>\<open>plt.tight_layout()\<close> and \<^verbatim>\<open>plt.show()\<close>.\<close>

datatype plot_call =
    Subplots nat nat "nat \<times> nat"
  | Bar nat "string list" "db_token list" string
  | SetTitle nat string
  | SetYLabel nat string
  | TightLayout
  | ShowFigure

text \<open>One panel: a bar chart of one column against the user ids, its title
  and its y label.\<close>

definition panel :: "nat \<Rightarrow> string list \<Rightarrow> db_token list \<Rightarrow> string \<Rightarrow> string \<Rightarrow> string \<Rightarrow> plot_call list" where
  "panel i user_ids column color title ylabel = [Bar i user_ids column color, SetTitle i title, SetYLabel i ylabel]"

definition figure_calls :: "string list \<Rightarrow> db_token list \<Rightarrow> db_token list \<Rightarrow> db_token list \<Rightarrow> plot_call list" where
  "figure_calls user_ids names surnames tokens =
     [Subplots 3 1 (10, 15)]
     @ panel 0 user_ids names ''skyblue'' ''User Names'' ''Name''
     @ panel 1 user_ids surnames ''lightgreen'' ''User Surnames'' ''Surname''
     @ panel 2 user_ids tokens ''salmon'' ''User Tokens'' ''Amount of Tokens''
     @ [TightLayout, ShowFigure]"

text \<open>\<^verbatim>\<open>read()\<close>: the \<^verbatim>\<open>KeyError\<close> of a comprehension, or the calls made.\<close>

definition read8 :: "accounts \<Rightarrow> login_exc + plot_call list" where
  "read8 db =
     (case read_data db of
        Inl e \<Rightarrow> Inl e
      | Inr (user_ids, names, surnames, tokens) \<Rightarrow> Inr (figure_calls user_ids names surnames tokens))"

text \<open>The axes a call uses, and whether the figure's calls are well formed
  for \<^verbatim>\<open>matplotlib\<close>: each axes index is below the number of rows of
  \<^verbatim>\<open>subplots\<close> (\<^verbatim>\<open>axs[i]\<close> exists) and each bar chart has as many heights
  as x positions.\<close>

fun call_axes :: "plot_call \<Rightarrow> nat option" where
  "call_axes (Bar i _ _ _) = Some i"
| "call_axes (SetTitle i _) = Some i"
| "call_axes (SetYLabel i _) = Some i"
| "call_axes _ = None"

fun bar_aligned :: "plot_call \<Rightarrow> bool" where
  "bar_aligned (Bar i xs hs c) = (length xs = length hs)"
| "bar_aligned _ = True"

definition figure_ok :: "nat \<Rightarrow> plot_call list \<Rightarrow> bool" where
  "figure_ok rows calls \<longleftrightarrow>
     (\<forall>c \<in> set calls. (case call_axes c of Some i \<Rightarrow> i < rows | None \<Rightarrow> True) \<and> bar_aligned c)"

lemma read_column_length: "read_column k db = Inr ts \<Longrightarrow> length ts = length db"
  by (simp add: read_column_ok)

text \<open>When \<^verbatim>\<open>read()\<close> finds its data, its calls are well formed: three
  panels on the three axes of the \<^verbatim>\<open>subplots(3, 1)\<close> figure, each bar chart
  with one bar per account; otherwise some account lacks one of the three
  keys and no call is made.\<close>

lemma read8_figure_ok:
  "read8 db = Inr calls \<Longrightarrow> hd calls = Subplots 3 1 (10, 15) \<and> figure_ok 3 calls
     \<and> (\<forall>c \<in> set calls. case c of Bar i xs hs col \<Rightarrow> xs = map fst db \<and> length hs = length db | _ \<Rightarrow> True)"
  by (auto simp: read8_def read_data_def figure_calls_def panel_def figure_ok_def
      split: sum.splits dest!: read_column_length)

lemma read8_key_error:
  "read8 db = Inl KeyError \<longleftrightarrow>
     (\<exists>(u, acc) \<in> set db. \<exists>k \<in> {''name'', ''surname'', ''amount_of_tokens''}. k \<notin> dom (map_of acc))"
proof -
  have col: "(\<exists>e. read_column k db = Inl e) \<longleftrightarrow> (\<exists>(u, acc) \<in> set db. k \<notin> dom (map_of acc))" for k
    by (induction db) (auto split: option.splits sum.splits)
  have err: "read_column k db = Inl e \<Longrightarrow> e = KeyError" for k e
    by (induction db) (auto split: option.splits sum.splits)
  show ?thesis
    using col [of "''name''"] col [of "''surname''"] col [of "''amount_of_tokens''"]
      err [of "''name''"] err [of "''surname''"] err [of "''amount_of_tokens''"]
    by (auto simp: read8_def read_data_def split: sum.splits)
qed

end
