(* ===== verification/Tuto7.thy ===== *)
theory Tuto7
  imports Database
begin

text \<open>
  The console demonstration of \<^verbatim>\<open>src/Tutorials/Tuto7/test.py\<close>: a login
  against a module-level dictionary of accounts, then a session that runs
  each line the user types with \<^verbatim>\<open>exec\<close> on a dictionary of the account's
  editable fields and finally writes those fields back into the account.
  The console is explicit: the lines \<^verbatim>\<open>input()\<close> will return are a list
  consumed from the front (an empty list is \<^verbatim>\<open>EOFError\<close>), and everything
  \<^verbatim>\<open>print\<close> and the prompts of \<^verbatim>\<open>input\<close> write is appended to \<open>d7_out\<close>.
  The account dictionaries are objects: \<^verbatim>\<open>accounts_db\<close> maps each key to
  the address of its account in a store (\<open>d7_heap\<close>), the login finds the
  address of the account, and the final \<^verbatim>\<open>user_account.update\<close> changes
  the object at that address, whatever \<^verbatim>\<open>accounts_db\<close> holds by then.
  \<^verbatim>\<open>exec\<close> of a typed line is a parameter of the model (\<open>exec7\<close>): it is
  given the module's globals (\<^verbatim>\<open>accounts_db\<close> and the store) and the local
  variables, and gives them back changed, with what the line printed and
  \<^verbatim>\<open>str(e)\<close> of the exception it raised, if any.
\<close>

subsection \<open>State\<close>

text \<open>An account dictionary, and the contents of the accounts dictionary,
  in insertion order.\<close>

type_synonym record7 = "(string \<times> pyval) list"
type_synonym db7 = "(string \<times> record7) list"

text \<open>The store of dictionary objects, and \<^verbatim>\<open>accounts_db\<close> as a map from
  keys to addresses.\<close>

type_synonym heap7 = "nat \<Rightarrow> record7"
type_synonym globals7 = "(string \<times> nat) list"

text \<open>The contents of the module-level \<^verbatim>\<open>accounts_db\<close> literal.\<close>

definition accounts_db7 :: db7 where
  "accounts_db7 =
     [(''user1'', [(''id_number'', PyStr ''1''), (''name'', PyStr ''John''), (''surname'', PyStr ''Doe''),
                   (''password'', PyStr ''password123''), (''amount_of_tokens'', PyNum 100)]),
      (''user2'', [(''id_number'', PyStr ''2''), (''name'', PyStr ''Jane''), (''surname'', PyStr ''Smith''),
                   (''password'', PyStr ''mypassword''), (''amount_of_tokens'', PyNum 150)])]"

record demo7 =
  d7_db :: globals7
  d7_heap :: heap7
  d7_out :: string

text \<open>The module's state after the literal: one object per account, at
  addresses 0, 1, ....\<close>

definition init_demo7 :: demo7 where
  "init_demo7 =
     \<lparr>d7_db = zip (map fst accounts_db7) [0..<length accounts_db7],
      d7_heap = (\<lambda>a. if a < length accounts_db7 then snd (accounts_db7 ! a) else []), d7_out = []\<rparr>"

text \<open>What \<^verbatim>\<open>accounts_db\<close> holds: each key with the contents of its object.\<close>

definition db_view7 :: "demo7 \<Rightarrow> db7" where
  "db_view7 st = map (\<lambda>(k, a). (k, d7_heap st a)) (d7_db st)"

datatype console_exc = ConsoleKeyError | EOFError

text \<open>The effect of \<^verbatim>\<open>exec(line, globals(), user_vars)\<close>: the new
  \<^verbatim>\<open>accounts_db\<close>, store and \<^verbatim>\<open>user_vars\<close>, the text the line printed,
  and the message of the exception it raised (caught by the session's
  \<^verbatim>\<open>except Exception\<close>).\<close>

type_synonym exec7 = "string \<Rightarrow> globals7 \<Rightarrow> heap7 \<Rightarrow> record7 \<Rightarrow> globals7 \<times> heap7 \<times> record7 \<times> string \<times> string option"

subsection \<open>Python built-ins\<close>

definition py_print7 :: "string \<Rightarrow> demo7 \<Rightarrow> demo7" where
  "py_print7 s st = st\<lparr>d7_out := d7_out st @ s @ [newline_char]\<rparr>"

text \<open>\<^verbatim>\<open>input(prompt)\<close>: the prompt is written, the next line is read.\<close>

definition py_input7 :: "string \<Rightarrow> string list \<Rightarrow> demo7 \<Rightarrow> console_exc + string \<times> string list \<times> demo7" where
  "py_input7 prompt ins st =
     (let st' = st\<lparr>d7_out := d7_out st @ prompt\<rparr> in
      case ins of [] \<Rightarrow> Inl EOFError | l # ls \<Rightarrow> Inr (l, ls, st'))"

text \<open>\<^verbatim>\<open>d[k]\<close>: \<^verbatim>\<open>KeyError\<close> on a missing key.\<close>

definition dict_get7 :: "record7 \<Rightarrow> string \<Rightarrow> console_exc + pyval" where
  "dict_get7 d k = (case map_of d k of None \<Rightarrow> Inl ConsoleKeyError | Some v \<Rightarrow> Inr v)"

text \<open>\<^verbatim>\<open>str.lower\<close> on ASCII capitals; no other character of the 8-bit range
  lowers to one of \<^verbatim>\<open>exit\<close>, so the test \<^verbatim>\<open>lower() == 'exit'\<close> is exact.\<close>

definition py_lower :: "string \<Rightarrow> string" where
  "py_lower s = map (\<lambda>c. let n = (of_char c :: nat) in if 65 \<le> n \<and> n \<le> 90 then char_of (n + 32) else c) s"

definition pyval_repr :: "pyval \<Rightarrow> string" where
  "pyval_repr v = (case v of PyStr s \<Rightarrow> py_str_repr s | PyNum i \<Rightarrow> int_str i)"

text \<open>\<^verbatim>\<open>str(d)\<close> of a dictionary of strings and integers.\<close>

definition dict_repr :: "record7 \<Rightarrow> string" where
  "dict_repr d = ''{'' @ str_join '', '' (map (\<lambda>(k, v). py_str_repr k @ '': '' @ pyval_repr v) d) @ ''}''"

subsection \<open>The program\<close>

definition print_database7 :: "string \<Rightarrow> demo7 \<Rightarrow> demo7" where
  "print_database7 title st =
     fold (\<lambda>(user_id, a). py_print7 (''User ID: '' @ user_id @ '', Account Details: '' @ dict_repr (d7_heap st a)))
       (d7_db st) (py_print7 (title @ '' Database:'') st)"

text \<open>The search loop of \<^verbatim>\<open>user_login\<close> over the accounts (objects \<open>'r\<close>,
  read through \<open>deref\<close>): the key and object of the first account whose
  \<^verbatim>\<open>id_number\<close> and \<^verbatim>\<open>password\<close> equal the typed strings (\<^verbatim>\<open>and\<close>
  reads the password only when the identifier matches).\<close>

fun find_account7 :: "('r \<Rightarrow> record7) \<Rightarrow> (string \<times> 'r) list \<Rightarrow> string \<Rightarrow> string \<Rightarrow> console_exc + (string \<times> 'r) option" where
  "find_account7 deref [] id_number password = Inr None"
| "find_account7 deref ((uid, acc) # rest) id_number password =
     (case dict_get7 (deref acc) ''id_number'' of
        Inl e \<Rightarrow> Inl e
      | Inr i \<Rightarrow>
          if i \<noteq> PyStr id_number then find_account7 deref rest id_number password
          else (case dict_get7 (deref acc) ''password'' of
                  Inl e \<Rightarrow> Inl e
                | Inr p \<Rightarrow> if p = PyStr password then Inr (Some (uid, acc))
                           else find_account7 deref rest id_number password))"

text \<open>The \<^verbatim>\<open>while True\<close> loop of \<^verbatim>\<open>user_session\<close>, one typed line per
  iteration; it returns the local variables at \<^verbatim>\<open>exit\<close> and the lines not read.\<close>

fun session_loop7 :: "exec7 \<Rightarrow> record7 \<Rightarrow> string list \<Rightarrow> demo7 \<Rightarrow> console_exc + record7 \<times> string list \<times> demo7" where
  "session_loop7 ex vars [] st = Inl EOFError"
| "session_loop7 ex vars (l # ls) st =
     (let st1 = st\<lparr>d7_out := d7_out st @ ''>>> ''\<rparr> in
      if py_lower l = ''exit'' then Inr (vars, ls, py_print7 ''Logging out.'' st1)
      else (case ex l (d7_db st1) (d7_heap st1) vars of
              (g', h', vars', printed, None) \<Rightarrow>
                 session_loop7 ex vars' ls
                   (py_print7 (''Updated account details: '' @ dict_repr vars')
                     (st1\<lparr>d7_db := g', d7_heap := h', d7_out := d7_out st1 @ printed\<rparr>))
            | (g', h', vars', printed, Some msg) \<Rightarrow>
                 session_loop7 ex vars' ls
                   (py_print7 (''An error occurred: '' @ msg)
                     (st1\<lparr>d7_db := g', d7_heap := h', d7_out := d7_out st1 @ printed\<rparr>))))"

text \<open>\<^verbatim>\<open>user_session(user_account)\<close>, for the account object at address
  \<open>a\<close>: the editable fields are copied, the session runs, and the
  dictionary literal of the final \<^verbatim>\<open>update\<close> reads the three fields back
  (a field the session deleted raises \<^verbatim>\<open>KeyError\<close> before anything is
  written); \<^verbatim>\<open>update\<close> changes the object as it is by then.\<close>

definition user_session7 :: "exec7 \<Rightarrow> nat \<Rightarrow> string list \<Rightarrow> demo7 \<Rightarrow> console_exc + string list \<times> demo7" where
  "user_session7 ex a ins st =
     (let acc = d7_heap st a in
      case (dict_get7 acc ''name'', dict_get7 acc ''surname'', dict_get7 acc ''amount_of_tokens'') of
        (Inr name, Inr surname, Inr amount) \<Rightarrow>
          (let vars = [(''name'', name), (''surname'', surname), (''amount_of_tokens'', amount)];
               st1 = py_print7 ''You can modify your account details. Type 'exit' to log out.''
                       (py_print7 (''Welcome, '' @ pyval_str name @ '' '' @ pyval_str surname @ ''!'') st)
           in case session_loop7 ex vars ins st1 of
                Inl e \<Rightarrow> Inl e
              | Inr (vars', ins', st2) \<Rightarrow>
                  (case (dict_get7 vars' ''name'', dict_get7 vars' ''surname'', dict_get7 vars' ''amount_of_tokens'') of
                     (Inr n, Inr s, Inr am) \<Rightarrow>
                       (let cur = d7_heap st2 a in
                        Inr (ins', st2\<lparr>d7_heap := (d7_heap st2)(a :=
                                        (AList.update ''amount_of_tokens'' am (AList.update ''surname'' s (AList.update ''name'' n cur))))\<rparr>))
                   | _ \<Rightarrow> Inl ConsoleKeyError))
      | _ \<Rightarrow> Inl ConsoleKeyError)"

definition user_login7 :: "exec7 \<Rightarrow> string list \<Rightarrow> demo7 \<Rightarrow> console_exc + string list \<times> demo7" where
  "user_login7 ex ins st =
     (let st1 = py_print7 ''Welcome to the User Account System!'' (print_database7 ''Initial'' st) in
      case py_input7 ''Please enter your ID number: '' ins st1 of
        Inl e \<Rightarrow> Inl e
      | Inr (id_number, ins1, st2) \<Rightarrow>
          (case py_input7 ''Please enter your password: '' ins1 st2 of
             Inl e \<Rightarrow> Inl e
           | Inr (password, ins2, st3) \<Rightarrow>
               (case find_account7 (d7_heap st3) (d7_db st3) id_number password of
                  Inl e \<Rightarrow> Inl e
                | Inr None \<Rightarrow> Inr (ins2, py_print7 ''Invalid ID or password.'' st3)
                | Inr (Some (uid, a)) \<Rightarrow>
                    user_session7 ex a ins2 (py_print7 ''Login successful!'' st3))))"

text \<open>The module body: \<^verbatim>\<open>user_login()\<close>, then \<^verbatim>\<open>print_database("Final")\<close>.\<close>

definition test7_main :: "exec7 \<Rightarrow> string list \<Rightarrow> console_exc + demo7" where
  "test7_main ex ins =
     (case user_login7 ex ins init_demo7 of
        Inl e \<Rightarrow> Inl e
      | Inr (ins', st) \<Rightarrow> Inr (print_database7 ''Final'' st))"

subsection \<open>Properties\<close>

text \<open>Two accounts agree on their key and credentials.\<close>

definition same_creds7 :: "string \<times> record7 \<Rightarrow> string \<times> record7 \<Rightarrow> bool" where
  "same_creds7 = (\<lambda>(u, a) (u', a'). u' = u \<and> map_of a' ''id_number'' = map_of a ''id_number''
                                      \<and> map_of a' ''password'' = map_of a ''password'')"

text \<open>The test of the search loop: the account's \<^verbatim>\<open>id_number\<close> and
  \<^verbatim>\<open>password\<close> are the typed strings.\<close>

definition login_match7 :: "string \<Rightarrow> string \<Rightarrow> string \<times> record7 \<Rightarrow> bool" where
  "login_match7 i p = (\<lambda>(u, a). map_of a ''id_number'' = Some (PyStr i) \<and> map_of a ''password'' = Some (PyStr p))"

text \<open>The module's accounts dictionary holds the literal.\<close>

lemma db_view7_init: "db_view7 init_demo7 = accounts_db7"
  by (simp add: db_view7_def init_demo7_def accounts_db7_def upt_rec)

text \<open>\<^verbatim>\<open>print\<close> and \<^verbatim>\<open>input\<close> leave \<^verbatim>\<open>accounts_db\<close> and the store alone.\<close>

lemma py_print7_globals [simp]:
  "d7_db (py_print7 s st) = d7_db st" "d7_heap (py_print7 s st) = d7_heap st"
  by (simp_all add: py_print7_def)

lemma py_input7_globals:
  "py_input7 prompt ins st = Inr (l, ins', st') \<Longrightarrow> d7_db st' = d7_db st \<and> d7_heap st' = d7_heap st"
  by (auto simp: py_input7_def split: list.splits)

lemma print_database7_globals [simp]:
  "d7_db (print_database7 t st) = d7_db st" "d7_heap (print_database7 t st) = d7_heap st"
  unfolding print_database7_def by (subst fold_invariant_field; simp add: split_beta)+

lemma db_view7_print_database: "db_view7 (print_database7 t st) = db_view7 st"
  by (simp add: db_view7_def)

text \<open>A session whose lines leave the globals alone leaves them alone.\<close>

lemma session_loop7_globals:
  "\<forall>l g h v. fst (ex l g h v) = g \<and> fst (snd (ex l g h v)) = h \<Longrightarrow>
   session_loop7 ex vars ins st = Inr (vars', ins', st') \<Longrightarrow> d7_db st' = d7_db st \<and> d7_heap st' = d7_heap st"
proof (induction ex vars ins st rule: session_loop7.induct)
  case (2 ex vars l ls st)
  obtain g' h' vars1 pr m where e: "ex l (d7_db st) (d7_heap st) vars = (g', h', vars1, pr, m)"
    by (cases "ex l (d7_db st) (d7_heap st) vars") auto
  with 2(3) have gh: "g' = d7_db st" "h' = d7_heap st"
    by (metis fst_conv snd_conv)+
  show ?case
  proof (cases "py_lower l = ''exit''")
    case True
    with 2(4) show ?thesis by (auto simp: Let_def)
  next
    case False
    then show ?thesis using 2 e gh by (cases m) (auto simp: Let_def)
  qed
qed simp

lemma find_account7_Some:
  "find_account7 deref db i p = Inr (Some (u, r)) \<Longrightarrow> (u, r) \<in> set db \<and> login_match7 i p (u, deref r)"
  by (induction deref db i p rule: find_account7.induct)
     (auto simp: dict_get7_def login_match7_def split: option.splits if_splits sum.splits)

lemma same_creds7_refl: "list_all2 same_creds7 db db"
  by (induction db) (auto simp: same_creds7_def)

text \<open>Changing one object of the store, keeping its credentials, keeps the
  credentials of every account, whichever keys share the object.\<close>

lemma same_creds7_store_update:
  "map_of acc' ''id_number'' = map_of (h a) ''id_number'' \<Longrightarrow> map_of acc' ''password'' = map_of (h a) ''password'' \<Longrightarrow>
   list_all2 same_creds7 (map (\<lambda>(k, b). (k, h b)) g) (map (\<lambda>(k, b). (k, (h(a := acc')) b)) g)"
  by (induction g) (auto simp: same_creds7_def)

lemma user_session7_globals:
  assumes "\<forall>l g h v. fst (ex l g h v) = g \<and> fst (snd (ex l g h v)) = h"
    and "user_session7 ex a ins st = Inr (ins', st')"
  shows "d7_db st' = d7_db st \<and> (\<exists>acc'. d7_heap st' = (d7_heap st)(a := acc')
           \<and> map_of acc' ''id_number'' = map_of (d7_heap st a) ''id_number''
           \<and> map_of acc' ''password'' = map_of (d7_heap st a) ''password'')"
  using assms(2) session_loop7_globals [OF assms(1)]
  by (fastforce simp: user_session7_def Let_def update_conv' split: sum.splits prod.splits)

lemma db_view7_same:
  "d7_db st' = d7_db st \<Longrightarrow> d7_heap st' = d7_heap st \<Longrightarrow> list_all2 same_creds7 (db_view7 st) (db_view7 st')"
  by (simp add: db_view7_def same_creds7_refl)

lemma db_view7_store_update:
  assumes "d7_db st' = d7_db st" "d7_heap st' = (d7_heap st)(a := acc')"
    and "map_of acc' ''id_number'' = map_of (d7_heap st a) ''id_number''"
    and "map_of acc' ''password'' = map_of (d7_heap st a) ''password''"
  shows "list_all2 same_creds7 (db_view7 st) (db_view7 st')"
  unfolding db_view7_def by (simp only: assms(1,2)) (rule same_creds7_store_update [of acc' "d7_heap st" a, OF assms(3,4)])

lemma user_login7_creds:
  assumes "\<forall>l g h v. fst (ex l g h v) = g \<and> fst (snd (ex l g h v)) = h"
    and "user_login7 ex ins st = Inr (ins', st')"
  shows "list_all2 same_creds7 (db_view7 st) (db_view7 st')"
  using assms(2)
  unfolding user_login7_def Let_def
  apply (simp only: split: sum.split_asm prod.split_asm option.split_asm)
  by (auto dest!: py_input7_globals user_session7_globals [OF assms(1)] intro: db_view7_same db_view7_store_update)

text \<open>A session that deletes one of the editable fields (\<^verbatim>\<open>del name\<close>)
  crashes the program at the write-back with \<^verbatim>\<open>KeyError\<close>: the fields the
  session changed are lost and the final database is never printed.\<close>

lemma test7_main_deleted_field_key_error:
  "case test7_main (\<lambda>l g h v. (g, h, AList.delete ''name'' v, [], None)) [''1'', ''password123'', ''del name'', ''exit''] of
     Inl e \<Rightarrow> e = ConsoleKeyError
   | Inr st \<Rightarrow> False"
  by code_simp

text \<open>\<^verbatim>\<open>exec\<close> runs the typed line with the module's globals: a logged-in
  user can rewrite another user's password through \<^verbatim>\<open>accounts_db\<close>.\<close>

lemma test7_main_exec_rewrites_password:
  "case test7_main
          (\<lambda>l g h v. (g, (case map_of g ''user2'' of
                               Some b \<Rightarrow> h(b := AList.update ''password'' (PyStr ''hacked'') (h b))
                             | None \<Rightarrow> h), v, [], None))
          [''1'', ''password123'', ''accounts_db['' @ quoted ''user2'' @ ''][''  @ quoted ''password'' @ ''] = '' @ quoted ''hacked'', ''exit''] of
     Inr st \<Rightarrow> map_of (snd (db_view7 st ! 1)) ''password'' = Some (PyStr ''hacked'')
   | Inl e \<Rightarrow> False"
  by code_simp

text \<open>The write-back changes the object the login found: a line that binds
  the user's key of \<^verbatim>\<open>accounts_db\<close> to a new dictionary makes the session's
  edits land in an object the database no longer holds.\<close>

lemma test7_main_rebinding_loses_edits:
  "case test7_main
          (\<lambda>l g h v. (AList.update ''user1'' 2 g, h(2 := []), AList.update ''amount_of_tokens'' (PyNum 1000) v, [], None))
          [''1'', ''password123'', ''accounts_db['' @ quoted ''user1'' @ ''] = {}; amount_of_tokens = 1000'', ''exit''] of
     Inr st \<Rightarrow> db_view7 st = [(''user1'', []), (''user2'', snd (accounts_db7 ! 1))]
              \<and> map_of (d7_heap st 0) ''amount_of_tokens'' = Some (PyNum 1000)
   | Inl e \<Rightarrow> False"
  by code_simp

text \<open>C18: The search loop of \<^verbatim>\<open>user_login\<close>, with its \<^verbatim>\<open>break\<close>, finds
  the first account whose \<^verbatim>\<open>id_number\<close> and \<^verbatim>\<open>password\<close> are the typed
  strings, as \<open>List.find\<close> does, on every dictionary whose accounts have both
  keys.\<close>

theorem find_account7_find:
  "\<forall>(u, a) \<in> set db. ''id_number'' \<in> dom (map_of a) \<and> ''password'' \<in> dom (map_of a) \<Longrightarrow>
   find_account7 id db i p = Inr (List.find (login_match7 i p) db)"
  by (induction "id :: record7 \<Rightarrow> record7" db i p rule: find_account7.induct)
     (auto simp: dict_get7_def login_match7_def split: option.splits)

theorem find_account7_find_witness:
  "find_account7 id accounts_db7 ''2'' ''mypassword'' = Inr (List.find (login_match7 ''2'' ''mypassword'') accounts_db7)
   \<and> List.find (login_match7 ''2'' ''mypassword'') accounts_db7 \<noteq> None"
proof
  show "find_account7 id accounts_db7 ''2'' ''mypassword'' = Inr (List.find (login_match7 ''2'' ''mypassword'') accounts_db7)"
    by (rule find_account7_find) (simp add: accounts_db7_def)
  show "List.find (login_match7 ''2'' ''mypassword'') accounts_db7 \<noteq> None"
    by (simp add: accounts_db7_def login_match7_def)
qed

text \<open>C17: Whatever the session's lines execute on the account's editable fields,
  as long as they leave \<^verbatim>\<open>accounts_db\<close> and the account objects alone, a
  run of the program that ends normally leaves every account with its key,
  its \<^verbatim>\<open>id_number\<close> and its \<^verbatim>\<open>password\<close>: the write-back copies only
  \<^verbatim>\<open>name\<close>, \<^verbatim>\<open>surname\<close> and \<^verbatim>\<open>amount_of_tokens\<close>, into the account
  that logged in.\<close>

theorem test7_main_keeps_credentials:
  "\<forall>l g h v. fst (ex l g h v) = g \<and> fst (snd (ex l g h v)) = h \<Longrightarrow>
   test7_main ex ins = Inr st \<Longrightarrow> list_all2 same_creds7 accounts_db7 (db_view7 st)"
  using user_login7_creds [of ex ins init_demo7]
  by (auto simp: test7_main_def db_view7_init db_view7_print_database split: sum.splits prod.splits)

theorem test7_main_keeps_credentials_witness:
  "(\<forall>l g h v. fst ((\<lambda>l g h v. (g, h, AList.update ''amount_of_tokens'' (PyNum 1000) v, [], None)) l g h v) = g
      \<and> fst (snd ((\<lambda>l g h v. (g, h, AList.update ''amount_of_tokens'' (PyNum 1000) v, [], None)) l g h v)) = h)
   \<and> (case test7_main (\<lambda>l g h v. (g, h, AList.update ''amount_of_tokens'' (PyNum 1000) v, [], None))
          [''1'', ''password123'', ''amount_of_tokens = 1000'', ''exit''] of
        Inr st \<Rightarrow> list_all2 same_creds7 accounts_db7 (db_view7 st) \<and> db_view7 st \<noteq> accounts_db7
      | Inl e \<Rightarrow> False)"
proof -
  have r: "case test7_main (\<lambda>l g h v. (g, h, AList.update ''amount_of_tokens'' (PyNum 1000) v, [], None))
          [''1'', ''password123'', ''amount_of_tokens = 1000'', ''exit''] of
     Inr st \<Rightarrow> db_view7 st \<noteq> accounts_db7 | Inl e \<Rightarrow> False"
    by code_simp
  then show ?thesis
    using test7_main_keeps_credentials [of "\<lambda>l g h v. (g, h, AList.update ''amount_of_tokens'' (PyNum 1000) v, [], None)"]
    by (auto split: sum.splits)
qed

end
