(* ===== verification/Session8.thy ===== *)
theory Session8
  imports Visualization Tuto7
begin

text \<open>
  \<^verbatim>\<open>session.user_session\<close> and \<^verbatim>\<open>main.main\<close> of tuto8. Neither runs:
  loading \<^verbatim>\<open>main.py\<close> stops with \<^verbatim>\<open>ImportError\<close> (\<open>main_py_import_error\<close>).
  They are modelled as the code is written, so that the model says what a
  call would do. A global name is looked up in the module's namespace
  (\<open>module_namespace\<close>), and a missing one raises \<^verbatim>\<open>NameError\<close>.
  \<^verbatim>\<open>update_account\<close>, which no module defines, is a parameter
  (\<open>update_fn\<close>); \<^verbatim>\<open>exec\<close> of a typed line is a parameter (\<open>exec8\<close>), as in
  \<open>Tuto7\<close>. The model compares accounts by value; in Python the
  \<^verbatim>\<open>Token\<close> objects inside them compare by identity.
\<close>

datatype main_exc = MNameError string | MIndexError | MKeyError | MEOFError

text \<open>\<^verbatim>\<open>exec(line, globals(), user_vars)\<close>: the new variables, what the
  line printed, and the message of the exception it raised.\<close>

type_synonym exec8 = "string \<Rightarrow> account \<Rightarrow> account \<times> string \<times> string option"

text \<open>\<^verbatim>\<open>update_account(user_id, user_vars)\<close>: the new accounts, or an exception.\<close>

type_synonym update_fn = "string \<Rightarrow> account \<Rightarrow> accounts \<Rightarrow> main_exc + accounts"

text \<open>The \<^verbatim>\<open>while True\<close> loop of \<^verbatim>\<open>user_session\<close>: one typed line per
  iteration; it returns the variables at \<^verbatim>\<open>exit\<close>, the lines not read and
  the output.\<close>

fun session_loop8 :: "exec8 \<Rightarrow> account \<Rightarrow> string list \<Rightarrow> string \<Rightarrow> main_exc + account \<times> string list \<times> string" where
  "session_loop8 ex vars [] out = Inl MEOFError"
| "session_loop8 ex vars (l # ls) out =
     (let out1 = out @ ''>>> '' in
      if py_lower l = ''exit'' then Inr (vars, ls, out1 @ ''Logging out.'' @ [newline_char])
      else (case ex l vars of
              (vars', printed, None) \<Rightarrow>
                session_loop8 ex vars' ls
                  (out1 @ printed @ ''Updated account details: '' @ account_repr vars' @ [newline_char])
            | (vars', printed, Some msg) \<Rightarrow>
                session_loop8 ex vars' ls (out1 @ printed @ ''An error occurred: '' @ msg @ [newline_char])))"

text \<open>\<^verbatim>\<open>user_session(user_account)\<close> in a module whose global names are
  \<open>ns\<close>: the id of the account (the first key whose account equals it; an
  empty list raises \<^verbatim>\<open>IndexError\<close>), the three editable fields, the
  greeting, the loop, and the call of \<^verbatim>\<open>update_account\<close>.\<close>

definition user_session8 ::
  "string list \<Rightarrow> update_fn \<Rightarrow> exec8 \<Rightarrow> account \<Rightarrow> accounts \<Rightarrow> string list \<Rightarrow> main_exc + accounts \<times> string list \<times> string" where
  "user_session8 ns upd ex acc db ins =
     (if ''accounts_db'' \<notin> set ns then Inl (MNameError ''accounts_db'')
      else
        (case [uid. (uid, a) \<leftarrow> db, a = acc] of
           [] \<Rightarrow> Inl MIndexError
         | user_id # _ \<Rightarrow>
             (case (map_of acc ''name'', map_of acc ''surname'', map_of acc ''amount_of_tokens'') of
                (Some n, Some s, Some t) \<Rightarrow>
                  (let vars = [(''name'', n), (''surname'', s), (''amount_of_tokens'', t)];
                       out = ''Welcome, '' @ token_repr n @ '' '' @ token_repr s @ ''!'' @ [newline_char]
                             @ ''You can modify your account details. Type 'exit' to log out.'' @ [newline_char]
                   in case session_loop8 ex vars ins out of
                        Inl e \<Rightarrow> Inl e
                      | Inr (vars', ins', out') \<Rightarrow>
                          if ''update_account'' \<notin> set ns then Inl (MNameError ''update_account'')
                          else (case upd user_id vars' db of
                                  Inl e \<Rightarrow> Inl e
                                | Inr db' \<Rightarrow> Inr (db', ins', out')))
              | _ \<Rightarrow> Inl MKeyError)))"

text \<open>\<^verbatim>\<open>main()\<close>: the login (which reads two lines), then, for an account,
  the session and the figure; \<^verbatim>\<open>print_database("Final")\<close> returns its text,
  which \<^verbatim>\<open>main\<close> discards. The result is the accounts, the output and the
  plotting calls.\<close>

definition main8 :: "update_fn \<Rightarrow> exec8 \<Rightarrow> accounts \<Rightarrow> string list \<Rightarrow> main_exc + accounts \<times> string \<times> plot_call list" where
  "main8 upd ex db ins =
     (case user_login8 db ins of
        Inl (LoginNameError x) \<Rightarrow> Inl (MNameError x)
      | Inl LoginKeyError \<Rightarrow> Inl MKeyError
      | Inl LoginEOFError \<Rightarrow> Inl MEOFError
      | Inr (None, out) \<Rightarrow> Inr (db, out, [])
      | Inr (Some acc, out) \<Rightarrow>
          (case user_session8 (module_namespace M_session) upd ex acc db (drop 2 ins) of
             Inl e \<Rightarrow> Inl e
           | Inr (db', ins', out') \<Rightarrow>
               (case read8 db' of
                  Inl KeyError \<Rightarrow> Inl MKeyError
                | Inr calls \<Rightarrow> Inr (db', out @ out', calls))))"

text \<open>\<^verbatim>\<open>session.py\<close> imports \<^verbatim>\<open>update_account\<close> but not \<^verbatim>\<open>accounts_db\<close>:
  were the import to succeed, every call of \<^verbatim>\<open>user_session\<close> would still
  raise \<^verbatim>\<open>NameError\<close> at its first statement, whatever
  \<^verbatim>\<open>update_account\<close> does.\<close>

lemma user_session8_name_error:
  "user_session8 (module_namespace M_session) upd ex acc db ins = Inl (MNameError ''accounts_db'')"
  by (simp add: user_session8_def module_namespace_def)

text \<open>The ids the comprehension of \<^verbatim>\<open>user_session\<close> lists are keys of the
  account.\<close>

lemma session_ids_mem: "x \<in> set [uid. (uid, a) \<leftarrow> db, a = acc] \<Longrightarrow> (x, acc) \<in> set db"
  by (induction db) auto

text \<open>In a namespace with both names, the session writes back only through
  \<^verbatim>\<open>update_account\<close>, under a key of the logged-in account.\<close>

lemma user_session8_update:
  assumes "''accounts_db'' \<in> set ns" "''update_account'' \<in> set ns"
    and "user_session8 ns upd ex acc db ins = Inr (db', ins', out')"
  shows "\<exists>user_id vars'. (user_id, acc) \<in> set db \<and> upd user_id vars' db = Inr db'"
proof -
  obtain user_id rest where ids: "[uid. (uid, a) \<leftarrow> db, a = acc] = user_id # rest"
    using assms by (auto simp: user_session8_def split: list.splits)
  then have "(user_id, acc) \<in> set db"
    by (intro session_ids_mem) simp
  moreover have "\<exists>vars'. upd user_id vars' db = Inr db'"
    using assms ids
    by (auto simp: user_session8_def Let_def split: option.splits sum.splits prod.splits if_splits)
  ultimately show ?thesis by blast
qed

text \<open>A call of \<^verbatim>\<open>main()\<close> would stop at its first statement:
  \<^verbatim>\<open>user_login\<close> raises \<^verbatim>\<open>NameError\<close> on \<^verbatim>\<open>print_database\<close>, so neither the
  session nor the figure is ever reached, whatever the accounts and the input.\<close>

lemma main8_name_error: "main8 upd ex db ins = Inl (MNameError ''print_database'')"
  by (simp add: main8_def user_login8_name_error)

end
