(* ===== verification/Scheduler.thy ===== *)
theory Scheduler
  imports Powers
begin

text \<open>
  The scheduler threads of \<^verbatim>\<open>powers.py\<close> interleaved with the main thread.
  A thread started by \<^verbatim>\<open>Power.start_schedule\<close> runs \<^verbatim>\<open>_schedule_loop\<close>:
  it tests its \<^verbatim>\<open>stop_event\<close>, runs \<^verbatim>\<open>Power.execute\<close>, sleeps, and tests
  again. The main thread calls the functions of the module; a call that
  stops threads (\<^verbatim>\<open>stop_schedule\<close>: \<^verbatim>\<open>stop_event.set()\<close>, then
  \<^verbatim>\<open>thread.join()\<close>) stops them one after the other, setting a thread's
  event and waiting until it has ended before setting the next. The events are a main call, the return of one \<^verbatim>\<open>join\<close>, and one
  step of one thread, in any order the scheduler of the interpreter picks
  (\<open>sched_step\<close>). \<^verbatim>\<open>exec\<close> of a power's code is a parameter (\<open>pexec\<close>):
  what the code prints and the message of the exception it raises; the code
  is assumed to leave the module's state alone. The powers' dictionaries
  and the list \<open>alive\<close> of \<open>Powers\<close> are the main thread's view; this theory
  shows that view exact once every \<^verbatim>\<open>join\<close> has returned.
\<close>

type_synonym pexec = "string \<Rightarrow> string \<times> string option"

text \<open>\<^verbatim>\<open>Power.execute\<close>: run the code; an exception is caught and printed.\<close>

definition power_execute :: "pexec \<Rightarrow> power \<Rightarrow> string" where
  "power_execute ex p =
     (case ex (p_code p) of
        (printed, None) \<Rightarrow> printed
      | (printed, Some e) \<Rightarrow> printed @ ''Error executing power '' @ quoted (p_name p) @ '': '' @ e @ [newline_char])"

text \<open>Where a thread is in \<^verbatim>\<open>_schedule_loop\<close>: about to test the event,
  inside \<^verbatim>\<open>execute\<close>, inside \<^verbatim>\<open>time.sleep\<close>, or ended.\<close>

datatype tpc = AtCheck | InExec | InSleep | Exited

text \<open>A thread: the \<^verbatim>\<open>Power\<close> object its target belongs to, where it is, and
  whether its \<^verbatim>\<open>stop_event\<close> is set.\<close>

record sthread =
  th_power :: power
  th_pc :: tpc
  th_stop :: bool

text \<open>The whole state: the main thread's view of the module (\<open>sc_pw\<close>), the
  threads by number, the threads the main thread is joining, the executions
  the threads started (thread and power name), and the output.\<close>

record sched =
  sc_pw :: powers_state
  sc_th :: "(nat \<times> sthread) list"
  sc_join :: "nat list"
  sc_log :: "(nat \<times> string) list"
  sc_out :: string

datatype pw_call = PCreate string string int int | PDelete string | PCall string int | PList int | PStopAll

datatype sched_ev = MainCall pw_call | MainJoined nat | ThreadStep nat

definition init_sched :: sched where
  "init_sched = \<lparr>sc_pw = init_powers, sc_th = [], sc_join = [], sc_log = [], sc_out = []\<rparr>"

text \<open>The module state after a call of the main thread, and what the call
  itself printed (\<^verbatim>\<open>call_power\<close> runs \<^verbatim>\<open>execute\<close> in the main thread).\<close>

definition pw_apply :: "pexec \<Rightarrow> powers_state \<Rightarrow> pw_call \<Rightarrow> powers_state \<times> string" where
  "pw_apply ex st c =
     (case c of
        PCreate n code l iv \<Rightarrow> (snd (create_power st n code l iv), [])
      | PDelete n \<Rightarrow> (snd (delete_power st n), [])
      | PCall n l \<Rightarrow>
          (case (map_of (powers_db st) n, snd (call_power st n l)) of
             (Some p, Some code) \<Rightarrow> (st, power_execute ex p)
           | _ \<Rightarrow> (st, []))
      | PList l \<Rightarrow> (st, [])
      | PStopAll \<Rightarrow> (snd (stop_all_scheduled_powers st), []))"

text \<open>\<^verbatim>\<open>stop_event.set()\<close> of the first thread of a list of threads to stop.\<close>

definition stop_first :: "nat list \<Rightarrow> (nat \<times> sthread) list \<Rightarrow> (nat \<times> sthread) list" where
  "stop_first ts ths =
     (case ts of
        [] \<Rightarrow> ths
      | t0 # _ \<Rightarrow> map (\<lambda>(t, th). (t, if t = t0 then th\<lparr>th_stop := True\<rparr> else th)) ths)"

text \<open>A call of the main thread. The threads the call stops (running before,
  not after) are stopped one after the other, in the order they were
  started, which is the order of \<open>alive\<close> and of \<^verbatim>\<open>scheduled_powers\<close>:
  \<^verbatim>\<open>stop_schedule\<close> sets the first thread's event and joins it, and the
  next event is set only when that \<^verbatim>\<open>join\<close> has returned. A thread the call
  started (the number \<open>next_thread\<close> was taken) begins before its first
  test, with the power stored under the created name.\<close>

definition main_call :: "pexec \<Rightarrow> sched \<Rightarrow> pw_call \<Rightarrow> sched" where
  "main_call ex s c =
     (let st = sc_pw s; (st', printed) = pw_apply ex st c;
          stopped = filter (\<lambda>t. t \<notin> set (alive st')) (alive st);
          th1 = stop_first stopped (sc_th s);
          started = (case c of
                       PCreate n code l iv \<Rightarrow>
                         if next_thread st' \<noteq> next_thread st
                         then (case map_of (powers_db st') n of
                                 Some p \<Rightarrow> [(next_thread st, \<lparr>th_power = p, th_pc = AtCheck, th_stop = False\<rparr>)]
                               | None \<Rightarrow> [])
                         else []
                     | _ \<Rightarrow> [])
      in s\<lparr>sc_pw := st', sc_th := th1 @ started, sc_join := stopped, sc_out := sc_out s @ printed\<rparr>)"

text \<open>One step of thread \<open>t\<close> in \<^verbatim>\<open>_schedule_loop\<close>.\<close>

definition thread_step :: "pexec \<Rightarrow> nat \<Rightarrow> sthread \<Rightarrow> sched \<Rightarrow> sched" where
  "thread_step ex t th s =
     (case th_pc th of
        AtCheck \<Rightarrow>
          if th_stop th then s\<lparr>sc_th := AList.update t (th\<lparr>th_pc := Exited\<rparr>) (sc_th s)\<rparr>
          else s\<lparr>sc_th := AList.update t (th\<lparr>th_pc := InExec\<rparr>) (sc_th s),
                 sc_log := sc_log s @ [(t, p_name (th_power th))]\<rparr>
      | InExec \<Rightarrow> s\<lparr>sc_th := AList.update t (th\<lparr>th_pc := InSleep\<rparr>) (sc_th s),
                   sc_out := sc_out s @ power_execute ex (th_power th)\<rparr>
      | InSleep \<Rightarrow> s\<lparr>sc_th := AList.update t (th\<lparr>th_pc := AtCheck\<rparr>) (sc_th s)\<rparr>
      | Exited \<Rightarrow> s)"

text \<open>An event, when it can happen: the main thread calls only when it joins
  no thread; the pending \<^verbatim>\<open>join\<close> returns once its thread has ended, and
  the main thread then sets the event of the next thread to stop; a thread
  steps until it has ended.\<close>

fun sched_step :: "pexec \<Rightarrow> sched \<Rightarrow> sched_ev \<Rightarrow> sched option" where
  "sched_step ex s (MainCall c) = (if sc_join s = [] then Some (main_call ex s c) else None)"
| "sched_step ex s (MainJoined t) =
     (case sc_join s of
        t0 # rest \<Rightarrow>
          if t = t0 \<and> (case map_of (sc_th s) t of Some th \<Rightarrow> th_pc th = Exited | None \<Rightarrow> False)
          then Some (s\<lparr>sc_join := rest, sc_th := stop_first rest (sc_th s)\<rparr>) else None
      | [] \<Rightarrow> None)"
| "sched_step ex s (ThreadStep t) =
     (case map_of (sc_th s) t of
        Some th \<Rightarrow> if th_pc th \<noteq> Exited then Some (thread_step ex t th s) else None
      | None \<Rightarrow> None)"

text \<open>The invariant of the interleaved system: a thread the main thread sees
  running has its event clear; a thread whose event is clear is seen running
  or waits in the queue of threads to stop, and has not ended; a stopped
  thread that is not being joined has ended; thread numbers are below
  \<open>next_thread\<close>; the queue of threads to stop is distinct, apart from
  \<open>alive\<close>, made of known threads, and its head has its event set; and
  \<open>alive\<close> is distinct.\<close>

definition thread_ok :: "sched \<Rightarrow> nat \<Rightarrow> sthread \<Rightarrow> bool" where
  "thread_ok s t th \<longleftrightarrow>
     (\<not> th_stop th \<longrightarrow> (t \<in> set (alive (sc_pw s)) \<or> t \<in> set (drop 1 (sc_join s))) \<and> th_pc th \<noteq> Exited)
     \<and> (th_stop th \<and> t \<notin> set (sc_join s) \<longrightarrow> th_pc th = Exited)
     \<and> t < next_thread (sc_pw s)"

definition sched_inv :: "sched \<Rightarrow> bool" where
  "sched_inv s \<longleftrightarrow>
     (\<forall>t \<in> set (alive (sc_pw s)). case map_of (sc_th s) t of Some th \<Rightarrow> \<not> th_stop th | None \<Rightarrow> False)
     \<and> (\<forall>t \<in> fst ` set (sc_th s). case map_of (sc_th s) t of Some th \<Rightarrow> thread_ok s t th | None \<Rightarrow> False)
     \<and> (\<forall>t \<in> set (sc_join s). map_of (sc_th s) t \<noteq> None \<and> t \<notin> set (alive (sc_pw s)))
     \<and> (case sc_join s of t0 # _ \<Rightarrow> (case map_of (sc_th s) t0 of Some th \<Rightarrow> th_stop th | None \<Rightarrow> False) | [] \<Rightarrow> True)
     \<and> distinct (sc_join s) \<and> distinct (alive (sc_pw s))"

text \<open>The number of steps a stopped thread still takes before it has ended.\<close>

fun exit_steps :: "tpc \<Rightarrow> nat" where
  "exit_steps AtCheck = 1"
| "exit_steps InExec = 3"
| "exit_steps InSleep = 2"
| "exit_steps Exited = 0"

text \<open>The events that let the main thread return from its joins, in the
  order of the queue: each thread runs to its end, then its \<^verbatim>\<open>join\<close>
  returns.\<close>

fun drain_events :: "sched \<Rightarrow> nat list \<Rightarrow> sched_ev list" where
  "drain_events s [] = []"
| "drain_events s (t # ts) =
     (case map_of (sc_th s) t of
        Some th \<Rightarrow> replicate (exit_steps (th_pc th)) (ThreadStep t) @ [MainJoined t]
      | None \<Rightarrow> [])
     @ drain_events s ts"

fun run_sched :: "pexec \<Rightarrow> sched \<Rightarrow> sched_ev list \<Rightarrow> sched option" where
  "run_sched ex s [] = Some s"
| "run_sched ex s (e # es) = (case sched_step ex s e of None \<Rightarrow> None | Some s' \<Rightarrow> run_sched ex s' es)"

inductive sched_reachable :: "pexec \<Rightarrow> sched \<Rightarrow> bool" for ex where
  init: "sched_reachable ex init_sched"
| step: "sched_reachable ex s \<Longrightarrow> sched_step ex s e = Some s' \<Longrightarrow> sched_reachable ex s'"


lemma create_power_threads:
  "snd (create_power st n code l iv) = st' \<Longrightarrow>
   (next_thread st' = next_thread st \<and> alive st' = alive st)
   \<or> (next_thread st' = Suc (next_thread st) \<and> alive st' = alive st @ [next_thread st]
      \<and> (\<exists>p. map_of (powers_db st') n = Some p))"
proof (cases "n \<in> fst ` set (powers_db st)")
  case False
  then show "snd (create_power st n code l iv) = st' \<Longrightarrow> ?thesis"
    by (cases "0 < iv") (auto simp: create_power_def start_schedule_def Power_def update_conv')
qed (simp add: create_power_def)

lemma delete_power_threads:
  "snd (delete_power st n) = st' \<Longrightarrow> next_thread st' = next_thread st \<and> set (alive st') \<subseteq> set (alive st)"
  by (auto simp: delete_power_def Let_def split: option.splits if_splits)

lemma stop_all_threads:
  "snd (stop_all_scheduled_powers st) = st' \<Longrightarrow> next_thread st' = next_thread st \<and> set (alive st') \<subseteq> set (alive st)"
proof -
  have "next_thread (foldl (\<lambda>s (n, p). stop_schedule s p) st xs) = next_thread st" for xs
    by (induction xs arbitrary: st) auto
  then show "snd (stop_all_scheduled_powers st) = st' \<Longrightarrow> ?thesis"
    using stop_all_fold [of st "scheduled_powers st"] by (auto simp: stop_all_scheduled_powers_def)
qed

lemma pw_apply_threads:
  assumes "pw_apply ex st c = (st', printed)"
  shows "(next_thread st' = next_thread st \<and> set (alive st') \<subseteq> set (alive st))
         \<or> (\<exists>n code l iv. c = PCreate n code l iv \<and> next_thread st' = Suc (next_thread st)
              \<and> alive st' = alive st @ [next_thread st] \<and> (\<exists>p. map_of (powers_db st') n = Some p))"
proof (cases c)
  case (PCreate n code l iv)
  with assms create_power_threads [of st n code l iv st'] show ?thesis by (auto simp: pw_apply_def)
next
  case (PDelete n)
  with assms delete_power_threads [of st n st'] show ?thesis by (auto simp: pw_apply_def)
next
  case PStopAll
  with assms stop_all_threads [of st st'] show ?thesis by (auto simp: pw_apply_def)
qed (use assms in \<open>auto simp: pw_apply_def split: option.splits prod.splits\<close>)

lemma pw_apply_distinct:
  assumes pa: "pw_apply ex st c = (st', pr)" and d: "distinct (alive st)"
    and below: "\<forall>t \<in> set (alive st). t < next_thread st"
  shows "distinct (alive st')"
proof -
  have fold: "distinct (alive (foldl (\<lambda>s (n, p). stop_schedule s p) s0 xs))" if "distinct (alive s0)" for s0 xs
    using that by (induction xs arbitrary: s0) (auto simp: stop_schedule_def distinct_removeAll split: option.splits)
  show ?thesis
  proof (cases c)
    case (PCreate n code l iv)
    with pa create_power_threads [of st n code l iv st'] d below show ?thesis
      by (auto simp: pw_apply_def)
  next
    case (PDelete n)
    with pa d show ?thesis
      by (auto simp: pw_apply_def delete_power_def stop_schedule_def Let_def distinct_removeAll split: option.splits)
  next
    case PStopAll
    with pa fold [of st "scheduled_powers st"] d show ?thesis
      by (auto simp: pw_apply_def stop_all_scheduled_powers_def)
  qed (use pa d in \<open>auto simp: pw_apply_def split: option.splits prod.splits\<close>)
qed

lemma stop_first_map_of:
  "map_of (stop_first ts ths) t = map_option (\<lambda>th. if ts \<noteq> [] \<and> t = hd ts then th\<lparr>th_stop := True\<rparr> else th) (map_of ths t)"
proof (cases ts)
  case (Cons t0 r)
  then show ?thesis
    using map_of_map_entries [of "\<lambda>t th. if t = t0 then th\<lparr>th_stop := True\<rparr> else th" ths t]
    by (simp add: stop_first_def)
qed (simp add: stop_first_def option.map_ident)

lemma mem_drop1: "t \<in> set xs \<Longrightarrow> t \<noteq> hd xs \<Longrightarrow> t \<in> set (drop 1 xs)"
  by (cases xs) auto

lemma sched_inv_alt:
  "sched_inv s \<longleftrightarrow>
     (\<forall>t \<in> set (alive (sc_pw s)). \<exists>th. map_of (sc_th s) t = Some th \<and> \<not> th_stop th)
     \<and> (\<forall>t th. map_of (sc_th s) t = Some th \<longrightarrow> thread_ok s t th)
     \<and> (\<forall>t \<in> set (sc_join s). (\<exists>th. map_of (sc_th s) t = Some th) \<and> t \<notin> set (alive (sc_pw s)))
     \<and> (sc_join s \<noteq> [] \<longrightarrow> (\<exists>th. map_of (sc_th s) (hd (sc_join s)) = Some th \<and> th_stop th))
     \<and> distinct (sc_join s) \<and> distinct (alive (sc_pw s))"
  unfolding sched_inv_def ball_keys_map_of by (auto simp: case_option_False_iff split: list.splits)

lemma sched_inv_init: "sched_inv init_sched"
  by (simp add: sched_inv_def init_sched_def init_powers_def)

text \<open>A thread step changes only the thread's place, and the log and output.\<close>

lemma thread_step_fields:
  "sc_pw (thread_step ex t th s) = sc_pw s"
  "sc_join (thread_step ex t th s) = sc_join s"
  "map_of (sc_th (thread_step ex t th s)) =
     (if th_pc th = Exited then map_of (sc_th s)
      else (map_of (sc_th s))(t \<mapsto> th\<lparr>th_pc := (case th_pc th of AtCheck \<Rightarrow> if th_stop th then Exited else InExec
                                                       | InExec \<Rightarrow> InSleep | InSleep \<Rightarrow> AtCheck | Exited \<Rightarrow> Exited)\<rparr>))"
  by (auto simp: thread_step_def update_conv' split: tpc.splits)

lemma thread_step_inv:
  assumes inv: "sched_inv s" and th: "map_of (sc_th s) t = Some th" and run: "th_pc th \<noteq> Exited"
  shows "sched_inv (thread_step ex t th s)"
proof -
  have ok: "thread_ok s t th" using inv th by (simp add: sched_inv_alt)
  have "thread_ok (thread_step ex t th s) t' th'"
    if "map_of (sc_th (thread_step ex t th s)) t' = Some th'" for t' th'
  proof (cases "t' = t")
    case True
    with that run ok show ?thesis
      by (auto simp: thread_ok_def thread_step_fields split: tpc.splits if_splits)
  next
    case False
    with that inv show ?thesis
      by (auto simp: sched_inv_alt thread_ok_def thread_step_fields run)
  qed
  with inv th run show ?thesis
    by (auto simp: sched_inv_alt thread_step_fields split: tpc.splits)
qed

lemma joined_inv:
  assumes inv: "sched_inv s" and j: "sc_join s = t # rest"
    and th: "map_of (sc_th s) t = Some th" and ex: "th_pc th = Exited"
  shows "sched_inv (s\<lparr>sc_join := rest, sc_th := stop_first rest (sc_th s)\<rparr>)"
proof -
  define s' where "s' = s\<lparr>sc_join := rest, sc_th := stop_first rest (sc_th s)\<rparr>"
  have m: "map_of (sc_th s') u = map_option (\<lambda>th. if rest \<noteq> [] \<and> u = hd rest then th\<lparr>th_stop := True\<rparr> else th)
             (map_of (sc_th s) u)" for u
    by (simp add: s'_def stop_first_map_of)
  note I = inv [unfolded sched_inv_alt]
  have old_ok: "\<And>u th. map_of (sc_th s) u = Some th \<Longrightarrow> thread_ok s u th"
    using I by blast
  have jr: "\<And>u. u \<in> set rest \<Longrightarrow> (\<exists>th. map_of (sc_th s) u = Some th) \<and> u \<notin> set (alive (sc_pw s))"
    using I j by simp
  have al: "\<And>u. u \<in> set (alive (sc_pw s)) \<Longrightarrow> \<exists>th. map_of (sc_th s) u = Some th \<and> \<not> th_stop th"
    using I by blast
  have dj: "t \<notin> set rest" "distinct rest" and da: "distinct (alive (sc_pw s))"
    using I j by simp_all
  have ok: "thread_ok s' u th'" if h: "map_of (sc_th s') u = Some th'" for u th'
  proof -
    obtain th0 where th0: "map_of (sc_th s) u = Some th0"
      and th': "th' = (if rest \<noteq> [] \<and> u = hd rest then th0\<lparr>th_stop := True\<rparr> else th0)"
      using h m [of u] by auto
    have o: "thread_ok s u th0" using old_ok th0 .
    show ?thesis
    proof (cases "rest \<noteq> [] \<and> u = hd rest")
      case True
      then have "u \<in> set rest" by (cases rest) auto
      moreover have "u < next_thread (sc_pw s)" using o by (simp add: thread_ok_def)
      ultimately show ?thesis using True th' by (simp add: thread_ok_def s'_def)
    next
      case False
      then have t0: "th' = th0" using th' by (simp only: if_False if_not_P)
      have dr: "u \<in> set (drop 1 rest)" if a: "u \<in> set rest"
      proof -
        from a have "rest \<noteq> []" by auto
        with False have "u \<noteq> hd rest" by simp
        with a show ?thesis by (rule mem_drop1)
      qed
      have ut: "u = t \<Longrightarrow> th0 = th" using th th0 by simp
      have o': "(\<not> th_stop th0 \<longrightarrow> (u \<in> set (alive (sc_pw s)) \<or> u \<in> set rest) \<and> th_pc th0 \<noteq> Exited)
                \<and> (th_stop th0 \<and> u \<noteq> t \<and> u \<notin> set rest \<longrightarrow> th_pc th0 = Exited) \<and> u < next_thread (sc_pw s)"
        using o j unfolding thread_ok_def by simp
      have g1: "\<not> th_stop th0 \<Longrightarrow> (u \<in> set (alive (sc_pw s')) \<or> u \<in> set (drop 1 (sc_join s'))) \<and> th_pc th0 \<noteq> Exited"
        using o' dr by (auto simp: s'_def)
      have g2: "th_stop th0 \<and> u \<notin> set (sc_join s') \<Longrightarrow> th_pc th0 = Exited"
        using o' ut ex by (cases "u = t") (auto simp: s'_def)
      have g3: "u < next_thread (sc_pw s')" using o' by (simp add: s'_def)
      show ?thesis unfolding thread_ok_def t0 using g1 g2 g3 by blast
    qed
  qed
  have a1: "\<forall>u \<in> set (alive (sc_pw s')). \<exists>th. map_of (sc_th s') u = Some th \<and> \<not> th_stop th"
  proof
    fix u assume "u \<in> set (alive (sc_pw s'))"
    then have ua: "u \<in> set (alive (sc_pw s))" and ur: "u \<notin> set rest" using jr by (auto simp: s'_def)
    have nh: "\<not> (rest \<noteq> [] \<and> u = hd rest)" using ur by (cases rest) auto
    from al [OF ua] obtain th where "map_of (sc_th s) u = Some th" "\<not> th_stop th" by blast
    then show "\<exists>th. map_of (sc_th s') u = Some th \<and> \<not> th_stop th"
      using nh by (simp add: m)
  qed
  have a2: "\<forall>u th'. map_of (sc_th s') u = Some th' \<longrightarrow> thread_ok s' u th'"
    using ok by blast
  have a3: "\<forall>u \<in> set (sc_join s'). (\<exists>th. map_of (sc_th s') u = Some th) \<and> u \<notin> set (alive (sc_pw s'))"
    using jr by (auto simp: s'_def stop_first_map_of)
  have a4: "sc_join s' \<noteq> [] \<longrightarrow> (\<exists>th. map_of (sc_th s') (hd (sc_join s')) = Some th \<and> th_stop th)"
  proof
    assume "sc_join s' \<noteq> []"
    then have "rest \<noteq> []" "hd rest \<in> set rest" by (auto simp: s'_def)
    with jr [of "hd rest"] show "\<exists>th. map_of (sc_th s') (hd (sc_join s')) = Some th \<and> th_stop th"
      by (auto simp: s'_def stop_first_map_of)
  qed
  have "sched_inv s'"
    unfolding sched_inv_alt using a1 a2 a3 a4 dj da by (simp add: s'_def)
  then show ?thesis by (simp add: s'_def)
qed

lemma main_call_inv:
  assumes inv: "sched_inv s" and nj: "sc_join s = []"
  shows "sched_inv (main_call ex s c)"
proof -
  obtain st' pr where pa: "pw_apply ex (sc_pw s) c = (st', pr)" by (cases "pw_apply ex (sc_pw s) c")
  define st where "st = sc_pw s"
  define stopped where "stopped = filter (\<lambda>t. t \<notin> set (alive st')) (alive st)"
  define s' where "s' = main_call ex s c"
  note I = inv [unfolded sched_inv_alt]
  have old_alive: "\<And>t. t \<in> set (alive st) \<Longrightarrow> \<exists>th. map_of (sc_th s) t = Some th \<and> \<not> th_stop th"
    using I by (simp add: st_def)
  have old_ok: "\<And>t th. map_of (sc_th s) t = Some th \<Longrightarrow> thread_ok s t th"
    using I by blast
  have da: "distinct (alive st)" using I by (simp add: st_def)
  have below: "\<forall>t \<in> set (alive st). t < next_thread st"
  proof
    fix t assume "t \<in> set (alive st)"
    then obtain th where "map_of (sc_th s) t = Some th" using old_alive by blast
    from old_ok [OF this] show "t < next_thread st" by (simp add: thread_ok_def st_def)
  qed
  have da': "distinct (alive st')" using pw_apply_distinct [OF pa] da below by (simp add: st_def)
  have ds: "distinct stopped" using da by (simp add: stopped_def)
  have ss: "\<And>t. t \<in> set stopped \<longleftrightarrow> t \<in> set (alive st) \<and> t \<notin> set (alive st')" by (auto simp: stopped_def)
  have o: "(\<not> th_stop th \<longrightarrow> t \<in> set (alive st) \<and> th_pc th \<noteq> Exited) \<and> (th_stop th \<longrightarrow> th_pc th = Exited)
           \<and> t < next_thread st" if "map_of (sc_th s) t = Some th" for t th
    using old_ok [OF that] nj unfolding thread_ok_def by (simp add: st_def)
  from pw_apply_threads [OF pa] have "sched_inv s'"
  proof (elim disjE exE conjE)
    assume nt: "next_thread st' = next_thread (sc_pw s)" and sub: "set (alive st') \<subseteq> set (alive (sc_pw s))"
    have mc: "s' = s\<lparr>sc_pw := st', sc_th := stop_first stopped (sc_th s), sc_join := stopped, sc_out := sc_out s @ pr\<rparr>"
      unfolding s'_def main_call_def Let_def pa prod.case using nt by (cases c) (simp_all add: stopped_def st_def)
    have m: "map_of (sc_th s') u = map_option (\<lambda>th. if stopped \<noteq> [] \<and> u = hd stopped then th\<lparr>th_stop := True\<rparr> else th)
               (map_of (sc_th s) u)" for u
      by (simp add: mc stop_first_map_of)
    have ok: "thread_ok s' u th'" if h: "map_of (sc_th s') u = Some th'" for u th'
    proof -
      obtain th0 where th0: "map_of (sc_th s) u = Some th0"
        and th': "th' = (if stopped \<noteq> [] \<and> u = hd stopped then th0\<lparr>th_stop := True\<rparr> else th0)"
        using h m [of u] by auto
      note o0 = o [OF th0]
      show ?thesis
      proof (cases "stopped \<noteq> [] \<and> u = hd stopped")
        case True
        then have "u \<in> set stopped" by (cases stopped) auto
        then show ?thesis using True th' o0 nt by (simp add: thread_ok_def mc st_def)
      next
        case False
        then have t0: "th' = th0" using th' by (simp only: if_False if_not_P)
        have dr: "u \<in> set (drop 1 stopped)" if a: "u \<in> set stopped"
        proof -
          from a have "stopped \<noteq> []" by auto
          with False have "u \<noteq> hd stopped" by simp
          with a show ?thesis by (rule mem_drop1)
        qed
        have g1: "\<not> th_stop th0 \<Longrightarrow> (u \<in> set (alive (sc_pw s')) \<or> u \<in> set (drop 1 (sc_join s'))) \<and> th_pc th0 \<noteq> Exited"
          using o0 dr ss [of u] by (auto simp: mc)
        have g2: "th_stop th0 \<and> u \<notin> set (sc_join s') \<Longrightarrow> th_pc th0 = Exited" using o0 by simp
        have g3: "u < next_thread (sc_pw s')" using o0 nt by (simp add: mc st_def)
        show ?thesis unfolding thread_ok_def t0 using g1 g2 g3 by blast
      qed
    qed
    have a1: "\<forall>u \<in> set (alive (sc_pw s')). \<exists>th. map_of (sc_th s') u = Some th \<and> \<not> th_stop th"
    proof
      fix u assume "u \<in> set (alive (sc_pw s'))"
      then have ua': "u \<in> set (alive st')" by (simp add: mc)
      then have ua: "u \<in> set (alive st)" using sub by (auto simp: st_def)
      have "u \<notin> set stopped" using ua' ss by blast
      then have nh: "\<not> (stopped \<noteq> [] \<and> u = hd stopped)" by (cases stopped) auto
      from old_alive [OF ua] obtain th where "map_of (sc_th s) u = Some th" "\<not> th_stop th" by blast
      then show "\<exists>th. map_of (sc_th s') u = Some th \<and> \<not> th_stop th" using nh by (simp add: m)
    qed
    have a2: "\<forall>u th'. map_of (sc_th s') u = Some th' \<longrightarrow> thread_ok s' u th'" using ok by blast
    have a3: "\<forall>u \<in> set (sc_join s'). (\<exists>th. map_of (sc_th s') u = Some th) \<and> u \<notin> set (alive (sc_pw s'))"
    proof
      fix u assume "u \<in> set (sc_join s')"
      then have "u \<in> set stopped" by (simp add: mc)
      then have ua: "u \<in> set (alive st)" and un: "u \<notin> set (alive st')" using ss by auto
      from old_alive [OF ua] obtain th where "map_of (sc_th s) u = Some th" by blast
      then have "\<exists>th. map_of (sc_th s') u = Some th" by (simp add: m)
      moreover have "u \<notin> set (alive (sc_pw s'))" using un by (simp add: mc)
      ultimately show "(\<exists>th. map_of (sc_th s') u = Some th) \<and> u \<notin> set (alive (sc_pw s'))" by blast
    qed
    have a4: "sc_join s' \<noteq> [] \<longrightarrow> (\<exists>th. map_of (sc_th s') (hd (sc_join s')) = Some th \<and> th_stop th)"
    proof
      assume "sc_join s' \<noteq> []"
      then have sn: "stopped \<noteq> []" and hj: "hd (sc_join s') = hd stopped" by (simp_all add: mc)
      then have "hd stopped \<in> set (alive st)" using ss by (cases stopped) auto
      from old_alive [OF this] obtain th where "map_of (sc_th s) (hd stopped) = Some th" by blast
      then show "\<exists>th. map_of (sc_th s') (hd (sc_join s')) = Some th \<and> th_stop th" using sn hj by (simp add: m)
    qed
    show "sched_inv s'"
      unfolding sched_inv_alt using a1 a2 a3 a4 ds da' by (simp add: mc)
  next
    fix n code l iv p
    assume c: "c = PCreate n code l iv" and nt: "next_thread st' = Suc (next_thread (sc_pw s))"
      and al: "alive st' = alive (sc_pw s) @ [next_thread (sc_pw s)]" and p: "map_of (powers_db st') n = Some p"
    define new where "new = \<lparr>th_power = p, th_pc = AtCheck, th_stop = False\<rparr>"
    have stopped_Nil: "stopped = []" by (simp add: stopped_def st_def al)
    have mc: "s' = s\<lparr>sc_pw := st', sc_th := sc_th s @ [(next_thread st, new)], sc_join := [], sc_out := sc_out s @ pr\<rparr>"
      using stopped_Nil unfolding s'_def main_call_def Let_def pa prod.case
      by (simp add: c nt p new_def stopped_def st_def stop_first_def)
    have fresh: "map_of (sc_th s) (next_thread st) = None"
      using o by (cases "map_of (sc_th s) (next_thread st)") auto
    have m2: "map_of (sc_th s') = (map_of (sc_th s))(next_thread st \<mapsto> new)"
    proof -
      have "sc_th s' = sc_th s @ [(next_thread st, new)]" by (simp add: mc)
      then show ?thesis using map_of_snoc_fresh [OF fresh] by simp
    qed
    have a1: "\<forall>u \<in> set (alive (sc_pw s')). \<exists>th. map_of (sc_th s') u = Some th \<and> \<not> th_stop th"
    proof
      fix u assume "u \<in> set (alive (sc_pw s'))"
      then have "u \<in> set (alive st) \<or> u = next_thread st" by (auto simp: mc al st_def)
      with old_alive [of u] show "\<exists>th. map_of (sc_th s') u = Some th \<and> \<not> th_stop th"
        by (auto simp: m2 new_def)
    qed
    have a2: "\<forall>u th'. map_of (sc_th s') u = Some th' \<longrightarrow> thread_ok s' u th'"
    proof (intro allI impI)
      fix u th' assume h: "map_of (sc_th s') u = Some th'"
      show "thread_ok s' u th'"
      proof (cases "u = next_thread st")
        case True
        with h have "th' = new" by (simp add: m2)
        with True show ?thesis by (simp add: new_def thread_ok_def mc al nt st_def)
      next
        case False
        with h have "map_of (sc_th s) u = Some th'" by (simp add: m2)
        from o [OF this] show ?thesis by (auto simp: thread_ok_def mc al nt st_def)
      qed
    qed
    have dn: "distinct (alive st')" by (rule da')
    show "sched_inv s'"
      unfolding sched_inv_alt using a1 a2 dn by (simp add: mc)
  qed
  then show ?thesis by (simp add: s'_def)
qed

lemma sched_step_inv:
  assumes inv: "sched_inv s" and step: "sched_step ex s e = Some s'"
  shows "sched_inv s'"
proof (cases e)
  case (MainCall c)
  with inv step show ?thesis by (auto simp: main_call_inv split: if_splits)
next
  case (MainJoined t)
  with step obtain rest th where j: "sc_join s = t # rest" and th: "map_of (sc_th s) t = Some th"
    and ex: "th_pc th = Exited" and s': "s' = s\<lparr>sc_join := rest, sc_th := stop_first rest (sc_th s)\<rparr>"
    by (auto split: list.splits if_splits option.splits)
  show ?thesis unfolding s' by (rule joined_inv [OF inv j th ex])
next
  case (ThreadStep t)
  with inv step show ?thesis by (auto simp: thread_step_inv split: if_splits option.splits)
qed

lemma sched_reachable_inv: "sched_reachable ex s \<Longrightarrow> sched_inv s"
  by (induction rule: sched_reachable.induct) (auto intro: sched_inv_init sched_step_inv)

lemma run_sched_append:
  "run_sched ex s (xs @ ys) = (case run_sched ex s xs of None \<Rightarrow> None | Some s' \<Rightarrow> run_sched ex s' ys)"
  by (induction xs arbitrary: s) (auto split: option.splits)

lemma thread_step_log:
  "sc_log (thread_step ex t th s) =
     sc_log s @ (if th_pc th = AtCheck \<and> \<not> th_stop th then [(t, p_name (th_power th))] else [])"
  by (simp add: thread_step_def split: tpc.splits)

lemma main_call_shape:
  assumes "pw_apply ex (sc_pw s) c = (st', pr)"
  shows "\<exists>started. sc_th (main_call ex s c) =
           stop_first (filter (\<lambda>t. t \<notin> set (alive st')) (alive (sc_pw s))) (sc_th s) @ started"
    "sc_log (main_call ex s c) = sc_log s"
  using assms by (simp_all add: main_call_def Let_def)

text \<open>Setting events never clears one.\<close>

lemma stop_first_stop_kept:
  "map_of ths t = Some th \<Longrightarrow> th_stop th \<Longrightarrow> \<exists>th'. map_of (stop_first ts ths) t = Some th' \<and> th_stop th'"
  by (simp add: stop_first_map_of)

lemma main_call_stop_kept:
  assumes th: "map_of (sc_th s) t = Some th" and st: "th_stop th"
  shows "(\<exists>th'. map_of (sc_th (main_call ex s c)) t = Some th' \<and> th_stop th')
         \<and> sc_log (main_call ex s c) = sc_log s"
proof -
  obtain st' pr where pa: "pw_apply ex (sc_pw s) c = (st', pr)" by (cases "pw_apply ex (sc_pw s) c")
  obtain started where
    e: "sc_th (main_call ex s c) = stop_first (filter (\<lambda>t. t \<notin> set (alive st')) (alive (sc_pw s))) (sc_th s) @ started"
    using main_call_shape (1) [OF pa] by (elim exE)
  obtain th' where "map_of (stop_first (filter (\<lambda>t. t \<notin> set (alive st')) (alive (sc_pw s))) (sc_th s)) t = Some th'"
    "th_stop th'"
    using stop_first_stop_kept [OF th st] by blast
  then show ?thesis using main_call_shape (2) [OF pa] by (auto simp: e map_of_append map_add_def)
qed

lemma sched_step_stop_kept:
  assumes th: "map_of (sc_th s) t = Some th" and st: "th_stop th" and step: "sched_step ex s e = Some s'"
  shows "(\<exists>th'. map_of (sc_th s') t = Some th' \<and> th_stop th')
         \<and> filter (\<lambda>x. fst x = t) (sc_log s') = filter (\<lambda>x. fst x = t) (sc_log s)"
proof (cases e)
  case (MainCall c)
  with step main_call_stop_kept [OF th st, of ex c] show ?thesis by (auto split: if_splits)
next
  case (MainJoined t')
  with step obtain rest where s': "s' = s\<lparr>sc_join := rest, sc_th := stop_first rest (sc_th s)\<rparr>"
    by (auto split: list.splits if_splits option.splits)
  show ?thesis using stop_first_stop_kept [OF th st, of rest] by (simp add: s')
next
  case (ThreadStep t')
  with step obtain th' where th': "map_of (sc_th s) t' = Some th'" "th_pc th' \<noteq> Exited"
    and s': "s' = thread_step ex t' th' s"
    by (auto split: option.splits if_splits)
  show ?thesis
    using th st th' by (auto simp: s' thread_step_fields thread_step_log)
qed

lemma exit_steps_run:
  assumes th: "map_of (sc_th s) t = Some th" and st: "th_stop th"
  shows "\<exists>s1. run_sched ex s (replicate (exit_steps (th_pc th)) (ThreadStep t)) = Some s1
              \<and> map_of (sc_th s1) = (map_of (sc_th s))(t \<mapsto> th\<lparr>th_pc := Exited\<rparr>) \<and> sc_join s1 = sc_join s"
proof (cases "th_pc th")
  case Exited
  then have "th\<lparr>th_pc := Exited\<rparr> = th" by (cases th) simp
  with Exited th show ?thesis by (simp add: fun_upd_idem)
qed (use th st in \<open>simp_all add: numeral_eq_Suc thread_step_fields\<close>)

lemma exit_steps_le: "exit_steps p \<le> 3"
  by (cases p) auto

lemma drain_events_length: "length (drain_events s0 ts) \<le> 4 * length ts"
proof (induction ts)
  case (Cons t ts)
  have "length (case map_of (sc_th s0) t of
            Some th \<Rightarrow> replicate (exit_steps (th_pc th)) (ThreadStep t) @ [MainJoined t] | None \<Rightarrow> []) \<le> 4"
    using exit_steps_le by (simp split: option.splits add: Suc_leI le_imp_less_Suc)
  with Cons.IH show ?case by simp
qed simp

lemma drain_run:
  "sc_join s = ts \<Longrightarrow> distinct ts \<Longrightarrow>
   (ts \<noteq> [] \<longrightarrow> (\<exists>th. map_of (sc_th s) (hd ts) = Some th \<and> th_stop th)) \<Longrightarrow>
   \<forall>t \<in> set ts. \<exists>th. map_of (sc_th s) t = Some th \<and> map_option th_pc (map_of (sc_th s0) t) = Some (th_pc th) \<Longrightarrow>
   \<exists>s'. run_sched ex s (drain_events s0 ts) = Some s' \<and> sc_join s' = []"
proof (induction ts arbitrary: s)
  case (Cons t ts)
  then obtain th where th: "map_of (sc_th s) t = Some th" and st: "th_stop th"
    and pc0: "map_option th_pc (map_of (sc_th s0) t) = Some (th_pc th)" by auto
  obtain th0 where th0: "map_of (sc_th s0) t = Some th0" and pc: "th_pc th0 = th_pc th"
    using pc0 by auto
  obtain s1 where r1: "run_sched ex s (replicate (exit_steps (th_pc th)) (ThreadStep t)) = Some s1"
    and m1: "map_of (sc_th s1) = (map_of (sc_th s))(t \<mapsto> th\<lparr>th_pc := Exited\<rparr>)" and j1: "sc_join s1 = sc_join s"
    using exit_steps_run [OF th st] by blast
  define s2 where "s2 = s1\<lparr>sc_join := ts, sc_th := stop_first ts (sc_th s1)\<rparr>"
  have step: "sched_step ex s1 (MainJoined t) = Some s2"
    using Cons.prems(1) by (simp add: s2_def j1 m1)
  have m2: "map_of (sc_th s2) u = map_option (\<lambda>th. if ts \<noteq> [] \<and> u = hd ts then th\<lparr>th_stop := True\<rparr> else th)
              (map_of (sc_th s1) u)" for u
    by (simp add: s2_def stop_first_map_of)
  have tn: "t \<notin> set ts" using Cons.prems(2) by simp
  have "\<exists>s'. run_sched ex s2 (drain_events s0 ts) = Some s' \<and> sc_join s' = []"
  proof (rule Cons.IH)
    show "sc_join s2 = ts" by (simp add: s2_def)
    show "distinct ts" using Cons.prems(2) by simp
    show "ts \<noteq> [] \<longrightarrow> (\<exists>th. map_of (sc_th s2) (hd ts) = Some th \<and> th_stop th)"
    proof
      assume tsn: "ts \<noteq> []"
      then have "hd ts \<in> set ts" "hd ts \<noteq> t" using tn by auto
      with Cons.prems(4) obtain thh where "map_of (sc_th s) (hd ts) = Some thh" by auto
      with \<open>hd ts \<noteq> t\<close> tsn show "\<exists>th. map_of (sc_th s2) (hd ts) = Some th \<and> th_stop th"
        by (simp add: m2 m1)
    qed
    show "\<forall>u \<in> set ts. \<exists>th. map_of (sc_th s2) u = Some th \<and> map_option th_pc (map_of (sc_th s0) u) = Some (th_pc th)"
    proof
      fix u assume u: "u \<in> set ts"
      then have ut: "u \<noteq> t" using tn by auto
      from u Cons.prems(4) obtain thu where thu: "map_of (sc_th s) u = Some thu"
        and pu: "map_option th_pc (map_of (sc_th s0) u) = Some (th_pc thu)" by auto
      then show "\<exists>th. map_of (sc_th s2) u = Some th \<and> map_option th_pc (map_of (sc_th s0) u) = Some (th_pc th)"
        using ut by (cases "ts \<noteq> [] \<and> u = hd ts") (auto simp: m2 m1)
    qed
  qed
  then show ?case using r1 step th0 pc by (simp add: run_sched_append)
qed simp

lemma run_sched_reachable:
  "sched_reachable ex s \<Longrightarrow> run_sched ex s es = Some s' \<Longrightarrow> sched_reachable ex s'"
  by (induction es arbitrary: s) (auto split: option.splits intro: sched_reachable.step)

text \<open>C22: Once every \<^verbatim>\<open>join\<close> of the main thread has returned, the threads
  the main thread's view of \<^verbatim>\<open>powers.py\<close> counts as running are exactly
  the scheduler threads that have not ended, whatever the interleaving.\<close>

theorem sched_alive_exact:
  "sched_reachable ex s \<Longrightarrow> sc_join s = [] \<Longrightarrow>
   set (alive (sc_pw s)) = {t. \<exists>th. map_of (sc_th s) t = Some th \<and> th_pc th \<noteq> Exited}"
  by (drule sched_reachable_inv) (fastforce simp: sched_inv_alt thread_ok_def)

text \<open>C23: A scheduler thread whose \<^verbatim>\<open>stop_event\<close> is set starts no further
  execution of its power, in every continuation of the run.\<close>

theorem stopped_thread_starts_nothing:
  "map_of (sc_th s) t = Some th \<Longrightarrow> th_stop th \<Longrightarrow> run_sched ex s es = Some s' \<Longrightarrow>
   filter (\<lambda>x. fst x = t) (sc_log s') = filter (\<lambda>x. fst x = t) (sc_log s)"
proof (induction es arbitrary: s th)
  case (Cons e es)
  then obtain s1 where s1: "sched_step ex s e = Some s1" and r: "run_sched ex s1 es = Some s'"
    by (auto split: option.splits)
  from sched_step_stop_kept [OF Cons.prems(1,2) s1] obtain th1 where
    "map_of (sc_th s1) t = Some th1" "th_stop th1"
    "filter (\<lambda>x. fst x = t) (sc_log s1) = filter (\<lambda>x. fst x = t) (sc_log s)" by blast
  with Cons.IH [OF _ _ r] show ?case by simp
qed simp

text \<open>C24: The main thread never waits for ever in \<^verbatim>\<open>stop_schedule\<close>: from every
  reachable state, at most four events per thread to stop let every
  \<^verbatim>\<open>join\<close> return, one thread after the other: the thread runs to its end,
  its \<^verbatim>\<open>join\<close> returns, and the next thread's event is set.\<close>

theorem sched_joins_return:
  "sched_reachable ex s \<Longrightarrow>
   \<exists>s'. run_sched ex s (drain_events s (sc_join s)) = Some s' \<and> sc_join s' = []
        \<and> length (drain_events s (sc_join s)) \<le> 4 * length (sc_join s)"
proof -
  assume r: "sched_reachable ex s"
  then have inv: "sched_inv s" by (rule sched_reachable_inv)
  have "\<exists>s'. run_sched ex s (drain_events s (sc_join s)) = Some s' \<and> sc_join s' = []"
    using inv by (intro drain_run) (auto simp: sched_inv_alt)
  moreover have "length (drain_events s (sc_join s)) \<le> 4 * length (sc_join s)"
    by (rule drain_events_length)
  ultimately show ?thesis by blast
qed

theorem sched_alive_exact_witness:
  "case run_sched (\<lambda>c::string. ([]::string, None::string option)) init_sched [MainCall (PCreate ''p'' ''x'' 0 5), ThreadStep 0] of None \<Rightarrow> False
   | Some s \<Rightarrow> sched_reachable (\<lambda>c::string. ([]::string, None::string option)) s \<and> sc_join s = [] \<and>
       set (alive (sc_pw s)) = {t. \<exists>th. map_of (sc_th s) t = Some th \<and> th_pc th \<noteq> Exited} \<and> alive (sc_pw s) = [0]"
proof -
  have h: "case run_sched (\<lambda>c::string. ([]::string, None::string option)) init_sched [MainCall (PCreate ''p'' ''x'' 0 5), ThreadStep 0] of None \<Rightarrow> False
    | Some s \<Rightarrow> sc_join s = [] \<and> alive (sc_pw s) = [0]" by code_simp
  show ?thesis
  proof (cases "run_sched (\<lambda>c::string. ([]::string, None::string option)) init_sched [MainCall (PCreate ''p'' ''x'' 0 5), ThreadStep 0]")
    case None
    with h show ?thesis by (simp del: run_sched.simps)
  next
    case (Some s)
    with h have "sc_join s = [] \<and> alive (sc_pw s) = [0]" by (simp del: run_sched.simps)
    moreover have "sched_reachable (\<lambda>c::string. ([]::string, None::string option)) s" by (rule run_sched_reachable [OF sched_reachable.init Some])
    ultimately show ?thesis using Some sched_alive_exact [of "(\<lambda>c::string. ([]::string, None::string option))" s] by (simp del: run_sched.simps)
  qed
qed

theorem stopped_thread_starts_nothing_witness:
  "case run_sched (\<lambda>c::string. ([]::string, None::string option)) init_sched [MainCall (PCreate ''p'' ''x'' 0 5), ThreadStep 0, MainCall (PDelete ''p'')] of None \<Rightarrow> False
   | Some s \<Rightarrow> (case map_of (sc_th s) 0 of None \<Rightarrow> False
     | Some th \<Rightarrow> th_stop th \<and> (case run_sched (\<lambda>c::string. ([]::string, None::string option)) s [ThreadStep 0, ThreadStep 0, ThreadStep 0, MainJoined 0] of
         None \<Rightarrow> False
       | Some s' \<Rightarrow> filter (\<lambda>x. fst x = 0) (sc_log s') = filter (\<lambda>x. fst x = 0) (sc_log s)
                  \<and> filter (\<lambda>x. fst x = 0) (sc_log s) = [(0, ''p'')]))"
proof -
  have h: "case run_sched (\<lambda>c::string. ([]::string, None::string option)) init_sched [MainCall (PCreate ''p'' ''x'' 0 5), ThreadStep 0, MainCall (PDelete ''p'')] of None \<Rightarrow> False
   | Some s \<Rightarrow> (case map_of (sc_th s) 0 of None \<Rightarrow> False
     | Some th \<Rightarrow> th_stop th \<and> (case run_sched (\<lambda>c::string. ([]::string, None::string option)) s [ThreadStep 0, ThreadStep 0, ThreadStep 0, MainJoined 0] of
         None \<Rightarrow> False
       | Some s' \<Rightarrow> filter (\<lambda>x. fst x = 0) (sc_log s) = [(0, ''p'')]))" by code_simp
  show ?thesis
  proof (cases "run_sched (\<lambda>c::string. ([]::string, None::string option)) init_sched [MainCall (PCreate ''p'' ''x'' 0 5), ThreadStep 0, MainCall (PDelete ''p'')]")
    case None
    with h show ?thesis by (simp del: run_sched.simps)
  next
    case (Some s)
    show ?thesis
    proof (cases "map_of (sc_th s) 0")
      case None
      with h Some show ?thesis by (simp del: run_sched.simps)
    next
      case th: (Some th)
      show ?thesis
      proof (cases "run_sched (\<lambda>c::string. ([]::string, None::string option)) s [ThreadStep 0, ThreadStep 0, ThreadStep 0, MainJoined 0]")
        case None
        with h Some th show ?thesis by (simp del: run_sched.simps)
      next
        case s': (Some s')
        with h Some th have "th_stop th \<and> filter (\<lambda>x. fst x = 0) (sc_log s) = [(0, ''p'')]"
          by (simp del: run_sched.simps)
        with Some th s' stopped_thread_starts_nothing [of s 0 th "(\<lambda>c::string. ([]::string, None::string option))" "[ThreadStep 0, ThreadStep 0, ThreadStep 0, MainJoined 0]" s']
        show ?thesis by (simp del: run_sched.simps)
      qed
    qed
  qed
qed

theorem sched_joins_return_witness:
  "case run_sched (\<lambda>c::string. ([]::string, None::string option)) init_sched [MainCall (PCreate ''p'' ''x'' 0 5), MainCall (PCreate ''q'' ''y'' 0 5), ThreadStep 1, MainCall PStopAll] of None \<Rightarrow> False
   | Some s \<Rightarrow> sched_reachable (\<lambda>c::string. ([]::string, None::string option)) s \<and> sc_join s = [0, 1] \<and>
       (\<exists>s'. run_sched (\<lambda>c::string. ([]::string, None::string option)) s (drain_events s (sc_join s)) = Some s' \<and> sc_join s' = []
          \<and> length (drain_events s (sc_join s)) \<le> 4 * length (sc_join s))"
proof -
  have h: "case run_sched (\<lambda>c::string. ([]::string, None::string option)) init_sched [MainCall (PCreate ''p'' ''x'' 0 5), MainCall (PCreate ''q'' ''y'' 0 5), ThreadStep 1, MainCall PStopAll] of None \<Rightarrow> False | Some s \<Rightarrow> sc_join s = [0, 1]" by code_simp
  show ?thesis
  proof (cases "run_sched (\<lambda>c::string. ([]::string, None::string option)) init_sched [MainCall (PCreate ''p'' ''x'' 0 5), MainCall (PCreate ''q'' ''y'' 0 5), ThreadStep 1, MainCall PStopAll]")
    case None
    with h show ?thesis by (simp del: run_sched.simps)
  next
    case (Some s)
    with h have "sc_join s = [0, 1]" by (simp del: run_sched.simps)
    moreover have "sched_reachable (\<lambda>c::string. ([]::string, None::string option)) s" by (rule run_sched_reachable [OF sched_reachable.init Some])
    ultimately show ?thesis using Some sched_joins_return [of "(\<lambda>c::string. ([]::string, None::string option))" s] by (simp del: run_sched.simps)
  qed
qed

end
