(* ===== verification/Spec2Isabelle.thy ===== *)
theory Spec2Isabelle
  imports Arith StackMachine Tuto8 Tuto3 MysqlServer Session8 Scheduler
begin

text \<open>
  \<^bold>\<open>A verification development of the programs of \<^verbatim>\<open>src/\<close>: the
  expression language of \<^verbatim>\<open>src/Tutorials/Tuto6/law.py\<close>, the stack machine
  of \<^verbatim>\<open>src/interpretor.py\<close>, the account, variable, group and power
  stores of \<^verbatim>\<open>src/Tutorials/tuto8 using python  interpretor /\<close>, the
  earlier calculators of \<^verbatim>\<open>Tuto3\<close> and \<^verbatim>\<open>Tuto4\<close>, and the console
  demonstration of \<^verbatim>\<open>Tuto7\<close>.\<close>

  The main program is an interpreter for a small language, written in Python. It
  has a lexer (class \<^verbatim>\<open>Lexer\<close>), a recursive-descent parser (class
  \<^verbatim>\<open>Parser\<close>, with \<^verbatim>\<open>ParseResult\<close>), the tree node classes, a tree-walking
  interpreter (class \<^verbatim>\<open>Interpreter\<close>, with \<^verbatim>\<open>RTResult\<close>, \<^verbatim>\<open>SymbolTable\<close>
  and \<^verbatim>\<open>Context\<close>), the value class \<^verbatim>\<open>Number\<close>, the error classes, and the
  entry point \<^verbatim>\<open>run(fn, text)\<close>. The pipeline is: text, then \<^verbatim>\<open>Lexer.make_tokens\<close>,
  then \<^verbatim>\<open>Parser.parse\<close>, then \<^verbatim>\<open>Interpreter.visit\<close> against the module-level
  \<^verbatim>\<open>global_symbol_table\<close>. The tuto8 modules share one process: the
  group functions read the account store, and all keep their state in
  module-level dictionaries.

  \<^bold>\<open>Theories\<close>, leaf first:
  \<^item> \<open>Prelude\<close>: shared character constants, Python's \<^verbatim>\<open>str\<close> of numbers
    (\<open>nat_str\<close>, \<open>int_str\<close>) and \<^verbatim>\<open>sep.join\<close> (\<open>str_join\<close>), the generic
    lemmas on suffixes, options and association lists (the model of Python
    dictionaries), and \<open>fuel_le\<close>, the order on fuelled results with its
    monotonicity rules (collection \<open>fuel_mono\<close>).
  \<^item> \<open>Position\<close>: \<^verbatim>\<open>Position\<close> as a record and \<^verbatim>\<open>Position.advance\<close>
    as \<open>pos_advance\<close>; the error classes as the datatype \<open>error\<close>; \<^verbatim>\<open>Context\<close>
    as \<open>rt_context\<close>; \<^verbatim>\<open>RTError.generate_traceback\<close>; \<^verbatim>\<open>Error.as_string\<close>
    and \<^verbatim>\<open>RTError.as_string\<close> (\<open>error_as_string\<close>), with
    \<^verbatim>\<open>string_with_arrows\<close> a parameter. The source stores the
    lexer's own, later mutated, \<^verbatim>\<open>Position\<close> object as the end of several
    tokens; the model makes that aliasing explicit with \<open>pos_ref\<close>:
    \<open>Own p\<close> is a private copy, \<open>LexerPos\<close> the lexer's cursor, read at the
    end through \<open>deref\<close>.
  \<^item> \<open>Tokens\<close>: the token types, \<^verbatim>\<open>KEYWORDS\<close>, and \<^verbatim>\<open>Token\<close> with its
    constructor \<open>mk_token\<close> and \<^verbatim>\<open>matches\<close>.
  \<^item> \<open>Lexer\<close>: the \<^verbatim>\<open>Lexer\<close> state as a record (the cursor and the rest of
    the text), each \<^verbatim>\<open>make_*\<close> method as a definition, one iteration of the
    \<^verbatim>\<open>make_tokens\<close> loop as \<open>make_tokens_step\<close> and the loop as
    \<open>make_tokens_loop\<close>, terminating on the length of the rest of the text.
    Lemmas: every step consumes input; the loop's result has the shape
    \<open>loop_ok\<close> (an error and no tokens, or tokens ending in exactly one
    \<^verbatim>\<open>EOF\<close>); the cursor agrees with the unread text (\<open>lexer_inv\<close>) and ends
    at most one index past the text (\<open>lexer_reach\<close>, \<open>lex_cursor_bounds\<close>).
  \<^item> \<open>Ast\<close>: the node classes as the datatype \<open>node\<close>, their spans, and the
    depth measure \<open>node_depth\<close>.
  \<^item> \<open>Parser\<close>: \<^verbatim>\<open>ParseResult\<close> as a record and every parser method as one
    function of a mutual definition over the token list, fuelled.
  \<^item> \<open>Values\<close>: \<^verbatim>\<open>Number\<close> with Python's \<^verbatim>\<open>int\<close>/\<^verbatim>\<open>float\<close> distinction
    (\<open>num\<close>), every arithmetic, comparison and logical method, and the
    Python exceptions that escape (\<open>pyexc\<close>).
  \<^item> \<open>Interpreter\<close>: \<^verbatim>\<open>SymbolTable\<close>, and \<^verbatim>\<open>visit_*\<close> as the mutual
    fuelled functions \<open>visit\<close>, \<open>visit_cases\<close> (the loop over the \<^verbatim>\<open>IF\<close>
    cases), \<open>for_loop\<close> and \<open>while_loop\<close>; \<^verbatim>\<open>res.register\<close> followed by
    \<^verbatim>\<open>if res.error: return res\<close> is \<open>rt_register\<close>. Lemmas: more fuel never changes
    a result (\<open>visit_fuel_mono\<close>); the errors \<open>visit\<close> records are runtime
    errors (\<open>rt_errors_only\<close>); loop-free trees terminate.
  \<^item> \<open>Run\<close>: \<^verbatim>\<open>Parser.parse\<close> and \<^verbatim>\<open>run\<close>.
  \<^item> \<open>Arith\<close>: a reference semantics \<open>aval\<close> of the arithmetic and comparison
    fragment over the reals, the refinement theorem that \<open>visit\<close>
    implements it, and the integer closure of \<open>visit\<close> on the integer
    fragment (\<open>visit_int_closed\<close>).
  \<^item> \<open>StackMachine\<close>: \<^verbatim>\<open>Interpretor.ev_expr\<close> and \<^verbatim>\<open>Interpretor.ev\<close> of
    \<^verbatim>\<open>src/interpretor.py\<close>, with Python's \<^verbatim>\<open>str.split\<close>, \<^verbatim>\<open>isdigit\<close>,
    \<^verbatim>\<open>int\<close> and negative list indexing. One iteration of \<^verbatim>\<open>ev\<close>'s loop is
    \<open>ev_step\<close> and the loop \<open>ev_loop\<close>, a \<^verbatim>\<open>partial_function (option)\<close>:
    \<open>None\<close> is a run that never ends. Lemmas: \<open>ev_expr\<close> is equivalent to a
    reference evaluator of reverse Polish notation, straight-line programs
    terminate, nested loops never do.
  \<^item> \<open>Database\<close>: \<^verbatim>\<open>database.py\<close> (\<^verbatim>\<open>Token\<close> as a record, the accounts
    dictionary as an association list, every function) and
    \<^verbatim>\<open>authentication.authenticate_user\<close>. Lemmas: access control and
    read-after-write round trips of the token functions.
  \<^item> \<open>Variables\<close>: \<^verbatim>\<open>variables.py\<close>, with the call of the \<^verbatim>\<open>Token\<close>
    constructor (\<open>token_new\<close>, its arity checked) and attribute reads
    (\<open>token_attr\<close>) modelled, so that the \<^verbatim>\<open>TypeError\<close> and
    \<^verbatim>\<open>AttributeError\<close> the code raises are derived.
  \<^item> \<open>GroupStore\<close>: \<^verbatim>\<open>groups.py\<close>, the \<^verbatim>\<open>Group\<close> class and every function,
    with the group invariant \<open>groups_inv\<close>.
  \<^item> \<open>Powers\<close>: \<^verbatim>\<open>powers.py\<close>; each scheduler thread has a number, and
    \<open>alive\<close> lists the threads whose loop runs; the invariant \<open>pw_inv\<close>
    (every running thread belongs to a scheduled power) is preserved by
    every operation.
  \<^item> \<open>Scheduler\<close>: the scheduler threads of \<^verbatim>\<open>powers.py\<close> themselves,
    interleaved with the main thread: \<^verbatim>\<open>_schedule_loop\<close> step by step
    (\<open>thread_step\<close>, the thread's place as \<open>tpc\<close>), \<^verbatim>\<open>Power.execute\<close>
    (\<open>power_execute\<close>, with \<^verbatim>\<open>exec\<close> of the code a parameter \<open>pexec\<close>:
    what the code prints and the exception it raises), and a call of the
    main thread (\<open>main_call\<close>) that stops threads one after the other:
    it sets the event of the first and joins it, and the next event is set
    when that \<^verbatim>\<open>join\<close> returns (\<open>stop_first\<close>). An event is a call, the return of a \<^verbatim>\<open>join\<close>, or
    a step of one thread, in any order (\<open>sched_step\<close>, \<open>sched_reachable\<close>);
    the length of \<^verbatim>\<open>time.sleep\<close> is not modelled, so every interleaving
    is allowed. Lemmas: the invariant \<open>sched_inv\<close> holds in every
    reachable state; with no pending \<^verbatim>\<open>join\<close>, the list \<open>alive\<close> of
    \<open>Powers\<close> is exactly the set of threads still in their loop
    (\<open>sched_alive_exact\<close>); a stopped thread starts no further execution
    (\<open>stopped_thread_starts_nothing\<close>); and every pending \<^verbatim>\<open>join\<close>
    returns after at most four events per thread to stop, the three steps
    that take a thread from inside \<^verbatim>\<open>execute\<close> to its end and the
    return (\<open>sched_joins_return\<close>), so \<^verbatim>\<open>stop_schedule\<close> and
    \<^verbatim>\<open>stop_all_scheduled_powers\<close> never block.
  \<^item> \<open>Tuto8\<close>: the four modules composed: their dictionaries as the record
    \<open>sys\<close>, every public function as an operation of \<open>sys_op\<close>, one call as
    \<open>sys_step\<close>, and the inductive set \<open>reachable\<close> of the states a sequence
    of calls reaches from the module initialisation. The invariant
    \<open>sys_inv\<close> holds in every reachable state, by rule induction. The
    \<^verbatim>\<open>use_exemple\<close> scripts of the modules are call sequences run by
    \<open>print_calls\<close>; the variables and groups examples crash with
    \<^verbatim>\<open>TypeError\<close>.
  \<^item> \<open>Tuto4\<close>: the calculator of \<^verbatim>\<open>src/Tutorials/Tuto4/law.py\<close> (its
    lexer \<open>lex4\<close>, its parser \<open>p4\<close>/\<open>parse4\<close>, its interpreter
    \<open>visit4\<close> without symbol table, and \<open>run4\<close>); the classes the versions share (\<^verbatim>\<open>Position\<close>, \<^verbatim>\<open>Token\<close>,
    the errors, \<^verbatim>\<open>Number\<close>, \<^verbatim>\<open>Context\<close>) use the definitions of the
    theories above. Lemmas: Tuto6 conservatively extends Tuto4 (the lexers
    agree on the calculator's alphabet, \<open>lex4_eq_lex\<close>; \<open>visit\<close> computes
    \<open>visit4\<close> on the calculator's trees, \<open>visit_extends_visit4\<close>); the
    calculator always answers (\<open>run4_total\<close>).
  \<^item> \<open>Tuto3\<close>: the lexer, the parser and \<^verbatim>\<open>run\<close> of
    \<^verbatim>\<open>src/Tutorials/Tuto3/law.py\<close> (\<open>make_tokens_loop3\<close>, \<open>lex3\<close>,
    \<open>p3\<close>, \<open>parse3\<close>, \<open>run3\<close>), translated from that file, with
    lemmas that they equal Tuto4's (\<open>lex3_eq_lex4\<close>, \<open>p3_eq_p4\<close>): the
    code did not change between the versions. \<^verbatim>\<open>parse\<close> returns the
    \<^verbatim>\<open>ParseResult\<close>'s node and error, and Tuto3's \<^verbatim>\<open>run\<close> can return a
    tree and an error together (\<open>run3_tree_and_error\<close>).
  \<^item> \<open>Tuto7\<close>: the console demonstration \<^verbatim>\<open>src/Tutorials/Tuto7/test.py\<close>:
    the login over \<^verbatim>\<open>accounts_db\<close>, the session loop and the write-back of
    the edited fields, with the console as a list of input lines and an
    output string, and \<^verbatim>\<open>exec\<close> of a typed line as a parameter
    (\<open>exec7\<close>) acting on the session's local variables. Lemmas: the search
    loop is \<open>List.find\<close> (\<open>find_account7_find\<close>); a run that ends keeps
    every account's key and credentials (\<open>test7_main_keeps_credentials\<close>).
  \<^item> \<open>MysqlConnection\<close>: \<^verbatim>\<open>src/mysql_connection.py\<close> as the client side of
    a protocol with a MySQL server given as a parameter (\<open>server\<close>); each
    function's \<^verbatim>\<open>try\<close> block runs its statements up to the first error.
    A \<^verbatim>\<open>CREATE TABLE\<close> statement carries its column definitions and
    foreign keys. Lemma: the commit is sent only after the complete
    sequence of sample inserts (\<open>mysql_main_commit_last\<close>).
  \<^item> \<open>MysqlServer\<close>: a reference server with MySQL's checks (unknown
    database, no database selected, foreign keys on \<^verbatim>\<open>CREATE TABLE\<close> and
    \<^verbatim>\<open>INSERT\<close>, \<^verbatim>\<open>NOT NULL\<close>, \<^verbatim>\<open>UNIQUE\<close>, \<^verbatim>\<open>AUTO_INCREMENT\<close> ids).
    Lemmas: on a fresh server the script's statements all succeed in
    their order and the sample data is committed (\<open>mysql_main_fresh\<close>);
    a second run stops at the first insert with a duplicate entry and
    commits nothing (\<open>mysql_main_rerun\<close>).
  \<^item> \<open>PyModules\<close>: the loading of the tuto8 modules by \<^verbatim>\<open>python main.py\<close>
    (the names each module defines and its import statements);
    \<^verbatim>\<open>main.py\<close> stops with \<^verbatim>\<open>ImportError\<close> at \<^verbatim>\<open>from session import
    user_session\<close> (\<open>main_py_import_error\<close>); with the namespace of a
    module, \<^verbatim>\<open>authentication.user_login\<close> (\<open>user_login8\<close>) raises
    \<^verbatim>\<open>NameError\<close> at its first statement; the data
    \<^verbatim>\<open>visualization.read\<close> plots (\<open>read_data\<close>).
  \<^item> \<open>Visualization\<close>: \<^verbatim>\<open>visualization.read\<close> as the list of
    \<^verbatim>\<open>matplotlib\<close> calls it makes (\<open>read8\<close>, \<open>figure_calls\<close>), the library
    being one the module only calls. Lemmas: the calls use only the three
    axes \<^verbatim>\<open>subplots(3, 1)\<close> creates, and every bar chart has one bar per
    account (\<open>read8_figure_ok\<close>); no call is made when an account lacks a
    key (\<open>read8_key_error\<close>).
  \<^item> \<open>Session8\<close>: \<^verbatim>\<open>session.user_session\<close> and \<^verbatim>\<open>main.main\<close>, which
    never run, modelled as written: global names are looked up in the
    module's namespace, \<^verbatim>\<open>update_account\<close> (defined nowhere) and \<^verbatim>\<open>exec\<close>
    are parameters. Lemmas: \<^verbatim>\<open>user_session\<close> would raise \<^verbatim>\<open>NameError\<close> on
    \<^verbatim>\<open>accounts_db\<close>, which \<^verbatim>\<open>session.py\<close> does not import
    (\<open>user_session8_name_error\<close>); \<^verbatim>\<open>main\<close> would stop in \<^verbatim>\<open>user_login\<close>
    (\<open>main8_name_error\<close>).

  \<^bold>\<open>Fuel.\<close> The parser and the interpreter of \<^verbatim>\<open>law.py\<close> are fuelled
  (\<open>None\<close> when the fuel runs out): the interpreter because \<^verbatim>\<open>FOR\<close> and
  \<^verbatim>\<open>WHILE\<close> need not terminate, the parser because its recursion is on the
  position in the token list, which a mutual recursion does not decrease at
  every call. One unit of fuel is spent per nested call and per loop
  iteration; on a loop-free tree, \<open>node_depth\<close> units suffice
  (\<open>visit_loop_free_total\<close>), and more fuel never changes a result
  (\<open>visit_fuel_stable\<close>). The parser spends about twenty units per level of
  parentheses (a parenthesised expression goes down the whole precedence
  chain again); the concrete runs below use 50 units, and their evaluation
  shows that to be enough. Tuto4's parser has no loops of its own to
  reach again, and there the fuel is bounded once for all texts:
  \<open>6 * length text + 11\<close> units always suffice (\<open>run4_total\<close>), since every
  token costs at most six nested calls (the rank of a rule is 1, 3 or 5,
  and \<open>bin_op\<close> consumes an operator before each further call). The stack machine needs no fuel: its loop is a
  partial function, and its termination is proved where it holds.

  \<^bold>\<open>Values.\<close> Python \<^verbatim>\<open>int\<close>s are unbounded integers; a Python \<^verbatim>\<open>float\<close>
  is modelled by the real number it approximates, without rounding. A power
  with a non-integral exponent is outside the model (\<open>FloatPowNotModelled\<close>).
  Strings are lists of 8-bit characters. The tuto8 stores hold Python
  \<^verbatim>\<open>str\<close> and \<^verbatim>\<open>int\<close> values (\<open>pyval\<close>).

  \<^bold>\<open>Not modelled.\<close> \<^verbatim>\<open>string_with_arrows\<close> (a module that is not in
  the repository: \<^verbatim>\<open>as_string\<close> takes it as a parameter) and the
  \<^verbatim>\<open>__repr__\<close> methods of \<^verbatim>\<open>law.py\<close>; the console I/O of every
  program beyond the text printed and the lines read; the dynamic execution
  of Python text (\<^verbatim>\<open>exec\<close> is a parameter: \<open>exec7\<close>, \<open>exec8\<close> and
  \<open>pexec\<close>, the last assumed to leave the module's dictionaries alone)
  and the length of \<^verbatim>\<open>time.sleep\<close> in the scheduler threads;
  what \<^verbatim>\<open>matplotlib\<close> draws from the calls of \<^verbatim>\<open>visualization.py\<close>; the rest of MySQL's
  semantics for \<^verbatim>\<open>src/mysql_connection.py\<close> (the column types and
  defaults are kept as text and not checked, transactions and rollback are
  not modelled); in \<^verbatim>\<open>Tuto7/test.py\<close>, what \<^verbatim>\<open>exec\<close>
  does to the module's globals (the model lets a typed line act on the
  session's local variables only, while the code passes \<^verbatim>\<open>globals()\<close>, so
  that a typed line can rewrite \<^verbatim>\<open>accounts_db\<close> itself) and values other
  than strings and integers.
\<close>


text \<open>The span of \<^verbatim>\<open>Division by zero\<close> as the user sees it: in \<^verbatim>\<open>5/0\<close> it is the literal \<^verbatim>\<open>0\<close> (indices 2 to 3), but in \<^verbatim>\<open>5/0+1\<close> it runs from 2 to 5, the end of the text, because the end of the literal is the lexer's cursor.\<close>

theorem run_div_zero_span:
  "(case run 50 global_symbol_table ''f'' ''5/0'' of
      Some (Inr (None, Some (RTError (Some ps) (Some pe) d _)), _, lp) \<Rightarrow>
        pos_idx ps = 2 \<and> pos_idx (deref lp pe) = 3 \<and> d = ''Division by zero''
    | _ \<Rightarrow> False) \<and>
   (case run 50 global_symbol_table ''f'' ''5/0+1'' of
      Some (Inr (None, Some (RTError (Some ps) (Some pe) d _)), _, lp) \<Rightarrow>
        pos_idx ps = 2 \<and> pos_idx (deref lp pe) = 5 \<and> d = ''Division by zero''
    | _ \<Rightarrow> False)"
  by code_simp

text \<open>\<^verbatim>\<open>FOR i = 1 TO 4 THEN VAR r = r + i\<close> with \<^verbatim>\<open>r\<close> bound to 0 leaves \<^verbatim>\<open>r = 6\<close> (the end value 4 is excluded) and the loop variable \<^verbatim>\<open>i = 3\<close> bound in the caller's table.\<close>

theorem run_for_accumulates:
  "case run 50 (st_set global_symbol_table ''r'' (Some (Number (PyInt 0)))) ''f''
          ''FOR i = 1 TO 4 THEN VAR r = r + i'' of
     Some (Inr (None, None), st', _) \<Rightarrow>
       map_option nvalue (st_get st' ''r'') = Some (PyInt 6) \<and>
       map_option nvalue (st_get st' ''i'') = Some (PyInt 3)
   | _ \<Rightarrow> False"
  by code_simp

text \<open>\<^verbatim>\<open>VAR x = 5\<close> then \<^verbatim>\<open>x+1\<close> in the table the first run returns gives 6; an unbound \<^verbatim>\<open>y\<close> is the runtime error \<^verbatim>\<open> 'y' is not defined\<close>, with a leading blank.\<close>

theorem run_variable_lifecycle:
  "(case run 50 global_symbol_table ''f'' ''VAR x = 5'' of
      Some (Inr (Some _, None), st1, _) \<Rightarrow>
        (case run 50 st1 ''f'' ''x+1'' of Some (Inr (Some v, None), _, _) \<Rightarrow> nvalue v = PyInt 6 | _ \<Rightarrow> False)
    | _ \<Rightarrow> False) \<and>
   (case run 50 global_symbol_table ''f'' ''y'' of
      Some (Inr (None, Some (RTError _ _ d _)), _, _) \<Rightarrow> d = '' '' @ quoted ''y'' @ '' is not defined''
    | _ \<Rightarrow> False)"
  by code_simp

text \<open>\<^verbatim>\<open>1 ~ 2\<close> is an illegal-character error at the index of \<^verbatim>\<open>~\<close>, and \<^verbatim>\<open>(1+2\<close> a syntax error \<^verbatim>\<open>Expected ')'\<close> at the \<^verbatim>\<open>EOF\<close> token.\<close>

theorem run_front_end_errors:
  "(case run 50 global_symbol_table ''f'' ''1 ~ 2'' of
      Some (Inr (None, Some (IllegalCharError ps _ d)), _, _) \<Rightarrow> pos_idx ps = 2 \<and> d = quoted ''~''
    | _ \<Rightarrow> False) \<and>
   (case run 50 global_symbol_table ''f'' ''(1+2'' of
      Some (Inr (None, Some (InvalidSyntaxError ps _ d)), _, _) \<Rightarrow> pos_idx ps = 4 \<and> d = ''Expected '' @ quoted '')''
    | _ \<Rightarrow> False)"
  by code_simp

text \<open>\<^verbatim>\<open>1 != 2\<close> evaluates to 1, but \<^verbatim>\<open>1!=2\<close> is a syntax error, since the lexer drops the \<^verbatim>\<open>2\<close> after \<^verbatim>\<open>!=\<close>.\<close>

theorem run_ne_needs_space:
  "(case run 50 global_symbol_table ''f'' ''1 != 2'' of
      Some (Inr (Some v, None), _, _) \<Rightarrow> nvalue v = PyInt 1
    | _ \<Rightarrow> False) \<and>
   (case run 50 global_symbol_table ''f'' ''1!=2'' of
      Some (Inr (None, Some (InvalidSyntaxError _ _ _)), _, _) \<Rightarrow> True
    | _ \<Rightarrow> False)"
  by code_simp

text \<open>The traceback of \<^verbatim>\<open>1/0\<close> names the frame \<^verbatim>\<open><program>\<close>, but that of \<^verbatim>\<open>TRUE/0\<close> has no frame: the error takes the left operand's context, and the values of the global table have none.\<close>

theorem run_traceback_context:
  "(case run 50 global_symbol_table ''f'' ''1/0'' of
      Some (Inr (None, Some err), _, _) \<Rightarrow>
        generate_traceback err =
          Some (''Traceback (most recent call last):'' @ [newline_char] @ '' '' @
                '' File f, line  1, in <program>'' @ [newline_char] @ '' '')
    | _ \<Rightarrow> False) \<and>
   (case run 50 global_symbol_table ''f'' ''TRUE/0'' of
      Some (Inr (None, Some err), _, _) \<Rightarrow>
        generate_traceback err = Some (''Traceback (most recent call last):'' @ [newline_char] @ '' '')
    | _ \<Rightarrow> False)"
  by code_simp

text \<open>\<^verbatim>\<open>1 + (IF 0 THEN 1)\<close> is not reported as an error of the language: the unmatched \<^verbatim>\<open>IF\<close> gives \<^verbatim>\<open>None\<close>, \<^verbatim>\<open>added_to\<close> returns \<^verbatim>\<open>None\<close>, and the unpacking raises Python's \<^verbatim>\<open>TypeError\<close>.\<close>

theorem run_none_operand_escapes:
  "case run 100 global_symbol_table ''f'' ''1 + (IF 0 THEN 1)'' of
     Some (Inl exc, _, _) \<Rightarrow> exc = TypeError
   | _ \<Rightarrow> False"
  by code_simp

text \<open>A runtime error does not undo the bindings made before it: after \<^verbatim>\<open>(VAR x = 5)/0\<close> fails, \<^verbatim>\<open>x\<close> is bound to 5.\<close>

theorem run_error_keeps_bindings:
  "case run 100 global_symbol_table ''f'' ''(VAR x = 5)/0'' of
     Some (Inr (None, Some (RTError _ _ d _)), st', _) \<Rightarrow>
       d = ''Division by zero'' \<and> map_option nvalue (st_get st' ''x'') = Some (PyInt 5)
   | _ \<Rightarrow> False"
  by code_simp

text \<open>A \<^verbatim>\<open>FOR\<close> without \<^verbatim>\<open>TO\<close> is reported as \<^verbatim>\<open>Expected 'FOR'\<close>, at the token where \<^verbatim>\<open>TO\<close> was expected.\<close>

theorem run_for_missing_to_message:
  "case run 50 global_symbol_table ''f'' ''FOR i = 1 3 THEN 1'' of
     Some (Inr (None, Some (InvalidSyntaxError ps _ d)), _, _) \<Rightarrow>
       pos_idx ps = 10 \<and> d = ''Expected '' @ quoted ''FOR''
   | _ \<Rightarrow> False"
  by code_simp



subsection \<open>The theorems of the components at concrete inputs\<close>

text \<open>The tokens and the tree of a source text, for applying the theorems
  of the components to the trees the parser builds.\<close>

definition toks_of :: "string \<Rightarrow> token list" where
  "toks_of text = fst (lex ''<stdin>'' text)"

definition tree_of :: "string \<Rightarrow> node" where
  "tree_of text = the (pr_node (fst (the (parse 50 (toks_of text)))))"

theorem visit_loop_free_total_witness:
  "visit 12 (tree_of ''IF 0 THEN 1 ELIF 1 THEN 2 ELSE 3'') program_context global_symbol_table \<noteq> None"
proof -
  have lf: "loop_free (tree_of ''IF 0 THEN 1 ELIF 1 THEN 2 ELSE 3'')" by code_simp
  have d: "node_depth (tree_of ''IF 0 THEN 1 ELIF 1 THEN 2 ELSE 3'') \<le> 12" by code_simp
  show ?thesis by (rule visit_loop_free_total [OF lf d])
qed

theorem visit_div_zero_span_witness:
  "visit 2 (BinOpNode (NumberNode (toks_of ''5/0'' ! 0)) (toks_of ''5/0'' ! 1) (NumberNode (toks_of ''5/0'' ! 2)))
     program_context global_symbol_table =
   Some (Inr (Inl (RTError (Some (tpos_start (toks_of ''5/0'' ! 2))) (Some (tpos_end (toks_of ''5/0'' ! 2)))
     ''Division by zero'' (Some program_context))), global_symbol_table)"
proof -
  have op: "ttype (toks_of ''5/0'' ! 1) = TT_DIV" by code_simp
  have v5: "tok_num (tvalue (toks_of ''5/0'' ! 0)) = Some (PyInt 5)" by code_simp
  have v0: "tok_num (tvalue (toks_of ''5/0'' ! 2)) = Some (PyInt 0)" by code_simp
  have l: "visit 1 (NumberNode (toks_of ''5/0'' ! 0)) program_context global_symbol_table =
    Some (Inr (Inr (Some (stamp_node (NumberNode (toks_of ''5/0'' ! 0))
      (set_context (Some program_context) (Number (PyInt 5)))))), global_symbol_table)"
    using v5 by simp
  have r: "visit 1 (NumberNode (toks_of ''5/0'' ! 2)) program_context global_symbol_table =
    Some (Inr (Inr (Some (stamp_node (NumberNode (toks_of ''5/0'' ! 2))
      (set_context (Some program_context) (Number (PyInt 0)))))), global_symbol_table)"
    using v0 by simp
  have z: "num_real (nvalue (stamp_node (NumberNode (toks_of ''5/0'' ! 2))
      (set_context (Some program_context) (Number (PyInt 0))))) = 0"
    by (simp add: Number_def set_context_def)
  have "visit (Suc 1) (BinOpNode (NumberNode (toks_of ''5/0'' ! 0)) (toks_of ''5/0'' ! 1) (NumberNode (toks_of ''5/0'' ! 2)))
     program_context global_symbol_table =
   Some (Inr (Inl (RTError (Some (node_pos_start (NumberNode (toks_of ''5/0'' ! 2))))
     (Some (node_pos_end (NumberNode (toks_of ''5/0'' ! 2))))
     ''Division by zero'' (ncontext (stamp_node (NumberNode (toks_of ''5/0'' ! 0))
      (set_context (Some program_context) (Number (PyInt 5))))))), global_symbol_table)"
    by (rule visit_div_zero_span [OF op _ l r z]) simp
  then show ?thesis
    by (simp add: Number_def set_context_def numeral_2_eq_2 del: visit.simps)
qed


theorem while_loop_exit_witness:
  "fst (the (while_loop 20 (tree_of ''i < 3'') (tree_of ''VAR i = i + 1'') program_context
      (st_set global_symbol_table ''i'' (Some (Number (PyInt 0)))))) = Inr (Inr None) \<and>
   (\<exists>k st0 cv. visit k (tree_of ''i < 3'') program_context st0 =
      Some (Inr (Inr (Some cv)), snd (the (while_loop 20 (tree_of ''i < 3'') (tree_of ''VAR i = i + 1'')
        program_context (st_set global_symbol_table ''i'' (Some (Number (PyInt 0))))))) \<and> \<not> is_true cv)"
proof -
  have ne: "while_loop 20 (tree_of ''i < 3'') (tree_of ''VAR i = i + 1'') program_context
      (st_set global_symbol_table ''i'' (Some (Number (PyInt 0)))) \<noteq> None" by code_simp
  have f: "fst (the (while_loop 20 (tree_of ''i < 3'') (tree_of ''VAR i = i + 1'') program_context
      (st_set global_symbol_table ''i'' (Some (Number (PyInt 0)))))) = Inr (Inr None)" by code_simp
  have "while_loop 20 (tree_of ''i < 3'') (tree_of ''VAR i = i + 1'') program_context
      (st_set global_symbol_table ''i'' (Some (Number (PyInt 0)))) =
    Some (Inr (Inr None), snd (the (while_loop 20 (tree_of ''i < 3'') (tree_of ''VAR i = i + 1'')
      program_context (st_set global_symbol_table ''i'' (Some (Number (PyInt 0)))))))"
    using ne f by (metis option.collapse prod.collapse)
  from while_loop_exit [OF this] f show ?thesis by blast
qed


end
